(* ===== verification/Prelude.thy ===== *)
theory Prelude
  imports Main "HOL-Library.AList"
begin

text \<open>
  What the component theories share: JavaScript errors as values, the effect type of
  asynchronous code (\<^emph>\<open>world in, result or exception and world out\<close>) with its
  \<^verbatim>\<open>try\<close>/\<^verbatim>\<open>catch\<close>/\<^verbatim>\<open>finally\<close>, JavaScript \<^verbatim>\<open>Map\<close>s
  and plain objects as association lists that keep insertion order, decimal printing and
  reading of integers, and list lemmas.

  Strings are \<^typ>\<open>string\<close>: the program's addresses, numerals, keys and messages are
  ASCII. Typographic characters of user-interface labels are not modelled.
\<close>

section \<open>Rule collections\<close>

named_theorems io_simps \<open>equations that run effectful code\<close>
named_theorems js_defs \<open>definitions unfolded to evaluate a model on a closed input\<close>

section \<open>Errors\<close>

text \<open>A thrown \<^verbatim>\<open>Error\<close> object: its class name and its message.\<close>

datatype js_error = JsError (errName: string) (errMsg: string)

abbreviation Error :: "string \<Rightarrow> js_error" where
  "Error m \<equiv> JsError ''Error'' m"

abbreviation RangeError :: "string \<Rightarrow> js_error" where
  "RangeError m \<equiv> JsError ''RangeError'' m"

abbreviation SyntaxError :: "string \<Rightarrow> js_error" where
  "SyntaxError m \<equiv> JsError ''SyntaxError'' m"

abbreviation TypeError :: "string \<Rightarrow> js_error" where
  "TypeError m \<equiv> JsError ''TypeError'' m"

text \<open>\<^verbatim>\<open>String(e)\<close> of an error object.\<close>

definition error_to_string :: "js_error \<Rightarrow> string" where
  "error_to_string e =
     (if errName e = '''' then errMsg e
      else if errMsg e = '''' then errName e
      else errName e @ '': '' @ errMsg e)"

section \<open>Asynchronous effects\<close>

text \<open>
  An \<^verbatim>\<open>async\<close> function of the program, run to completion: it takes the state of the
  world (what the network, the wallet and the stores will answer), and returns the value or
  the exception together with the new world. An exception keeps the effects that happened
  before it, as in the source.
\<close>

type_synonym ('w, 'a) io = "'w \<Rightarrow> (js_error + 'a) \<times> 'w"

definition ret :: "'a \<Rightarrow> ('w, 'a) io" where
  "ret a = (\<lambda>w. (Inr a, w))"

definition throw :: "js_error \<Rightarrow> ('w, 'a) io" where
  "throw e = (\<lambda>w. (Inl e, w))"

definition bind :: "('w, 'a) io \<Rightarrow> ('a \<Rightarrow> ('w, 'b) io) \<Rightarrow> ('w, 'b) io" where
  "bind m f = (\<lambda>w. case m w of (Inl e, w') \<Rightarrow> (Inl e, w') | (Inr a, w') \<Rightarrow> f a w')"

definition try_catch :: "('w, 'a) io \<Rightarrow> (js_error \<Rightarrow> ('w, 'a) io) \<Rightarrow> ('w, 'a) io" where
  "try_catch m h = (\<lambda>w. case m w of (Inl e, w') \<Rightarrow> h e w' | (Inr a, w') \<Rightarrow> (Inr a, w'))"

text \<open>The \<^verbatim>\<open>finally\<close> blocks of the program only set state; they never throw.\<close>

definition finally_do :: "('w, 'a) io \<Rightarrow> ('w \<Rightarrow> 'w) \<Rightarrow> ('w, 'a) io" where
  "finally_do m f = (\<lambda>w. case m w of (r, w') \<Rightarrow> (r, f w'))"

definition modify :: "('w \<Rightarrow> 'w) \<Rightarrow> ('w, unit) io" where
  "modify f = (\<lambda>w. (Inr (), f w))"

definition gets :: "('w \<Rightarrow> 'a) \<Rightarrow> ('w, 'a) io" where
  "gets f = (\<lambda>w. (Inr (f w), w))"

definition of_result :: "js_error + 'a \<Rightarrow> ('w, 'a) io" where
  "of_result r = (\<lambda>w. (r, w))"

text \<open>
  Code that owns a state (a React hook) runs over the pair of that state and the world
  outside: \<open>outside\<close> runs an effect of the world and leaves the own state alone.
\<close>

definition outside :: "('w, 'a) io \<Rightarrow> ('s \<times> 'w, 'a) io" where
  "outside m = (\<lambda>(s, w). case m w of (r, w') \<Rightarrow> (r, (s, w')))"

definition set_state :: "('s \<Rightarrow> 's) \<Rightarrow> ('s \<times> 'w, unit) io" where
  "set_state f = (\<lambda>(s, w). (Inr (), (f s, w)))"

lemma ret_run [io_simps]: "ret a w = (Inr a, w)"
  by (simp add: ret_def)

lemma throw_run [io_simps]: "throw e w = (Inl e, w)"
  by (simp add: throw_def)

lemma modify_run [io_simps]: "modify f w = (Inr (), f w)"
  by (simp add: modify_def)

lemma gets_run [io_simps]: "gets f w = (Inr (f w), w)"
  by (simp add: gets_def)

lemma of_result_run [io_simps]: "of_result r w = (r, w)"
  by (simp add: of_result_def)

lemma outside_run [io_simps]: "outside m (s, w) = (fst (m w), (s, snd (m w)))"
  by (simp add: outside_def split: prod.split)

lemma set_state_run [io_simps]: "set_state f (s, w) = (Inr (), (f s, w))"
  by (simp add: set_state_def)

lemma bind_Inr [io_simps]: "m w = (Inr a, w') \<Longrightarrow> bind m f w = f a w'"
  by (simp add: bind_def)

lemma bind_Inl [io_simps]: "m w = (Inl e, w') \<Longrightarrow> bind m f w = (Inl e, w')"
  by (simp add: bind_def)

lemma bind_cases:
  assumes "bind m f w = (r, w2)"
  obtains (fail) e where "m w = (Inl e, w2)" "r = Inl e"
    | (ok) a w1 where "m w = (Inr a, w1)" "f a w1 = (r, w2)"
  using assms by (auto simp: bind_def split: prod.splits sum.splits)

lemma try_catch_Inr [io_simps]: "m w = (Inr a, w') \<Longrightarrow> try_catch m h w = (Inr a, w')"
  by (simp add: try_catch_def)

lemma try_catch_Inl [io_simps]: "m w = (Inl e, w') \<Longrightarrow> try_catch m h w = h e w'"
  by (simp add: try_catch_def)

lemma finally_do_run [io_simps]: "finally_do m f w = (fst (m w), f (snd (m w)))"
  by (simp add: finally_do_def split: prod.split)

text \<open>The monad laws: effects compose associatively, \<open>ret\<close> does nothing.\<close>

lemma bind_ret_left [simp]: "bind (ret a) f = f a"
  by (simp add: bind_def ret_def)

lemma bind_ret_right [simp]: "bind m ret = m"
  by (rule ext) (auto simp: bind_def ret_def split: prod.splits sum.splits)

lemma bind_throw [simp]: "bind (throw e) f = throw e"
  by (simp add: bind_def throw_def)

lemma bind_assoc: "bind (bind m f) g = bind m (\<lambda>a. bind (f a) g)"
  by (rule ext) (auto simp: bind_def split: prod.splits sum.splits)

lemma bind_outside:
  "bind (outside m) (\<lambda>a. outside (f a)) = (outside (bind m f) :: ('s \<times> 'w, 'b) io)"
  by (rule ext) (auto simp: bind_def outside_def split: prod.splits sum.splits)

section \<open>JavaScript maps and objects\<close>

text \<open>
  A \<^verbatim>\<open>Map\<close> (or an object used as a dictionary) keeps insertion order: setting an
  existing key keeps its place, a new key goes to the end. \<^const>\<open>AList.update\<close> does
  exactly that; \<^const>\<open>map_of\<close> is \<^verbatim>\<open>get\<close>.
\<close>

type_synonym ('k, 'v) jsmap = "('k \<times> 'v) list"

abbreviation jsget :: "('k, 'v) jsmap \<Rightarrow> 'k \<Rightarrow> 'v option" where
  "jsget m k \<equiv> map_of m k"

abbreviation jsset :: "'k \<Rightarrow> 'v \<Rightarrow> ('k, 'v) jsmap \<Rightarrow> ('k, 'v) jsmap" where
  "jsset k v m \<equiv> AList.update k v m"

abbreviation jsdel :: "'k \<Rightarrow> ('k, 'v) jsmap \<Rightarrow> ('k, 'v) jsmap" where
  "jsdel k m \<equiv> AList.delete k m"

lemma jsget_set [simp]: "jsget (jsset k v m) k' = (if k' = k then Some v else jsget m k')"
  by (simp add: update_conv')

lemma jsget_del [simp]: "jsget (jsdel k m) k' = (if k' = k then None else jsget m k')"
  by (simp add: delete_conv')

lemma jsset_distinct: "distinct (map fst m) \<Longrightarrow> distinct (map fst (jsset k v m))"
  by (rule distinct_update)

text \<open>The sum over the values of a map changes by the value that is set.\<close>

lemma sum_jsset:
  fixes f :: "'k \<Rightarrow> 'v \<Rightarrow> int"
  assumes "distinct (map fst m)"
  shows "sum_list (map (\<lambda>(k, v). f k v) (jsset k v m)) =
    sum_list (map (\<lambda>(k, v). f k v) m) - (case jsget m k of Some x \<Rightarrow> f k x | None \<Rightarrow> 0) + f k v"
  using assms
proof (induction m)
  case (Cons p m)
  obtain k' x where p: "p = (k', x)" by force
  show ?case
  proof (cases "k' = k")
    case True
    then have "jsset k v (p # m) = (k, v) # m" by (simp add: p)
    with True show ?thesis by (simp add: p)
  qed (use Cons in \<open>simp add: p\<close>)
qed simp

lemma sum_jsset_snd:
  fixes v :: int
  assumes "distinct (map fst m)"
  shows "sum_list (map snd (jsset k v m)) = sum_list (map snd m) - (case jsget m k of Some x \<Rightarrow> x | None \<Rightarrow> 0) + v"
  using sum_jsset [OF assms, of "\<lambda>_ x. x" k v] by (simp add: case_prod_beta')

text \<open>
  The interface every keyed store of the program offers (\<^verbatim>\<open>Map\<close>, \<^verbatim>\<open>localStorage\<close>,
  the rate limiter's tables): what a read returns after a write and after a removal.
\<close>

locale keyed_store =
  fixes get :: "'m \<Rightarrow> 'k \<Rightarrow> 'v option"
    and put :: "'k \<Rightarrow> 'v \<Rightarrow> 'm \<Rightarrow> 'm"
    and del :: "'k \<Rightarrow> 'm \<Rightarrow> 'm"
  assumes get_put: "get (put k v m) k' = (if k' = k then Some v else get m k')"
    and get_del: "get (del k m) k' = (if k' = k then None else get m k')"
begin

lemma get_put_same: "get (put k v m) k = Some v"
  by (simp add: get_put)

lemma get_put_other: "k' \<noteq> k \<Longrightarrow> get (put k v m) k' = get m k'"
  by (simp add: get_put)

lemma put_overwrites: "get (put k v (put k u m)) = get (put k v m)"
  by (auto simp: get_put fun_eq_iff)

lemma put_commute: "k \<noteq> l \<Longrightarrow> get (put k v (put l u m)) = get (put l u (put k v m))"
  by (auto simp: get_put fun_eq_iff)

lemma del_put: "get (del k (put k v m)) = get (del k m)"
  by (auto simp: get_put get_del fun_eq_iff)

lemma get_fold_del: "get (fold del ks m) k' = (if k' \<in> set ks then None else get m k')"
  by (induction ks arbitrary: m) (auto simp: get_del)

end

interpretation jsm: keyed_store map_of AList.update AList.delete
  by unfold_locales auto

section \<open>Replacing an element by its identifier\<close>

text \<open>\<^verbatim>\<open>xs.map((x) => x.id === id ? updated : x)\<close>.\<close>

definition map_where :: "('a \<Rightarrow> bool) \<Rightarrow> ('a \<Rightarrow> 'a) \<Rightarrow> 'a list \<Rightarrow> 'a list" where
  "map_where p f xs = map (\<lambda>x. if p x then f x else x) xs"

lemma length_map_where [simp]: "length (map_where p f xs) = length xs"
  by (simp add: map_where_def)

lemma map_where_keys:
  assumes "\<And>x. x \<in> set xs \<Longrightarrow> p x \<Longrightarrow> key (f x) = key x"
  shows "map key (map_where p f xs) = map key xs"
  using assms by (induction xs) (auto simp: map_where_def)

lemma filter_map_where_other:
  assumes "\<And>x. x \<in> set xs \<Longrightarrow> p x \<Longrightarrow> \<not> q x \<and> \<not> q (f x)"
  shows "filter q (map_where p f xs) = filter q xs"
  using assms by (induction xs) (auto simp: map_where_def)

section \<open>Decimal numerals\<close>

definition digit_char :: "int \<Rightarrow> char" where
  "digit_char d = char_of (48 + d)"

definition digit_val :: "char \<Rightarrow> int option" where
  "digit_val c = (let n = (of_char c :: int) in if 48 \<le> n \<and> n \<le> 57 then Some (n - 48) else None)"

definition is_digit :: "char \<Rightarrow> bool" where
  "is_digit c = (digit_val c \<noteq> None)"

text \<open>The decimal digits of a non-negative integer.\<close>

function show_dec :: "int \<Rightarrow> string" where
  "show_dec n = (if n < 10 then [digit_char n] else show_dec (n div 10) @ [digit_char (n mod 10)])"
  by pat_completeness auto
termination
  by (relation "measure nat") auto

declare show_dec.simps [simp del]

text \<open>\<^verbatim>\<open>n.toString()\<close> of a \<^verbatim>\<open>bigint\<close>, and of a number that is an integer.\<close>

definition show_int :: "int \<Rightarrow> string" where
  "show_int n = (if n < 0 then ''-'' @ show_dec (- n) else show_dec n)"

text \<open>The value of a digit string read from the left into an accumulator.\<close>

fun digits_value :: "int \<Rightarrow> string \<Rightarrow> int" where
  "digits_value a [] = a"
| "digits_value a (c # cs) = digits_value (10 * a + the (digit_val c)) cs"

lemma digit_val_char [simp]: "0 \<le> d \<Longrightarrow> d < 10 \<Longrightarrow> digit_val (digit_char d) = Some d"
  by (simp add: digit_val_def digit_char_def)

lemma is_digit_char [simp]: "0 \<le> d \<Longrightarrow> d < 10 \<Longrightarrow> is_digit (digit_char d)"
  by (simp add: is_digit_def)

lemma digit_val_bounds: "digit_val c = Some d \<Longrightarrow> 0 \<le> d \<and> d < 10"
  by (auto simp: digit_val_def Let_def split: if_splits)

lemma digits_value_append:
  "digits_value a (xs @ ys) = digits_value (digits_value a xs) ys"
  by (induction xs arbitrary: a) auto

lemma digits_value_nonneg: "list_all is_digit xs \<Longrightarrow> 0 \<le> a \<Longrightarrow> 0 \<le> digits_value a xs"
proof (induction xs arbitrary: a)
  case Nil
  then show ?case by simp
next
  case (Cons c cs)
  then obtain d where "digit_val c = Some d" by (auto simp: is_digit_def)
  with Cons digit_val_bounds[of c d] show ?case by simp
qed

lemma show_dec_digits: "0 \<le> n \<Longrightarrow> list_all is_digit (show_dec n)"
proof (induction n rule: show_dec.induct)
  case (1 n)
  then show ?case by (subst show_dec.simps) auto
qed

lemma show_dec_nonempty [simp]: "show_dec n \<noteq> []"
  by (subst show_dec.simps) simp

lemma digits_value_show_dec [simp]: "0 \<le> n \<Longrightarrow> digits_value 0 (show_dec n) = n"
proof (induction n rule: show_dec.induct)
  case (1 n)
  then show ?case by (subst show_dec.simps) (auto simp: digits_value_append)
qed

lemma show_dec_inj: "0 \<le> m \<Longrightarrow> 0 \<le> n \<Longrightarrow> show_dec m = show_dec n \<longleftrightarrow> m = n"
  by (metis digits_value_show_dec)

lemma show_int_inj: "show_int m = show_int n \<longleftrightarrow> m = n"
proof
  assume eq: "show_int m = show_int n"
  have not_minus: "show_dec k \<noteq> CHR ''-'' # xs" if "0 \<le> k" for k xs
    using show_dec_digits[OF that] by (auto simp: is_digit_def digit_val_def)
  from eq show "m = n"
    by (auto simp: show_int_def show_dec_inj not_minus not_minus[symmetric] split: if_splits)
qed simp

section \<open>Strings\<close>

text \<open>White space as \<^verbatim>\<open>trim\<close>, \<^verbatim>\<open>parseFloat\<close> and \<^verbatim>\<open>BigInt\<close> skip it (the ASCII part).\<close>

definition is_space :: "char \<Rightarrow> bool" where
  "is_space c = (of_char c \<in> {9, 10, 11, 12, 13, 32, 160 :: int})"

definition trim_left :: "string \<Rightarrow> string" where
  "trim_left s = dropWhile is_space s"

definition trim :: "string \<Rightarrow> string" where
  "trim s = rev (dropWhile is_space (rev (dropWhile is_space s)))"

text \<open>\<^verbatim>\<open>xs.join(sep)\<close>.\<close>

fun join :: "string \<Rightarrow> string list \<Rightarrow> string" where
  "join sep [] = ''''"
| "join sep [x] = x"
| "join sep (x # y # ys) = x @ sep @ join sep (y # ys)"

lemma upt_Suc_map: "[0..<Suc n] = 0 # map Suc [0..<n]"
  by (simp only: upt_conv_Cons map_Suc_upt zero_less_Suc)

end
