(* ===== verification/Js_Number.thy ===== *)
theory Js_Number
  imports Prelude Complex_Main "HOL-Library.Log_Nat"
begin

text \<open>
  JavaScript numbers: IEEE 754 binary64 with round-to-nearest, ties-to-even. A finite number
  is the rational it denotes, so every operation is \<^emph>\<open>the exact rational result, then
  rounded\<close>, which is what the standard prescribes for the four operations, for numeric
  literals and for \<^verbatim>\<open>Number(bigint)\<close>. The two zeros are one value: the program never
  divides by a computed zero and never prints a zero with its sign.
\<close>

section \<open>Rounding\<close>

text \<open>Nearest integer, ties to even.\<close>

definition rne :: "rat \<Rightarrow> int" where
  "rne x = (let f = \<lfloor>x\<rfloor>; d = x - of_int f in
     if d < 1 / 2 then f else if d > 1 / 2 then f + 1 else if even f then f else f + 1)"

text \<open>The binary exponent: \<open>2 powi e \<le> x < 2 powi (e + 1)\<close> for positive \<open>x\<close>.\<close>

definition ilog2 :: "rat \<Rightarrow> int" where
  "ilog2 x = (let (a, b) = quotient_of x; k = bitlen a - bitlen b in
     if 2 powi k \<le> x then k else k - 1)"

text \<open>Exponent of the unit in the last place: 53 significant bits, subnormals below \<open>2 powi -1022\<close>.\<close>

definition ulp_exp :: "rat \<Rightarrow> int" where
  "ulp_exp x = max (ilog2 x - 52) (- 1074)"

definition rnd_pos :: "rat \<Rightarrow> rat" where
  "rnd_pos x = (let u = 2 powi (ulp_exp x) in of_int (rne (x / u)) * u)"

definition rnd :: "rat \<Rightarrow> rat" where
  "rnd x = (if x = 0 then 0 else if x < 0 then - rnd_pos (- x) else rnd_pos x)"

subsection \<open>Nearest integer\<close>

lemma rne_of_int [simp]: "rne (of_int n) = n"
  by (simp add: rne_def)

lemma rne_bounds: "of_int (rne x) - 1 / 2 \<le> x" "x \<le> of_int (rne x) + 1 / 2"
proof -
  have "of_int \<lfloor>x\<rfloor> \<le> x" "x < of_int \<lfloor>x\<rfloor> + 1"
    using floor_correct[of x] by simp_all
  then show "of_int (rne x) - 1 / 2 \<le> x" "x \<le> of_int (rne x) + 1 / 2"
    unfolding rne_def Let_def by (simp_all split: if_split) linarith+
qed

lemma rne_error: "\<bar>of_int (rne x) - x\<bar> \<le> 1 / 2"
  using rne_bounds[of x] by linarith

lemma rne_floor_or: "rne x = \<lfloor>x\<rfloor> \<or> rne x = \<lfloor>x\<rfloor> + 1"
  by (auto simp: rne_def Let_def)

lemma rne_mono: "x \<le> y \<Longrightarrow> rne x \<le> rne y"
proof (cases "\<lfloor>x\<rfloor> = \<lfloor>y\<rfloor>")
  case True
  assume "x \<le> y"
  with True show ?thesis by (auto simp: rne_def Let_def)
next
  case False
  assume "x \<le> y"
  with False have "\<lfloor>x\<rfloor> + 1 \<le> \<lfloor>y\<rfloor>" using floor_mono[of x y] by linarith
  then show ?thesis using rne_floor_or[of x] rne_floor_or[of y] by linarith
qed

lemma rne_le_int: "x \<le> of_int n \<Longrightarrow> rne x \<le> n"
  using rne_mono[of x "of_int n"] by simp

lemma rne_ge_int: "of_int n \<le> x \<Longrightarrow> n \<le> rne x"
  using rne_mono[of "of_int n" x] by simp

lemma rne_near: "\<bar>x - of_int n\<bar> < 1 / 2 \<Longrightarrow> rne x = n"
proof -
  assume a: "\<bar>x - of_int n\<bar> < 1 / 2"
  have "\<bar>of_int (rne x) - of_int n\<bar> < (1 :: rat)"
    using a rne_error[of x] by linarith
  then have "\<bar>rne x - n\<bar> < 1"
    by (metis of_int_1_less_iff of_int_abs of_int_diff of_int_less_1_iff)
  then show ?thesis by linarith
qed

subsection \<open>Binary exponent\<close>

lemma bitlen_bounds_rat:
  assumes "0 < a"
  shows "2 powi (bitlen a - 1) \<le> (of_int a :: rat)" "(of_int a :: rat) < 2 powi (bitlen a)"
proof -
  have pos: "1 \<le> bitlen a" using assms bitlen_nonneg[of a] bitlen_eq_zero_iff[of a] by linarith
  have b: "2 ^ nat (bitlen a - 1) \<le> a" "a < 2 ^ nat (bitlen a)"
    using bitlen_bounds[OF assms] by simp_all
  have "(2 :: rat) powi (bitlen a - 1) = of_int (2 ^ nat (bitlen a - 1))"
    using pos by (simp add: power_int_def)
  also have "\<dots> \<le> of_int a" using b(1) by (simp only: of_int_le_iff)
  finally show "2 powi (bitlen a - 1) \<le> (of_int a :: rat)" .
  have "(of_int a :: rat) < of_int (2 ^ nat (bitlen a))" using b(2) by (simp only: of_int_less_iff)
  also have "\<dots> = 2 powi (bitlen a)" using pos by (simp add: power_int_def)
  finally show "(of_int a :: rat) < 2 powi (bitlen a)" .
qed

lemma ilog2_bounds:
  assumes "0 < x"
  shows "2 powi (ilog2 x) \<le> x" "x < 2 powi (ilog2 x + 1)"
proof -
  obtain a b where q: "quotient_of x = (a, b)" by (cases "quotient_of x")
  have x: "x = of_int a / of_int b" using quotient_of_div[OF q] .
  have b: "0 < b" using quotient_of_denom_pos[OF q] .
  have a: "0 < a" using assms x b by (simp add: zero_less_divide_iff)
  let ?k = "bitlen a - bitlen b"
  note A = bitlen_bounds_rat[OF a] and B = bitlen_bounds_rat[OF b]
  have b0: "0 < (of_int b :: rat)" using b by simp
  have "2 powi (?k - 1) * of_int b < (2 powi (?k - 1) * 2 powi (bitlen b) :: rat)"
    using B(2) by (intro mult_strict_left_mono) auto
  also have "\<dots> = 2 powi (bitlen a - 1)" by (simp flip: power_int_add)
  also have "\<dots> \<le> of_int a" by (rule A(1))
  finally have lo: "2 powi (?k - 1) < x" using b0 by (simp add: x pos_less_divide_eq)
  have "of_int a < (2 powi (bitlen a) :: rat)" by (rule A(2))
  also have "\<dots> = 2 powi (?k + 1) * 2 powi (bitlen b - 1)" by (simp flip: power_int_add)
  also have "\<dots> \<le> 2 powi (?k + 1) * of_int b"
    using B(1) by (intro mult_left_mono) auto
  finally have hi: "x < 2 powi (?k + 1)" using b0 by (simp add: x pos_divide_less_eq)
  have i: "ilog2 x = (if 2 powi ?k \<le> x then ?k else ?k - 1)" by (simp add: ilog2_def q)
  show "2 powi (ilog2 x) \<le> x" "x < 2 powi (ilog2 x + 1)"
    using lo hi by (auto simp: i)
qed

lemma powi2_pos [simp]: "0 < (2 powi n :: rat)"
  by simp

lemma powi2_less_iff: "(2 powi m :: rat) < 2 powi n \<longleftrightarrow> m < n"
  using power_int_strict_increasing[of m n "2 :: rat"] power_int_increasing[of n m "2 :: rat"]
  by (cases "m < n") auto

lemma powi2_le_iff: "(2 powi m :: rat) \<le> 2 powi n \<longleftrightarrow> m \<le> n"
  using powi2_less_iff[of n m] by linarith

lemma powi2_split: "u \<le> k \<Longrightarrow> (2 powi k :: rat) = of_int (2 ^ nat (k - u)) * 2 powi u"
proof -
  assume "u \<le> k"
  then have "(of_int (2 ^ nat (k - u)) :: rat) = 2 powi (k - u)" by (simp add: power_int_def)
  then show ?thesis by (simp flip: power_int_add)
qed

lemma ilog2_unique:
  assumes "2 powi e \<le> x" "x < 2 powi (e + 1)"
  shows "ilog2 x = e"
proof -
  have x: "0 < x" using assms(1) powi2_pos[of e] by linarith
  have "(2 powi e :: rat) < 2 powi (ilog2 x + 1)" "(2 powi (ilog2 x) :: rat) < 2 powi (e + 1)"
    using assms ilog2_bounds[OF x] by linarith+
  then show ?thesis by (simp add: powi2_less_iff)
qed

lemma ilog2_mono: "0 < x \<Longrightarrow> x \<le> y \<Longrightarrow> ilog2 x \<le> ilog2 y"
proof -
  assume "0 < x" "x \<le> y"
  then have "(2 powi (ilog2 x) :: rat) < 2 powi (ilog2 y + 1)"
    using ilog2_bounds(1)[of x] ilog2_bounds(2)[of y] by linarith
  then show ?thesis by (simp add: powi2_less_iff)
qed

lemma ulp_exp_mono: "0 < x \<Longrightarrow> x \<le> y \<Longrightarrow> ulp_exp x \<le> ulp_exp y"
  using ilog2_mono[of x y] by (auto simp: ulp_exp_def)

subsection \<open>Rounding positive rationals\<close>

lemma rnd_pos_exact:
  assumes "x / 2 powi (ulp_exp x) = of_int n"
  shows "rnd_pos x = x"
proof -
  have "x = of_int n * 2 powi (ulp_exp x)"
    using assms powi2_pos[of "ulp_exp x"] by (simp add: nonzero_divide_eq_eq)
  then show ?thesis by (simp add: rnd_pos_def Let_def assms)
qed

lemma rnd_pos_error: "\<bar>rnd_pos x - x\<bar> \<le> 2 powi (ulp_exp x) / 2"
proof -
  let ?u = "2 powi (ulp_exp x) :: rat"
  have u: "0 < ?u" by simp
  have "\<bar>rnd_pos x - x\<bar> = \<bar>of_int (rne (x / ?u)) - x / ?u\<bar> * ?u"
  proof -
    have "rnd_pos x - x = (of_int (rne (x / ?u)) - x / ?u) * ?u"
      using u by (simp add: rnd_pos_def Let_def left_diff_distrib)
    then show ?thesis using u by (simp add: abs_mult)
  qed
  also have "\<dots> \<le> 1 / 2 * ?u"
    using u by (intro mult_right_mono rne_error) auto
  finally show ?thesis by simp
qed

lemma ulp_le_binade:
  assumes "0 < x"
  shows "ulp_exp x \<le> max (ilog2 x) (- 1074)"
  by (simp add: ulp_exp_def)

text \<open>Rounding stays inside the closed binade of its argument.\<close>

lemma rnd_pos_upper:
  assumes "0 < x" "x \<le> 2 powi k" "ulp_exp x \<le> k"
  shows "rnd_pos x \<le> 2 powi k"
proof -
  let ?u = "ulp_exp x"
  have k: "(2 powi k :: rat) = of_int (2 ^ nat (k - ?u)) * 2 powi ?u"
    using assms(3) by (rule powi2_split)
  then have "x / 2 powi ?u \<le> of_int (2 ^ nat (k - ?u))"
    using assms(2) by (simp add: pos_divide_le_eq)
  then have "rne (x / 2 powi ?u) \<le> 2 ^ nat (k - ?u)" by (rule rne_le_int)
  then have "(of_int (rne (x / 2 powi ?u)) :: rat) \<le> of_int (2 ^ nat (k - ?u))"
    by (simp only: of_int_le_iff)
  then have "of_int (rne (x / 2 powi ?u)) * (2 powi ?u :: rat) \<le> of_int (2 ^ nat (k - ?u)) * 2 powi ?u"
    by (intro mult_right_mono) auto
  then show ?thesis unfolding k by (simp only: rnd_pos_def Let_def)
qed

lemma rnd_pos_lower:
  assumes "2 powi k \<le> x" "ulp_exp x \<le> k"
  shows "2 powi k \<le> rnd_pos x"
proof -
  let ?u = "ulp_exp x"
  have k: "(2 powi k :: rat) = of_int (2 ^ nat (k - ?u)) * 2 powi ?u"
    using assms(2) by (rule powi2_split)
  then have "of_int (2 ^ nat (k - ?u)) \<le> x / 2 powi ?u"
    using assms(1) by (simp add: pos_le_divide_eq)
  then have "2 ^ nat (k - ?u) \<le> rne (x / 2 powi ?u)" by (rule rne_ge_int)
  then have "(of_int (2 ^ nat (k - ?u)) :: rat) \<le> of_int (rne (x / 2 powi ?u))"
    by (simp only: of_int_le_iff)
  then have "of_int (2 ^ nat (k - ?u)) * (2 powi ?u :: rat) \<le> of_int (rne (x / 2 powi ?u)) * 2 powi ?u"
    by (intro mult_right_mono) auto
  then show ?thesis unfolding k by (simp only: rnd_pos_def Let_def)
qed

lemma rnd_pos_nonneg: "0 \<le> x \<Longrightarrow> 0 \<le> rnd_pos x"
  using rne_ge_int[of 0 "x / 2 powi (ulp_exp x)"] by (simp add: rnd_pos_def Let_def)

lemma rnd_pos_mono:
  assumes "0 < x" "x \<le> y"
  shows "rnd_pos x \<le> rnd_pos y"
proof (cases "ulp_exp x = ulp_exp y")
  case True
  have "x / 2 powi (ulp_exp y) \<le> y / 2 powi (ulp_exp y)"
    using assms(2) by (intro divide_right_mono) auto
  then have "of_int (rne (x / 2 powi (ulp_exp y))) \<le> (of_int (rne (y / 2 powi (ulp_exp y))) :: rat)"
    by (simp only: of_int_le_iff rne_mono)
  then show ?thesis
    unfolding rnd_pos_def Let_def True by (intro mult_right_mono) auto
next
  case False
  then have less: "ulp_exp x < ulp_exp y" using ulp_exp_mono[OF assms] by simp
  then have e: "ilog2 x < ilog2 y" "ulp_exp y = ilog2 y - 52"
    by (auto simp: ulp_exp_def split: if_splits)
  have y: "0 < y" using assms by linarith
  have "x \<le> 2 powi (ilog2 y)"
  proof -
    have "x < 2 powi (ilog2 x + 1)" using ilog2_bounds(2)[OF assms(1)] .
    also have "\<dots> \<le> 2 powi (ilog2 y)" using e(1) by (simp add: powi2_le_iff)
    finally show ?thesis by simp
  qed
  then have "rnd_pos x \<le> 2 powi (ilog2 y)"
    using assms(1) less e by (intro rnd_pos_upper) auto
  also have "\<dots> \<le> rnd_pos y"
    using ilog2_bounds(1)[OF y] e by (intro rnd_pos_lower) auto
  finally show ?thesis .
qed

subsection \<open>Rounding\<close>

lemma rnd_0 [simp]: "rnd 0 = 0"
  by (simp add: rnd_def)

lemma rnd_minus [simp]: "rnd (- x) = - rnd x"
  by (auto simp: rnd_def)

lemma rnd_pos_eq: "0 < x \<Longrightarrow> rnd x = rnd_pos x"
  by (simp add: rnd_def)

lemma rnd_nonneg: "0 \<le> x \<Longrightarrow> 0 \<le> rnd x"
  by (auto simp: rnd_def rnd_pos_nonneg)

lemma rnd_nonpos: "x \<le> 0 \<Longrightarrow> rnd x \<le> 0"
  using rnd_nonneg[of "- x"] by simp

text \<open>Rounding is monotone: comparing after an operation never reverses an order.\<close>

lemma rnd_mono: "x \<le> y \<Longrightarrow> rnd x \<le> rnd y"
proof -
  assume le: "x \<le> y"
  consider "0 < x" | "x \<le> 0" "0 \<le> y" | "y < 0" by linarith
  then show ?thesis
  proof cases
    case 1
    with le show ?thesis by (simp add: rnd_pos_eq rnd_pos_mono)
  next
    case 2
    then show ?thesis using rnd_nonpos[of x] rnd_nonneg[of y] by linarith
  next
    case 3
    with le have "rnd_pos (- y) \<le> rnd_pos (- x)" by (intro rnd_pos_mono) auto
    with 3 le show ?thesis by (simp add: rnd_def)
  qed
qed

text \<open>Integers up to \<open>2 ^ 53\<close> (the safe integers) are exact.\<close>

lemma rnd_pos_int:
  assumes "0 < n" "n \<le> 2 ^ 53"
  shows "rnd_pos (of_int n) = of_int n"
proof (cases "n = 2 ^ 53")
  case True
  have "ilog2 (of_int n) = 53" by (rule ilog2_unique) (simp_all add: True power_int_def)
  then have "ulp_exp (of_int n) = 1" by (simp add: ulp_exp_def)
  then have "of_int n / 2 powi (ulp_exp (of_int n)) = (of_int (2 ^ 52) :: rat)" by (simp add: True)
  then show ?thesis by (rule rnd_pos_exact)
next
  case False
  let ?x = "of_int n :: rat"
  have x: "0 < ?x" "?x < 2 powi 53"
    using assms False of_int_less_iff[of n "2 ^ 53", where 'a = rat] by (simp_all add: power_int_def)
  have "(2 powi (ilog2 ?x) :: rat) < 2 powi 53" using ilog2_bounds(1)[OF x(1)] x(2) by linarith
  then have u: "ulp_exp ?x \<le> 0" unfolding powi2_less_iff by (simp add: ulp_exp_def)
  have "?x / 2 powi (ulp_exp ?x) = ?x * 2 powi (- ulp_exp ?x)"
    by (simp add: power_int_minus divide_inverse)
  also have "\<dots> = of_int (n * 2 ^ nat (- ulp_exp ?x))" using u by (simp add: power_int_def)
  finally show ?thesis by (rule rnd_pos_exact)
qed

lemma rnd_int [simp]: "\<bar>n\<bar> \<le> 2 ^ 53 \<Longrightarrow> rnd (of_int n) = of_int n"
proof -
  assume a: "\<bar>n\<bar> \<le> 2 ^ 53"
  consider "n = 0" | "0 < n" | "n < 0" by linarith
  then show ?thesis
  proof cases
    case 2
    with a show ?thesis by (simp add: rnd_pos_eq rnd_pos_int)
  next
    case 3
    have "rnd_pos (of_int (- n)) = of_int (- n)" using 3 a by (intro rnd_pos_int) auto
    with 3 show ?thesis by (simp add: rnd_def)
  qed simp
qed

text \<open>Relative error: half a unit in the last place, for results in the normal range.\<close>

lemma rnd_error:
  assumes "0 < x" "2 powi (- 1022) \<le> x"
  shows "\<bar>rnd x - x\<bar> \<le> x * 2 powi (- 53)"
proof -
  have "(2 powi (- 1022) :: rat) < 2 powi (ilog2 x + 1)"
    using assms(2) ilog2_bounds(2)[OF assms(1)] by linarith
  then have u: "ulp_exp x = ilog2 x - 52" unfolding powi2_less_iff by (simp add: ulp_exp_def)
  have "(2 powi (ulp_exp x) :: rat) = 2 powi (ilog2 x) * 2 powi (- 52)"
    unfolding u using power_int_add[of "2 :: rat" "ilog2 x" "- 52"] by simp
  also have "\<dots> \<le> x * 2 powi (- 52)"
    using ilog2_bounds(1)[OF assms(1)] by (intro mult_right_mono) auto
  finally have "2 powi (ulp_exp x) \<le> x * 2 powi (- 52)" .
  then have "2 powi (ulp_exp x) / 2 \<le> x * 2 powi (- 53)" by simp
  then show ?thesis using rnd_pos_error[of x] assms(1) by (simp add: rnd_pos_eq)
qed

text \<open>Rounding of a closed rational: give its exponent and the nearest significand.\<close>

lemma rnd_evalI:
  assumes "2 powi e \<le> x" "x < 2 powi (e + 1)" "- 1022 \<le> e"
    and "\<bar>x / 2 powi (e - 52) - of_int n\<bar> < 1 / 2"
  shows "rnd x = of_int n * 2 powi (e - 52)"
proof -
  have x: "0 < x" using assms(1) powi2_pos[of e] by linarith
  have "ulp_exp x = e - 52"
    using ilog2_unique[OF assms(1,2)] assms(3) by (simp add: ulp_exp_def)
  then show ?thesis
    using x rne_near[OF assms(4)] by (simp add: rnd_pos_eq rnd_pos_def)
qed

section \<open>Numbers and their operations\<close>

datatype jsnum = NaN | PInf | NInf | Fin rat

text \<open>A rational result, rounded; magnitudes that round to \<open>2 ^ 1024\<close> or more overflow.\<close>

definition num_of_rat :: "rat \<Rightarrow> jsnum" where
  "num_of_rat x = (let r = rnd x in
     if 2 ^ 1024 \<le> r then PInf else if r \<le> - (2 ^ 1024) then NInf else Fin r)"

text \<open>\<^verbatim>\<open>Number(n)\<close> of a \<^verbatim>\<open>bigint\<close>.\<close>

definition num_of_bigint :: "int \<Rightarrow> jsnum" where
  "num_of_bigint n = num_of_rat (of_int n)"

fun js_neg :: "jsnum \<Rightarrow> jsnum" where
  "js_neg NaN = NaN"
| "js_neg PInf = NInf"
| "js_neg NInf = PInf"
| "js_neg (Fin x) = Fin (- x)"

fun js_add :: "jsnum \<Rightarrow> jsnum \<Rightarrow> jsnum" where
  "js_add (Fin x) (Fin y) = num_of_rat (x + y)"
| "js_add NaN y = NaN"
| "js_add x NaN = NaN"
| "js_add PInf NInf = NaN"
| "js_add NInf PInf = NaN"
| "js_add PInf y = PInf"
| "js_add NInf y = NInf"
| "js_add x PInf = PInf"
| "js_add x NInf = NInf"

definition js_sub :: "jsnum \<Rightarrow> jsnum \<Rightarrow> jsnum" where
  "js_sub x y = js_add x (js_neg y)"

definition js_inf :: "bool \<Rightarrow> jsnum" where
  "js_inf negative = (if negative then NInf else PInf)"

fun js_sgn :: "jsnum \<Rightarrow> int" where
  "js_sgn NaN = 0"
| "js_sgn PInf = 1"
| "js_sgn NInf = - 1"
| "js_sgn (Fin x) = (if x < 0 then - 1 else if x = 0 then 0 else 1)"

fun js_mul :: "jsnum \<Rightarrow> jsnum \<Rightarrow> jsnum" where
  "js_mul (Fin x) (Fin y) = num_of_rat (x * y)"
| "js_mul NaN y = NaN"
| "js_mul x NaN = NaN"
| "js_mul x y = (if js_sgn x * js_sgn y = 0 then NaN else js_inf (js_sgn x * js_sgn y < 0))"

fun js_div :: "jsnum \<Rightarrow> jsnum \<Rightarrow> jsnum" where
  "js_div (Fin x) (Fin y) =
     (if y = 0 then (if x = 0 then NaN else js_inf (x < 0)) else num_of_rat (x / y))"
| "js_div NaN y = NaN"
| "js_div x NaN = NaN"
| "js_div (Fin x) y = Fin 0"
| "js_div x (Fin y) = js_inf ((js_sgn x < 0) \<noteq> (y < 0))"
| "js_div x y = NaN"

text \<open>Comparisons are false when an operand is \<^verbatim>\<open>NaN\<close>.\<close>

fun js_less :: "jsnum \<Rightarrow> jsnum \<Rightarrow> bool" where
  "js_less (Fin x) (Fin y) = (x < y)"
| "js_less NaN y = False"
| "js_less x NaN = False"
| "js_less NInf y = (y \<noteq> NInf)"
| "js_less x PInf = (x \<noteq> PInf)"
| "js_less x y = False"

fun js_le :: "jsnum \<Rightarrow> jsnum \<Rightarrow> bool" where
  "js_le (Fin x) (Fin y) = (x \<le> y)"
| "js_le NaN y = False"
| "js_le x NaN = False"
| "js_le NInf y = True"
| "js_le x PInf = True"
| "js_le x y = False"

abbreviation isNaN :: "jsnum \<Rightarrow> bool" where
  "isNaN x \<equiv> x = NaN"

definition isFinite :: "jsnum \<Rightarrow> bool" where
  "isFinite x = (case x of Fin _ \<Rightarrow> True | _ \<Rightarrow> False)"

text \<open>\<^verbatim>\<open>Boolean(x)\<close>: zero and \<^verbatim>\<open>NaN\<close> are falsy.\<close>

definition num_truthy :: "jsnum \<Rightarrow> bool" where
  "num_truthy x = (x \<noteq> NaN \<and> x \<noteq> Fin 0)"

text \<open>The \<^verbatim>\<open>Math\<close> functions the program uses. \<^verbatim>\<open>Math.round\<close> rounds halves up.\<close>

fun math_floor :: "jsnum \<Rightarrow> jsnum" where
  "math_floor (Fin x) = Fin (of_int \<lfloor>x\<rfloor>)"
| "math_floor x = x"

fun math_ceil :: "jsnum \<Rightarrow> jsnum" where
  "math_ceil (Fin x) = Fin (of_int \<lceil>x\<rceil>)"
| "math_ceil x = x"

fun math_round :: "jsnum \<Rightarrow> jsnum" where
  "math_round (Fin x) = Fin (of_int \<lfloor>x + 1 / 2\<rfloor>)"
| "math_round x = x"

definition math_max :: "jsnum \<Rightarrow> jsnum \<Rightarrow> jsnum" where
  "math_max x y = (if x = NaN \<or> y = NaN then NaN else if js_less x y then y else x)"

definition math_min :: "jsnum \<Rightarrow> jsnum \<Rightarrow> jsnum" where
  "math_min x y = (if x = NaN \<or> y = NaN then NaN else if js_less y x then y else x)"

text \<open>\<^verbatim>\<open>BigInt(x)\<close> of a number: only integers convert.\<close>

fun bigint_of_num :: "jsnum \<Rightarrow> js_error + int" where
  "bigint_of_num (Fin x) =
     (if x = of_int \<lfloor>x\<rfloor> then Inr \<lfloor>x\<rfloor>
      else Inl (RangeError ''The number cannot be converted to a BigInt because it is not an integer''))"
| "bigint_of_num x =
     Inl (RangeError ''The number cannot be converted to a BigInt because it is not an integer'')"

subsection \<open>Safe integers\<close>

abbreviation safe_int :: "int \<Rightarrow> bool" where
  "safe_int n \<equiv> \<bar>n\<bar> \<le> 2 ^ 53"

lemma of_int_less_overflow: "safe_int n \<Longrightarrow> \<bar>of_int n :: rat\<bar> < 2 ^ 1024"
proof -
  assume "safe_int n"
  then have "\<bar>of_int n :: rat\<bar> \<le> of_int (2 ^ 53)" by (simp only: of_int_abs[symmetric] of_int_le_iff)
  also have "\<dots> < 2 ^ 1024" by simp
  finally show ?thesis .
qed

lemma num_of_rat_int: "safe_int n \<Longrightarrow> num_of_rat (of_int n) = Fin (of_int n)"
  using of_int_less_overflow[of n] by (simp add: num_of_rat_def Let_def abs_less_iff)

text \<open>A number that is an integer. The laws below compute with integers as long as the
  results stay safe; they are stated on \<open>jsint\<close> so that no \<open>of_int\<close> is distributed.\<close>

definition jsint :: "int \<Rightarrow> jsnum" where
  "jsint n = Fin (of_int n)"

lemma num_of_bigint_safe [simp]: "safe_int n \<Longrightarrow> num_of_bigint n = jsint n"
  by (simp add: num_of_bigint_def jsint_def num_of_rat_int)

lemma js_add_int [simp]: "safe_int (m + n) \<Longrightarrow> js_add (jsint m) (jsint n) = jsint (m + n)"
  using num_of_rat_int[of "m + n"] by (simp add: jsint_def)

lemma js_sub_int [simp]: "safe_int (m - n) \<Longrightarrow> js_sub (jsint m) (jsint n) = jsint (m - n)"
  using num_of_rat_int[of "m - n"] by (simp add: js_sub_def jsint_def)

lemma js_mul_int [simp]: "safe_int (m * n) \<Longrightarrow> js_mul (jsint m) (jsint n) = jsint (m * n)"
  using num_of_rat_int[of "m * n"] by (simp add: jsint_def)

lemma jsint_less [simp]: "js_less (jsint m) (jsint n) \<longleftrightarrow> m < n"
  by (simp add: jsint_def)

lemma jsint_le [simp]: "js_le (jsint m) (jsint n) \<longleftrightarrow> m \<le> n"
  by (simp add: jsint_def)

lemma jsint_max [simp]: "math_max (jsint m) (jsint n) = jsint (max m n)"
  by (auto simp: jsint_def math_max_def max_def)

lemma jsint_min [simp]: "math_min (jsint m) (jsint n) = jsint (min m n)"
  by (auto simp: jsint_def math_min_def min_def)

lemma jsint_inject [simp]: "jsint m = jsint n \<longleftrightarrow> m = n"
  by (simp add: jsint_def)

lemma jsint_not_NaN [simp]: "jsint n \<noteq> NaN"
  by (simp add: jsint_def)

lemma bigint_of_jsint [simp]: "bigint_of_num (jsint n) = Inr n"
  by (simp add: jsint_def)

lemma Fin_0_jsint: "Fin 0 = jsint 0"
  by (simp add: jsint_def)

lemma Fin_1_jsint: "Fin 1 = jsint 1"
  by (simp add: jsint_def)

lemma Fin_numeral_jsint: "Fin (numeral k) = jsint (numeral k)"
  by (simp add: jsint_def)

lemmas jsint_literals = Fin_0_jsint Fin_1_jsint Fin_numeral_jsint

section \<open>The clock\<close>

text \<open>\<^verbatim>\<open>Math.floor(Date.now() / 1000)\<close>.\<close>

definition now_seconds :: "int \<Rightarrow> jsnum" where
  "now_seconds ms = math_floor (js_div (jsint ms) (jsint 1000))"

end
