(* ===== verification/Js_Text.thy ===== *)
theory Js_Text
  imports Js_Number
begin

text \<open>
  Conversions between strings and numbers: \<^verbatim>\<open>parseFloat\<close>, \<^verbatim>\<open>parseInt(s, 10)\<close>,
  \<^verbatim>\<open>Number(s)\<close>, \<^verbatim>\<open>BigInt(s)\<close>, \<^verbatim>\<open>x.toFixed(d)\<close> and \<^verbatim>\<open>String(x)\<close>,
  each after the algorithm of the ECMAScript specification.
\<close>

section \<open>Reading numbers\<close>

text \<open>
  The longest prefix that is an unsigned decimal literal: integer digits, fraction digits
  and exponent. \<open>None\<close> when there is no digit. The rest of the input is returned too.
\<close>

definition lit_exponent :: "string \<Rightarrow> int \<times> string" where
  "lit_exponent s =
     (case s of
        c # t \<Rightarrow>
          if c = CHR ''e'' \<or> c = CHR ''E'' then
            (let neg = (t \<noteq> [] \<and> hd t = CHR ''-'');
                 u = (if t \<noteq> [] \<and> (hd t = CHR ''-'' \<or> hd t = CHR ''+'') then tl t else t);
                 ds = takeWhile is_digit u
             in if ds = [] then (0, s)
                else ((if neg then - 1 else 1) * digits_value 0 ds, dropWhile is_digit u))
          else (0, s)
      | [] \<Rightarrow> (0, s))"

definition lit_decimal :: "string \<Rightarrow> (rat \<times> string) option" where
  "lit_decimal s =
     (let ip = takeWhile is_digit s;
          r = dropWhile is_digit s;
          t = (case r of c # u \<Rightarrow> if c = CHR ''.'' then takeWhile is_digit u else [] | [] \<Rightarrow> []);
          r' = (case r of c # u \<Rightarrow> if c = CHR ''.'' \<and> (ip \<noteq> [] \<or> t \<noteq> [])
                                  then dropWhile is_digit u else r | [] \<Rightarrow> r)
      in if ip = [] \<and> t = [] then None
         else (let (e, rest) = lit_exponent r'
               in Some (of_int (digits_value 0 (ip @ t)) * 10 powi (e - int (length t)), rest)))"

definition starts_with :: "string \<Rightarrow> string \<Rightarrow> bool" where
  "starts_with p s = (take (length p) s = p)"

definition parse_unsigned :: "string \<Rightarrow> jsnum" where
  "parse_unsigned s =
     (case lit_decimal s of
        Some (q, _) \<Rightarrow> num_of_rat q
      | None \<Rightarrow> if starts_with ''Infinity'' s then PInf else NaN)"

text \<open>Sign handling shared by the readers: an optional \<^verbatim>\<open>+\<close> or \<^verbatim>\<open>-\<close> in front.\<close>

definition with_sign :: "(string \<Rightarrow> jsnum) \<Rightarrow> string \<Rightarrow> jsnum" where
  "with_sign f s =
     (case s of
        c # t \<Rightarrow> if c = CHR ''-'' then js_neg (f t) else if c = CHR ''+'' then f t else f s
      | [] \<Rightarrow> f s)"

definition parseFloat :: "string \<Rightarrow> jsnum" where
  "parseFloat s = with_sign parse_unsigned (trim_left s)"

definition parse_digits :: "string \<Rightarrow> jsnum" where
  "parse_digits s =
     (let ds = takeWhile is_digit s in if ds = [] then NaN else num_of_rat (of_int (digits_value 0 ds)))"

text \<open>\<^verbatim>\<open>parseInt(s, 10)\<close>.\<close>

definition parseInt :: "string \<Rightarrow> jsnum" where
  "parseInt s = with_sign parse_digits (trim_left s)"

text \<open>\<^verbatim>\<open>Number(s)\<close>: the whole trimmed string must be a literal; the empty string is 0.\<close>

definition number_unsigned :: "string \<Rightarrow> jsnum" where
  "number_unsigned s =
     (case lit_decimal s of
        Some (q, rest) \<Rightarrow> if rest = [] then num_of_rat q else NaN
      | None \<Rightarrow> if s = ''Infinity'' then PInf else NaN)"

text \<open>Digits of the prefixed literals \<^verbatim>\<open>0x\<close>, \<^verbatim>\<open>0o\<close>, \<^verbatim>\<open>0b\<close>.\<close>

definition radix_digit :: "char \<Rightarrow> int option" where
  "radix_digit c =
     (let n = (of_char c :: int) in
      if 48 \<le> n \<and> n \<le> 57 then Some (n - 48)
      else if 97 \<le> n \<and> n \<le> 102 then Some (n - 87)
      else if 65 \<le> n \<and> n \<le> 70 then Some (n - 55) else None)"

fun radix_value :: "int \<Rightarrow> int \<Rightarrow> string \<Rightarrow> int option" where
  "radix_value b a [] = Some a"
| "radix_value b a (c # cs) =
     (case radix_digit c of
        Some d \<Rightarrow> if d < b then radix_value b (b * a + d) cs else None
      | None \<Rightarrow> None)"

definition radix_literal :: "string \<Rightarrow> int option" where
  "radix_literal s =
     (let body = drop 2 s; p = take 2 s in
      if body = [] then None
      else if p = ''0x'' \<or> p = ''0X'' then radix_value 16 0 body
      else if p = ''0o'' \<or> p = ''0O'' then radix_value 8 0 body
      else if p = ''0b'' \<or> p = ''0B'' then radix_value 2 0 body
      else None)"

definition number_of_string :: "string \<Rightarrow> jsnum" where
  "number_of_string s =
     (let t = trim s in
      if t = [] then Fin 0
      else (case radix_literal t of
              Some n \<Rightarrow> num_of_rat (of_int n)
            | None \<Rightarrow> with_sign number_unsigned t))"

text \<open>\<^verbatim>\<open>BigInt(s)\<close>: integer literals only; anything else is a \<^verbatim>\<open>SyntaxError\<close>.\<close>

definition all_digits :: "string \<Rightarrow> bool" where
  "all_digits s = (s \<noteq> [] \<and> list_all is_digit s)"

definition bigint_of_string :: "string \<Rightarrow> js_error + int" where
  "bigint_of_string s =
     (let t = trim s in
      if t = [] then Inr 0
      else if all_digits t then Inr (digits_value 0 t)
      else if hd t = CHR ''-'' \<and> all_digits (tl t) then Inr (- digits_value 0 (tl t))
      else if hd t = CHR ''+'' \<and> all_digits (tl t) then Inr (digits_value 0 (tl t))
      else (case radix_literal t of
              Some n \<Rightarrow> Inr n
            | None \<Rightarrow> Inl (SyntaxError (''Cannot convert '' @ s @ '' to a BigInt''))))"

section \<open>Printing numbers\<close>

text \<open>
  \<open>dec_exp x\<close> is the \<open>n\<close> with \<open>10 ^ (n - 1) \<le> x < 10 ^ n\<close>; binary64 magnitudes need
  at most 400 steps on either side.
\<close>

fun dec_exp_down :: "nat \<Rightarrow> rat \<Rightarrow> int" where
  "dec_exp_down 0 x = 0"
| "dec_exp_down (Suc f) x = (if 1 \<le> x * 10 then 0 else dec_exp_down f (x * 10) - 1)"

definition dec_exp :: "rat \<Rightarrow> int" where
  "dec_exp x = (if 1 \<le> x then int (length (show_dec \<lfloor>x\<rfloor>)) else dec_exp_down 400 x)"

text \<open>The shortest digits that read back as \<open>x\<close>: candidates of \<open>k\<close> digits around \<open>x\<close>.\<close>

definition shortest_at :: "rat \<Rightarrow> int \<Rightarrow> nat \<Rightarrow> int option" where
  "shortest_at x n k =
     (let u = 10 powi (n - int k); lo = \<lfloor>x / u\<rfloor>; hi = lo + 1;
          okl = (rnd (of_int lo * u) = x); okh = (rnd (of_int hi * u) = x)
      in if okl \<and> okh then Some (if x - of_int lo * u \<le> of_int hi * u - x then lo else hi)
         else if okl then Some lo else if okh then Some hi else None)"

fun shortest_from :: "rat \<Rightarrow> int \<Rightarrow> nat list \<Rightarrow> int \<times> nat" where
  "shortest_from x n [] = (0, 1)"
| "shortest_from x n (k # ks) =
     (case shortest_at x n k of Some s \<Rightarrow> (s, k) | None \<Rightarrow> shortest_from x n ks)"

definition zeros :: "nat \<Rightarrow> string" where
  "zeros k = replicate k (CHR ''0'')"

definition show_exponent :: "string \<Rightarrow> int \<Rightarrow> string" where
  "show_exponent ds e =
     (case ds of
        [] \<Rightarrow> []
      | [d] \<Rightarrow> [d]
      | d # rest \<Rightarrow> d # CHR ''.'' # rest)
     @ (if e < 0 then ''e-'' @ show_dec (- e) else ''e+'' @ show_dec e)"

definition layout_digits :: "string \<Rightarrow> int \<Rightarrow> string" where
  "layout_digits ds n =
     (let k = int (length ds) in
      if k \<le> n \<and> n \<le> 21 then ds @ zeros (nat (n - k))
      else if 0 < n \<and> n \<le> 21 then take (nat n) ds @ ''.'' @ drop (nat n) ds
      else if - 6 < n \<and> n \<le> 0 then ''0.'' @ zeros (nat (- n)) @ ds
      else show_exponent ds (n - 1))"

definition show_pos :: "rat \<Rightarrow> string" where
  "show_pos x =
     (if x = of_int \<lfloor>x\<rfloor> \<and> x \<le> 2 ^ 53 then show_dec \<lfloor>x\<rfloor>
      else (let n = dec_exp x; (s, k) = shortest_from x n [1..<18];
                n' = (if s = 10 ^ k then n + 1 else n);
                ds = (if s = 10 ^ k then ''1'' else show_dec s)
            in layout_digits ds n'))"

fun num_to_string :: "jsnum \<Rightarrow> string" where
  "num_to_string NaN = ''NaN''"
| "num_to_string PInf = ''Infinity''"
| "num_to_string NInf = ''-Infinity''"
| "num_to_string (Fin x) = (if x < 0 then ''-'' @ show_pos (- x) else show_pos x)"

text \<open>\<^verbatim>\<open>x.toFixed(d)\<close>: the nearest multiple of \<open>10 ^ -d\<close>, the larger one on a tie.\<close>

definition fixed_digits :: "nat \<Rightarrow> int \<Rightarrow> string" where
  "fixed_digits d n =
     (let m = show_dec n;
          z = (if length m \<le> d then zeros (d + 1 - length m) @ m else m);
          k = length z - d
      in if d = 0 then m else take k z @ ''.'' @ drop k z)"

definition fixed_pos :: "nat \<Rightarrow> rat \<Rightarrow> string" where
  "fixed_pos d x = fixed_digits d \<lfloor>x * 10 ^ d + 1 / 2\<rfloor>"

fun toFixed :: "nat \<Rightarrow> jsnum \<Rightarrow> string" where
  "toFixed d (Fin x) =
     (if 10 ^ 21 \<le> \<bar>x\<bar> then num_to_string (Fin x)
      else if x < 0 then ''-'' @ fixed_pos d (- x) else fixed_pos d x)"
| "toFixed d x = num_to_string x"

section \<open>Round trips\<close>

lemma takeWhile_digits [simp]: "list_all is_digit xs \<Longrightarrow> takeWhile is_digit (xs @ ys) = xs @ takeWhile is_digit ys"
  by (induction xs) auto

lemma dropWhile_digits [simp]: "list_all is_digit xs \<Longrightarrow> dropWhile is_digit (xs @ ys) = dropWhile is_digit ys"
  by (induction xs) auto

lemma takeWhile_all_digits [simp]: "list_all is_digit xs \<Longrightarrow> takeWhile is_digit xs = xs"
  by (induction xs) auto

lemma dropWhile_all_digits [simp]: "list_all is_digit xs \<Longrightarrow> dropWhile is_digit xs = []"
  by (induction xs) auto

lemma not_digit_dot [simp]: "\<not> is_digit (CHR ''.'')"
  by (simp add: is_digit_def digit_val_def)

lemma digit_not_sign: "is_digit c \<Longrightarrow> c \<noteq> CHR ''-'' \<and> c \<noteq> CHR ''+'' \<and> c \<noteq> CHR ''.'' \<and> \<not> is_space c"
  by (auto simp: is_digit_def digit_val_def is_space_def Let_def split: if_splits)

lemma trim_left_digits:
  "is_digit c \<Longrightarrow> trim_left (c # s) = c # s"
  using digit_not_sign[of c] by (simp add: trim_left_def)

lemma parseFloat_digit:
  assumes "is_digit c"
  shows "parseFloat (c # s) = parse_unsigned (c # s)"
  using assms digit_not_sign[of c] by (simp add: parseFloat_def trim_left_digits with_sign_def)

text \<open>A decimal with an integer and a fraction part reads as its digits scaled.\<close>

lemma parseFloat_decimal:
  assumes "ip \<noteq> []" "list_all is_digit ip" "list_all is_digit fp" "fp \<noteq> []"
  shows "parseFloat (ip @ ''.'' @ fp)
    = num_of_rat (of_int (digits_value 0 (ip @ fp)) / 10 ^ length fp)"
proof -
  obtain c ip' where ip: "ip = c # ip'" using assms(1) by (cases ip) auto
  have c: "is_digit c" using assms(2) ip by simp
  have "lit_decimal (ip @ ''.'' @ fp)
    = Some (of_int (digits_value 0 (ip @ fp)) * 10 powi (0 - int (length fp)), [])"
    using assms by (simp add: lit_decimal_def lit_exponent_def)
  moreover have "(of_int m * 10 powi (0 - int (length fp)) :: rat) = of_int m / 10 ^ length fp" for m
    by (simp add: power_int_minus divide_inverse)
  ultimately have "parse_unsigned (ip @ ''.'' @ fp)
    = num_of_rat (of_int (digits_value 0 (ip @ fp)) / 10 ^ length fp)"
    by (simp add: parse_unsigned_def)
  then show ?thesis using parseFloat_digit[OF c] by (simp add: ip)
qed

lemma list_all_zeros: "list_all is_digit (zeros k)"
  by (auto simp: zeros_def list_all_iff is_digit_def digit_val_def)

lemma digits_value_zeros: "digits_value 0 (zeros k @ xs) = digits_value 0 xs"
  by (induction k) (auto simp: zeros_def digit_val_def)

text \<open>
  Reading back a fixed-point numeral gives the rounded value of its digits: the printed
  amount and the number parsed from it differ only by one rounding.
\<close>

lemma parseFloat_fixed_digits:
  assumes "0 < d" "0 \<le> n"
  shows "parseFloat (fixed_digits d n) = num_of_rat (of_int n / 10 ^ d)"
proof -
  let ?m = "show_dec n"
  let ?z = "if length ?m \<le> d then zeros (d + 1 - length ?m) @ ?m else ?m"
  let ?k = "length ?z - d"
  have z: "list_all is_digit ?z" using show_dec_digits[OF assms(2)] by (auto simp: list_all_zeros)
  have len: "d < length ?z" by (auto simp: zeros_def)
  have val: "digits_value 0 ?z = n" using assms(2) by (simp add: digits_value_zeros)
  have split: "take ?k ?z @ drop ?k ?z = ?z" by (rule append_take_drop_id)
  have alls: "list_all is_digit (take ?k ?z)" "list_all is_digit (drop ?k ?z)"
    using z set_take_subset[of ?k ?z] set_drop_subset[of ?k ?z] by (auto simp only: list_all_iff)
  have ne: "take ?k ?z \<noteq> []" "drop ?k ?z \<noteq> []" "length (drop ?k ?z) = d"
    using len assms by (auto simp del: length_append)
  have "fixed_digits d n = take ?k ?z @ ''.'' @ drop ?k ?z"
    using assms by (simp add: fixed_digits_def Let_def)
  then show ?thesis
    using parseFloat_decimal[OF ne(1) alls ne(2)] by (simp only: split val ne(3))
qed

lemma bigint_of_show_dec [simp]: "0 \<le> n \<Longrightarrow> bigint_of_string (show_dec n) = Inr n"
proof -
  assume n: "0 \<le> n"
  have d: "list_all is_digit (show_dec n)" using n by (rule show_dec_digits)
  have nosp: "dropWhile is_space xs = xs" if "list_all is_digit xs" for xs
    using that digit_not_sign by (cases xs) auto
  have "trim (show_dec n) = show_dec n"
    using d by (simp add: trim_def nosp list_all_rev)
  then show ?thesis using d n by (simp add: bigint_of_string_def all_digits_def)
qed

lemma trim_digits: "list_all is_digit s \<Longrightarrow> trim s = s"
proof -
  assume d: "list_all is_digit s"
  have nosp: "dropWhile is_space xs = xs" if "list_all is_digit xs" for xs
    using that digit_not_sign by (cases xs) auto
  show ?thesis using d by (simp add: trim_def nosp list_all_rev)
qed

lemma bigint_of_digits: "all_digits s \<Longrightarrow> bigint_of_string s = Inr (digits_value 0 s) \<and> 0 \<le> digits_value 0 s"
  using trim_digits [of s] digits_value_nonneg [of s 0] by (simp add: bigint_of_string_def all_digits_def Let_def)

text \<open>\<^verbatim>\<open>s.includes(t)\<close>.\<close>

definition js_includes :: "string \<Rightarrow> string \<Rightarrow> bool" where
  "js_includes s t = list_ex (\<lambda>i. take (length t) (drop i s) = t) [0..<Suc (length s)]"

section \<open>Case and parts\<close>

definition to_lower :: "char \<Rightarrow> char" where
  "to_lower c = (let n = (of_char c :: int) in if 65 \<le> n \<and> n \<le> 90 then char_of (n + 32) else c)"

text \<open>\<^verbatim>\<open>s.split(c)\<close> for a single character.\<close>

fun split_on :: "char \<Rightarrow> string \<Rightarrow> string list" where
  "split_on c [] = [[]]"
| "split_on c (x # xs) = (if x = c then [] # split_on c xs else case split_on c xs of [] \<Rightarrow> [[x]] | y # ys \<Rightarrow> (x # y) # ys)"

end
