(* ===== verification/Js_Value.thy ===== *)
theory Js_Value
  imports Js_Text
begin

text \<open>
  Dynamically typed JavaScript values, for the places where the program receives data whose
  TypeScript type is only asserted (\<^verbatim>\<open>as Record<string, unknown>\<close>): decoded contract
  values, JSON bodies, stored strings.
\<close>

datatype jsval =
    JUndef
  | JNull
  | JBool bool
  | JNum jsnum
  | JBig int
  | JStr string
  | JArr "jsval list"
  | JObj "(string \<times> jsval) list"

text \<open>\<^verbatim>\<open>o[k]\<close>: a missing key of an object is \<^verbatim>\<open>undefined\<close>; reading from
  \<^verbatim>\<open>undefined\<close> or \<^verbatim>\<open>null\<close> throws.\<close>

fun js_field :: "jsval \<Rightarrow> string \<Rightarrow> js_error + jsval" where
  "js_field (JObj fs) k = Inr (case map_of fs k of Some v \<Rightarrow> v | None \<Rightarrow> JUndef)"
| "js_field JUndef k = Inl (TypeError ''Cannot read properties of undefined'')"
| "js_field JNull k = Inl (TypeError ''Cannot read properties of null'')"
| "js_field v k = Inr JUndef"

text \<open>\<^verbatim>\<open>Boolean(v)\<close>.\<close>

fun truthy :: "jsval \<Rightarrow> bool" where
  "truthy JUndef = False"
| "truthy JNull = False"
| "truthy (JBool b) = b"
| "truthy (JNum x) = num_truthy x"
| "truthy (JBig n) = (n \<noteq> 0)"
| "truthy (JStr s) = (s \<noteq> [])"
| "truthy (JArr _) = True"
| "truthy (JObj _) = True"

text \<open>\<^verbatim>\<open>String(v)\<close>; arrays join their elements with commas, \<^verbatim>\<open>null\<close> and
  \<^verbatim>\<open>undefined\<close> elements print empty.\<close>

fun js_string :: "jsval \<Rightarrow> string" where
  "js_string JUndef = ''undefined''"
| "js_string JNull = ''null''"
| "js_string (JBool b) = (if b then ''true'' else ''false'')"
| "js_string (JNum x) = num_to_string x"
| "js_string (JBig n) = show_int n"
| "js_string (JStr s) = s"
| "js_string (JArr vs) =
     join '','' (map (\<lambda>v. if v = JUndef \<or> v = JNull then '''' else js_string v) vs)"
| "js_string (JObj _) = ''[object Object]''"

text \<open>\<^verbatim>\<open>BigInt(v)\<close>.\<close>

fun js_bigint :: "jsval \<Rightarrow> js_error + int" where
  "js_bigint (JBig n) = Inr n"
| "js_bigint (JNum x) = bigint_of_num x"
| "js_bigint (JStr s) = bigint_of_string s"
| "js_bigint (JBool b) = Inr (if b then 1 else 0)"
| "js_bigint JUndef = Inl (TypeError ''Cannot convert undefined to a BigInt'')"
| "js_bigint JNull = Inl (TypeError ''Cannot convert null to a BigInt'')"
| "js_bigint v = bigint_of_string (js_string v)"

text \<open>\<^verbatim>\<open>Number(v)\<close>.\<close>

fun js_number :: "jsval \<Rightarrow> jsnum" where
  "js_number JUndef = NaN"
| "js_number JNull = Fin 0"
| "js_number (JBool b) = (if b then Fin 1 else Fin 0)"
| "js_number (JNum x) = x"
| "js_number (JBig n) = num_of_bigint n"
| "js_number (JStr s) = number_of_string s"
| "js_number v = number_of_string (js_string v)"

section \<open>Sequencing fallible conversions\<close>

definition rbind :: "js_error + 'a \<Rightarrow> ('a \<Rightarrow> js_error + 'b) \<Rightarrow> js_error + 'b" where
  "rbind r f = (case r of Inl e \<Rightarrow> Inl e | Inr a \<Rightarrow> f a)"

lemma rbind_simps [simp]:
  "rbind (Inr a) f = f a"
  "rbind (Inl e) f = Inl e"
  by (simp_all add: rbind_def)

lemma rbind_Inr_iff: "rbind r f = Inr b \<longleftrightarrow> (\<exists>a. r = Inr a \<and> f a = Inr b)"
  by (cases r) auto

text \<open>Arguments are evaluated from the left; the first exception wins.\<close>

fun seq_results :: "(js_error + 'a) list \<Rightarrow> js_error + 'a list" where
  "seq_results [] = Inr []"
| "seq_results (r # rs) = rbind r (\<lambda>a. rbind (seq_results rs) (\<lambda>as. Inr (a # as)))"

lemma seq_results_Inr_iff: "seq_results rs = Inr vs \<longleftrightarrow> rs = map Inr vs"
proof (induction rs arbitrary: vs)
  case Nil
  then show ?case by auto
next
  case (Cons r rs)
  then show ?case by (cases r) (auto simp: rbind_Inr_iff)
qed

end
