(* ===== verification/Sdk_Types.thy ===== *)
theory Sdk_Types
  imports Js_Value
begin

text \<open>
  The data of the TypeScript SDK (\<^verbatim>\<open>sdk/src/types.ts\<close>) and the decoder of a
  stream (\<^verbatim>\<open>sdk/src/convert.ts\<close>).

  The decoder copies \<^verbatim>\<open>status\<close>, the addresses and \<^verbatim>\<open>locked\<close> without a runtime
  check (\<^verbatim>\<open>as StreamStatus\<close> is erased), so these fields hold whatever the decoded contract
  value holds: their type here is \<^typ>\<open>jsval\<close>.
\<close>

record stream =
  sid :: int
  employer :: jsval
  employee :: jsval
  token :: jsval
  deposit :: int
  withdrawn :: int
  ratePerSecond :: int
  startTime :: int
  stopTime :: int
  lastWithdrawTime :: int
  cooldownPeriod :: int
  status :: jsval
  locked :: jsval
  cliffTime :: int
  pausedAt :: int

record stream_params =
  p_employee :: string
  p_token :: string
  p_deposit :: int
  p_ratePerSecond :: int
  p_stopTime :: int
  p_cliffTime :: int

record client_options =
  rpcUrl :: string
  networkPassphrase :: string
  contractId :: string

text \<open>The values of the \<^verbatim>\<open>StreamStatus\<close> union.\<close>

definition stream_statuses :: "string list" where
  "stream_statuses = [''Active'', ''Paused'', ''Cancelled'', ''Exhausted'']"

text \<open>\<^verbatim>\<open>stream.status === "Active"\<close>: strict equality with a string holds only for that string.\<close>

definition has_status :: "stream \<Rightarrow> string \<Rightarrow> bool" where
  "has_status s st = (status s = JStr st)"

abbreviation is_active :: "stream \<Rightarrow> bool" where
  "is_active s \<equiv> has_status s ''Active''"

definition well_typed_status :: "stream \<Rightarrow> bool" where
  "well_typed_status s = (\<exists>st \<in> set stream_statuses. status s = JStr st)"

section \<open>Decoding a stream\<close>

definition big_field :: "jsval \<Rightarrow> string \<Rightarrow> js_error + int" where
  "big_field native k = rbind (js_field native k) js_bigint"

text \<open>
  \<^verbatim>\<open>scValToStream\<close>: \<open>scValToNative\<close> is the Stellar SDK's decoder; the fields are read in
  the order the object literal lists them.
\<close>

definition stream_of_native :: "jsval \<Rightarrow> js_error + stream" where
  "stream_of_native native =
     rbind (big_field native ''id'') (\<lambda>i.
     rbind (js_field native ''employer'') (\<lambda>er.
     rbind (js_field native ''employee'') (\<lambda>ee.
     rbind (js_field native ''token'') (\<lambda>tk.
     rbind (big_field native ''deposit'') (\<lambda>dep.
     rbind (big_field native ''withdrawn'') (\<lambda>wd.
     rbind (big_field native ''rate_per_second'') (\<lambda>rate.
     rbind (big_field native ''start_time'') (\<lambda>st.
     rbind (big_field native ''stop_time'') (\<lambda>sp.
     rbind (big_field native ''last_withdraw_time'') (\<lambda>lw.
     rbind (big_field native ''cooldown_period'') (\<lambda>cd.
     rbind (js_field native ''status'') (\<lambda>stat.
     rbind (js_field native ''locked'') (\<lambda>lk.
     rbind (big_field native ''cliff_time'') (\<lambda>cl.
     rbind (big_field native ''paused_at'') (\<lambda>pa.
       Inr \<lparr>sid = i, employer = er, employee = ee, token = tk, deposit = dep, withdrawn = wd,
         ratePerSecond = rate, startTime = st, stopTime = sp, lastWithdrawTime = lw,
         cooldownPeriod = cd, status = stat, locked = lk, cliffTime = cl,
         pausedAt = pa\<rparr>)))))))))))))))"

definition scValToStream :: "('v \<Rightarrow> jsval) \<Rightarrow> 'v \<Rightarrow> js_error + stream" where
  "scValToStream scValToNative v = stream_of_native (scValToNative v)"

section \<open>What the contract stores\<close>

text \<open>
  The contract's \<^verbatim>\<open>Stream\<close> and its status (\<^verbatim>\<open>contracts/stream/src/types.rs\<close>).
  Unsigned 64-bit and signed 128-bit integers are kept as \<^typ>\<open>int\<close> with their ranges in
  \<open>contract_stream_ok\<close>.
\<close>

datatype stream_status = Active | Paused | Cancelled | Exhausted

record contract_stream =
  cs_id :: int
  cs_employer :: string
  cs_employee :: string
  cs_token :: string
  cs_deposit :: int
  cs_withdrawn :: int
  cs_rate_per_second :: int
  cs_start_time :: int
  cs_stop_time :: int
  cs_last_withdraw_time :: int
  cs_cooldown_period :: int
  cs_status :: stream_status
  cs_locked :: bool
  cs_cliff_time :: int
  cs_paused_at :: int
  cs_delegate :: "string option"

fun status_name :: "stream_status \<Rightarrow> string" where
  "status_name Active = ''Active''"
| "status_name Paused = ''Paused''"
| "status_name Cancelled = ''Cancelled''"
| "status_name Exhausted = ''Exhausted''"

definition u64 :: "int \<Rightarrow> bool" where
  "u64 n = (0 \<le> n \<and> n < 2 ^ 64)"

definition i128 :: "int \<Rightarrow> bool" where
  "i128 n = (- (2 ^ 127) \<le> n \<and> n < 2 ^ 127)"

text \<open>
  The native form of a stored stream: a map from field symbols to values, integers as
  \<^verbatim>\<open>bigint\<close>s, addresses as strings; \<open>enc_status\<close> is the form of the status. The
  contract's snapshots (\<^verbatim>\<open>contracts/stream/test_snapshots\<close>) show an enum variant as a
  one-element vector holding the variant's symbol.
\<close>

definition native_of_stream :: "(stream_status \<Rightarrow> jsval) \<Rightarrow> contract_stream \<Rightarrow> jsval" where
  "native_of_stream enc_status s = JObj
     [(''cliff_time'', JBig (cs_cliff_time s)),
      (''cooldown_period'', JBig (cs_cooldown_period s)),
      (''delegate'', case cs_delegate s of None \<Rightarrow> JNull | Some a \<Rightarrow> JStr a),
      (''deposit'', JBig (cs_deposit s)),
      (''employee'', JStr (cs_employee s)),
      (''employer'', JStr (cs_employer s)),
      (''id'', JBig (cs_id s)),
      (''last_withdraw_time'', JBig (cs_last_withdraw_time s)),
      (''locked'', JBool (cs_locked s)),
      (''paused_at'', JBig (cs_paused_at s)),
      (''rate_per_second'', JBig (cs_rate_per_second s)),
      (''start_time'', JBig (cs_start_time s)),
      (''status'', enc_status (cs_status s)),
      (''stop_time'', JBig (cs_stop_time s)),
      (''token'', JStr (cs_token s)),
      (''withdrawn'', JBig (cs_withdrawn s))]"

definition enum_as_vec :: "stream_status \<Rightarrow> jsval" where
  "enum_as_vec st = JArr [JStr (status_name st)]"

definition stream_view :: "(stream_status \<Rightarrow> jsval) \<Rightarrow> contract_stream \<Rightarrow> stream" where
  "stream_view enc_status s =
     \<lparr>sid = cs_id s, employer = JStr (cs_employer s), employee = JStr (cs_employee s),
      token = JStr (cs_token s), deposit = cs_deposit s, withdrawn = cs_withdrawn s,
      ratePerSecond = cs_rate_per_second s, startTime = cs_start_time s,
      stopTime = cs_stop_time s, lastWithdrawTime = cs_last_withdraw_time s,
      cooldownPeriod = cs_cooldown_period s, status = enc_status (cs_status s),
      locked = JBool (cs_locked s), cliffTime = cs_cliff_time s, pausedAt = cs_paused_at s\<rparr>"

lemma big_field_obj [simp]:
  "big_field (JObj fs) k = (case map_of fs k of Some v \<Rightarrow> js_bigint v | None \<Rightarrow> js_bigint JUndef)"
  by (simp add: big_field_def split: option.split)

text \<open>Decoding is exact: every integer field comes back at full width.\<close>

lemma stream_of_native_of_stream:
  "stream_of_native (native_of_stream enc_status s) = Inr (stream_view enc_status s)"
  by (simp add: stream_of_native_def native_of_stream_def stream_view_def)

end
