(* ===== verification/Sdk_Client.thy ===== *)
theory Sdk_Client
  imports Sdk_Types
begin

text \<open>
  \<^verbatim>\<open>PayStreamClient\<close> (\<^verbatim>\<open>sdk/src/client.ts\<close>). The Stellar SDK and the Soroban RPC
  server are not part of the repository: the record \<open>stellar\<close> holds the functions the client
  calls on them, as parameters. \<open>'w\<close> is the world (ledger, server, clock), \<open>'a\<close> an
  account, \<open>'t\<close> a transaction and \<open>'v\<close> a contract value.
\<close>

section \<open>The functions of the Stellar SDK the client calls\<close>

text \<open>What is handed to \<^verbatim>\<open>TransactionBuilder\<close>: one contract call with its options.\<close>

record ('a, 'v) tx_request =
  r_account :: 'a
  r_fee :: string
  r_passphrase :: string
  r_contract :: string
  r_method :: string
  r_args :: "'v list"
  r_timeout :: int

datatype 'v sim_result = SimError string | SimSuccess "'v option"

record send_result =
  send_status :: string
  send_hash :: string
  send_error :: string

record ('w, 'a, 't, 'v) stellar =
  getAccount :: "string \<Rightarrow> ('w, 'a) io"
  buildTransaction :: "('a, 'v) tx_request \<Rightarrow> js_error + 't"
  simulateTransaction :: "'t \<Rightarrow> ('w, 'v sim_result) io"
  assembleXDR :: "'t \<Rightarrow> 'v sim_result \<Rightarrow> js_error + string"
  fromXDR :: "string \<Rightarrow> string \<Rightarrow> js_error + 't"
  sendTransaction :: "'t \<Rightarrow> ('w, send_result) io"
  getTransaction :: "string \<Rightarrow> ('w, string) io"
  sleep :: "int \<Rightarrow> ('w, unit) io"
  BASE_FEE :: string
  nativeToScVal :: "int \<Rightarrow> string \<Rightarrow> js_error + 'v"
  addressToScVal :: "string \<Rightarrow> js_error + 'v"
  scvSymbol :: "string \<Rightarrow> 'v"
  scvMap :: "('v \<times> 'v) list \<Rightarrow> 'v"
  scvVec :: "'v list \<Rightarrow> 'v"
  scValToNative :: "'v \<Rightarrow> jsval"

definition TIMEOUT_SECONDS :: int where
  "TIMEOUT_SECONDS = 30"

text \<open>The account used for read-only simulations.\<close>

definition read_account :: string where
  "read_account = ''GAAZI4TCR3TY5OJHCTJC2A4QSY6CJWJH5IAJTGKIN2ER7LBNVKOCCWN''"

definition result_error :: "string \<Rightarrow> js_error" where
  "result_error e = Error (''Simulation failed: '' @ e)"

section \<open>Building, simulating, submitting\<close>

definition build_request ::
  "('w, 'a, 't, 'v) stellar \<Rightarrow> client_options \<Rightarrow> string \<Rightarrow> 'a \<Rightarrow> string \<Rightarrow> 'v list \<Rightarrow> js_error + 't" where
  "build_request S c contract account method args =
     buildTransaction S \<lparr>r_account = account, r_fee = BASE_FEE S,
       r_passphrase = networkPassphrase c, r_contract = contract, r_method = method,
       r_args = args, r_timeout = TIMEOUT_SECONDS\<rparr>"

definition buildTx ::
  "('w, 'a, 't, 'v) stellar \<Rightarrow> client_options \<Rightarrow> string \<Rightarrow> string \<Rightarrow> 'v list \<Rightarrow> ('w, string) io" where
  "buildTx S c callerPublicKey method args =
     bind (getAccount S callerPublicKey) (\<lambda>account.
     bind (of_result (build_request S c (contractId c) account method args)) (\<lambda>tx.
     bind (simulateTransaction S tx) (\<lambda>simResult.
       case simResult of
         SimError e \<Rightarrow> throw (result_error e)
       | SimSuccess r \<Rightarrow> of_result (assembleXDR S tx (SimSuccess r)))))"

text \<open>A read-only call: simulate and return the contract's value. \<^verbatim>\<open>getTokenBalance\<close>
  repeats this code for another contract, hence the parameter \<open>contract\<close>.\<close>

definition simulate_call ::
  "('w, 'a, 't, 'v) stellar \<Rightarrow> client_options \<Rightarrow> string \<Rightarrow> string \<Rightarrow> 'v list \<Rightarrow> ('w, 'v) io" where
  "simulate_call S c contract method args =
     bind (getAccount S read_account) (\<lambda>account.
     bind (of_result (build_request S c contract account method args)) (\<lambda>tx.
     bind (simulateTransaction S tx) (\<lambda>simResult.
       case simResult of
         SimError e \<Rightarrow> throw (result_error e)
       | SimSuccess None \<Rightarrow> throw (Error ''No result from simulation'')
       | SimSuccess (Some v) \<Rightarrow> ret v)))"

definition simulateRead ::
  "('w, 'a, 't, 'v) stellar \<Rightarrow> client_options \<Rightarrow> string \<Rightarrow> 'v list \<Rightarrow> ('w, 'v) io" where
  "simulateRead S c method args = simulate_call S c (contractId c) method args"

text \<open>
  The confirmation loop of \<^verbatim>\<open>submitTransaction\<close>: \<open>k\<close> iterations are left; each waits
  1.5 seconds and asks for the status.
\<close>

fun confirm_loop :: "('w, 'a, 't, 'v) stellar \<Rightarrow> string \<Rightarrow> nat \<Rightarrow> ('w, string) io" where
  "confirm_loop S hash 0 = throw (Error (''Transaction not confirmed after timeout: '' @ hash))"
| "confirm_loop S hash (Suc k) =
     bind (sleep S 1500) (\<lambda>_.
     bind (getTransaction S hash) (\<lambda>st.
       if st = ''SUCCESS'' then ret hash
       else if st = ''FAILED'' then throw (Error (''Transaction failed: '' @ hash))
       else confirm_loop S hash k))"

definition submitTransaction ::
  "('w, 'a, 't, 'v) stellar \<Rightarrow> client_options \<Rightarrow> string \<Rightarrow> ('w, string) io" where
  "submitTransaction S c signedXdr =
     bind (of_result (fromXDR S signedXdr (networkPassphrase c))) (\<lambda>tx.
     bind (sendTransaction S tx) (\<lambda>sent.
       if send_status sent = ''ERROR'' then throw (Error (''Submit failed: '' @ send_error sent))
       else confirm_loop S (send_hash sent) 20))"

section \<open>Arguments of contract calls\<close>

text \<open>
  The arguments the methods pass, before their encoding: an address, or a \<^verbatim>\<open>bigint\<close> with
  the integer type it is encoded at, or the vector of batch entries.
\<close>

datatype call_arg = AddressArg string | IntArg int string | ParamsArg "stream_params list"

definition param_entry ::
  "('w, 'a, 't, 'v) stellar \<Rightarrow> string \<Rightarrow> js_error + 'v \<Rightarrow> js_error + ('v \<times> 'v)" where
  "param_entry S k r = rbind r (\<lambda>v. Inr (scvSymbol S k, v))"

text \<open>One \<^verbatim>\<open>scvMap\<close> of \<^verbatim>\<open>createStreamsBatch\<close>, entries in the order of the source.\<close>

definition encode_params ::
  "('w, 'a, 't, 'v) stellar \<Rightarrow> stream_params \<Rightarrow> js_error + 'v" where
  "encode_params S p =
     rbind (seq_results
       [param_entry S ''employee'' (addressToScVal S (p_employee p)),
        param_entry S ''token'' (addressToScVal S (p_token p)),
        param_entry S ''deposit'' (nativeToScVal S (p_deposit p) ''i128''),
        param_entry S ''rate_per_second'' (nativeToScVal S (p_ratePerSecond p) ''i128''),
        param_entry S ''stop_time'' (nativeToScVal S (p_stopTime p) ''u64''),
        param_entry S ''cliff_time'' (nativeToScVal S (p_cliffTime p) ''u64'')])
       (\<lambda>es. Inr (scvMap S es))"

fun encode_arg :: "('w, 'a, 't, 'v) stellar \<Rightarrow> call_arg \<Rightarrow> js_error + 'v" where
  "encode_arg S (AddressArg a) = addressToScVal S a"
| "encode_arg S (IntArg n ty) = nativeToScVal S n ty"
| "encode_arg S (ParamsArg ps) =
     rbind (seq_results (map (encode_params S) ps)) (\<lambda>vs. Inr (scvVec S vs))"

type_synonym contract_call = "string \<times> call_arg list"

definition encode_args ::
  "('w, 'a, 't, 'v) stellar \<Rightarrow> call_arg list \<Rightarrow> js_error + 'v list" where
  "encode_args S args = seq_results (map (encode_arg S) args)"

definition sdk_invoke ::
  "('w, 'a, 't, 'v) stellar \<Rightarrow> client_options \<Rightarrow> string \<Rightarrow> contract_call \<Rightarrow> ('w, string) io" where
  "sdk_invoke S c caller call =
     bind (of_result (encode_args S (snd call))) (\<lambda>vs. buildTx S c caller (fst call) vs)"

definition read_call ::
  "('w, 'a, 't, 'v) stellar \<Rightarrow> client_options \<Rightarrow> contract_call \<Rightarrow> ('w, 'v) io" where
  "read_call S c call =
     bind (of_result (encode_args S (snd call))) (\<lambda>vs. simulateRead S c (fst call) vs)"

section \<open>Read-only methods\<close>

definition read_bigint ::
  "('w, 'a, 't, 'v) stellar \<Rightarrow> 'v \<Rightarrow> ('w, int) io" where
  "read_bigint S v = of_result (js_bigint (scValToNative S v))"

definition getStream_call :: "int \<Rightarrow> contract_call" where
  "getStream_call streamId = (''get_stream'', [IntArg streamId ''u64''])"

definition getStream ::
  "('w, 'a, 't, 'v) stellar \<Rightarrow> client_options \<Rightarrow> int \<Rightarrow> ('w, stream) io" where
  "getStream S c streamId =
     bind (read_call S c (getStream_call streamId)) (\<lambda>v.
       of_result (scValToStream (scValToNative S) v))"

definition claimable_call :: "int \<Rightarrow> contract_call" where
  "claimable_call streamId = (''claimable'', [IntArg streamId ''u64''])"

definition claimable ::
  "('w, 'a, 't, 'v) stellar \<Rightarrow> client_options \<Rightarrow> int \<Rightarrow> ('w, int) io" where
  "claimable S c streamId = bind (read_call S c (claimable_call streamId)) (read_bigint S)"

definition claimableAt_call :: "int \<Rightarrow> int \<Rightarrow> contract_call" where
  "claimableAt_call streamId timestamp =
     (''claimable_at'', [IntArg streamId ''u64'', IntArg timestamp ''u64''])"

definition claimableAt ::
  "('w, 'a, 't, 'v) stellar \<Rightarrow> client_options \<Rightarrow> int \<Rightarrow> int \<Rightarrow> ('w, int) io" where
  "claimableAt S c streamId timestamp =
     bind (read_call S c (claimableAt_call streamId timestamp)) (read_bigint S)"

definition streamCount_call :: contract_call where
  "streamCount_call = (''stream_count'', [])"

definition streamCount ::
  "('w, 'a, 't, 'v) stellar \<Rightarrow> client_options \<Rightarrow> ('w, int) io" where
  "streamCount S c = bind (read_call S c streamCount_call) (read_bigint S)"

definition adminNonce_call :: contract_call where
  "adminNonce_call = (''admin_nonce'', [])"

definition adminNonce ::
  "('w, 'a, 't, 'v) stellar \<Rightarrow> client_options \<Rightarrow> ('w, int) io" where
  "adminNonce S c = bind (read_call S c adminNonce_call) (read_bigint S)"

text \<open>The user's address is encoded after the account was fetched, as in the source.\<close>

definition getTokenBalance ::
  "('w, 'a, 't, 'v) stellar \<Rightarrow> client_options \<Rightarrow> string \<Rightarrow> string \<Rightarrow> ('w, int) io" where
  "getTokenBalance S c tokenAddress userAddress =
     bind (getAccount S read_account) (\<lambda>account.
     bind (of_result (addressToScVal S userAddress)) (\<lambda>user.
     bind (of_result (build_request S c tokenAddress account ''balance'' [user])) (\<lambda>tx.
     bind (simulateTransaction S tx) (\<lambda>simResult.
       case simResult of
         SimError e \<Rightarrow> throw (result_error e)
       | SimSuccess None \<Rightarrow> throw (Error ''No result from simulation'')
       | SimSuccess (Some v) \<Rightarrow> read_bigint S v))))"

section \<open>Mutating methods\<close>

text \<open>Each returns the XDR of a prepared, unsigned transaction.\<close>

definition initialize_call :: "string \<Rightarrow> contract_call" where
  "initialize_call admin = (''initialize'', [AddressArg admin])"

definition initialize where
  "initialize S c admin = sdk_invoke S c admin (initialize_call admin)"

definition createStream_call ::
  "string \<Rightarrow> string \<Rightarrow> string \<Rightarrow> int \<Rightarrow> int \<Rightarrow> int \<Rightarrow> int \<Rightarrow> int \<Rightarrow> contract_call" where
  "createStream_call er ee tokenAddress dep rate stopT cooldown cliff =
     (''create_stream'',
      [AddressArg er, AddressArg ee, AddressArg tokenAddress,
       IntArg dep ''i128'', IntArg rate ''i128'', IntArg stopT ''u64'',
       IntArg cooldown ''u64'', IntArg cliff ''u64''])"

definition createStream where
  "createStream S c er ee tokenAddress dep rate stopT cooldown cliff =
     sdk_invoke S c er (createStream_call er ee tokenAddress dep rate stopT cooldown cliff)"

definition createStreamsBatch_call :: "string \<Rightarrow> stream_params list \<Rightarrow> contract_call" where
  "createStreamsBatch_call er params =
     (''create_streams_batch'', [AddressArg er, ParamsArg params])"

text \<open>The batch vector is built before the employer's address is encoded.\<close>

definition createStreamsBatch where
  "createStreamsBatch S c er params =
     bind (of_result (encode_arg S (ParamsArg params))) (\<lambda>ps.
     bind (of_result (addressToScVal S er)) (\<lambda>e.
       buildTx S c er ''create_streams_batch'' [e, ps]))"

definition withdraw_call :: "string \<Rightarrow> int \<Rightarrow> int option \<Rightarrow> contract_call" where
  "withdraw_call ee streamId amount =
     (''withdraw'',
      [AddressArg ee, IntArg streamId ''u64'',
       IntArg (case amount of None \<Rightarrow> 0 | Some a \<Rightarrow> a) ''i128''])"

definition withdraw where
  "withdraw S c ee streamId amount =
     sdk_invoke S c ee (withdraw_call ee streamId amount)"

definition updateRate_call :: "string \<Rightarrow> int \<Rightarrow> int \<Rightarrow> contract_call" where
  "updateRate_call er streamId newRate =
     (''update_rate'', [AddressArg er, IntArg streamId ''u64'', IntArg newRate ''i128''])"

definition updateRate where
  "updateRate S c er streamId newRate =
     sdk_invoke S c er (updateRate_call er streamId newRate)"

definition proposeAdmin_call :: "string \<Rightarrow> string \<Rightarrow> contract_call" where
  "proposeAdmin_call currentAdmin newAdmin =
     (''propose_admin'', [AddressArg currentAdmin, AddressArg newAdmin])"

definition proposeAdmin where
  "proposeAdmin S c currentAdmin newAdmin =
     sdk_invoke S c currentAdmin (proposeAdmin_call currentAdmin newAdmin)"

definition acceptAdmin_call :: "string \<Rightarrow> contract_call" where
  "acceptAdmin_call newAdmin = (''accept_admin'', [AddressArg newAdmin])"

definition acceptAdmin where
  "acceptAdmin S c newAdmin = sdk_invoke S c newAdmin (acceptAdmin_call newAdmin)"

definition pauseContract_call :: "string \<Rightarrow> int \<Rightarrow> contract_call" where
  "pauseContract_call admin nonce = (''pause_contract'', [AddressArg admin, IntArg nonce ''u64''])"

definition pauseContract where
  "pauseContract S c admin nonce = sdk_invoke S c admin (pauseContract_call admin nonce)"

definition unpauseContract_call :: "string \<Rightarrow> int \<Rightarrow> contract_call" where
  "unpauseContract_call admin nonce = (''unpause_contract'', [AddressArg admin, IntArg nonce ''u64''])"

definition unpauseContract where
  "unpauseContract S c admin nonce = sdk_invoke S c admin (unpauseContract_call admin nonce)"

definition setMinDeposit_call :: "string \<Rightarrow> int \<Rightarrow> int \<Rightarrow> contract_call" where
  "setMinDeposit_call admin nonce amount =
     (''set_min_deposit'', [AddressArg admin, IntArg nonce ''u64'', IntArg amount ''i128''])"

definition setMinDeposit where
  "setMinDeposit S c admin nonce amount = sdk_invoke S c admin (setMinDeposit_call admin nonce amount)"

definition topUp_call :: "string \<Rightarrow> int \<Rightarrow> int \<Rightarrow> contract_call" where
  "topUp_call er streamId amount =
     (''top_up'', [AddressArg er, IntArg streamId ''u64'', IntArg amount ''i128''])"

definition topUp where
  "topUp S c er streamId amount = sdk_invoke S c er (topUp_call er streamId amount)"

definition pauseStream_call :: "string \<Rightarrow> int \<Rightarrow> contract_call" where
  "pauseStream_call er streamId = (''pause_stream'', [AddressArg er, IntArg streamId ''u64''])"

definition pauseStream where
  "pauseStream S c er streamId = sdk_invoke S c er (pauseStream_call er streamId)"

definition resumeStream_call :: "string \<Rightarrow> int \<Rightarrow> contract_call" where
  "resumeStream_call er streamId = (''resume_stream'', [AddressArg er, IntArg streamId ''u64''])"

definition resumeStream where
  "resumeStream S c er streamId = sdk_invoke S c er (resumeStream_call er streamId)"

definition cancelStream_call :: "string \<Rightarrow> int \<Rightarrow> contract_call" where
  "cancelStream_call er streamId = (''cancel_stream'', [AddressArg er, IntArg streamId ''u64''])"

definition cancelStream where
  "cancelStream S c er streamId = sdk_invoke S c er (cancelStream_call er streamId)"

end
