(* ===== verification/Sdk_Contract.thy ===== *)
theory Sdk_Contract
  imports Sdk_Client
begin

text \<open>
  The client against the contract it calls. \<open>contract_abi\<close> lists the argument types of the
  contract's entry points (\<^verbatim>\<open>contracts/stream/src/lib.rs\<close>); \<open>example_stellar\<close> is a
  concrete instance of the client's parameters, an in-memory ledger, on which the theorems
  about the client are run.
\<close>

section \<open>Entry points of the contract\<close>

datatype abi_type = TAddress | TI128 | TU64 | TParams

definition contract_abi :: "string \<Rightarrow> abi_type list option" where
  "contract_abi = map_of
     [(''initialize'', [TAddress]),
      (''propose_admin'', [TAddress, TAddress]),
      (''accept_admin'', [TAddress]),
      (''pause_contract'', [TAddress, TU64]),
      (''unpause_contract'', [TAddress, TU64]),
      (''set_min_deposit'', [TAddress, TU64, TI128]),
      (''create_stream'', [TAddress, TAddress, TAddress, TI128, TI128, TU64, TU64, TU64]),
      (''create_streams_batch'', [TAddress, TParams]),
      (''withdraw'', [TAddress, TU64]),
      (''top_up'', [TAddress, TU64, TI128]),
      (''pause_stream'', [TAddress, TU64]),
      (''resume_stream'', [TAddress, TU64]),
      (''cancel_stream'', [TAddress, TU64]),
      (''update_rate'', [TAddress, TU64, TI128]),
      (''get_stream'', [TU64]),
      (''claimable'', [TU64]),
      (''claimable_at'', [TU64, TU64]),
      (''stream_count'', []),
      (''admin_nonce'', [])]"

fun arg_type :: "call_arg \<Rightarrow> abi_type option" where
  "arg_type (AddressArg _) = Some TAddress"
| "arg_type (IntArg _ ty) =
     (if ty = ''i128'' then Some TI128 else if ty = ''u64'' then Some TU64 else None)"
| "arg_type (ParamsArg _) = Some TParams"

definition conforms :: "contract_call \<Rightarrow> bool" where
  "conforms call =
     (case contract_abi (fst call) of
        None \<Rightarrow> False
      | Some ts \<Rightarrow> map arg_type (snd call) = map Some ts)"

section \<open>A concrete ledger\<close>

text \<open>Streams by identifier, the answers still to come from \<^verbatim>\<open>getTransaction\<close>, and the
  elapsed time in milliseconds.\<close>

record ledger =
  l_streams :: "contract_stream list"
  l_statuses :: "string list"
  l_clock :: int

definition ledger_read :: "ledger \<Rightarrow> string \<Rightarrow> jsval list \<Rightarrow> jsval sim_result" where
  "ledger_read l m args =
     (if m = ''stream_count'' then SimSuccess (Some (JBig (int (length (l_streams l)))))
      else if m = ''get_stream'' then
        (case find (\<lambda>s. [JBig (cs_id s)] = args) (l_streams l) of
           Some s \<Rightarrow> SimSuccess (Some (native_of_stream enum_as_vec s))
         | None \<Rightarrow> SimError ''stream not found'')
      else SimSuccess (Some (JBig 0)))"

definition example_stellar :: "(ledger, string, string \<times> jsval list, jsval) stellar" where
  "example_stellar =
     \<lparr>getAccount = ret,
      buildTransaction = (\<lambda>r. Inr (r_method r, r_args r)),
      simulateTransaction = (\<lambda>t. gets (\<lambda>l. ledger_read l (fst t) (snd t))),
      assembleXDR = (\<lambda>t _. Inr (fst t)),
      fromXDR = (\<lambda>x _. Inr (x, [])),
      sendTransaction = (\<lambda>t. ret \<lparr>send_status = ''PENDING'', send_hash = fst t, send_error = ''''\<rparr>),
      getTransaction = (\<lambda>h l. case l_statuses l of
          [] \<Rightarrow> (Inr ''NOT_FOUND'', l)
        | st # sts \<Rightarrow> (Inr st, l\<lparr>l_statuses := sts\<rparr>)),
      sleep = (\<lambda>ms. modify (\<lambda>l. l\<lparr>l_clock := l_clock l + ms\<rparr>)),
      BASE_FEE = ''100'',
      nativeToScVal = (\<lambda>n _. Inr (JBig n)),
      addressToScVal = (\<lambda>a. Inr (JStr a)),
      scvSymbol = JStr,
      scvMap = (\<lambda>es. JArr (map (\<lambda>(k, v). JArr [k, v]) es)),
      scvVec = JArr,
      scValToNative = (\<lambda>v. v)\<rparr>"

definition example_client :: client_options where
  "example_client = \<lparr>rpcUrl = ''https://soroban-testnet.stellar.org'',
     networkPassphrase = ''Test SDF Network ; September 2015'', contractId = ''C1''\<rparr>"

definition example_stream :: contract_stream where
  "example_stream = \<lparr>cs_id = 1, cs_employer = ''GE'', cs_employee = ''GW'', cs_token = ''CT'',
     cs_deposit = 1000, cs_withdrawn = 100, cs_rate_per_second = 2, cs_start_time = 50,
     cs_stop_time = 0, cs_last_withdraw_time = 100, cs_cooldown_period = 0, cs_status = Active,
     cs_locked = False, cs_cliff_time = 0, cs_paused_at = 0, cs_delegate = None\<rparr>"

lemmas example_defs = example_stellar_def example_client_def example_stream_def ledger_read_def

section \<open>Confirmation polls\<close>

text \<open>One round of the confirmation loop, and the answer of the \<open>i\<close>-th round.\<close>

definition poll_round :: "('w, 'a, 't, 'v) stellar \<Rightarrow> string \<Rightarrow> ('w, string) io" where
  "poll_round S hash = bind (sleep S 1500) (\<lambda>_. getTransaction S hash)"

fun nth_poll :: "('w, 'a, 't, 'v) stellar \<Rightarrow> string \<Rightarrow> nat \<Rightarrow> ('w, string) io" where
  "nth_poll S hash 0 w = poll_round S hash w"
| "nth_poll S hash (Suc i) w = nth_poll S hash i (snd (poll_round S hash w))"

definition undecided :: "js_error + string \<Rightarrow> bool" where
  "undecided r = (\<exists>st. r = Inr st \<and> st \<noteq> ''SUCCESS'' \<and> st \<noteq> ''FAILED'')"

lemma confirm_loop_Suc:
  "confirm_loop S hash (Suc k) w =
     (case poll_round S hash w of
        (Inl e, w') \<Rightarrow> (Inl e, w')
      | (Inr st, w') \<Rightarrow>
          if st = ''SUCCESS'' then (Inr hash, w')
          else if st = ''FAILED'' then (Inl (Error (''Transaction failed: '' @ hash)), w')
          else confirm_loop S hash k w')"
  by (auto simp: poll_round_def bind_def ret_run throw_run split: prod.splits sum.splits)

declare confirm_loop.simps(2) [simp del]

lemma confirm_loop_Inr_iff:
  "confirm_loop S hash k w = (Inr r, w') \<longleftrightarrow>
     r = hash \<and> (\<exists>i<k. nth_poll S hash i w = (Inr ''SUCCESS'', w') \<and>
       (\<forall>j<i. undecided (fst (nth_poll S hash j w))))"
proof (induction k arbitrary: w)
  case 0
  then show ?case by (simp add: throw_run)
next
  case (Suc k)
  obtain q w1 where q: "poll_round S hash w = (q, w1)" by (cases "poll_round S hash w")
  have shift: "(\<exists>i<Suc k. P i) \<longleftrightarrow> P 0 \<or> (\<exists>i<k. P (Suc i))" for P :: "nat \<Rightarrow> bool"
    using less_Suc_eq_0_disj by auto
  have all: "(\<forall>j<Suc i. Q j) \<longleftrightarrow> Q 0 \<and> (\<forall>j<i. Q (Suc j))" for Q :: "nat \<Rightarrow> bool" and i
    using less_Suc_eq_0_disj by auto
  show ?case
    by (auto simp: confirm_loop_Suc q Suc.IH shift all undecided_def split: sum.split)
qed

section \<open>Properties of the client\<close>

text \<open>
  C14: \<^verbatim>\<open>submitTransaction\<close> returns exactly when the transaction was accepted and one of
  at most twenty status polls answered \<^verbatim>\<open>SUCCESS\<close> with every earlier poll undecided (no
  failure, no exception); it then returns the hash the server gave, and the world is the one
  after that poll.
\<close>

theorem submitTransaction_confirmed:
  "submitTransaction S c x w = (Inr r, w') \<longleftrightarrow>
     (\<exists>tx sent w1 i. fromXDR S x (networkPassphrase c) = Inr tx \<and>
        sendTransaction S tx w = (Inr sent, w1) \<and> send_status sent \<noteq> ''ERROR'' \<and>
        r = send_hash sent \<and> i < 20 \<and>
        nth_poll S r i w1 = (Inr ''SUCCESS'', w') \<and>
        (\<forall>j<i. undecided (fst (nth_poll S r j w1))))"
  by (auto simp: submitTransaction_def bind_def of_result_run throw_run confirm_loop_Inr_iff
    split: prod.splits sum.splits if_splits)

theorem submitTransaction_confirmed_witness:
  "\<exists>w'. submitTransaction example_stellar example_client ''tx''
     \<lparr>l_streams = [], l_statuses = [''NOT_FOUND'', ''SUCCESS''], l_clock = 0\<rparr> = (Inr ''tx'', w')"
proof -
  let ?w = "\<lparr>l_streams = [], l_statuses = [''NOT_FOUND'', ''SUCCESS''], l_clock = 0\<rparr>"
  have "nth_poll example_stellar ''tx'' 1 ?w
      = (Inr ''SUCCESS'', \<lparr>l_streams = [], l_statuses = [], l_clock = 3000\<rparr>)"
    and "undecided (fst (nth_poll example_stellar ''tx'' 0 ?w))"
    by (simp_all add: poll_round_def example_stellar_def bind_def modify_def undecided_def)
  then have "submitTransaction example_stellar example_client ''tx'' ?w
      = (Inr ''tx'', \<lparr>l_streams = [], l_statuses = [], l_clock = 3000\<rparr>)"
    by (subst submitTransaction_confirmed)
      (rule exI[of _ "(''tx'', [])"],
       rule exI[of _ "\<lparr>send_status = ''PENDING'', send_hash = ''tx'', send_error = ''''\<rparr>"],
       rule exI[of _ ?w], rule exI[of _ 1], simp add: example_stellar_def ret_def)
  then show ?thesis by blast
qed





text \<open>
  \<^verbatim>\<open>withdraw\<close> never conforms: the client always sends three arguments, with the
  amount last, and the entry point takes two.
\<close>

theorem sdk_withdraw_does_not_conform:
  "\<not> conforms (withdraw_call a i amount) \<and>
   length (snd (withdraw_call a i amount)) = Suc (length (the (contract_abi ''withdraw'')))"
  by (simp add: conforms_def contract_abi_def withdraw_call_def)

text \<open>
  preparing a transaction never submits one. What a mutating method returns, and the world
  it leaves, do not depend on how the server would answer a submission or a status request.
\<close>

theorem invoke_does_not_submit:
  "sdk_invoke (S\<lparr>sendTransaction := f, getTransaction := g, sleep := h\<rparr>) c caller call
   = sdk_invoke S c caller call"
proof -
  let ?S = "S\<lparr>sendTransaction := f, getTransaction := g, sleep := h\<rparr>"
  have "encode_params ?S p = encode_params S p" for p
    by (simp add: encode_params_def param_entry_def)
  then have "encode_arg ?S a = encode_arg S a" for a
    by (cases a) (simp_all cong: map_cong)
  then have "encode_args ?S args = encode_args S args" for args
    by (simp add: encode_args_def cong: map_cong)
  moreover have "buildTx ?S c k m vs = buildTx S c k m vs" for k m vs
    by (simp add: buildTx_def build_request_def cong: sim_result.case_cong)
  ultimately show ?thesis by (simp add: sdk_invoke_def)
qed

text \<open>
  a failing simulation is reported, never swallowed: a mutating method returns an XDR only
  if the account was found, the arguments encoded and the simulation of exactly that call
  succeeded; a simulation error surfaces as the exception \<^verbatim>\<open>Simulation failed\<close> with the
  server's text.
\<close>

theorem buildTx_simulates:
  "(buildTx S c caller m args w = (Inr xdr, w') \<longleftrightarrow>
     (\<exists>acct w1 tx r. getAccount S caller w = (Inr acct, w1) \<and>
        build_request S c (contractId c) acct m args = Inr tx \<and>
        simulateTransaction S tx w1 = (Inr (SimSuccess r), w') \<and>
        assembleXDR S tx (SimSuccess r) = Inr xdr)) \<and>
   (\<forall>acct w1 tx e w2. getAccount S caller w = (Inr acct, w1) \<and>
      build_request S c (contractId c) acct m args = Inr tx \<and>
      simulateTransaction S tx w1 = (Inr (SimError e), w2) \<longrightarrow>
      buildTx S c caller m args w = (Inl (Error (''Simulation failed: '' @ e)), w2))"
  by (auto simp: buildTx_def bind_def of_result_run throw_run result_error_def
    split: prod.splits sum.splits sim_result.splits)

theorem buildTx_simulates_witness:
  "\<exists>w2. buildTx example_stellar example_client ''GE'' ''get_stream'' [JBig 7]
     \<lparr>l_streams = [], l_statuses = [], l_clock = 0\<rparr>
   = (Inl (Error (''Simulation failed: '' @ ''stream not found'')), w2)"
proof -
  let ?w = "\<lparr>l_streams = [], l_statuses = [], l_clock = 0\<rparr> :: ledger"
  have "getAccount example_stellar ''GE'' ?w = (Inr ''GE'', ?w)"
    and "build_request example_stellar example_client (contractId example_client) ''GE''
      ''get_stream'' [JBig 7] = Inr (''get_stream'', [JBig 7])"
    and "simulateTransaction example_stellar (''get_stream'', [JBig 7]) ?w
      = (Inr (SimError ''stream not found''), ?w)"
    by (simp_all add: example_defs build_request_def ret_def gets_def)
  then show ?thesis
    using buildTx_simulates[of example_stellar example_client "''GE''" "''get_stream''" "[JBig 7]" ?w]
    by blast
qed

end
