(* ===== verification/Sdk_Wallet.thy ===== *)
theory Sdk_Wallet
  imports Prelude
begin

text \<open>
  The Freighter wallet helpers (\<^verbatim>\<open>sdk/src/freighter.ts\<close>). The browser extension is not
  part of the repository: \<open>freighter\<close> holds whether it is installed and the functions of its
  interface. An \<^verbatim>\<open>error\<close> field is absent or a string; the empty string is falsy.
\<close>

record 'w freighter =
  installed :: "'w \<Rightarrow> bool"
  api_isConnected :: "('w, bool) io"
  api_requestAccess :: "('w, string option) io"
  api_getPublicKey :: "('w, string \<times> string option) io"
  api_signTransaction :: "string \<Rightarrow> string \<Rightarrow> ('w, string \<times> string option) io"

definition FreighterNotInstalledError :: js_error where
  "FreighterNotInstalledError = JsError ''FreighterNotInstalledError''
     (''Freighter wallet extension is not installed. '' @
      ''Install it from https://freighter.app and reload the page.'')"

fun error_set :: "string option \<Rightarrow> bool" where
  "error_set None = False"
| "error_set (Some e) = (e \<noteq> '''')"

definition error_text :: "string option \<Rightarrow> string" where
  "error_text e = (case e of None \<Rightarrow> ''undefined'' | Some m \<Rightarrow> m)"

definition getFreighterApi :: "'w freighter \<Rightarrow> ('w, unit) io" where
  "getFreighterApi F = (\<lambda>w. if installed F w then (Inr (), w) else (Inl FreighterNotInstalledError, w))"

definition isFreighterConnected :: "'w freighter \<Rightarrow> ('w, bool) io" where
  "isFreighterConnected F =
     try_catch (bind (getFreighterApi F) (\<lambda>_. api_isConnected F)) (\<lambda>_. ret False)"

definition getFreighterPublicKey :: "'w freighter \<Rightarrow> ('w, string) io" where
  "getFreighterPublicKey F =
     bind (getFreighterApi F) (\<lambda>_.
     bind (api_getPublicKey F) (\<lambda>(publicKey, error).
       if error_set error then throw (Error (''Freighter getPublicKey failed: '' @ error_text error))
       else ret publicKey))"

definition connectFreighter :: "'w freighter \<Rightarrow> ('w, string) io" where
  "connectFreighter F =
     bind (getFreighterApi F) (\<lambda>_.
     bind (api_requestAccess F) (\<lambda>error.
       if error_set error then throw (Error (''Freighter access denied: '' @ error_text error))
       else
         bind (api_getPublicKey F) (\<lambda>(publicKey, pkError).
           if error_set pkError
           then throw (Error (''Freighter getPublicKey failed: '' @ error_text pkError))
           else ret publicKey)))"

definition freighterSignTransaction :: "'w freighter \<Rightarrow> string \<Rightarrow> string \<Rightarrow> ('w, string) io" where
  "freighterSignTransaction F xdr passphrase =
     bind (getFreighterApi F) (\<lambda>_.
     bind (api_signTransaction F xdr passphrase) (\<lambda>(signedTxXdr, error).
       if error_set error then throw (Error (''Freighter signing failed: '' @ error_text error))
       else ret signedTxXdr))"

section \<open>Behaviour\<close>

lemma getFreighterApi_run [io_simps]:
  "getFreighterApi F w = (if installed F w then (Inr (), w) else (Inl FreighterNotInstalledError, w))"
  by (simp add: getFreighterApi_def)

lemma isFreighterConnected_total:
  "\<exists>b w'. isFreighterConnected F w = (Inr b, w')"
  by (auto simp: isFreighterConnected_def try_catch_def ret_def split: prod.split sum.split)

lemma not_installed_throws:
  assumes "\<not> installed F w"
  shows "connectFreighter F w = (Inl FreighterNotInstalledError, w)"
    and "getFreighterPublicKey F w = (Inl FreighterNotInstalledError, w)"
    and "freighterSignTransaction F x p w = (Inl FreighterNotInstalledError, w)"
    and "isFreighterConnected F w = (Inr False, w)"
  using assms
  by (simp_all add: connectFreighter_def getFreighterPublicKey_def freighterSignTransaction_def
    isFreighterConnected_def bind_def try_catch_def getFreighterApi_run ret_run)

text \<open>A signature comes back exactly when the extension is installed and reports no error.\<close>

lemma freighterSign_Inr_iff:
  "freighterSignTransaction F x p w = (Inr sx, w') \<longleftrightarrow>
     installed F w \<and> (\<exists>err. api_signTransaction F x p w = (Inr (sx, err), w') \<and> \<not> error_set err)"
  by (auto simp: freighterSignTransaction_def bind_def getFreighterApi_run throw_run ret_run
    split: prod.splits sum.splits if_splits)

lemma connectFreighter_Inr_iff:
  "connectFreighter F w = (Inr pk, w') \<longleftrightarrow>
     installed F w \<and> (\<exists>e w1 e'. api_requestAccess F w = (Inr e, w1) \<and> \<not> error_set e \<and>
       api_getPublicKey F w1 = (Inr (pk, e'), w') \<and> \<not> error_set e')"
  by (auto simp: connectFreighter_def bind_def getFreighterApi_run throw_run ret_run
    split: prod.splits sum.splits if_splits)

end
