(* ===== verification/Sdk_Poll.thy ===== *)
theory Sdk_Poll
  imports Js_Number
begin

text \<open>
  \<^verbatim>\<open>pollClaimable\<close> (\<^verbatim>\<open>sdk/src/poll.ts\<close>) as an event system. The closure's
  variable \<^verbatim>\<open>active\<close>, the requests in flight, the timers set with \<^verbatim>\<open>setTimeout\<close>
  and the calls made to the caller's functions are the state; an event is a timer firing, the
  answer of \<^verbatim>\<open>client.claimable\<close> arriving, or the caller's \<^verbatim>\<open>unsubscribe()\<close>.
\<close>

datatype poll_output = Callback int | OnError js_error | ConsoleError js_error

record poller =
  active :: bool
  in_flight :: nat
  timers :: nat
  outputs :: "poll_output list"
  safe_interval :: jsnum
  has_onError :: bool

text \<open>
  What a function of the caller does when it is called: it may throw, and it may call
  \<^verbatim>\<open>unsubscribe()\<close> before it returns.
\<close>

record reaction =
  r_throws :: "js_error option"
  r_unsubscribes :: bool

definition emit :: "poll_output \<Rightarrow> bool \<Rightarrow> poller \<Rightarrow> poller" where
  "emit out unsub p =
     p\<lparr>outputs := outputs p @ [out], active := (active p \<and> \<not> unsub)\<rparr>"

text \<open>The tail of \<^verbatim>\<open>tick\<close>: schedule the next tick while active.\<close>

definition reschedule :: "poller \<Rightarrow> poller" where
  "reschedule p = (if active p then p\<lparr>timers := timers p + 1\<rparr> else p)"

text \<open>The head of \<^verbatim>\<open>tick\<close>: nothing when inactive, otherwise the request is sent.\<close>

definition tick :: "poller \<Rightarrow> poller" where
  "tick p = (if \<not> active p then p else p\<lparr>in_flight := in_flight p + 1\<rparr>)"

text \<open>
  The \<^verbatim>\<open>catch\<close> block. The error handler's own exception leaves \<^verbatim>\<open>tick\<close> before the
  next tick is scheduled.
\<close>

definition handle_error :: "js_error \<Rightarrow> reaction \<Rightarrow> poller \<Rightarrow> poller" where
  "handle_error err rh p =
     (if active p then
        (if has_onError p then
           (case r_throws rh of
              None \<Rightarrow> reschedule (emit (OnError err) (r_unsubscribes rh) p)
            | Some _ \<Rightarrow> emit (OnError err) (r_unsubscribes rh) p)
         else reschedule (emit (ConsoleError err) False p))
      else p)"

text \<open>The continuation of \<^verbatim>\<open>tick\<close> when \<^verbatim>\<open>client.claimable\<close> settles with \<open>result\<close>;
  \<open>rc\<close> and \<open>rh\<close> are the reactions of the callback and of the error handler.\<close>

definition settle :: "js_error + int \<Rightarrow> reaction \<Rightarrow> reaction \<Rightarrow> poller \<Rightarrow> poller" where
  "settle result rc rh p0 =
     (let p = p0\<lparr>in_flight := in_flight p0 - 1\<rparr> in
      case result of
        Inl err \<Rightarrow> handle_error err rh p
      | Inr amount \<Rightarrow>
          (if active p then
             (let q = emit (Callback amount) (r_unsubscribes rc) p in
              case r_throws rc of
                None \<Rightarrow> reschedule q
              | Some err \<Rightarrow> handle_error err rh q)
           else p))"

definition unsubscribe :: "poller \<Rightarrow> poller" where
  "unsubscribe p = p\<lparr>active := False\<rparr>"

text \<open>\<^verbatim>\<open>pollClaimable(client, streamId, intervalMs, callback, onError)\<close>: the first tick
  runs at once.\<close>

definition pollClaimable :: "jsnum \<Rightarrow> bool \<Rightarrow> poller" where
  "pollClaimable intervalMs hasOnError =
     tick \<lparr>active = True, in_flight = 0, timers = 0, outputs = [],
       safe_interval = math_max intervalMs (Fin 1000), has_onError = hasOnError\<rparr>"

section \<open>Steps\<close>

inductive poll_step :: "poller \<Rightarrow> poller \<Rightarrow> bool" where
  timer_fires: "0 < timers p \<Longrightarrow> poll_step p (tick (p\<lparr>timers := timers p - 1\<rparr>))"
| answer: "0 < in_flight p \<Longrightarrow> poll_step p (settle result rc rh p)"
| stop: "poll_step p (unsubscribe p)"

inductive poll_run :: "poller \<Rightarrow> poller \<Rightarrow> bool" where
  start: "poll_run p p"
| more: "poll_run p q \<Longrightarrow> poll_step q r \<Longrightarrow> poll_run p r"

inductive_cases poll_stepE: "poll_step p q"

lemmas poll_defs = tick_def settle_def handle_error_def reschedule_def emit_def unsubscribe_def Let_def

text \<open>Never two activities at once: the next tick is scheduled only after the last one settled.\<close>

definition one_activity :: "poller \<Rightarrow> bool" where
  "one_activity p = (in_flight p + timers p \<le> 1)"

lemma one_activity_init: "one_activity (pollClaimable i h)"
  by (simp add: one_activity_def pollClaimable_def tick_def)

lemma one_activity_step: "poll_step p q \<Longrightarrow> one_activity p \<Longrightarrow> one_activity q"
  by (erule poll_stepE)
    (auto simp: one_activity_def poll_defs split: sum.splits option.splits if_splits)

lemma poll_run_invariant:
  assumes "poll_run p q" "I p" "\<And>p q. poll_step p q \<Longrightarrow> I p \<Longrightarrow> I q"
  shows "I q"
  using assms(1,2) by (induction rule: poll_run.induct) (auto intro: assms(3))

lemma inactive_step:
  "poll_step p q \<Longrightarrow> \<not> active p \<Longrightarrow> \<not> active q \<and> outputs q = outputs p"
  by (erule poll_stepE) (auto simp: poll_defs split: sum.splits option.splits if_splits)

lemma interval_step: "poll_step p q \<Longrightarrow> safe_interval q = safe_interval p"
  by (erule poll_stepE) (auto simp: poll_defs split: sum.splits option.splits if_splits)

lemma math_max_1000: "x \<noteq> NaN \<Longrightarrow> js_le (Fin 1000) (math_max x (Fin 1000))"
  by (cases x) (auto simp: math_max_def)

text \<open>Runs in which the error handler never throws.\<close>

inductive calm_step :: "poller \<Rightarrow> poller \<Rightarrow> bool" where
  calm_timer: "0 < timers p \<Longrightarrow> calm_step p (tick (p\<lparr>timers := timers p - 1\<rparr>))"
| calm_answer: "0 < in_flight p \<Longrightarrow> r_throws rh = None \<Longrightarrow> calm_step p (settle result rc rh p)"
| calm_stop: "calm_step p (unsubscribe p)"

inductive calm_run :: "poller \<Rightarrow> poller \<Rightarrow> bool" where
  calm_start: "calm_run p p"
| calm_more: "calm_run p q \<Longrightarrow> calm_step q r \<Longrightarrow> calm_run p r"

definition alive :: "poller \<Rightarrow> bool" where
  "alive p = (in_flight p + timers p \<le> 1 \<and> (active p \<longrightarrow> in_flight p + timers p = 1))"

lemma alive_step: "calm_step p q \<Longrightarrow> alive p \<Longrightarrow> alive q"
  by (induction rule: calm_step.induct)
    (auto simp: alive_def poll_defs split: sum.splits option.splits if_splits)

section \<open>Properties of the poller\<close>

text \<open>
  C19: once \<^verbatim>\<open>unsubscribe()\<close> was called, whatever happens later (a timer firing, an
  answer arriving, further calls) neither the callback nor the error handler is called again.
\<close>

theorem poll_silent_after_unsubscribe:
  assumes "poll_run (unsubscribe p) q"
  shows "outputs q = outputs p \<and> \<not> active q"
proof -
  have "\<not> active q \<and> outputs q = outputs (unsubscribe p)"
    by (rule poll_run_invariant[OF assms]) (auto simp: unsubscribe_def dest: inactive_step)
  then show ?thesis by (simp add: unsubscribe_def)
qed

theorem poll_silent_after_unsubscribe_witness:
  "outputs (settle (Inr 5) \<lparr>r_throws = None, r_unsubscribes = False\<rparr>
      \<lparr>r_throws = None, r_unsubscribes = False\<rparr> (unsubscribe (pollClaimable (Fin 5000) True))) = []"
  using poll_silent_after_unsubscribe[OF poll_run.more[OF poll_run.start
    poll_step.answer[of "unsubscribe (pollClaimable (Fin 5000) True)" "Inr 5"
      "\<lparr>r_throws = None, r_unsubscribes = False\<rparr>" "\<lparr>r_throws = None, r_unsubscribes = False\<rparr>"]]]
  by (simp add: pollClaimable_def tick_def unsubscribe_def)

text \<open>
  in every run of a poller there is at most one request in flight or timer set, never a
  request overlapping another, and the interval used is at least one second for every
  \<^verbatim>\<open>intervalMs\<close> that is a number.
\<close>

theorem poll_one_activity:
  assumes "poll_run (pollClaimable intervalMs h) q" "intervalMs \<noteq> NaN"
  shows "in_flight q + timers q \<le> 1 \<and> js_le (Fin 1000) (safe_interval q)"
proof -
  have "one_activity q \<and> safe_interval q = safe_interval (pollClaimable intervalMs h)"
    by (rule poll_run_invariant[OF assms(1)])
      (auto simp: one_activity_init intro: one_activity_step dest: interval_step)
  moreover have "safe_interval (pollClaimable intervalMs h) = math_max intervalMs (Fin 1000)"
    by (simp add: pollClaimable_def tick_def)
  ultimately show ?thesis using math_max_1000[OF assms(2)] by (simp add: one_activity_def)
qed

theorem poll_one_activity_witness:
  "in_flight (pollClaimable (Fin 10) True) + timers (pollClaimable (Fin 10) True) \<le> 1 \<and>
   js_le (Fin 1000) (safe_interval (pollClaimable (Fin 10) True))"
  by (rule poll_one_activity[OF poll_run.start]) simp

text \<open>
  polling does not die by itself. While the poller is active, a request is in flight or a
  timer is set, as long as the caller's error handler does not throw: so another callback can
  always follow.
\<close>

theorem poll_stays_alive:
  assumes "calm_run (pollClaimable intervalMs h) q" "active q"
  shows "in_flight q + timers q = 1"
proof -
  have "alive q" using assms(1)
  proof (induction "pollClaimable intervalMs h" q rule: calm_run.induct)
    case calm_start
    then show ?case by (simp add: alive_def pollClaimable_def tick_def)
  next
    case (calm_more q r)
    then show ?case by (blast intro: alive_step)
  qed
  then show ?thesis using assms(2) by (simp add: alive_def)
qed

theorem poll_stays_alive_witness:
  "in_flight (settle (Inl (Error [])) \<lparr>r_throws = None, r_unsubscribes = False\<rparr>
      \<lparr>r_throws = None, r_unsubscribes = False\<rparr> (pollClaimable (Fin 5000) False))
   + timers (settle (Inl (Error [])) \<lparr>r_throws = None, r_unsubscribes = False\<rparr>
      \<lparr>r_throws = None, r_unsubscribes = False\<rparr> (pollClaimable (Fin 5000) False)) = 1"
  by (rule poll_stays_alive[OF calm_run.calm_more[OF calm_run.calm_start calm_step.calm_answer]])
    (simp_all add: pollClaimable_def poll_defs)

end
