(* ===== verification/Balance.thy ===== *)
theory Balance
  imports Sdk_Types
begin

text \<open>
  The balance service (\<^verbatim>\<open>services/balance/balance.js\<close>). \<open>calcPausedSeconds\<close> and
  \<open>calculateBalance\<close> are translated over JavaScript numbers. The same algorithm over the
  integers (\<open>calcPausedSeconds_int\<close>, \<open>calculateBalance_int\<close>) is what the service means to
  compute; on safe integers the two agree, and the properties are proved of the integers.
\<close>

record 'n pause_event =
  timestamp :: 'n
  is_pause :: bool

record 'n bal_stream =
  b_deposit :: 'n
  b_withdrawn :: 'n
  b_rate_per_second :: 'n
  b_start_time :: 'n
  b_stop_time :: 'n
  b_last_withdraw_time :: 'n
  b_cliff_time :: 'n
  b_status :: string
  b_pause_history :: "'n pause_event list"

record 'n balance_result =
  claimable_r :: 'n
  accrued_total :: 'n
  active_elapsed :: 'n
  paused_elapsed :: 'n

section \<open>Translation over JavaScript numbers\<close>

text \<open>The loop over the history: the seconds counted so far and \<^verbatim>\<open>pauseStart\<close>.\<close>

fun paused_loop ::
  "jsnum \<Rightarrow> jsnum \<Rightarrow> jsnum pause_event list \<Rightarrow> jsnum \<Rightarrow> jsnum option \<Rightarrow> jsnum \<times> jsnum option" where
  "paused_loop fromTime toTime [] paused pauseStart = (paused, pauseStart)"
| "paused_loop fromTime toTime (event # events) paused pauseStart =
     (let t = timestamp event in
      if is_pause event then
        (if js_less t toTime
         then paused_loop fromTime toTime events paused (Some (math_max t fromTime))
         else paused_loop fromTime toTime events paused pauseStart)
      else
        (case pauseStart of
           None \<Rightarrow> paused_loop fromTime toTime events paused None
         | Some p \<Rightarrow>
             (let resumeAt = math_min t toTime in
              paused_loop fromTime toTime events
                (if js_less p resumeAt then js_add paused (js_sub resumeAt p) else paused) None)))"

definition calcPausedSeconds ::
  "jsnum pause_event list \<Rightarrow> jsnum \<Rightarrow> jsnum \<Rightarrow> jsnum" where
  "calcPausedSeconds pauseHistory fromTime toTime =
     (if pauseHistory = [] then Fin 0
      else (case paused_loop fromTime toTime pauseHistory (Fin 0) None of
              (paused, None) \<Rightarrow> paused
            | (paused, Some p) \<Rightarrow> js_add paused (js_sub toTime p)))"

definition zero_balance :: "jsnum balance_result" where
  "zero_balance = \<lparr>claimable_r = Fin 0, accrued_total = Fin 0, active_elapsed = Fin 0, paused_elapsed = Fin 0\<rparr>"

definition effectiveEnd :: "jsnum bal_stream \<Rightarrow> jsnum \<Rightarrow> jsnum" where
  "effectiveEnd s now =
     (if js_less (Fin 0) (b_stop_time s) \<and> js_less (b_stop_time s) now then b_stop_time s else now)"

definition calculateBalance :: "jsnum bal_stream \<Rightarrow> jsnum \<Rightarrow> jsnum balance_result" where
  "calculateBalance s now =
     (if b_status s = ''Cancelled'' \<or> b_status s = ''Exhausted'' then zero_balance
      else if js_less (Fin 0) (b_cliff_time s) \<and> js_less now (b_cliff_time s) then zero_balance
      else
        (let windowStart = b_last_withdraw_time s;
             windowEnd = effectiveEnd s now
         in if js_le windowEnd windowStart then zero_balance
            else
              (let totalElapsed = js_sub windowEnd windowStart;
                   pausedSecs = calcPausedSeconds (b_pause_history s) windowStart windowEnd;
                   activeElapsed = math_max (Fin 0) (js_sub totalElapsed pausedSecs);
                   accrued = js_mul activeElapsed (b_rate_per_second s);
                   remaining = math_max (Fin 0) (js_sub (b_deposit s) (b_withdrawn s))
               in \<lparr>claimable_r = math_min accrued remaining, accrued_total = accrued,
                   active_elapsed = activeElapsed, paused_elapsed = pausedSecs\<rparr>)))"

section \<open>The algorithm over the integers\<close>

fun paused_loop_int ::
  "int \<Rightarrow> int \<Rightarrow> int pause_event list \<Rightarrow> int \<Rightarrow> int option \<Rightarrow> int \<times> int option" where
  "paused_loop_int fromTime toTime [] paused pauseStart = (paused, pauseStart)"
| "paused_loop_int fromTime toTime (event # events) paused pauseStart =
     (let t = timestamp event in
      if is_pause event then
        (if t < toTime
         then paused_loop_int fromTime toTime events paused (Some (max t fromTime))
         else paused_loop_int fromTime toTime events paused pauseStart)
      else
        (case pauseStart of
           None \<Rightarrow> paused_loop_int fromTime toTime events paused None
         | Some p \<Rightarrow>
             (let resumeAt = min t toTime in
              paused_loop_int fromTime toTime events
                (if p < resumeAt then paused + (resumeAt - p) else paused) None)))"

definition finish_paused :: "int \<Rightarrow> int \<times> int option \<Rightarrow> int" where
  "finish_paused toTime r = (case r of (paused, None) \<Rightarrow> paused | (paused, Some p) \<Rightarrow> paused + (toTime - p))"

definition calcPausedSeconds_int :: "int pause_event list \<Rightarrow> int \<Rightarrow> int \<Rightarrow> int" where
  "calcPausedSeconds_int h fromTime toTime =
     finish_paused toTime (paused_loop_int fromTime toTime h 0 None)"

definition zero_balance_int :: "int balance_result" where
  "zero_balance_int = \<lparr>claimable_r = 0, accrued_total = 0, active_elapsed = 0, paused_elapsed = 0\<rparr>"

text \<open>The accrual window: from the last withdrawal to now, capped at a set stop time.\<close>

definition effective_end :: "int bal_stream \<Rightarrow> int \<Rightarrow> int" where
  "effective_end s now = (if 0 < b_stop_time s \<and> b_stop_time s < now then b_stop_time s else now)"

definition calculateBalance_int :: "int bal_stream \<Rightarrow> int \<Rightarrow> int balance_result" where
  "calculateBalance_int s now =
     (if b_status s = ''Cancelled'' \<or> b_status s = ''Exhausted'' then zero_balance_int
      else if 0 < b_cliff_time s \<and> now < b_cliff_time s then zero_balance_int
      else
        (let windowStart = b_last_withdraw_time s;
             windowEnd = effective_end s now
         in if windowEnd \<le> windowStart then zero_balance_int
            else
              (let totalElapsed = windowEnd - windowStart;
                   pausedSecs = calcPausedSeconds_int (b_pause_history s) windowStart windowEnd;
                   activeElapsed = max 0 (totalElapsed - pausedSecs);
                   accrued = activeElapsed * b_rate_per_second s;
                   remaining = max 0 (b_deposit s - b_withdrawn s)
               in \<lparr>claimable_r = min accrued remaining, accrued_total = accrued,
                   active_elapsed = activeElapsed, paused_elapsed = pausedSecs\<rparr>)))"

section \<open>What paused time means\<close>

text \<open>The stream is paused at second \<open>t\<close> when the last event up to \<open>t\<close> is a pause.\<close>

definition paused_at :: "int pause_event list \<Rightarrow> int \<Rightarrow> bool" where
  "paused_at h t = (let es = filter (\<lambda>e. timestamp e \<le> t) h in es \<noteq> [] \<and> is_pause (last es))"

definition history_sorted :: "int pause_event list \<Rightarrow> bool" where
  "history_sorted h = sorted (map timestamp h)"

text \<open>No pause directly follows a pause: the contract refuses to pause a paused stream.\<close>

fun no_double_pause :: "int pause_event list \<Rightarrow> bool" where
  "no_double_pause (a # b # es) = (\<not> (is_pause a \<and> is_pause b) \<and> no_double_pause (b # es))"
| "no_double_pause _ = True"

definition history_ok :: "int pause_event list \<Rightarrow> bool" where
  "history_ok h = (history_sorted h \<and> no_double_pause h)"

text \<open>The same state by recursion, from an initial state \<open>b\<close>.\<close>

fun state_at :: "bool \<Rightarrow> int pause_event list \<Rightarrow> int \<Rightarrow> bool" where
  "state_at b [] t = b"
| "state_at b (e # es) t = (if timestamp e \<le> t then state_at (is_pause e) es t else b)"

lemma filter_le_sorted_empty:
  "sorted (map timestamp (e # es)) \<Longrightarrow> t < timestamp e \<Longrightarrow> filter (\<lambda>e. timestamp e \<le> t) (e # es) = []"
  by (induction es) auto

lemma state_at_last:
  "sorted (map timestamp h) \<Longrightarrow>
   state_at b h t = (let es = filter (\<lambda>e. timestamp e \<le> t) h in if es = [] then b else is_pause (last es))"
proof (induction h arbitrary: b)
  case Nil
  then show ?case by simp
next
  case (Cons e es)
  show ?case
  proof (cases "timestamp e \<le> t")
    case True
    with Cons show ?thesis by (auto simp: Let_def)
  next
    case False
    then have "filter (\<lambda>e. timestamp e \<le> t) (e # es) = []"
      using Cons.prems by (intro filter_le_sorted_empty) auto
    with False show ?thesis by (simp add: Let_def del: filter.simps)
  qed
qed

lemma paused_at_state: "history_sorted h \<Longrightarrow> paused_at h t = state_at False h t"
  by (simp add: paused_at_def history_sorted_def state_at_last Let_def)

lemma card_int_interval: "int (card {x. a \<le> x \<and> x < (b :: int)}) = max 0 (b - a)"
proof -
  have "{x. a \<le> x \<and> x < b} = {a..<b}" by auto
  then show ?thesis by (simp add: max_def)
qed

lemma finite_window [simp]: "finite {x. a \<le> x \<and> x < (b :: int) \<and> P x}"
  by (rule finite_subset[of _ "{a..<b}"]) auto

text \<open>
  The loop counts exactly the paused seconds of the window that are not before \<open>T\<close>, the
  time of the last event seen, when \<open>pauseStart\<close> agrees with the state \<open>b\<close> at \<open>T\<close>.
\<close>

definition loop_start :: "int \<Rightarrow> int \<Rightarrow> int \<Rightarrow> bool \<Rightarrow> int option" where
  "loop_start fromTime toTime T b = (if b \<and> T < toTime then Some (max T fromTime) else None)"

definition window_count :: "int \<Rightarrow> int \<Rightarrow> int \<Rightarrow> bool \<Rightarrow> int pause_event list \<Rightarrow> int" where
  "window_count fromTime toTime T b es =
     int (card {x. max T fromTime \<le> x \<and> x < toTime \<and> state_at b es x})"

lemma window_count_Nil:
  "window_count f t T b [] = (if b then max 0 (t - max T f) else 0)"
  by (simp add: window_count_def card_int_interval[of "max T f" t, simplified] del: max_less_iff_conj)

lemma window_count_Cons:
  assumes "T \<le> timestamp e"
  shows "window_count f t T b (e # es) =
    (if b then max 0 (min (timestamp e) t - max T f) else 0)
    + window_count f t (timestamp e) (is_pause e) es"
proof -
  let ?u = "timestamp e"
  let ?A = "{x. max T f \<le> x \<and> x < min ?u t \<and> b}"
  let ?B = "{x. max ?u f \<le> x \<and> x < t \<and> state_at (is_pause e) es x}"
  have "{x. max T f \<le> x \<and> x < t \<and> state_at b (e # es) x} = ?A \<union> ?B"
    using assms by (auto split: if_splits)
  moreover have "?A \<inter> ?B = {}" by auto
  moreover have "finite ?A" "finite ?B" by (rule finite_window)+
  ultimately have "card {x. max T f \<le> x \<and> x < t \<and> state_at b (e # es) x} = card ?A + card ?B"
    by (simp only: card_Un_disjoint)
  moreover have "int (card ?A) = (if b then max 0 (min ?u t - max T f) else 0)"
    using card_int_interval[of "max T f" "min ?u t"] by (cases b) (simp_all del: max.bounded_iff min_less_iff_conj)
  ultimately show ?thesis by (simp add: window_count_def)
qed

lemma no_double_pause_Cons: "no_double_pause (e # es) \<Longrightarrow> no_double_pause es"
  by (cases es) auto

lemma paused_loop_counts:
  assumes "sorted (T # map timestamp es)" "f \<le> t" "no_double_pause es"
    and "b \<and> es \<noteq> [] \<longrightarrow> \<not> is_pause (hd es)"
  shows "finish_paused t (paused_loop_int f t es acc (loop_start f t T b))
    = acc + window_count f t T b es"
  using assms
proof (induction es arbitrary: T b acc)
  case Nil
  then show ?case
    by (auto simp: finish_paused_def loop_start_def window_count_Nil)
next
  case (Cons e es)
  let ?u = "timestamp e"
  have le: "T \<le> ?u" and srt: "sorted (?u # map timestamp es)" using Cons.prems(1) by auto
  have nd: "no_double_pause es" using Cons.prems(3) by (rule no_double_pause_Cons)
  have hd: "is_pause e \<and> es \<noteq> [] \<longrightarrow> \<not> is_pause (hd es)"
    using Cons.prems(3) by (cases es) auto
  note IH = Cons.IH[OF srt Cons.prems(2) nd hd]
  show ?case
  proof (cases "is_pause e")
    case True
    then have nb: "\<not> b" using Cons.prems(4) by auto
    with True have "paused_loop_int f t (e # es) acc (loop_start f t T b)
        = paused_loop_int f t es acc (loop_start f t ?u True)"
      by (simp add: loop_start_def)
    with IH[of acc] True nb show ?thesis by (simp add: window_count_Cons[OF le])
  next
    case False
    have start: "loop_start f t ?u False = None" by (simp add: loop_start_def)
    show ?thesis
    proof (cases "b \<and> T < t")
      case True
      let ?acc = "if max T f < min ?u t then acc + (min ?u t - max T f) else acc"
      have "paused_loop_int f t (e # es) acc (loop_start f t T b) = paused_loop_int f t es ?acc None"
        using True False by (simp add: loop_start_def Let_def)
      moreover have "?acc = acc + max 0 (min ?u t - max T f)" by auto
      ultimately show ?thesis
        using IH[of ?acc] True False by (simp add: start window_count_Cons[OF le])
    next
      case notb: False
      then have "paused_loop_int f t (e # es) acc (loop_start f t T b) = paused_loop_int f t es acc None"
        using False by (auto simp: loop_start_def)
      moreover have "b \<Longrightarrow> max 0 (min ?u t - max T f) = 0" using notb by auto
      ultimately show ?thesis
        using IH[of acc] False by (auto simp: start window_count_Cons[OF le])
    qed
  qed
qed

text \<open>The service's paused time is the number of seconds of the window at which the stream is paused.\<close>

lemma calcPausedSeconds_int_counts:
  assumes "history_ok h" "f \<le> t"
  shows "calcPausedSeconds_int h f t = int (card {x. f \<le> x \<and> x < t \<and> paused_at h x})"
proof (cases h)
  case Nil
  then show ?thesis by (simp add: calcPausedSeconds_int_def finish_paused_def paused_at_def)
next
  case (Cons e es)
  let ?T = "min f (timestamp e)"
  have srt: "sorted (map timestamp h)" and nd: "no_double_pause h"
    using assms(1) by (auto simp: history_ok_def history_sorted_def)
  then have "sorted (?T # map timestamp h)" using Cons by auto
  from paused_loop_counts[OF this assms(2) nd, of False 0]
  have "calcPausedSeconds_int h f t = window_count f t ?T False h"
    by (simp add: calcPausedSeconds_int_def loop_start_def)
  moreover have "max ?T f = f" by simp
  ultimately show ?thesis
    using srt by (simp add: window_count_def paused_at_state history_sorted_def)
qed

lemma paused_plus_active:
  assumes "history_ok h" "f \<le> t"
  shows "t - f - calcPausedSeconds_int h f t = int (card {x. f \<le> x \<and> x < t \<and> \<not> paused_at h x})"
proof -
  let ?P = "{x. f \<le> x \<and> x < t \<and> paused_at h x}" and ?N = "{x. f \<le> x \<and> x < t \<and> \<not> paused_at h x}"
  have un: "?P \<union> ?N = {x. f \<le> x \<and> x < t}" and dis: "?P \<inter> ?N = {}" by auto
  have "card (?P \<union> ?N) = card ?P + card ?N"
    by (rule card_Un_disjoint[OF finite_window finite_window dis])
  then have "card ?P + card ?N = card {x. f \<le> x \<and> x < t}" unfolding un by (rule sym)
  then have "int (card ?P) + int (card ?N) = max 0 (t - f)"
    using card_int_interval[of f t] by linarith
  then show ?thesis using assms by (simp add: calcPausedSeconds_int_counts)
qed

section \<open>Agreement of the two translations on safe integers\<close>

definition num_event :: "int pause_event \<Rightarrow> jsnum pause_event" where
  "num_event e = \<lparr>timestamp = jsint (timestamp e), is_pause = is_pause e\<rparr>"

definition num_stream :: "int bal_stream \<Rightarrow> jsnum bal_stream" where
  "num_stream s =
     \<lparr>b_deposit = jsint (b_deposit s), b_withdrawn = jsint (b_withdrawn s),
      b_rate_per_second = jsint (b_rate_per_second s),
      b_start_time = jsint (b_start_time s), b_stop_time = jsint (b_stop_time s),
      b_last_withdraw_time = jsint (b_last_withdraw_time s),
      b_cliff_time = jsint (b_cliff_time s), b_status = b_status s,
      b_pause_history = map num_event (b_pause_history s)\<rparr>"

definition num_result :: "int balance_result \<Rightarrow> jsnum balance_result" where
  "num_result r = \<lparr>claimable_r = jsint (claimable_r r), accrued_total = jsint (accrued_total r),
     active_elapsed = jsint (active_elapsed r), paused_elapsed = jsint (paused_elapsed r)\<rparr>"

text \<open>Bounds under which the loop stays exact: \<open>k\<close> events can add at most \<open>k * (t - f)\<close>.\<close>

lemma paused_loop_num:
  assumes "f \<le> t" "0 \<le> acc" "acc + int (length es) * (t - f) \<le> 2 ^ 53"
    and "\<And>p. ps = Some p \<Longrightarrow> f \<le> p \<and> p \<le> t"
  shows "paused_loop (jsint f) (jsint t) (map num_event es) (jsint acc)
      (map_option jsint ps)
    = (case paused_loop_int f t es acc ps of (a, q) \<Rightarrow> (jsint a, map_option jsint q))"
  using assms
proof (induction es arbitrary: acc ps)
  case Nil
  then show ?case by simp
next
  case (Cons e es)
  let ?u = "timestamp e"
  let ?d = "min ?u t - the ps"
  have room: "acc + (t - f) + int (length es) * (t - f) \<le> 2 ^ 53"
    using Cons.prems(3) by (simp add: algebra_simps)
  have nn: "0 \<le> int (length es) * (t - f)" using Cons.prems(1) by simp
  have keep: "acc + int (length es) * (t - f) \<le> 2 ^ 53" using room Cons.prems(1) by linarith
  show ?case
  proof (cases "is_pause e")
    case True
    then show ?thesis
      using Cons.IH[of acc "Some (max ?u f)"] Cons.IH[of acc ps] Cons.prems keep
      by (auto simp: num_event_def)
  next
    case False
    show ?thesis
    proof (cases ps)
      case None
      then show ?thesis
        using False Cons.IH[of acc None] Cons.prems keep by (simp add: num_event_def)
    next
      case (Some p)
      have p: "f \<le> p" "p \<le> t" using Cons.prems(4) Some by auto
      show ?thesis
      proof (cases "p < min ?u t")
        case True
        have "safe_int (min ?u t - p)" "safe_int (acc + (min ?u t - p))"
          using True p nn room Cons.prems(2) by linarith+
        then show ?thesis
          using Some False True Cons.IH[of "acc + (min ?u t - p)" None] Cons.prems(1,2) p room
          by (simp add: num_event_def)
      next
        case nless: False
        then show ?thesis
          using Some False Cons.IH[of acc None] Cons.prems keep
          by (auto simp: num_event_def Let_def)
      qed
    qed
  qed
qed

lemma paused_loop_int_start:
  assumes "f \<le> t" "\<And>p. ps = Some p \<Longrightarrow> f \<le> p \<and> p \<le> t"
  shows "snd (paused_loop_int f t es acc ps) = Some q \<Longrightarrow> f \<le> q \<and> q \<le> t"
  using assms
proof (induction es arbitrary: acc ps)
  case Nil
  then show ?case by simp
next
  case (Cons e es)
  have "\<exists>acc' ps'. paused_loop_int f t (e # es) acc ps = paused_loop_int f t es acc' ps' \<and>
      (\<forall>p. ps' = Some p \<longrightarrow> f \<le> p \<and> p \<le> t)"
  proof (cases "is_pause e \<and> timestamp e < t")
    case True
    with Cons.prems(2) show ?thesis
      by (intro exI[of _ acc] exI[of _ "Some (max (timestamp e) f)"]) auto
  next
    case False
    with Cons.prems(3) show ?thesis by (cases ps; cases "is_pause e") (auto simp: Let_def)
  qed
  with Cons.IH Cons.prems show ?case by metis
qed

lemma paused_loop_int_bound:
  assumes "f \<le> t" "0 \<le> acc" "\<And>p. ps = Some p \<Longrightarrow> f \<le> p \<and> p \<le> t"
  shows "0 \<le> finish_paused t (paused_loop_int f t es acc ps) \<and>
    finish_paused t (paused_loop_int f t es acc ps) \<le> acc + int (Suc (length es)) * (t - f)"
  using assms
proof (induction es arbitrary: acc ps)
  case Nil
  then show ?case by (cases ps) (auto simp: finish_paused_def)
next
  case (Cons e es)
  let ?d = "min (timestamp e) t"
  have nn: "0 \<le> t - f" using Cons.prems(1) by simp
  have step: "acc' + int (Suc (length es)) * (t - f) \<le> acc + int (Suc (length (e # es))) * (t - f)"
    if "acc' \<le> acc + (t - f)" for acc' using that by (simp add: algebra_simps)
  show ?case
  proof (cases "is_pause e")
    case True
    then show ?thesis
      using Cons.IH[of acc "Some (max (timestamp e) f)"] Cons.IH[of acc ps] Cons.prems nn step[of acc]
      by (auto simp: Let_def)
  next
    case False
    show ?thesis
    proof (cases ps)
      case None
      with False show ?thesis using Cons.IH[of acc None] Cons.prems nn step[of acc] by auto
    next
      case (Some p)
      then have p: "f \<le> p" "p \<le> t" using Cons.prems(3) by auto
      then have "?d - p \<le> t - f" by linarith
      with False Some show ?thesis
        using Cons.IH[of acc None] Cons.IH[of "acc + (?d - p)" None] Cons.prems(1,2) nn
          step[of acc] step[of "acc + (?d - p)"]
        by (auto simp: Let_def)
    qed
  qed
qed

lemma calcPausedSeconds_num:
  assumes "f \<le> t" "int (Suc (length h)) * (t - f) \<le> 2 ^ 53"
  shows "calcPausedSeconds (map num_event h) (jsint f) (jsint t) = jsint (calcPausedSeconds_int h f t)"
proof (cases "h = []")
  case True
  then show ?thesis
    by (simp add: calcPausedSeconds_def calcPausedSeconds_int_def finish_paused_def Fin_0_jsint)
next
  case False
  obtain a q where r: "paused_loop_int f t h 0 None = (a, q)" by (cases "paused_loop_int f t h 0 None")
  have small: "0 + int (length h) * (t - f) \<le> 2 ^ 53"
  proof -
    have "int (length h) * (t - f) \<le> int (Suc (length h)) * (t - f)"
      using assms(1) by (intro mult_right_mono) auto
    with assms(2) show ?thesis by linarith
  qed
  have loop: "paused_loop (jsint f) (jsint t) (map num_event h) (jsint 0) None = (jsint a, map_option jsint q)"
    using paused_loop_num[OF assms(1) _ small, of None] by (simp add: r)
  show ?thesis
  proof (cases q)
    case None
    then show ?thesis using False loop r
      by (simp add: calcPausedSeconds_def calcPausedSeconds_int_def finish_paused_def Fin_0_jsint)
  next
    case (Some p)
    have p: "f \<le> p" "p \<le> t" using paused_loop_int_start[OF assms(1), of None h 0 p] r Some by auto
    have b: "0 \<le> a + (t - p)" "a + (t - p) \<le> 2 ^ 53"
      using paused_loop_int_bound[OF assms(1), of 0 None h] assms(2) r Some
      by (auto simp: finish_paused_def)
    have "t - f \<le> int (Suc (length h)) * (t - f)"
      using assms(1) mult_right_mono[of 1 "int (Suc (length h))" "t - f"] by simp
    then have "safe_int (t - p)" using p assms(2) by linarith
    with b show ?thesis using False loop r Some
      by (simp add: calcPausedSeconds_def calcPausedSeconds_int_def finish_paused_def Fin_0_jsint)
  qed
qed

text \<open>The inputs for which every intermediate result of \<^verbatim>\<open>calculateBalance\<close> is a safe integer.\<close>

definition balance_safe :: "int bal_stream \<Rightarrow> int \<Rightarrow> bool" where
  "balance_safe s now =
     (let w = effective_end s now - b_last_withdraw_time s in
      int (Suc (length (b_pause_history s))) * w \<le> 2 ^ 53 \<and>
      w * b_rate_per_second s \<le> 2 ^ 53 \<and> 0 \<le> b_rate_per_second s \<and>
      safe_int (b_deposit s - b_withdrawn s))"

lemma calculateBalance_num:
  assumes "balance_safe s now"
  shows "calculateBalance (num_stream s) (jsint now) = num_result (calculateBalance_int s now)"
proof -
  let ?f = "b_last_withdraw_time s" and ?t = "effective_end s now"
  have zero: "zero_balance = num_result zero_balance_int"
    by (simp add: zero_balance_def zero_balance_int_def num_result_def Fin_0_jsint)
  have eff: "effectiveEnd (num_stream s) (jsint now) = jsint ?t"
    by (simp add: effectiveEnd_def effective_end_def num_stream_def Fin_0_jsint)
  have sel: "b_last_withdraw_time (num_stream s) = jsint ?f"
    "b_cliff_time (num_stream s) = jsint (b_cliff_time s)" "b_status (num_stream s) = b_status s"
    "b_rate_per_second (num_stream s) = jsint (b_rate_per_second s)"
    "b_deposit (num_stream s) = jsint (b_deposit s)" "b_withdrawn (num_stream s) = jsint (b_withdrawn s)"
    "b_pause_history (num_stream s) = map num_event (b_pause_history s)"
    by (simp_all add: num_stream_def)
  have main: "js_sub (js_sub (jsint ?t) (jsint ?f)) (jsint P) = jsint (?t - ?f - P)
    \<and> js_mul (jsint (max 0 (?t - ?f - P))) (jsint (b_rate_per_second s))
      = jsint (max 0 (?t - ?f - P) * b_rate_per_second s)
    \<and> js_sub (jsint (b_deposit s)) (jsint (b_withdrawn s)) = jsint (b_deposit s - b_withdrawn s)"
    if P: "P = calcPausedSeconds_int (b_pause_history s) ?f ?t" and w: "?f < ?t" for P
  proof -
    let ?n = "int (Suc (length (b_pause_history s)))" and ?w = "?t - ?f"
    have bnd: "0 \<le> P" "P \<le> ?n * ?w"
      using paused_loop_int_bound[of ?f ?t 0 None "b_pause_history s"] w
      by (auto simp: P calcPausedSeconds_int_def)
    have A: "?n * ?w \<le> 2 ^ 53" "?w * b_rate_per_second s \<le> 2 ^ 53" "0 \<le> b_rate_per_second s"
      "safe_int (b_deposit s - b_withdrawn s)"
      using assms by (auto simp: balance_safe_def Let_def)
    have "?w \<le> ?n * ?w" using w mult_right_mono[of 1 ?n ?w] by simp
    then have s1: "safe_int ?w" and s2: "safe_int (?w - P)" using A(1) bnd w by linarith+
    have "max 0 (?w - P) * b_rate_per_second s \<le> ?w * b_rate_per_second s"
      using A(3) bnd w by (intro mult_right_mono) auto
    moreover have "0 \<le> max 0 (?w - P) * b_rate_per_second s" using A(3) by simp
    ultimately have s3: "safe_int (max 0 (?w - P) * b_rate_per_second s)" using A(2) by linarith
    show ?thesis using s1 s2 s3 A(4) by simp
  qed
  have paused: "calcPausedSeconds (map num_event (b_pause_history s)) (jsint ?f) (jsint ?t)
      = jsint (calcPausedSeconds_int (b_pause_history s) ?f ?t)" if "?f < ?t"
    using assms that by (intro calcPausedSeconds_num) (auto simp: balance_safe_def Let_def)
  show ?thesis
  proof (cases "?t \<le> ?f")
    case True
    then show ?thesis
      by (simp add: calculateBalance_def calculateBalance_int_def sel zero Let_def
        eff Fin_0_jsint)
  next
    case False
    then have "?f < ?t" by simp
    then show ?thesis using main[OF refl] paused
      by (simp add: calculateBalance_def calculateBalance_int_def sel zero Let_def num_result_def
        eff Fin_0_jsint)
  qed
qed

end
