(* ===== verification/Accrual.thy ===== *)
theory Accrual
  imports Balance
begin

text \<open>
  What an accrual function promises, as a locale, and its two providers: the contract's
  \<^verbatim>\<open>claimable_amount\<close> (\<^verbatim>\<open>contracts/stream/src/storage.rs\<close>), which pays, and the
  balance service's \<^verbatim>\<open>calculateBalance\<close>, which reports.
\<close>

section \<open>The contract's accrual\<close>

text \<open>
  Rust integers: \<^verbatim>\<open>saturating_sub\<close> on \<^verbatim>\<open>u64\<close> stops at zero, \<^verbatim>\<open>checked_mul\<close> on
  \<^verbatim>\<open>i128\<close> panics through \<^verbatim>\<open>expect\<close> (\<open>None\<close>), \<^verbatim>\<open>checked_sub\<close> falls back to zero.
\<close>

definition contract_end :: "contract_stream \<Rightarrow> int \<Rightarrow> int" where
  "contract_end s now = (if 0 < cs_stop_time s \<and> cs_stop_time s < now then cs_stop_time s else now)"

definition contract_remaining :: "contract_stream \<Rightarrow> int" where
  "contract_remaining s =
     (let d = cs_deposit s - cs_withdrawn s in if i128 d then max 0 d else 0)"

definition claimable_amount :: "contract_stream \<Rightarrow> int \<Rightarrow> int option" where
  "claimable_amount s now =
     (if cs_status s = Cancelled \<or> cs_status s = Exhausted then Some 0
      else if 0 < cs_cliff_time s \<and> now < cs_cliff_time s then Some 0
      else
        (let elapsed = max 0 (contract_end s now - cs_last_withdraw_time s) in
         if elapsed = 0 then Some 0
         else
           (let earned = elapsed * cs_rate_per_second s in
            if i128 earned then Some (max 0 (min earned (contract_remaining s))) else None)))"

text \<open>The state changes of \<^verbatim>\<open>pause_stream\<close> and \<^verbatim>\<open>resume_stream\<close> after their access
  checks; the time paused is added to \<^verbatim>\<open>last_withdraw_time\<close> on resume.\<close>

definition pause_stream :: "contract_stream \<Rightarrow> int \<Rightarrow> contract_stream option" where
  "pause_stream s now =
     (if cs_status s = Active then Some (s\<lparr>cs_paused_at := now, cs_status := Paused\<rparr>) else None)"

definition resume_stream :: "contract_stream \<Rightarrow> int \<Rightarrow> contract_stream option" where
  "resume_stream s now =
     (if cs_status s = Paused then
        Some (s\<lparr>cs_last_withdraw_time :=
                 min (2 ^ 64 - 1) (cs_last_withdraw_time s + max 0 (now - cs_paused_at s)),
               cs_paused_at := 0, cs_status := Active\<rparr>)
      else None)"

section \<open>The promise\<close>

locale accrual =
  fixes claim :: "'s \<Rightarrow> int \<Rightarrow> int"
    and remaining :: "'s \<Rightarrow> int"
    and ok :: "'s \<Rightarrow> bool"
    and time_ok :: "int \<Rightarrow> bool"
  assumes claim_nonneg: "ok s \<Longrightarrow> time_ok t \<Longrightarrow> 0 \<le> claim s t"
    and claim_le: "ok s \<Longrightarrow> time_ok t \<Longrightarrow> claim s t \<le> remaining s"
    and claim_mono: "ok s \<Longrightarrow> time_ok t \<Longrightarrow> time_ok t' \<Longrightarrow> t \<le> t' \<Longrightarrow> claim s t \<le> claim s t'"
begin

text \<open>Once everything that is left is claimable, it stays so.\<close>

lemma full_stays_full:
  assumes "ok s" "time_ok t" "time_ok t'" "t \<le> t'" "claim s t = remaining s"
  shows "claim s t' = remaining s"
  using claim_mono[OF assms(1-4)] claim_le[OF assms(1,3)] assms(5) by linarith

text \<open>Observing the claimable amount at increasing times: the gains add up to no more than what
  is left, however many observations there are.\<close>

fun gains :: "'s \<Rightarrow> int list \<Rightarrow> int" where
  "gains s (t # u # ts) = (claim s u - claim s t) + gains s (u # ts)"
| "gains s _ = 0"

lemma gains_telescope:
  "ts \<noteq> [] \<Longrightarrow> gains s ts = claim s (last ts) - claim s (hd ts)"
  by (induction s ts rule: gains.induct) auto

lemma gains_bounded:
  assumes "ok s" "list_all time_ok ts" "sorted ts" and False: "ts \<noteq> []"
  shows "0 \<le> gains s ts \<and> gains s ts \<le> remaining s"
proof -
  have t: "time_ok (hd ts)" "time_ok (last ts)" "hd ts \<le> last ts"
    using False assms(2,3) by (cases ts; force simp: list_all_iff)+
  then show ?thesis
    using gains_telescope[OF False, of s] claim_nonneg[OF assms(1) t(1)] claim_le[OF assms(1) t(2)]
      claim_mono[OF assms(1) t] by linarith
qed

end

section \<open>The balance service keeps the promise\<close>

definition bal_claim :: "int bal_stream \<Rightarrow> int \<Rightarrow> int" where
  "bal_claim s now = claimable_r (calculateBalance_int s now)"

definition bal_remaining :: "int bal_stream \<Rightarrow> int" where
  "bal_remaining s = max 0 (b_deposit s - b_withdrawn s)"

definition bal_ok :: "int bal_stream \<Rightarrow> bool" where
  "bal_ok s = (history_ok (b_pause_history s) \<and> 0 \<le> b_rate_per_second s)"

text \<open>The seconds of the window in which the stream runs.\<close>

definition active_seconds :: "int pause_event list \<Rightarrow> int \<Rightarrow> int \<Rightarrow> int" where
  "active_seconds h f t = int (card {x. f \<le> x \<and> x < t \<and> \<not> paused_at h x})"

lemma active_seconds_mono: "t \<le> t' \<Longrightarrow> active_seconds h f t \<le> active_seconds h f t'"
  unfolding active_seconds_def by (intro zle_int[THEN iffD2] card_mono) auto

lemma bal_claim_formula:
  assumes "bal_ok s"
  shows "bal_claim s now =
    (if b_status s = ''Cancelled'' \<or> b_status s = ''Exhausted'' then 0
     else if 0 < b_cliff_time s \<and> now < b_cliff_time s then 0
     else min (active_seconds (b_pause_history s) (b_last_withdraw_time s) (effective_end s now)
               * b_rate_per_second s) (bal_remaining s))"
proof -
  let ?f = "b_last_withdraw_time s" and ?t = "effective_end s now"
  have h: "history_ok (b_pause_history s)" using assms by (simp add: bal_ok_def)
  show ?thesis
  proof (cases "?t \<le> ?f")
    case True
    then have "{x. ?f \<le> x \<and> x < ?t \<and> \<not> paused_at (b_pause_history s) x} = {}" by auto
    then have "active_seconds (b_pause_history s) ?f ?t = 0" by (simp add: active_seconds_def)
    with True show ?thesis
      by (simp add: bal_claim_def calculateBalance_int_def zero_balance_int_def bal_remaining_def)
  next
    case False
    then have "?t - ?f - calcPausedSeconds_int (b_pause_history s) ?f ?t
        = active_seconds (b_pause_history s) ?f ?t"
      using paused_plus_active[OF h, of ?f ?t] by (simp add: active_seconds_def)
    moreover have "0 \<le> active_seconds (b_pause_history s) ?f ?t" by (simp add: active_seconds_def)
    ultimately show ?thesis using False
      by (simp add: bal_claim_def calculateBalance_int_def zero_balance_int_def bal_remaining_def Let_def)
  qed
qed

lemma effective_end_mono: "t \<le> t' \<Longrightarrow> effective_end s t \<le> effective_end s t'"
  by (auto simp: effective_end_def)

lemma bal_nonneg: "bal_ok s \<Longrightarrow> 0 \<le> bal_claim s t"
  by (auto simp: bal_claim_formula bal_remaining_def active_seconds_def bal_ok_def)

lemma bal_le: "bal_ok s \<Longrightarrow> bal_claim s t \<le> bal_remaining s"
  by (simp add: bal_claim_formula) (simp add: bal_remaining_def)

lemma bal_mono: "bal_ok s \<Longrightarrow> t \<le> t' \<Longrightarrow> bal_claim s t \<le> bal_claim s t'"
proof -
  assume ok: "bal_ok s" and le: "t \<le> t'"
  let ?A = "\<lambda>u. active_seconds (b_pause_history s) (b_last_withdraw_time s) (effective_end s u)
    * b_rate_per_second s"
  have "?A t \<le> ?A t'"
    using ok active_seconds_mono[OF effective_end_mono[OF le]]
    by (intro mult_right_mono) (auto simp: bal_ok_def)
  then show ?thesis
    using ok le bal_nonneg[OF ok, of t'] by (auto simp: bal_claim_formula)
qed

interpretation bal: accrual bal_claim bal_remaining bal_ok "\<lambda>_. True"
  by unfold_locales (simp_all add: bal_nonneg bal_le bal_mono)

section \<open>The contract keeps the promise\<close>

definition con_claim :: "contract_stream \<Rightarrow> int \<Rightarrow> int" where
  "con_claim s now = (case claimable_amount s now of Some x \<Rightarrow> x | None \<Rightarrow> 0)"

text \<open>The contract caps the rate when a stream is created; below \<open>2 ^ 63\<close> no multiplication
  with a 64-bit number of seconds can overflow.\<close>

definition con_ok :: "contract_stream \<Rightarrow> bool" where
  "con_ok s = (0 \<le> cs_rate_per_second s \<and> cs_rate_per_second s < 2 ^ 63 \<and>
     u64 (cs_last_withdraw_time s) \<and> u64 (cs_stop_time s))"

lemma contract_end_u64: "con_ok s \<Longrightarrow> u64 t \<Longrightarrow> u64 (contract_end s t)"
  by (auto simp: contract_end_def con_ok_def)

lemma earned_i128:
  assumes "con_ok s" "u64 t"
  shows "i128 (max 0 (contract_end s t - cs_last_withdraw_time s) * cs_rate_per_second s)"
proof -
  let ?e = "max 0 (contract_end s t - cs_last_withdraw_time s)"
  have e: "0 \<le> ?e" "?e \<le> 2 ^ 64 - 1"
    using contract_end_u64[OF assms] assms(1) by (auto simp: u64_def con_ok_def)
  have r: "0 \<le> cs_rate_per_second s" "cs_rate_per_second s \<le> 2 ^ 63 - 1"
    using assms(1) by (auto simp: con_ok_def)
  have "?e * cs_rate_per_second s \<le> (2 ^ 64 - 1) * (2 ^ 63 - 1)"
    using e r by (intro mult_mono) auto
  also have "\<dots> < 2 ^ 127" by simp
  finally have "?e * cs_rate_per_second s < 2 ^ 127" .
  moreover have "0 \<le> ?e * cs_rate_per_second s" using e r by (intro mult_nonneg_nonneg) auto
  ultimately show ?thesis by (simp add: i128_def)
qed

lemma contract_remaining_nonneg: "0 \<le> contract_remaining s"
  by (simp add: contract_remaining_def Let_def)

lemma claimable_amount_total:
  assumes "con_ok s" "u64 t"
  shows "claimable_amount s t = Some
    (if cs_status s = Cancelled \<or> cs_status s = Exhausted then 0
     else if 0 < cs_cliff_time s \<and> t < cs_cliff_time s then 0
     else min (max 0 (contract_end s t - cs_last_withdraw_time s) * cs_rate_per_second s)
              (contract_remaining s))"
  using earned_i128[OF assms] contract_remaining_nonneg[of s] assms(1)
  by (auto simp: claimable_amount_def Let_def con_ok_def)

lemma con_claim_formula:
  "con_ok s \<Longrightarrow> u64 t \<Longrightarrow> con_claim s t =
    (if cs_status s = Cancelled \<or> cs_status s = Exhausted then 0
     else if 0 < cs_cliff_time s \<and> t < cs_cliff_time s then 0
     else min (max 0 (contract_end s t - cs_last_withdraw_time s) * cs_rate_per_second s)
              (contract_remaining s))"
  by (simp add: con_claim_def claimable_amount_total)

lemma con_nonneg: "con_ok s \<Longrightarrow> u64 t \<Longrightarrow> 0 \<le> con_claim s t"
  using contract_remaining_nonneg[of s] by (auto simp: con_claim_formula con_ok_def)

lemma con_le: "con_ok s \<Longrightarrow> u64 t \<Longrightarrow> con_claim s t \<le> contract_remaining s"
  using contract_remaining_nonneg[of s] by (auto simp: con_claim_formula)

lemma con_mono:
  assumes "con_ok s" "u64 t" "u64 t'" "t \<le> t'"
  shows "con_claim s t \<le> con_claim s t'"
proof -
  let ?A = "\<lambda>u. max 0 (contract_end s u - cs_last_withdraw_time s) * cs_rate_per_second s"
  have "contract_end s t \<le> contract_end s t'" using assms(4) by (auto simp: contract_end_def)
  then have "?A t \<le> ?A t'" using assms(1) by (intro mult_right_mono) (auto simp: con_ok_def)
  then show ?thesis
    using assms con_nonneg[OF assms(1,3)] by (auto simp: con_claim_formula)
qed

interpretation con: accrual con_claim contract_remaining con_ok u64
  by unfold_locales (simp_all add: con_nonneg con_le con_mono)

section \<open>Properties\<close>

text \<open>A stream and a history for the witnesses: paused from 130 to 150.\<close>

definition sample_history :: "int pause_event list" where
  "sample_history =
     [\<lparr>timestamp = 130, is_pause = True\<rparr>, \<lparr>timestamp = 150, is_pause = False\<rparr>]"

definition sample_bal :: "int bal_stream" where
  "sample_bal =
     \<lparr>b_deposit = 1000, b_withdrawn = 100, b_rate_per_second = 3, b_start_time = 0, b_stop_time = 0,
      b_last_withdraw_time = 100, b_cliff_time = 0, b_status = ''Active'',
      b_pause_history = sample_history\<rparr>"

lemma sample_ok: "bal_ok sample_bal" "history_ok sample_history"
  by (simp_all add: bal_ok_def sample_bal_def sample_history_def history_ok_def history_sorted_def)

text \<open>C6: \<open>calcPausedSeconds\<close> is right: for a history in order without two pauses in a row, the
  paused time of a window is the number of its seconds at which the last event was a pause. In
  particular it is between zero and the length of the window.\<close>

theorem paused_seconds_counted:
  assumes "history_ok h" "f \<le> t"
  shows "calcPausedSeconds_int h f t = int (card {x. f \<le> x \<and> x < t \<and> paused_at h x})
    \<and> 0 \<le> calcPausedSeconds_int h f t \<and> calcPausedSeconds_int h f t \<le> t - f"
proof -
  have "0 \<le> t - f - calcPausedSeconds_int h f t" using paused_plus_active[OF assms] by simp
  then show ?thesis using calcPausedSeconds_int_counts[OF assms] by simp
qed

theorem paused_seconds_counted_witness:
  "calcPausedSeconds_int sample_history 100 200 = 20
   \<and> int (card {x. 100 \<le> x \<and> x < (200::int) \<and> paused_at sample_history x}) = 20"
proof -
  have "calcPausedSeconds_int sample_history 100 200 = 20"
    by (simp add: calcPausedSeconds_int_def sample_history_def finish_paused_def Let_def)
  then show ?thesis using paused_seconds_counted[OF sample_ok(2), of 100 200] by simp
qed

text \<open>C7: The service computes with JavaScript numbers what the algorithm computes over the
  integers, whenever the products that occur stay within the safe integers.\<close>

theorem calculateBalance_exact:
  assumes "balance_safe s now"
  shows "calculateBalance (num_stream s) (jsint now) = num_result (calculateBalance_int s now)"
  using assms by (rule calculateBalance_num)

theorem calculateBalance_exact_witness:
  "balance_safe sample_bal 200 \<and>
   claimable_r (calculateBalance (num_stream sample_bal) (jsint 200)) = jsint 240"
proof -
  have "balance_safe sample_bal 200"
    by (simp add: balance_safe_def sample_bal_def sample_history_def effective_end_def)
  moreover have "claimable_r (calculateBalance_int sample_bal 200) = 240"
    by (simp add: calculateBalance_int_def sample_bal_def sample_history_def effective_end_def
      calcPausedSeconds_int_def finish_paused_def Let_def)
  ultimately show ?thesis using calculateBalance_exact[of sample_bal 200]
    by (simp add: num_result_def)
qed

text \<open>C8: The reported claimable amount is never negative, never more than the unpaid deposit,
  and never falls while the stream's stored state stays the same.\<close>

theorem balance_bounded_monotone:
  assumes "bal_ok s" "t \<le> t'"
  shows "0 \<le> claimable_r (calculateBalance_int s t)
    \<and> claimable_r (calculateBalance_int s t') \<le> max 0 (b_deposit s - b_withdrawn s)
    \<and> claimable_r (calculateBalance_int s t) \<le> claimable_r (calculateBalance_int s t')"
  using bal.claim_nonneg[OF assms(1), of t] bal.claim_le[OF assms(1), of t']
    bal.claim_mono[OF assms(1), of t t'] assms(2)
  by (simp add: bal_claim_def bal_remaining_def)

theorem balance_bounded_monotone_witness:
  "bal_ok sample_bal \<and> claimable_r (calculateBalance_int sample_bal 140) \<le>
    claimable_r (calculateBalance_int sample_bal 700)"
  using balance_bounded_monotone[OF sample_ok(1), of 140 700] sample_ok(1) by simp

section \<open>The service against the contract\<close>

text \<open>The service's view of a stored stream with its pause history.\<close>

definition bal_of_contract :: "contract_stream \<Rightarrow> int pause_event list \<Rightarrow> int bal_stream" where
  "bal_of_contract s h =
     \<lparr>b_deposit = cs_deposit s, b_withdrawn = cs_withdrawn s,
      b_rate_per_second = cs_rate_per_second s, b_start_time = cs_start_time s,
      b_stop_time = cs_stop_time s, b_last_withdraw_time = cs_last_withdraw_time s,
      b_cliff_time = cs_cliff_time s, b_status = status_name (cs_status s), b_pause_history = h\<rparr>"

lemma status_name_ended:
  "(status_name x = ''Cancelled'') = (x = Cancelled)" "(status_name x = ''Exhausted'') = (x = Exhausted)"
  by (cases x; simp)+

lemma bal_ok_of_contract: "con_ok s \<Longrightarrow> history_ok h \<Longrightarrow> bal_ok (bal_of_contract s h)"
  by (simp add: bal_ok_def bal_of_contract_def con_ok_def)

lemma remaining_of_contract:
  "i128 (cs_deposit s - cs_withdrawn s) \<Longrightarrow> bal_remaining (bal_of_contract s h) = contract_remaining s"
  by (simp add: bal_remaining_def bal_of_contract_def contract_remaining_def)

lemma end_of_contract: "effective_end (bal_of_contract s h) t = contract_end s t"
  by (simp add: effective_end_def bal_of_contract_def contract_end_def)

lemma active_seconds_never_paused:
  "(\<And>x. f \<le> x \<Longrightarrow> x < t \<Longrightarrow> \<not> paused_at h x) \<Longrightarrow> active_seconds h f t = max 0 (t - f)"
proof -
  assume np: "\<And>x. f \<le> x \<Longrightarrow> x < t \<Longrightarrow> \<not> paused_at h x"
  then have "{x. f \<le> x \<and> x < t \<and> \<not> paused_at h x} = {x. f \<le> x \<and> x < t}" by auto
  then show ?thesis using card_int_interval[of f t] by (simp add: active_seconds_def)
qed

text \<open>C9: For a stream that was not paused since the last withdrawal, the service reports exactly
  what the contract pays: status, cliff, stop time and deposit cap are treated alike.\<close>

theorem balance_agrees_with_contract:
  assumes "con_ok s" "u64 t" "i128 (cs_deposit s - cs_withdrawn s)" "history_ok h"
    and "\<And>x. cs_last_withdraw_time s \<le> x \<Longrightarrow> x < t \<Longrightarrow> \<not> paused_at h x"
  shows "claimable_amount s t = Some (claimable_r (calculateBalance_int (bal_of_contract s h) t))"
proof -
  have "contract_end s t \<le> t" by (simp add: contract_end_def)
  then have a: "active_seconds h (cs_last_withdraw_time s) (contract_end s t)
      = max 0 (contract_end s t - cs_last_withdraw_time s)"
    using assms(5) by (intro active_seconds_never_paused) auto
  have "bal_claim (bal_of_contract s h) t = con_claim s t"
    unfolding bal_claim_formula[OF bal_ok_of_contract[OF assms(1,4)]] con_claim_formula[OF assms(1,2)]
      remaining_of_contract[OF assms(3)] end_of_contract
    using a by (simp add: bal_of_contract_def status_name_ended)
  then show ?thesis using claimable_amount_total[OF assms(1,2)] by (simp add: bal_claim_def con_claim_def)
qed

definition sample_con :: contract_stream where
  "sample_con =
     \<lparr>cs_id = 1, cs_employer = ''GA'', cs_employee = ''GB'', cs_token = ''CT'', cs_deposit = 1000,
      cs_withdrawn = 100, cs_rate_per_second = 3, cs_start_time = 0, cs_stop_time = 180,
      cs_last_withdraw_time = 100, cs_cooldown_period = 0, cs_status = Active, cs_locked = False,
      cs_cliff_time = 50, cs_paused_at = 0, cs_delegate = None\<rparr>"

theorem balance_agrees_with_contract_witness:
  "claimable_amount sample_con 200 = Some 240
   \<and> claimable_r (calculateBalance_int (bal_of_contract sample_con []) 200) = 240"
proof -
  have "con_ok sample_con" "u64 200" "i128 (cs_deposit sample_con - cs_withdrawn sample_con)"
    by (simp_all add: con_ok_def sample_con_def u64_def i128_def)
  moreover have "history_ok []" "\<And>x. \<not> paused_at [] x"
    by (simp_all add: history_ok_def history_sorted_def paused_at_def)
  moreover have "claimable_amount sample_con 200 = Some 240"
    by (simp add: claimable_amount_def sample_con_def contract_end_def contract_remaining_def i128_def Let_def)
  ultimately show ?thesis using balance_agrees_with_contract[of sample_con 200 "[]"] by simp
qed

text \<open>
  The events the contract appends to the history when it pauses and resumes.
\<close>

definition pause_resume_history :: "int \<Rightarrow> int \<Rightarrow> int pause_event list" where
  "pause_resume_history p r = [\<lparr>timestamp = p, is_pause = True\<rparr>, \<lparr>timestamp = r, is_pause = False\<rparr>]"

lemma pause_resume_effect:
  assumes "cs_status s = Active" "p \<le> r" "0 \<le> cs_last_withdraw_time s"
    and "cs_last_withdraw_time s + (r - p) < 2 ^ 64"
  shows "Option.bind (pause_stream s p) (\<lambda>s1. resume_stream s1 r) =
    Some (s\<lparr>cs_paused_at := 0, cs_status := Active,
            cs_last_withdraw_time := cs_last_withdraw_time s + (r - p)\<rparr>)"
  using assms by (simp add: pause_stream_def resume_stream_def)

lemma paused_of_pause_resume:
  "p < r \<Longrightarrow> r \<le> t \<Longrightarrow> f \<le> t \<Longrightarrow>
    calcPausedSeconds_int (pause_resume_history p r) f t = max 0 (r - max p f)"
  by (auto simp: calcPausedSeconds_int_def pause_resume_history_def finish_paused_def Let_def)

text \<open>After the contract resumes a stream it has moved the last withdrawal time forward by the
  pause, so paused time is already left out of what it pays. The service subtracts the pause that
  is still in the history again: it reports \<open>rate * min (r - p) (p - lastWithdraw)\<close> too little.\<close>

theorem balance_subtracts_pause_twice:
  assumes "con_ok s" "u64 t" "i128 (cs_deposit s - cs_withdrawn s)"
    and "cs_status s = Active" "cs_stop_time s = 0" "cs_cliff_time s = 0"
    and "cs_last_withdraw_time s \<le> p" "p < r" "r \<le> t"
    and cap: "(t - cs_last_withdraw_time s) * cs_rate_per_second s \<le> cs_deposit s - cs_withdrawn s"
    and resumed: "Option.bind (pause_stream s p) (\<lambda>s1. resume_stream s1 r) = Some s'"
  shows "claimable_amount s' t = Some ((t - cs_last_withdraw_time s - (r - p)) * cs_rate_per_second s)
    \<and> claimable_r (calculateBalance_int (bal_of_contract s' (pause_resume_history p r)) t)
      = (t - cs_last_withdraw_time s - (r - p)) * cs_rate_per_second s
        - min (r - p) (p - cs_last_withdraw_time s) * cs_rate_per_second s"
proof -
  let ?lw = "cs_last_withdraw_time s" and ?rate = "cs_rate_per_second s"
  let ?f = "?lw + (r - p)"
  have bnd: "0 \<le> ?lw" "t < 2 ^ 64" and rate: "0 \<le> ?rate" using assms(1,2) by (auto simp: con_ok_def u64_def)
  have f: "0 \<le> ?f" "?f < 2 ^ 64" "?f \<le> t" using bnd assms(7-9) by auto
  have s': "s' = s\<lparr>cs_paused_at := 0, cs_status := Active, cs_last_withdraw_time := ?f\<rparr>"
    using resumed pause_resume_effect[OF assms(4) _ bnd(1), of p r] assms(8) f by simp
  have ok': "con_ok s'" using assms(1) f by (simp add: con_ok_def u64_def s')
  have rem: "contract_remaining s' = cs_deposit s - cs_withdrawn s"
  proof -
    have "0 \<le> (t - ?lw) * ?rate" using rate assms(7-9) by simp
    then show ?thesis using cap assms(3) by (simp add: contract_remaining_def s')
  qed
  have le: "x * ?rate \<le> cs_deposit s - cs_withdrawn s" if "x \<le> t - ?lw" for x
    using mult_right_mono[OF that rate] cap by linarith
  have con: "claimable_amount s' t = Some ((t - ?f) * ?rate)"
    using claimable_amount_total[OF ok' assms(2)] le[of "t - ?f"] f assms(5-9)
    unfolding rem by (simp add: s' contract_end_def)
  have "max 0 (r - max p ?f) = min (r - p) (p - ?lw)" using assms(7,8) by linarith
  then have paused: "calcPausedSeconds_int (pause_resume_history p r) ?f t = min (r - p) (p - ?lw)"
    using paused_of_pause_resume[OF assms(8,9) f(3)] by simp
  let ?m = "min (r - p) (p - ?lw)"
  have act: "max 0 (t - ?f - ?m) = t - ?f - ?m" "t - ?f - ?m \<le> t - ?lw" using assms(7-9) by linarith+
  have rem2: "max 0 (cs_deposit s - cs_withdrawn s) = cs_deposit s - cs_withdrawn s"
    using rem contract_remaining_nonneg[of s'] by simp
  have "claimable_r (calculateBalance_int (bal_of_contract s' (pause_resume_history p r)) t)
      = (t - ?f - ?m) * ?rate"
  proof (cases "t \<le> ?f")
    case True
    then have "t = ?f" using f by simp
    moreover from this have "?m = 0" using assms(7-9) by linarith
    ultimately show ?thesis
      by (simp add: calculateBalance_int_def bal_of_contract_def s' effective_end_def assms(5,6)
        zero_balance_int_def)
  next
    case False
    then show ?thesis using act le[OF act(2)] paused rem2
      by (simp add: calculateBalance_int_def bal_of_contract_def s' effective_end_def assms(5,6) Let_def)
  qed
  then show ?thesis using con by (simp add: algebra_simps)
qed

theorem balance_subtracts_pause_twice_witness:
  "\<exists>s'. Option.bind (pause_stream (sample_con\<lparr>cs_stop_time := 0, cs_cliff_time := 0\<rparr>) 130)
      (\<lambda>s1. resume_stream s1 150) = Some s'
    \<and> claimable_amount s' 200 = Some 240
    \<and> claimable_r (calculateBalance_int (bal_of_contract s' (pause_resume_history 130 150)) 200) = 180"
proof -
  let ?s = "sample_con\<lparr>cs_stop_time := 0, cs_cliff_time := 0\<rparr>"
  let ?s' = "?s\<lparr>cs_last_withdraw_time := 120, cs_paused_at := 0, cs_status := Active\<rparr>"
  have r: "Option.bind (pause_stream ?s 130) (\<lambda>s1. resume_stream s1 150) = Some ?s'"
    by (simp add: pause_stream_def resume_stream_def sample_con_def)
  have "con_ok ?s" "u64 200" "i128 (cs_deposit ?s - cs_withdrawn ?s)"
    by (simp_all add: con_ok_def sample_con_def u64_def i128_def)
  from balance_subtracts_pause_twice[OF this, of 130 150 ?s'] r
  show ?thesis by (intro exI[of _ ?s']) (simp add: sample_con_def)
qed

end
