(* ===== verification/Balance_Periods.thy ===== *)
theory Balance_Periods
  imports Accrual
begin

text \<open>
  The per-period report of the balance service (\<^verbatim>\<open>buildPeriods\<close> and
  \<^verbatim>\<open>calculateBalanceByDuration\<close> of \<^verbatim>\<open>services/balance/balance.js\<close>), with the
  UTC calendar of JavaScript's \<^verbatim>\<open>Date\<close>: proleptic Gregorian, no leap seconds. Times are
  whole seconds within the range of \<^verbatim>\<open>Date\<close>.
\<close>

section \<open>The calendar\<close>

text \<open>Days from the epoch to 1 January of a year, as ECMAScript's \<^verbatim>\<open>DayFromYear\<close>.\<close>

definition day_from_year :: "int \<Rightarrow> int" where
  "day_from_year y = 365 * (y - 1970) + (y - 1969) div 4 - (y - 1901) div 100 + (y - 1601) div 400"

definition leap_year :: "int \<Rightarrow> bool" where
  "leap_year y = (y mod 4 = 0 \<and> (y mod 100 \<noteq> 0 \<or> y mod 400 = 0))"

text \<open>The year of a day: a first guess from the mean length of a year, then one correction.\<close>

definition year_from_day :: "int \<Rightarrow> int" where
  "year_from_day d =
     (let e = 1970 + (400 * d) div 146097 in
      if d < day_from_year e then e - 1
      else if day_from_year (e + 1) \<le> d then e + 1
      else e)"

text \<open>Days before month \<open>m\<close> (0 to 11) within its year.\<close>

definition days_before_month :: "bool \<Rightarrow> int \<Rightarrow> int" where
  "days_before_month leap m =
     [0, 31, 59, 90, 120, 151, 181, 212, 243, 273, 304, 334] ! nat m + (if leap \<and> 2 \<le> m then 1 else 0)"

text \<open>The first day of month \<open>m\<close> of year \<open>y\<close>; months outside 0 to 11 carry into the year.\<close>

definition month_start :: "int \<Rightarrow> int \<Rightarrow> int" where
  "month_start y m =
     (let ym = y + m div 12 in day_from_year ym + days_before_month (leap_year ym) (m mod 12))"

definition month_from_day :: "int \<Rightarrow> int" where
  "month_from_day d =
     (let y = year_from_day d in
      int (length (filter (\<lambda>m. month_start y m \<le> d) [1, 2, 3, 4, 5, 6, 7, 8, 9, 10, 11])))"

text \<open>\<^verbatim>\<open>d.setUTCDate(d.getUTCDate() + 1)\<close> and \<^verbatim>\<open>d.setUTCMonth(d.getUTCMonth() + 1)\<close>
  on a number of seconds: the time of day is kept, the day of the month may run over into the month
  after (31 January becomes 3 or 2 March).\<close>

definition add_utc_day :: "int \<Rightarrow> int" where
  "add_utc_day secs =
     (let d = secs div 86400; y = year_from_day d; m = month_from_day d;
          date = d - month_start y m + 1
      in (month_start y m + (date + 1) - 1) * 86400 + secs mod 86400)"

definition add_utc_month :: "int \<Rightarrow> int" where
  "add_utc_month secs =
     (let d = secs div 86400; y = year_from_day d; m = month_from_day d;
          date = d - month_start y m + 1
      in (month_start y (m + 1) + date - 1) * 86400 + secs mod 86400)"

lemma succ_div: "0 < k \<Longrightarrow> (z + 1) div k = z div k + (if k dvd z + 1 then 1 else (0::int))"
proof -
  assume k: "0 < k"
  define q r where "q = z div k" and "r = z mod k"
  have z: "z = k * q + r" "0 \<le> r" "r < k" using k by (simp_all add: q_def r_def)
  show ?thesis
  proof (cases "r + 1 = k")
    case True
    then have e: "z + 1 = k * (q + 1)" using z by (simp add: algebra_simps)
    then show ?thesis unfolding q_def[symmetric] using k by simp
  next
    case False
    then have "(z + 1) div k = q" and "(z + 1) mod k = r + 1"
      using z k by (auto intro!: int_div_pos_eq[of _ _ _ "r + 1"] int_mod_pos_eq[of _ _ q])
    moreover from this have "\<not> k dvd z + 1" using z(2) by (simp add: dvd_eq_mod_eq_0)
    ultimately show ?thesis by (simp add: q_def)
  qed
qed

lemma leap_year_dvd: "leap_year y = (4 dvd y \<and> (\<not> 100 dvd y \<or> 400 dvd y))"
  by (simp only: leap_year_def mod_eq_0_iff_dvd)

lemma year_length: "day_from_year (y + 1) - day_from_year y = (if leap_year y then 366 else 365)"
proof -
  have dvd: "(4 dvd y - 1968) = (4 dvd y)" "(100 dvd y - 1900) = (100 dvd y)"
    "(400 dvd y - 1600) = (400 dvd y)"
    using dvd_add_left_iff[of 4 "- 1968" y] dvd_add_left_iff[of 100 "- 1900" y]
      dvd_add_left_iff[of 400 "- 1600" y] by simp_all
  have d: "400 dvd y \<Longrightarrow> 100 dvd y" "100 dvd y \<Longrightarrow> 4 dvd y"
    using dvd_trans[of 100 400 y] dvd_trans[of 4 100 y] by simp_all
  have steps: "(y - 1968) div 4 = (y - 1969) div 4 + (if 4 dvd y then 1 else 0)"
    "(y - 1900) div 100 = (y - 1901) div 100 + (if 100 dvd y then 1 else 0)"
    "(y - 1600) div 400 = (y - 1601) div 400 + (if 400 dvd y then 1 else 0)"
    using succ_div[of 4 "y - 1969"] succ_div[of 100 "y - 1901"] succ_div[of 400 "y - 1601"] dvd
    by simp_all
  have "day_from_year (y + 1) - day_from_year y =
      365 + (if 4 dvd y then 1 else 0) - (if 100 dvd y then 1 else 0) + (if 400 dvd y then 1 else 0)"
    unfolding day_from_year_def using steps by simp
  then show ?thesis using d unfolding leap_year_dvd by presburger
qed

lemma year_from_day_correct:
  "day_from_year (year_from_day d) \<le> d \<and> d < day_from_year (year_from_day d + 1)"
proof -
  define q where "q = (400 * d) div 146097"
  have q: "146097 * q \<le> 400 * d" "400 * d < 146097 * q + 146097" unfolding q_def by linarith+
  have dy: "400 * day_from_year y \<le> 146097 * (y - 1970) + 591"
    "146097 * (y - 1970) - 873 \<le> 400 * day_from_year y" for y
  proof -
    have k: "k * (z div k) \<le> z" "z - k < k * (z div k)" if "0 < k" for z k :: int
      using that pos_mod_bound[OF that, of z] pos_mod_sign[OF that, of z] minus_mod_eq_mult_div[of z k]
      by linarith+
    note b = k[of 4 "y - 1969"] k[of 100 "y - 1901"] k[of 400 "y - 1601"]
    show "400 * day_from_year y \<le> 146097 * (y - 1970) + 591"
      using b unfolding day_from_year_def by simp
    show "146097 * (y - 1970) - 873 \<le> 400 * day_from_year y"
      using b unfolding day_from_year_def by simp
  qed
  have "400 * day_from_year (1969 + q) < 400 * d" using dy(1)[of "1969 + q"] q by simp
  then have "day_from_year (1969 + q) \<le> d" by simp
  moreover have "400 * d < 400 * day_from_year (1972 + q)" using dy(2)[of "1972 + q"] q by simp
  then have "d < day_from_year (1972 + q)" by simp
  moreover have "year_from_day d = (if d < day_from_year (1970 + q) then 1969 + q
      else if day_from_year (1971 + q) \<le> d then 1971 + q else 1970 + q)"
    unfolding year_from_day_def Let_def q_def[symmetric] by (simp add: add.commute add.left_commute)
  ultimately show ?thesis by (auto simp: add.commute add.left_commute)
qed

lemma month_from_day_range: "0 \<le> month_from_day d \<and> month_from_day d \<le> 11"
proof -
  have "length (filter P [1, 2, 3, 4, 5, 6, 7, 8, 9, 10, 11 :: int]) \<le> 11" for P
    using length_filter_le[of P "[1, 2, 3, 4, 5, 6, 7, 8, 9, 10, 11 :: int]"] by simp
  then show ?thesis by (simp add: month_from_day_def Let_def del: filter.simps)
qed

lemma month_length:
  assumes "0 \<le> m" "m \<le> 11"
  shows "28 \<le> month_start y (m + 1) - month_start y m \<and> month_start y (m + 1) - month_start y m \<le> 31"
proof (cases "m = 11")
  case True
  then show ?thesis using year_length[of y]
    by (simp add: month_start_def days_before_month_def split: if_splits)
next
  case False
  then have "m \<in> {0, 1, 2, 3, 4, 5, 6, 7, 8, 9, 10}" using assms by simp presburger
  then show ?thesis by (auto simp: month_start_def days_before_month_def)
qed

lemma add_utc_day_eq: "add_utc_day secs = secs + 86400"
  by (simp add: add_utc_day_def Let_def algebra_simps)

lemma add_utc_month_step:
  "\<exists>k. 28 \<le> k \<and> k \<le> 31 \<and> add_utc_month secs = secs + k * 86400"
proof -
  let ?d = "secs div 86400"
  let ?y = "year_from_day ?d" and ?m = "month_from_day ?d"
  let ?k = "month_start ?y (?m + 1) - month_start ?y ?m"
  have "add_utc_month secs = (?d + ?k) * 86400 + secs mod 86400"
    by (simp add: add_utc_month_def Let_def)
  also have "\<dots> = secs + ?k * 86400" by (simp add: algebra_simps)
  finally show ?thesis using month_length[of ?m ?y] month_from_day_range[of ?d] by blast
qed

section \<open>Period boundaries\<close>

definition next_cursor :: "string \<Rightarrow> int option \<Rightarrow> int \<Rightarrow> js_error + int" where
  "next_cursor durationType customPeriodSecs cursor =
     (if durationType = ''daily'' then Inr (add_utc_day cursor)
      else if durationType = ''weekly'' then Inr (cursor + 7 * 86400)
      else if durationType = ''monthly'' then Inr (add_utc_month cursor)
      else if durationType = ''custom'' then
        (case customPeriodSecs of
           None \<Rightarrow> Inl (Error ''customPeriodSecs must be a positive number for custom duration type'')
         | Some c \<Rightarrow>
             if c = 0 \<or> c \<le> 0
             then Inl (Error ''customPeriodSecs must be a positive number for custom duration type'')
             else Inr (cursor + c))
      else Inl (Error (''Unknown duration type: '' @ durationType)))"

lemma next_cursor_progress: "next_cursor dt c cur = Inr n \<Longrightarrow> cur < n"
  using add_utc_month_step[of cur]
  by (auto simp: next_cursor_def add_utc_day_eq split: if_splits option.splits)

text \<open>The loop of \<^verbatim>\<open>buildPeriods\<close> from \<open>cursor\<close>: the periods as pairs of start and end.\<close>

function build_periods ::
  "string \<Rightarrow> int option \<Rightarrow> int \<Rightarrow> int \<Rightarrow> js_error + (int \<times> int) list" where
  "build_periods durationType customPeriodSecs endSecs cursor =
     (if cursor < endSecs then
        (case next_cursor durationType customPeriodSecs cursor of
           Inl e \<Rightarrow> Inl e
         | Inr nextCursor \<Rightarrow>
             rbind (build_periods durationType customPeriodSecs endSecs nextCursor) (\<lambda>ps.
               Inr ((cursor, min nextCursor endSecs) # ps)))
      else Inr [])"
  by pat_completeness auto
termination
  by (relation "measure (\<lambda>(_, _, e, c). nat (e - c))") (auto dest: next_cursor_progress)

declare build_periods.simps [simp del]

definition buildPeriods :: "int \<Rightarrow> int \<Rightarrow> string \<Rightarrow> int option \<Rightarrow> js_error + (int \<times> int) list" where
  "buildPeriods startSecs endSecs durationType customPeriodSecs =
     build_periods durationType customPeriodSecs endSecs startSecs"

text \<open>One period: the balance of the stream restricted to it.\<close>

definition period_slice :: "int bal_stream \<Rightarrow> int \<times> int \<Rightarrow> int bal_stream" where
  "period_slice s p = s\<lparr>b_last_withdraw_time := fst p, b_stop_time := snd p\<rparr>"

definition period_earned :: "int bal_stream \<Rightarrow> int \<times> int \<Rightarrow> int" where
  "period_earned s p = claimable_r (calculateBalance_int (period_slice s p) (snd p))"

definition calculateBalanceByDuration ::
  "int bal_stream \<Rightarrow> string \<Rightarrow> int option \<Rightarrow> int \<Rightarrow> js_error + ((int \<times> int) \<times> int) list" where
  "calculateBalanceByDuration s durationType customPeriodSecs now =
     (let streamStart = b_start_time s; effectiveEnd = effective_end s now in
      if effectiveEnd \<le> streamStart then Inr []
      else rbind (buildPeriods streamStart effectiveEnd durationType customPeriodSecs)
             (\<lambda>ps. Inr (map (\<lambda>p. (p, period_earned s p)) ps)))"
section \<open>The periods tile the stream's life\<close>

text \<open>Consecutive non-empty intervals from \<open>a\<close> to \<open>b\<close>.\<close>

fun tiles :: "int \<Rightarrow> int \<Rightarrow> (int \<times> int) list \<Rightarrow> bool" where
  "tiles a b [] = (a = b)"
| "tiles a b (p # ps) = (fst p = a \<and> a < snd p \<and> snd p \<le> b \<and> tiles (snd p) b ps)"

text \<open>The duration arguments the service accepts.\<close>

definition duration_ok :: "string \<Rightarrow> int option \<Rightarrow> bool" where
  "duration_ok dt c =
     (dt \<in> {''daily'', ''weekly'', ''monthly''} \<or> dt = ''custom'' \<and> (\<exists>k. c = Some k \<and> 0 < k))"

lemma next_cursor_ok: "duration_ok dt c \<Longrightarrow> \<exists>n. next_cursor dt c cur = Inr n"
  by (auto simp: duration_ok_def next_cursor_def)

lemma next_cursor_bad: "\<not> duration_ok dt c \<Longrightarrow> \<exists>e. next_cursor dt c cur = Inl e"
  by (cases c) (simp_all add: duration_ok_def next_cursor_def, linarith)

lemma build_periods_tiles:
  "duration_ok dt c \<Longrightarrow> cur < e \<Longrightarrow> \<exists>ps. build_periods dt c e cur = Inr ps \<and> tiles cur e ps"
proof (induction dt c e cur rule: build_periods.induct)
  case (1 dt c e cur)
  obtain n where n: "next_cursor dt c cur = Inr n" using next_cursor_ok[OF "1.prems"(1)] by blast
  then have "cur < n" by (rule next_cursor_progress)
  have eq: "build_periods dt c e cur = rbind (build_periods dt c e n) (\<lambda>ps. Inr ((cur, min n e) # ps))"
    using "1.prems"(2) n by (subst build_periods.simps) simp
  show ?case
  proof (cases "n < e")
    case True
    then obtain ps where "build_periods dt c e n = Inr ps" "tiles n e ps"
      using "1.IH"[OF "1.prems"(2) n "1.prems"(1)] by blast
    with True \<open>cur < n\<close> show ?thesis by (simp add: eq)
  next
    case False
    then have "build_periods dt c e n = Inr []" by (subst build_periods.simps) simp
    with False "1.prems"(2) show ?thesis by (simp add: eq)
  qed
qed

lemma active_seconds_split:
  "a \<le> b \<Longrightarrow> b \<le> c \<Longrightarrow> active_seconds h a c = active_seconds h a b + active_seconds h b c"
proof -
  assume le: "a \<le> b" "b \<le> c"
  let ?S = "\<lambda>f t. {x. f \<le> x \<and> x < t \<and> \<not> paused_at h x}"
  have fin: "finite (?S f t)" for f t by (rule finite_subset[of _ "{f..<t}"]) auto
  have un: "?S a c = ?S a b \<union> ?S b c" and dis: "?S a b \<inter> ?S b c = {}" using le by auto
  have "card (?S a c) = card (?S a b) + card (?S b c)"
    unfolding un by (rule card_Un_disjoint[OF fin fin dis])
  then show ?thesis by (simp add: active_seconds_def)
qed

lemma tiles_le: "tiles a b ps \<Longrightarrow> a \<le> b"
  by (induction a b ps rule: tiles.induct) auto

lemma tiles_active:
  "tiles a b ps \<Longrightarrow> (\<Sum>p\<leftarrow>ps. active_seconds h (fst p) (snd p)) = active_seconds h a b"
proof (induction a b ps rule: tiles.induct)
  case (1 a b)
  then have "{x. a \<le> x \<and> x < b \<and> \<not> paused_at h x} = {}" by auto
  then show ?case by (simp add: active_seconds_def)
next
  case (2 a b p ps)
  then show ?case by (simp add: active_seconds_split[of a "snd p" b])
qed

definition running :: "int bal_stream \<Rightarrow> bool" where
  "running s = (b_status s \<noteq> ''Cancelled'' \<and> b_status s \<noteq> ''Exhausted'' \<and> b_cliff_time s = 0)"

lemma period_earned_formula:
  assumes "bal_ok s" "running s"
  shows "period_earned s p =
    min (active_seconds (b_pause_history s) (fst p) (snd p) * b_rate_per_second s) (bal_remaining s)"
proof -
  have ok: "bal_ok (period_slice s p)" using assms(1) by (simp add: bal_ok_def period_slice_def)
  have e: "effective_end (period_slice s p) (snd p) = snd p"
    by (simp add: effective_end_def period_slice_def)
  have r: "bal_remaining (period_slice s p) = bal_remaining s"
    by (simp add: bal_remaining_def period_slice_def)
  show ?thesis
    using bal_claim_formula[OF ok, of "snd p"] assms(2)
    unfolding e r by (simp add: period_earned_def bal_claim_def running_def period_slice_def)
qed

lemma sum_list_const_map:
  "(\<And>x. x \<in> set xs \<Longrightarrow> f x = c) \<Longrightarrow> (\<Sum>x\<leftarrow>xs. f x) = int (length xs) * (c :: int)"
  by (induction xs) (auto simp: algebra_simps)

section \<open>Properties\<close>





text \<open>Each period is capped by the unpaid deposit on its own, so a report over \<open>n\<close> periods that
  could each use up the deposit shows \<open>n\<close> times the deposit as earned.\<close>

theorem periods_overreport:
  assumes "bal_ok s" "running s" "buildPeriods (b_start_time s) (effective_end s now) dt c = Inr ps"
    and "b_start_time s < effective_end s now"
    and "list_all (\<lambda>p. bal_remaining s \<le>
      active_seconds (b_pause_history s) (fst p) (snd p) * b_rate_per_second s) ps"
  shows "\<exists>rs. calculateBalanceByDuration s dt c now = Inr rs \<and>
    (\<Sum>r\<leftarrow>rs. snd r) = int (length ps) * bal_remaining s"
proof -
  have "period_earned s p = bal_remaining s" if "p \<in> set ps" for p
    using that assms(5) by (auto simp: period_earned_formula[OF assms(1,2)] list_all_iff)
  then have "(\<Sum>p\<leftarrow>ps. period_earned s p) = int (length ps) * bal_remaining s"
    by (intro sum_list_const_map)
  then show ?thesis using assms(3,4) by (simp add: calculateBalanceByDuration_def comp_def)
qed

theorem periods_overreport_witness:
  "\<exists>rs. calculateBalanceByDuration (sample_bal\<lparr>b_pause_history := [], b_rate_per_second := 9\<rparr>)
      ''custom'' (Some 100) 200 = Inr rs \<and> (\<Sum>r\<leftarrow>rs. snd r) = 1800"
proof -
  let ?s = "sample_bal\<lparr>b_pause_history := [], b_rate_per_second := 9\<rparr>"
  have ps: "buildPeriods 0 200 ''custom'' (Some 100) = Inr [(0, 100), (100, 200)]"
    by (simp add: buildPeriods_def next_cursor_def build_periods.simps)
  have "active_seconds [] 0 100 = 100" "active_seconds [] 100 200 = 100"
    using active_seconds_never_paused[of 0 100 "[]"] active_seconds_never_paused[of 100 200 "[]"]
    by (simp_all add: paused_at_def)
  moreover have "bal_ok ?s" "running ?s"
    by (simp_all add: bal_ok_def running_def sample_bal_def history_ok_def history_sorted_def)
  ultimately show ?thesis using periods_overreport[of ?s 200 "''custom''" "Some 100" "[(0, 100), (100, 200)]"] ps
    by (simp add: sample_bal_def bal_remaining_def effective_end_def)
qed

end
