(* ===== verification/Live_Counter.thy ===== *)
theory Live_Counter
  imports Accrual
begin

text \<open>
  The live balance displays of the demo: \<^verbatim>\<open>demo/src/useClaimableCounter.ts\<close> and
  \<^verbatim>\<open>demo/src/useBalanceTicker.ts\<close>. Each hook keeps a displayed amount, an interval timer
  and, through the timer's closure, the stream and the polled amount it counts from. The events of
  a hook are a run of its effect (mount or changed dependencies), a tick of the timer and the
  cleanup.
\<close>

section \<open>Extrapolating a polled amount\<close>

definition calculateClaimableAtTime :: "stream \<Rightarrow> int \<Rightarrow> jsnum \<Rightarrow> js_error + int" where
  "calculateClaimableAtTime s baseClaimable currentTime =
     (if \<not> is_active s then Inr baseClaimable
      else if 0 < startTime s \<and> js_less currentTime (num_of_bigint (startTime s)) then Inr baseClaimable
      else if 0 < stopTime s \<and> js_le (num_of_bigint (stopTime s)) currentTime then Inr baseClaimable
      else
        (let timeSinceLastWithdraw = js_sub currentTime (num_of_bigint (lastWithdrawTime s)) in
         rbind (bigint_of_num timeSinceLastWithdraw) (\<lambda>secs.
           (let additionalAccrual = secs * ratePerSecond s in
            Inr (baseClaimable + additionalAccrual)))))"

definition calculateCurrentClaimable :: "stream \<Rightarrow> int \<Rightarrow> jsnum \<Rightarrow> js_error + int" where
  "calculateCurrentClaimable s baseClaimable currentTimeSeconds =
     (if \<not> is_active s then Inr baseClaimable
      else if 0 < startTime s \<and> js_less currentTimeSeconds (num_of_bigint (startTime s))
      then Inr baseClaimable
      else if 0 < stopTime s \<and> js_le (num_of_bigint (stopTime s)) currentTimeSeconds
      then Inr baseClaimable
      else
        (let elapsedSeconds = js_sub currentTimeSeconds (num_of_bigint (lastWithdrawTime s)) in
         rbind (bigint_of_num elapsedSeconds) (\<lambda>secs. Inr (baseClaimable + secs * ratePerSecond s))))"

section \<open>The hooks\<close>

text \<open>The hook's state: the displayed amount and, while the interval runs, its closure.\<close>

record live_display =
  shown :: int
  interval :: "(stream \<times> int) option"

definition display_init :: "int \<Rightarrow> live_display" where
  "display_init baseClaimable = \<lparr>shown = baseClaimable, interval = None\<rparr>"

text \<open>
  A run of the effect at time \<open>now\<close>: the old interval is cleared, an inactive stream shows the
  polled amount, an active one shows the extrapolation and starts a new interval. An exception in
  the calculation leaves the display as it is and starts no interval.
\<close>

definition display_effect ::
  "(stream \<Rightarrow> int \<Rightarrow> jsnum \<Rightarrow> js_error + int) \<Rightarrow> jsnum \<Rightarrow> stream \<Rightarrow> int \<Rightarrow> live_display \<Rightarrow> live_display" where
  "display_effect calc now s baseClaimable d =
     (let d = d\<lparr>interval := None\<rparr> in
      if \<not> is_active s then d\<lparr>shown := baseClaimable\<rparr>
      else (case calc s baseClaimable now of
              Inl e \<Rightarrow> d
            | Inr v \<Rightarrow> d\<lparr>shown := v, interval := Some (s, baseClaimable)\<rparr>))"

definition display_tick ::
  "(stream \<Rightarrow> int \<Rightarrow> jsnum \<Rightarrow> js_error + int) \<Rightarrow> jsnum \<Rightarrow> live_display \<Rightarrow> live_display" where
  "display_tick calc now d =
     (case interval d of
        None \<Rightarrow> d
      | Some (s, b) \<Rightarrow> (case calc s b now of Inl e \<Rightarrow> d | Inr v \<Rightarrow> d\<lparr>shown := v\<rparr>))"

definition display_cleanup :: "live_display \<Rightarrow> live_display" where
  "display_cleanup d = d\<lparr>interval := None\<rparr>"

text \<open>The two hooks are this machine with their own calculation.\<close>

definition useClaimableCounter :: "jsnum \<Rightarrow> stream \<Rightarrow> int \<Rightarrow> live_display \<Rightarrow> live_display" where
  "useClaimableCounter = display_effect calculateClaimableAtTime"

definition useBalanceTicker :: "jsnum \<Rightarrow> stream \<Rightarrow> int \<Rightarrow> live_display \<Rightarrow> live_display" where
  "useBalanceTicker = display_effect calculateCurrentClaimable"

text \<open>A sequence of ticks at the given times.\<close>

definition display_ticks ::
  "(stream \<Rightarrow> int \<Rightarrow> jsnum \<Rightarrow> js_error + int) \<Rightarrow> jsnum list \<Rightarrow> live_display \<Rightarrow> live_display" where
  "display_ticks calc ts d = fold (display_tick calc) ts d"

section \<open>What a display needs of its calculation\<close>

locale extrapolation =
  fixes calc :: "stream \<Rightarrow> int \<Rightarrow> jsnum \<Rightarrow> js_error + int"
  assumes calc_idle: "\<not> is_active s \<Longrightarrow> calc s b t = Inr b"
    and calc_whole: "safe_int (lastWithdrawTime s) \<Longrightarrow> safe_int (now - lastWithdrawTime s) \<Longrightarrow>
      \<exists>v. calc s b (jsint now) = Inr v"
begin

lemma ticks_idle: "interval d = None \<Longrightarrow> display_ticks calc ts d = d"
  unfolding display_ticks_def by (induction ts) (auto simp: display_tick_def)

text \<open>After the effect ran for a stream that is not active, the polled amount is shown whatever ticks.\<close>

lemma inactive_frozen:
  "\<not> is_active s \<Longrightarrow> shown (display_ticks calc ts (display_effect calc now s b d)) = b"
  by (simp add: display_effect_def ticks_idle)

lemma cleanup_stops: "display_ticks calc ts (display_cleanup d) = display_cleanup d"
  by (rule ticks_idle) (simp add: display_cleanup_def)

lemma tick_interval [simp]: "interval (display_tick calc t d) = interval d"
  by (auto simp: display_tick_def split: option.splits sum.splits)

lemma ticks_interval: "interval (display_ticks calc ts d) = interval d"
  unfolding display_ticks_def by (induction ts arbitrary: d) auto

text \<open>While the interval runs, the display depends on the last tick only: late or missed ticks do no harm.\<close>

lemma last_tick_counts:
  assumes "interval d = Some (s, b)" "calc s b t = Inr v"
  shows "shown (display_ticks calc (ts @ [t]) d) = v"
proof -
  have "interval (display_ticks calc ts d) = Some (s, b)" using assms(1) by (simp add: ticks_interval)
  then show ?thesis using assms(2)
    by (simp add: display_ticks_def display_tick_def)
qed

lemma active_starts:
  assumes "is_active s" "calc s b now = Inr v"
  shows "display_effect calc now s b d = \<lparr>shown = v, interval = Some (s, b)\<rparr>"
  using assms by (simp add: display_effect_def)

end

lemma calculateClaimableAtTime_idle: "\<not> is_active s \<Longrightarrow> calculateClaimableAtTime s b t = Inr b"
  by (simp add: calculateClaimableAtTime_def)

lemma calculateClaimableAtTime_whole:
  "safe_int (lastWithdrawTime s) \<Longrightarrow> safe_int (now - lastWithdrawTime s) \<Longrightarrow>
    \<exists>v. calculateClaimableAtTime s b (jsint now) = Inr v"
  by (simp add: calculateClaimableAtTime_def)

text \<open>The two hooks compute the same amount.\<close>

lemma ticker_is_counter: "calculateCurrentClaimable = calculateClaimableAtTime"
  by (intro ext) (simp add: calculateCurrentClaimable_def calculateClaimableAtTime_def)

interpretation counter: extrapolation calculateClaimableAtTime
  by unfold_locales (simp_all add: calculateClaimableAtTime_idle calculateClaimableAtTime_whole)

interpretation ticker: extrapolation calculateCurrentClaimable
  unfolding ticker_is_counter
  by unfold_locales (simp_all add: calculateClaimableAtTime_idle calculateClaimableAtTime_whole)

section \<open>Properties\<close>

text \<open>Both displays show the polled amount, unchanged by any number of ticks, once their effect
  has run for a stream that is not active; and after the cleanup no tick changes anything.\<close>

theorem live_display_frozen:
  assumes "\<not> is_active s"
  shows "shown (display_ticks calculateClaimableAtTime ts (useClaimableCounter now s b d)) = b
    \<and> shown (display_ticks calculateCurrentClaimable ts (useBalanceTicker now s b d)) = b
    \<and> display_ticks calculateClaimableAtTime ts (display_cleanup d) = display_cleanup d"
  using counter.inactive_frozen[OF assms] ticker.inactive_frozen[OF assms] counter.cleanup_stops
  by (simp add: useClaimableCounter_def useBalanceTicker_def)

definition paused_view :: stream where
  "paused_view = stream_view (\<lambda>st. JStr (status_name st)) (sample_con\<lparr>cs_status := Paused\<rparr>)"

theorem live_display_frozen_witness:
  "\<not> is_active paused_view \<and> shown (display_ticks calculateClaimableAtTime [jsint 170, jsint 171]
      (useClaimableCounter (jsint 160) paused_view 77 (display_init 5))) = 77"
proof -
  have "\<not> is_active paused_view" by (simp add: paused_view_def stream_view_def has_status_def)
  then show ?thesis using live_display_frozen[of paused_view] by simp
qed

text \<open>The amount the contract would pay for an active stream that neither ends nor is used up.\<close>

lemma claimable_amount_open:
  assumes "con_ok s" "u64 t" "cs_status s = Active" "cs_stop_time s = 0" "cs_cliff_time s = 0"
    and "cs_last_withdraw_time s \<le> t"
    and "(t - cs_last_withdraw_time s) * cs_rate_per_second s \<le> contract_remaining s"
  shows "claimable_amount s t = Some ((t - cs_last_withdraw_time s) * cs_rate_per_second s)"
  using claimable_amount_total[OF assms(1,2)] assms(3-7) by (simp add: contract_end_def)

text \<open>The displays add the accrual since the last withdrawal to a polled amount that already
  contains it up to the poll. For an active stream polled at \<open>t0\<close>, what is shown at \<open>t\<close> exceeds what
  the contract would pay at \<open>t\<close> by the whole polled amount.\<close>

theorem live_display_double_counts:
  assumes "con_ok s" "cs_status s = Active" "cs_stop_time s = 0" "cs_cliff_time s = 0"
    and "cs_start_time s \<le> t" "0 \<le> cs_start_time s" "cs_last_withdraw_time s \<le> t0" "t0 \<le> t" "t \<le> 2 ^ 53"
    and "(t - cs_last_withdraw_time s) * cs_rate_per_second s \<le> contract_remaining s"
    and "claimable_amount s t0 = Some polled" "claimable_amount s t = Some payable"
  shows "calculateClaimableAtTime (stream_view (\<lambda>st. JStr (status_name st)) s) polled (jsint t)
      = Inr (payable + polled)
    \<and> polled = (t0 - cs_last_withdraw_time s) * cs_rate_per_second s"
proof -
  let ?lw = "cs_last_withdraw_time s" and ?rate = "cs_rate_per_second s"
  have lw: "0 \<le> ?lw" and rate: "0 \<le> ?rate" using assms(1) by (auto simp: con_ok_def u64_def)
  have t: "u64 t0" "u64 t" using assms(7-9) lw by (auto simp: u64_def)
  have "(t0 - ?lw) * ?rate \<le> (t - ?lw) * ?rate" using assms(8) rate by (intro mult_right_mono) auto
  then have "claimable_amount s t0 = Some ((t0 - ?lw) * ?rate)"
    "claimable_amount s t = Some ((t - ?lw) * ?rate)"
    using claimable_amount_open[OF assms(1) t(1) assms(2-4,7)]
      claimable_amount_open[OF assms(1) t(2) assms(2-4)] assms(7,8,10) by simp_all
  then have eqs: "polled = (t0 - ?lw) * ?rate" "payable = (t - ?lw) * ?rate" using assms(11,12) by simp_all
  have "calculateClaimableAtTime (stream_view (\<lambda>st. JStr (status_name st)) s) polled (jsint t)
      = Inr (polled + (t - ?lw) * ?rate)"
    using assms(2-9) lw
    by (simp add: calculateClaimableAtTime_def stream_view_def has_status_def num_of_bigint_safe)
  then show ?thesis using eqs by simp
qed

theorem live_display_double_counts_witness:
  "calculateClaimableAtTime (stream_view (\<lambda>st. JStr (status_name st))
      (sample_con\<lparr>cs_stop_time := 0, cs_cliff_time := 0\<rparr>)) 30 (jsint 110) = Inr (30 + 30)
   \<and> claimable_amount (sample_con\<lparr>cs_stop_time := 0, cs_cliff_time := 0\<rparr>) 110 = Some 30"
proof -
  let ?s = "sample_con\<lparr>cs_stop_time := 0, cs_cliff_time := 0\<rparr>"
  have "con_ok ?s" by (simp add: con_ok_def sample_con_def u64_def)
  moreover have c: "claimable_amount ?s 110 = Some 30" "contract_remaining ?s = 900"
    by (simp_all add: claimable_amount_def sample_con_def contract_end_def contract_remaining_def i128_def Let_def)
  ultimately show ?thesis using live_display_double_counts[of ?s 110 110 30 30]
    by (simp add: sample_con_def)
qed
end
