(* ===== verification/Dashboard.thy ===== *)
theory Dashboard
  imports Sdk_Client Sdk_Wallet Sdk_Poll
begin

text \<open>
  The stateful hooks of the demo that talk to the contract: \<^verbatim>\<open>demo/src/config.ts\<close>,
  \<^verbatim>\<open>useEmployerDashboard.ts\<close>, \<^verbatim>\<open>useEmployeeDashboard.ts\<close>,
  \<^verbatim>\<open>usePayStream.ts\<close> and \<^verbatim>\<open>useTokenBalance.ts\<close>. A hook's React state is a record; its
  asynchronous functions run over the pair of that state and the world outside. What a function
  reads of \<^verbatim>\<open>publicKey\<close> through its closure is the value at the call.
\<close>

section \<open>Configuration\<close>

record build_env =
  VITE_NETWORK :: "string option"
  VITE_CONTRACT_ID :: "string option"
  VITE_TOKEN_ADDRESS :: "string option"

text \<open>\<^verbatim>\<open>Networks.PUBLIC\<close> and \<^verbatim>\<open>Networks.TESTNET\<close> of the Stellar SDK.\<close>

record networks =
  PUBLIC :: string
  TESTNET :: string

record config =
  cfg_rpcUrl :: string
  cfg_networkPassphrase :: string
  cfg_contractId :: string
  cfg_defaultToken :: string
  cfg_isMainnet :: bool

definition USDC_testnet :: string where
  "USDC_testnet = ''GBBD47IF6LWK7P7MDEVSCWR7DPUWV3NY3DTQEVFL4NAT4AQH3ZLLFLA5''"

definition USDC_mainnet :: string where
  "USDC_mainnet = ''GA5ZSEJYB37JRC5AVCIA5MOP4RHTM335X2KGX3IHOJAPP5RE34K4KZVN''"

definition IS_MAINNET :: "build_env \<Rightarrow> bool" where
  "IS_MAINNET env = (VITE_NETWORK env = Some ''mainnet'')"

definition CONFIG :: "networks \<Rightarrow> build_env \<Rightarrow> config" where
  "CONFIG nets env =
     \<lparr>cfg_rpcUrl = (if IS_MAINNET env then ''https://soroban.stellar.org''
                  else ''https://soroban-testnet.stellar.org''),
      cfg_networkPassphrase = (if IS_MAINNET env then PUBLIC nets else TESTNET nets),
      cfg_contractId = (case VITE_CONTRACT_ID env of Some i \<Rightarrow> i
        | None \<Rightarrow> ''CAAAAAAAAAAAAAAAAAAAAAAAAAAAAAAAAAAAAAAAAAAAAAAAAAAAD2KM''),
      cfg_defaultToken = (case VITE_TOKEN_ADDRESS env of Some t \<Rightarrow> t | None \<Rightarrow> USDC_testnet),
      cfg_isMainnet = IS_MAINNET env\<rparr>"

definition EXPLORER_BASE :: "build_env \<Rightarrow> string" where
  "EXPLORER_BASE env =
     (if IS_MAINNET env then ''https://stellar.expert/explorer/public''
      else ''https://stellar.expert/explorer/testnet'')"

definition explorerTxUrl :: "build_env \<Rightarrow> string \<Rightarrow> string" where
  "explorerTxUrl env hash = EXPLORER_BASE env @ ''/tx/'' @ hash"

definition explorerAccountUrl :: "build_env \<Rightarrow> string \<Rightarrow> string" where
  "explorerAccountUrl env address = EXPLORER_BASE env @ ''/account/'' @ address"

definition explorerContractUrl :: "build_env \<Rightarrow> string \<Rightarrow> string" where
  "explorerContractUrl env i = EXPLORER_BASE env @ ''/contract/'' @ i"

text \<open>\<^verbatim>\<open>new PayStreamClient(CONFIG)\<close>.\<close>

definition client_of_config :: "config \<Rightarrow> client_options" where
  "client_of_config cfg = \<lparr>rpcUrl = cfg_rpcUrl cfg, networkPassphrase = cfg_networkPassphrase cfg,
     contractId = cfg_contractId cfg\<rparr>"

section \<open>What the hooks share\<close>

record ('w, 'a, 't, 'v) app =
  app_stellar :: "('w, 'a, 't, 'v) stellar"
  app_wallet :: "'w freighter"
  app_client :: client_options

record hook_state =
  publicKey :: "string option"
  streams :: "stream list"
  loading :: bool
  hook_error :: "string option"

record dash_state = hook_state +
  actionLoading :: "string option"
  scanned :: int
  chainTotal :: int

record employer_state = dash_state +
  lastTxHashes :: "(string, string) jsmap"

record employee_state = dash_state +
  claimableAmounts :: "(string, int) jsmap"
  pollHandles :: "(string, poller) jsmap"

record paystream_state = hook_state +
  ps_claimableAmounts :: "(string, int) jsmap"
  ps_pollHandles :: "(string, poller) jsmap"

text \<open>\<^verbatim>\<open>if (publicKey)\<close>: a key that is neither \<^verbatim>\<open>null\<close> nor empty.\<close>

definition connected_key :: "('z) hook_state_scheme \<Rightarrow> string option" where
  "connected_key s = (case publicKey s of Some k \<Rightarrow> if k = '''' then None else Some k | None \<Rightarrow> None)"

definition set_error :: "js_error \<Rightarrow> (('z) hook_state_scheme \<times> 'w, unit) io" where
  "set_error e = set_state (\<lambda>s. s\<lparr>hook_error := Some (error_to_string e)\<rparr>)"

text \<open>The common \<^verbatim>\<open>connect\<close>; only the text of the message differs between the hooks.\<close>

definition connect_wallet ::
  "string \<Rightarrow> ('w, 'a, 't, 'v) app \<Rightarrow> (('z) hook_state_scheme \<times> 'w, unit) io" where
  "connect_wallet notInstalled A =
     bind (set_state (\<lambda>s. s\<lparr>loading := True, hook_error := None\<rparr>)) (\<lambda>_.
     finally_do
       (try_catch
          (bind (outside (isFreighterConnected (app_wallet A))) (\<lambda>ok.
             if \<not> ok then set_state (\<lambda>s. s\<lparr>hook_error := Some notInstalled\<rparr>)
             else bind (outside (connectFreighter (app_wallet A))) (\<lambda>pk.
                    set_state (\<lambda>s. s\<lparr>publicKey := Some pk\<rparr>))))
          set_error)
       (\<lambda>(s, w). (s\<lparr>loading := False\<rparr>, w)))"

definition dashboard_connect ::
  "('w, 'a, 't, 'v) app \<Rightarrow> (('z) hook_state_scheme \<times> 'w, unit) io" where
  "dashboard_connect = connect_wallet ''Freighter is not installed. Get it at https://freighter.app''"

text \<open>Sign the prepared transaction and submit it.\<close>

definition sign_and_submit ::
  "('w, 'a, 't, 'v) app \<Rightarrow> ('w, string) io \<Rightarrow> ('w, string) io" where
  "sign_and_submit A prepare =
     bind prepare (\<lambda>xdr.
     bind (freighterSignTransaction (app_wallet A) xdr (networkPassphrase (app_client A))) (\<lambda>signed.
       submitTransaction (app_stellar A) (app_client A) signed))"

text \<open>\<^verbatim>\<open>setStreams((prev) => prev.map((s) => (s.id === streamId ? updated : s)))\<close>.\<close>

definition replace_stream :: "int \<Rightarrow> stream \<Rightarrow> stream list \<Rightarrow> stream list" where
  "replace_stream streamId updated xs = map_where (\<lambda>s. sid s = streamId) (\<lambda>_. updated) xs"

definition refresh_stream ::
  "('w, 'a, 't, 'v) app \<Rightarrow> int \<Rightarrow> (('z) hook_state_scheme \<times> 'w, unit) io" where
  "refresh_stream A streamId =
     bind (outside (getStream (app_stellar A) (app_client A) streamId)) (\<lambda>updated.
       set_state (\<lambda>s. s\<lparr>streams := replace_stream streamId updated (streams s)\<rparr>))"

section \<open>Scanning the chain\<close>

definition MAX_SCAN :: int where
  "MAX_SCAN = 200"

text \<open>
  The loop of \<^verbatim>\<open>loadDashboard\<close>: identifiers \<open>i\<close> down to \<open>start\<close>; \<open>visit\<close> is the body of the
  loop, which returns the list \<^verbatim>\<open>found\<close> after it. \<^verbatim>\<open>Number(count)\<close> is exact for counts up
  to \<open>2 ^ 53\<close>; the loop is modelled over the integers.
\<close>

function scan_loop ::
  "(int \<Rightarrow> stream list \<Rightarrow> (('z) dash_state_scheme \<times> 'w, stream list) io) \<Rightarrow> int \<Rightarrow> int \<Rightarrow> int \<Rightarrow>
    stream list \<Rightarrow> (('z) dash_state_scheme \<times> 'w, unit) io" where
  "scan_loop visit tot start i found =
     (if start \<le> i then
        bind (visit i found) (\<lambda>found'.
        bind (set_state (\<lambda>s. s\<lparr>scanned := tot - i\<rparr>)) (\<lambda>_.
          scan_loop visit tot start (i - 1) found'))
      else ret ())"
  by pat_completeness auto
termination
  by (relation "measure (\<lambda>(_, _, start, i, _). nat (i - start + 1))") auto

declare scan_loop.simps [simp del]

definition load_streams ::
  "('w, 'a, 't, 'v) app \<Rightarrow> (int \<Rightarrow> stream list \<Rightarrow> (('z) dash_state_scheme \<times> 'w, stream list) io) \<Rightarrow>
    (('z) dash_state_scheme \<times> 'w, unit) io" where
  "load_streams A visit =
     bind (set_state (\<lambda>s. s\<lparr>loading := True, hook_error := None, streams := [], scanned := 0\<rparr>)) (\<lambda>_.
     finally_do
       (try_catch
          (bind (outside (streamCount (app_stellar A) (app_client A))) (\<lambda>total.
           bind (set_state (\<lambda>s. s\<lparr>chainTotal := total\<rparr>)) (\<lambda>_.
             if total = 0 then ret ()
             else scan_loop visit total (max 0 (total - MAX_SCAN)) (total - 1) [])))
          set_error)
       (\<lambda>(s, w). (s\<lparr>loading := False\<rparr>, w)))"

section \<open>The employer's dashboard\<close>

definition employer_visit ::
  "('w, 'a, 't, 'v) app \<Rightarrow> string \<Rightarrow> int \<Rightarrow> stream list \<Rightarrow> (('z) dash_state_scheme \<times> 'w, stream list) io" where
  "employer_visit A employerKey i found =
     try_catch
       (bind (outside (getStream (app_stellar A) (app_client A) i)) (\<lambda>stream.
          if employer stream = JStr employerKey then
            bind (set_state (\<lambda>s. s\<lparr>streams := found @ [stream]\<rparr>)) (\<lambda>_. ret (found @ [stream]))
          else ret found))
       (\<lambda>_. ret found)"

definition employer_loadDashboard ::
  "('w, 'a, 't, 'v) app \<Rightarrow> string \<Rightarrow> (('z) dash_state_scheme \<times> 'w, unit) io" where
  "employer_loadDashboard A employerKey = load_streams A (employer_visit A employerKey)"

text \<open>The effect on a changed key, and \<^verbatim>\<open>refresh\<close>.\<close>

definition employer_refresh ::
  "('w, 'a, 't, 'v) app \<Rightarrow> (('z) dash_state_scheme \<times> 'w, unit) io" where
  "employer_refresh A =
     bind (gets (\<lambda>(s, w). connected_key s)) (\<lambda>k.
       case k of None \<Rightarrow> ret () | Some pk \<Rightarrow> employer_loadDashboard A pk)"

datatype action = Pause | Resume | Cancel

fun action_name :: "action \<Rightarrow> string" where
  "action_name Pause = ''pause''"
| "action_name Resume = ''resume''"
| "action_name Cancel = ''cancel''"

fun action_call :: "('w, 'a, 't, 'v) app \<Rightarrow> action \<Rightarrow> string \<Rightarrow> int \<Rightarrow> ('w, string) io" where
  "action_call A Pause pk i = pauseStream (app_stellar A) (app_client A) pk i"
| "action_call A Resume pk i = resumeStream (app_stellar A) (app_client A) pk i"
| "action_call A Cancel pk i = cancelStream (app_stellar A) (app_client A) pk i"

definition submit_and_refresh ::
  "('w, 'a, 't, 'v) app \<Rightarrow> int \<Rightarrow> ('w, string) io \<Rightarrow> (employer_state \<times> 'w, unit) io" where
  "submit_and_refresh A streamId prepare =
     bind (outside (sign_and_submit A prepare)) (\<lambda>txHash.
     bind (set_state (\<lambda>s. s\<lparr>lastTxHashes := jsset (show_int streamId) txHash (lastTxHashes s)\<rparr>)) (\<lambda>_.
       refresh_stream A streamId))"

definition handleAction ::
  "('w, 'a, 't, 'v) app \<Rightarrow> action \<Rightarrow> int \<Rightarrow> (employer_state \<times> 'w, unit) io" where
  "handleAction A act streamId =
     bind (gets (\<lambda>(s, w). connected_key s)) (\<lambda>k.
       case k of
         None \<Rightarrow> ret ()
       | Some pk \<Rightarrow>
           bind (set_state (\<lambda>s. s\<lparr>actionLoading := Some (action_name act @ ''-'' @ show_int streamId),
             hook_error := None\<rparr>)) (\<lambda>_.
           finally_do
             (try_catch (submit_and_refresh A streamId (action_call A act pk streamId)) set_error)
             (\<lambda>(s, w). (s\<lparr>actionLoading := None\<rparr>, w))))"

text \<open>\<^verbatim>\<open>handleTopUp\<close> throws the error again after it is shown.\<close>

definition handleTopUp ::
  "('w, 'a, 't, 'v) app \<Rightarrow> int \<Rightarrow> int \<Rightarrow> (employer_state \<times> 'w, unit) io" where
  "handleTopUp A streamId amountStroops =
     bind (gets (\<lambda>(s, w). connected_key s)) (\<lambda>k.
       case k of
         None \<Rightarrow> ret ()
       | Some pk \<Rightarrow>
           bind (set_state (\<lambda>s. s\<lparr>actionLoading := Some (''topup-'' @ show_int streamId),
             hook_error := None\<rparr>)) (\<lambda>_.
           finally_do
             (try_catch
                (submit_and_refresh A streamId
                   (topUp (app_stellar A) (app_client A) pk streamId amountStroops))
                (\<lambda>e. bind (set_error e) (\<lambda>_. throw e)))
             (\<lambda>(s, w). (s\<lparr>actionLoading := None\<rparr>, w))))"
section \<open>Statistics\<close>

record dashboard_stats =
  st_total :: int
  st_active :: int
  st_paused :: int
  st_cancelled :: int
  st_exhausted :: int
  totalLockedXlm :: jsnum
  totalDepositXlm :: jsnum
  totalWithdrawnXlm :: jsnum

text \<open>\<^verbatim>\<open>Number(n) / 10_000_000\<close>.\<close>

definition xlm_of :: "int \<Rightarrow> jsnum" where
  "xlm_of n = js_div (num_of_bigint n) (jsint 10000000)"

definition stats_init :: dashboard_stats where
  "stats_init = \<lparr>st_total = 0, st_active = 0, st_paused = 0, st_cancelled = 0, st_exhausted = 0,
     totalLockedXlm = Fin 0, totalDepositXlm = Fin 0, totalWithdrawnXlm = Fin 0\<rparr>"

definition count_status :: "stream \<Rightarrow> dashboard_stats \<Rightarrow> dashboard_stats" where
  "count_status s acc =
     (if has_status s ''Active'' then acc\<lparr>st_active := st_active acc + 1\<rparr>
      else if has_status s ''Paused'' then acc\<lparr>st_paused := st_paused acc + 1\<rparr>
      else if has_status s ''Cancelled'' then acc\<lparr>st_cancelled := st_cancelled acc + 1\<rparr>
      else if has_status s ''Exhausted'' then acc\<lparr>st_exhausted := st_exhausted acc + 1\<rparr>
      else acc)"

definition add_stream :: "stream \<Rightarrow> dashboard_stats \<Rightarrow> dashboard_stats" where
  "add_stream s acc0 =
     (let acc1 = count_status s (acc0\<lparr>st_total := st_total acc0 + 1\<rparr>);
          locked = xlm_of (deposit s - withdrawn s);
          acc2 = (if js_less (Fin 0) locked
                  then acc1\<lparr>totalLockedXlm := js_add (totalLockedXlm acc1) locked\<rparr> else acc1)
      in acc2\<lparr>totalDepositXlm := js_add (totalDepositXlm acc2) (xlm_of (deposit s)),
              totalWithdrawnXlm := js_add (totalWithdrawnXlm acc2) (xlm_of (withdrawn s))\<rparr>)"

definition employer_stats :: "stream list \<Rightarrow> dashboard_stats" where
  "employer_stats ss = fold add_stream ss stats_init"

record employee_stats =
  es_total :: int
  es_active :: int
  es_totalWithdrawnXlm :: jsnum
  es_totalClaimableXlm :: jsnum

definition employee_add :: "(string, int) jsmap \<Rightarrow> stream \<Rightarrow> employee_stats \<Rightarrow> employee_stats" where
  "employee_add amounts s acc =
     acc\<lparr>es_total := es_total acc + 1,
         es_active := (if is_active s then es_active acc + 1 else es_active acc),
         es_totalWithdrawnXlm := js_add (es_totalWithdrawnXlm acc) (xlm_of (withdrawn s)),
         es_totalClaimableXlm := js_add (es_totalClaimableXlm acc)
           (xlm_of (case jsget amounts (show_int (sid s)) of Some a \<Rightarrow> a | None \<Rightarrow> 0))\<rparr>"

definition employee_stats_of :: "(string, int) jsmap \<Rightarrow> stream list \<Rightarrow> employee_stats" where
  "employee_stats_of amounts ss =
     fold (employee_add amounts) ss
       \<lparr>es_total = 0, es_active = 0, es_totalWithdrawnXlm = Fin 0, es_totalClaimableXlm = Fin 0\<rparr>"

section \<open>The employee's dashboard\<close>

text \<open>Start a poller for an active stream that has none; read the amount once for a stream that
  is not active.\<close>

definition watch_claimable ::
  "('w, 'a, 't, 'v) app \<Rightarrow> int \<Rightarrow> stream \<Rightarrow> (employee_state \<times> 'w, unit) io" where
  "watch_claimable A streamId stream =
     (let key = show_int streamId in
      bind (gets (\<lambda>(s, w). jsget (pollHandles s) key)) (\<lambda>handle.
        if handle = None \<and> is_active stream then
          set_state (\<lambda>s. s\<lparr>pollHandles := jsset key (pollClaimable (jsint 5000) True) (pollHandles s)\<rparr>)
        else if \<not> is_active stream then
          bind (outside (Sdk_Client.claimable (app_stellar A) (app_client A) streamId)) (\<lambda>amount.
            set_state (\<lambda>s. s\<lparr>claimableAmounts := jsset key amount (claimableAmounts s)\<rparr>))
        else ret ()))"

text \<open>\<^verbatim>\<open>found.push(stream)\<close> happens before the amount is read: a failing read is skipped, the
  stream stays in the list.\<close>

definition employee_visit ::
  "('w, 'a, 't, 'v) app \<Rightarrow> string \<Rightarrow> int \<Rightarrow> stream list \<Rightarrow> (employee_state \<times> 'w, stream list) io" where
  "employee_visit A employeeKey i found =
     try_catch
       (bind (outside (getStream (app_stellar A) (app_client A) i)) (\<lambda>stream.
          if employee stream = JStr employeeKey then
            bind (set_state (\<lambda>s. s\<lparr>streams := found @ [stream]\<rparr>)) (\<lambda>_.
            bind (try_catch (watch_claimable A i stream) (\<lambda>_. ret ())) (\<lambda>_.
              ret (found @ [stream])))
          else ret found))
       (\<lambda>_. ret found)"

definition employee_loadDashboard ::
  "('w, 'a, 't, 'v) app \<Rightarrow> string \<Rightarrow> (employee_state \<times> 'w, unit) io" where
  "employee_loadDashboard A employeeKey = load_streams A (employee_visit A employeeKey)"

definition employee_refresh :: "('w, 'a, 't, 'v) app \<Rightarrow> (employee_state \<times> 'w, unit) io" where
  "employee_refresh A =
     bind (gets (\<lambda>(s, w). connected_key s)) (\<lambda>k.
       case k of None \<Rightarrow> ret () | Some pk \<Rightarrow> employee_loadDashboard A pk)"

definition employee_withdraw ::
  "('w, 'a, 't, 'v) app \<Rightarrow> int \<Rightarrow> (employee_state \<times> 'w, unit) io" where
  "employee_withdraw A streamId =
     bind (gets (\<lambda>(s, w). connected_key s)) (\<lambda>k.
       case k of
         None \<Rightarrow> ret ()
       | Some pk \<Rightarrow>
           bind (set_state (\<lambda>s. s\<lparr>actionLoading := Some (''withdraw-'' @ show_int streamId),
             hook_error := None\<rparr>)) (\<lambda>_.
           finally_do
             (try_catch
                (bind (outside (sign_and_submit A
                         (Sdk_Client.withdraw (app_stellar A) (app_client A) pk streamId None))) (\<lambda>_.
                 bind (refresh_stream A streamId) (\<lambda>_.
                 bind (outside (Sdk_Client.claimable (app_stellar A) (app_client A) streamId)) (\<lambda>amount.
                   set_state (\<lambda>s. s\<lparr>claimableAmounts :=
                     jsset (show_int streamId) amount (claimableAmounts s)\<rparr>)))))
                set_error)
             (\<lambda>(s, w). (s\<lparr>actionLoading := None\<rparr>, w))))"

text \<open>The cleanup on unmount: every poller is unsubscribed, the handles are forgotten.\<close>

definition employee_unmount :: "employee_state \<Rightarrow> poller list \<times> employee_state" where
  "employee_unmount s =
     (map (\<lambda>(k, p). unsubscribe p) (pollHandles s), s\<lparr>pollHandles := []\<rparr>)"

section \<open>usePayStream\<close>

definition ps_connect :: "('w, 'a, 't, 'v) app \<Rightarrow> (paystream_state \<times> 'w, unit) io" where
  "ps_connect = connect_wallet ''Freighter is not installed. Install it from https://freighter.app''"

text \<open>Replace the first stream with the identifier, or append.\<close>

fun upsert_stream :: "int \<Rightarrow> stream \<Rightarrow> stream list \<Rightarrow> stream list" where
  "upsert_stream streamId stream [] = [stream]"
| "upsert_stream streamId stream (s # ss) =
     (if sid s = streamId then stream # ss else s # upsert_stream streamId stream ss)"

definition start_poller :: "string \<Rightarrow> paystream_state \<Rightarrow> paystream_state" where
  "start_poller key s =
     (if jsget (ps_pollHandles s) key = None
      then s\<lparr>ps_pollHandles := jsset key (pollClaimable (jsint 5000) True) (ps_pollHandles s)\<rparr>
      else s)"

definition loadStream :: "('w, 'a, 't, 'v) app \<Rightarrow> int \<Rightarrow> (paystream_state \<times> 'w, unit) io" where
  "loadStream A streamId =
     bind (set_state (\<lambda>s. s\<lparr>loading := True, hook_error := None\<rparr>)) (\<lambda>_.
     finally_do
       (try_catch
          (bind (outside (getStream (app_stellar A) (app_client A) streamId)) (\<lambda>stream.
           bind (set_state (\<lambda>s. s\<lparr>streams := upsert_stream streamId stream (streams s)\<rparr>)) (\<lambda>_.
             set_state (start_poller (show_int streamId)))))
          set_error)
       (\<lambda>(s, w). (s\<lparr>loading := False\<rparr>, w)))"

text \<open>The frame of \<^verbatim>\<open>createStream\<close> and \<^verbatim>\<open>withdraw\<close>: a wallet is needed, errors are shown,
  the result is the transaction hash or \<^verbatim>\<open>undefined\<close>.\<close>

definition with_wallet ::
  "(string \<Rightarrow> (paystream_state \<times> 'w, string) io) \<Rightarrow> (paystream_state \<times> 'w, string option) io" where
  "with_wallet body =
     bind (gets (\<lambda>(s, w). connected_key s)) (\<lambda>k.
       case k of
         None \<Rightarrow> bind (set_state (\<lambda>s. s\<lparr>hook_error := Some ''Connect wallet first''\<rparr>)) (\<lambda>_. ret None)
       | Some pk \<Rightarrow>
           bind (set_state (\<lambda>s. s\<lparr>loading := True, hook_error := None\<rparr>)) (\<lambda>_.
           finally_do
             (try_catch (bind (body pk) (\<lambda>hash. ret (Some hash)))
                (\<lambda>e. bind (set_error e) (\<lambda>_. ret None)))
             (\<lambda>(s, w). (s\<lparr>loading := False\<rparr>, w))))"

definition ps_createStream ::
  "('w, 'a, 't, 'v) app \<Rightarrow> string \<Rightarrow> string \<Rightarrow> int \<Rightarrow> int \<Rightarrow> int \<Rightarrow> (paystream_state \<times> 'w, string option) io" where
  "ps_createStream A ee tokenAddress dep rate stopT =
     with_wallet (\<lambda>pk.
       bind (outside (sign_and_submit A
         (createStream (app_stellar A) (app_client A) pk ee tokenAddress dep rate stopT 0 0))) (\<lambda>hash.
       bind (outside (streamCount (app_stellar A) (app_client A))) (\<lambda>count.
       bind (if 0 < count then loadStream A (count - 1) else ret ()) (\<lambda>_.
         ret hash))))"

definition ps_withdraw ::
  "('w, 'a, 't, 'v) app \<Rightarrow> int \<Rightarrow> (paystream_state \<times> 'w, string option) io" where
  "ps_withdraw A streamId =
     with_wallet (\<lambda>pk.
       bind (outside (sign_and_submit A
         (Sdk_Client.withdraw (app_stellar A) (app_client A) pk streamId None))) (\<lambda>hash.
       bind (loadStream A streamId) (\<lambda>_.
         ret hash)))"

section \<open>useTokenBalance\<close>

record token_balance =
  tb_balance :: "int option"
  tb_loading :: bool
  tb_error :: "string option"
  tb_request :: "nat option"
  tb_next :: nat

text \<open>
  The effect clears the balance without a key or token; otherwise it sends a request. Each run
  cancels the request before it: only the answer of the request in \<open>tb_request\<close> is used.
\<close>

definition token_balance_effect :: "string option \<Rightarrow> string option \<Rightarrow> token_balance \<Rightarrow> token_balance" where
  "token_balance_effect pk tok b =
     (if pk = None \<or> pk = Some '''' \<or> tok = None \<or> tok = Some ''''
      then b\<lparr>tb_balance := None, tb_request := None\<rparr>
      else b\<lparr>tb_loading := True, tb_error := None, tb_request := Some (tb_next b),
             tb_next := tb_next b + 1\<rparr>)"

definition token_balance_answer :: "nat \<Rightarrow> js_error + int \<Rightarrow> token_balance \<Rightarrow> token_balance" where
  "token_balance_answer n r b =
     (if tb_request b = Some n then
        (case r of
           Inr bal \<Rightarrow> b\<lparr>tb_balance := Some bal, tb_loading := False\<rparr>
         | Inl e \<Rightarrow> b\<lparr>tb_error := Some (error_to_string e), tb_loading := False\<rparr>)
      else b)"

definition token_balance_unmount :: "token_balance \<Rightarrow> token_balance" where
  "token_balance_unmount b = b\<lparr>tb_request := None\<rparr>"

end
