(* ===== verification/Dashboard_Props.thy ===== *)
theory Dashboard_Props
  imports Dashboard Sdk_Contract
begin

text \<open>
  Properties of the dashboards. The scan of the chain is proved once, in the locale \<open>scanner\<close>,
  for any loop body that keeps the list of found streams; the bodies of the two dashboards are its
  interpretations.
\<close>

section \<open>Steady reads\<close>

text \<open>
  The documented behaviour of read-only calls that the scan relies on, as a hypothesis on the
  server: while \<open>I\<close> holds of the world, the stream count is \<open>n\<close>, \<open>get_stream\<close> of \<open>i\<close> decodes to
  \<open>R i\<close> (a stream or an error), and reading does not change that.
\<close>

definition reads_from ::
  "('w, 'a, 't, 'v) app \<Rightarrow> ('w \<Rightarrow> bool) \<Rightarrow> int \<Rightarrow> (int \<Rightarrow> js_error + stream) \<Rightarrow> bool" where
  "reads_from A I n R =
     ((\<forall>w. I w \<longrightarrow> (\<exists>w'. streamCount (app_stellar A) (app_client A) w = (Inr n, w') \<and> I w')) \<and>
      (\<forall>w i. I w \<longrightarrow> (\<exists>w'. getStream (app_stellar A) (app_client A) i w = (R i, w') \<and> I w')) \<and>
      (\<forall>w i. I w \<longrightarrow> I (snd (Sdk_Client.claimable (app_stellar A) (app_client A) i w))))"

lemma reads_from_count:
  "reads_from A I n R \<Longrightarrow> I w \<Longrightarrow>
    \<exists>w'. streamCount (app_stellar A) (app_client A) w = (Inr n, w') \<and> I w'"
  by (simp add: reads_from_def)

lemma reads_from_stream:
  "reads_from A I n R \<Longrightarrow> I w \<Longrightarrow>
    \<exists>w'. getStream (app_stellar A) (app_client A) i w = (R i, w') \<and> I w'"
  by (simp add: reads_from_def)

lemma reads_from_claimable:
  "reads_from A I n R \<Longrightarrow> I w \<Longrightarrow> I (snd (Sdk_Client.claimable (app_stellar A) (app_client A) i w))"
  by (simp add: reads_from_def)

text \<open>The streams of a list of identifiers that can be read and pass a test, in that order.\<close>

definition pick :: "(stream \<Rightarrow> bool) \<Rightarrow> js_error + stream \<Rightarrow> stream list" where
  "pick p r = (case r of Inl _ \<Rightarrow> [] | Inr x \<Rightarrow> if p x then [x] else [])"

definition selected :: "(stream \<Rightarrow> bool) \<Rightarrow> (int \<Rightarrow> js_error + stream) \<Rightarrow> int list \<Rightarrow> stream list" where
  "selected p R ids = concat (map (\<lambda>i. pick p (R i)) ids)"

lemma selected_simps [simp]:
  "selected p R [] = []"
  "selected p R (i # ids) = pick p (R i) @ selected p R ids"
  by (simp_all add: selected_def)

lemma selected_iff: "x \<in> set (selected p R ids) \<longleftrightarrow> (\<exists>i \<in> set ids. R i = Inr x \<and> p x)"
  by (induction ids) (auto simp: pick_def split: sum.splits if_splits)

definition scan_ids :: "int \<Rightarrow> int list" where
  "scan_ids n = rev [max 0 (n - MAX_SCAN)..n - 1]"

lemma set_scan_ids: "set (scan_ids n) = {i. max 0 (n - MAX_SCAN) \<le> i \<and> i < n}"
  by (auto simp: scan_ids_def)

lemma rev_upto_step: "a \<le> b \<Longrightarrow> rev [a..b] = b # rev [a..b - 1]" for a b :: int
  by (simp add: upto_rec2)

section \<open>The scan\<close>

text \<open>What the body of the scan leaves alone.\<close>

definition same_frame :: "('z) dash_state_scheme \<Rightarrow> ('z) dash_state_scheme \<Rightarrow> bool" where
  "same_frame s s' =
     (loading s' = loading s \<and> hook_error s' = hook_error s \<and> chainTotal s' = chainTotal s \<and>
      scanned s' = scanned s \<and> publicKey s' = publicKey s \<and> actionLoading s' = actionLoading s)"

locale scanner =
  fixes visit :: "('w, 'a, 't, 'v) app \<Rightarrow> string \<Rightarrow> int \<Rightarrow> stream list \<Rightarrow>
      (('z) dash_state_scheme \<times> 'w, stream list) io"
    and mine :: "string \<Rightarrow> stream \<Rightarrow> bool"
  assumes visit_step: "reads_from A I n R \<Longrightarrow> I w \<Longrightarrow> streams s = found \<Longrightarrow>
      \<exists>s' w'. visit A key i found (s, w) = (Inr (found @ pick (mine key) (R i)), (s', w')) \<and>
        I w' \<and> streams s' = found @ pick (mine key) (R i) \<and> same_frame s s'"
begin

lemma scan_loop_collects:
  assumes "reads_from A I n R"
  shows "I w \<Longrightarrow> streams s = found \<Longrightarrow>
    \<exists>s' w'. scan_loop (visit A key) tot start i found (s, w) = (Inr (), (s', w')) \<and> I w' \<and>
      streams s' = found @ selected (mine key) R (rev [start..i]) \<and>
      hook_error s' = hook_error s \<and> chainTotal s' = chainTotal s \<and> publicKey s' = publicKey s \<and>
      actionLoading s' = actionLoading s \<and>
      scanned s' = (if start \<le> i then tot - start else scanned s)"
proof (induction "nat (i - start + 1)" arbitrary: i found s w)
  case 0
  then show ?case by (subst scan_loop.simps) (simp add: ret_run)
next
  case (Suc k)
  then have le: "start \<le> i" by linarith
  obtain s1 w1 where v: "visit A key i found (s, w) = (Inr (found @ pick (mine key) (R i)), (s1, w1))"
    "I w1" "streams s1 = found @ pick (mine key) (R i)" "same_frame s s1"
    using visit_step[OF assms Suc.prems] by blast
  let ?s2 = "s1\<lparr>scanned := tot - i\<rparr>"
  have k: "k = nat (i - 1 - start + 1)" using Suc.hyps(2) le by linarith
  obtain s3 w3 where r: "scan_loop (visit A key) tot start (i - 1) (found @ pick (mine key) (R i)) (?s2, w1)
      = (Inr (), (s3, w3))" "I w3"
    "streams s3 = (found @ pick (mine key) (R i)) @ selected (mine key) R (rev [start..i - 1])"
    "hook_error s3 = hook_error ?s2" "chainTotal s3 = chainTotal ?s2" "publicKey s3 = publicKey ?s2"
    "actionLoading s3 = actionLoading ?s2" "scanned s3 = (if start \<le> i - 1 then tot - start else scanned ?s2)"
    using Suc.hyps(1)[OF k v(2), of ?s2 "found @ pick (mine key) (R i)"] v(3) by auto
  have "scan_loop (visit A key) tot start i found (s, w) = (Inr (), (s3, w3))"
    using le v(1) r(1) by (subst scan_loop.simps) (simp add: bind_def set_state_run)
  moreover have "scanned s3 = tot - start" using r(8) le by auto
  ultimately show ?case
    using r v(4) le by (auto simp: rev_upto_step same_frame_def)
qed

theorem load_collects:
  assumes "reads_from A I n R" "I w" "0 \<le> n"
  shows "\<exists>s' w'. load_streams A (visit A key) (s, w) = (Inr (), (s', w')) \<and> I w' \<and>
      streams s' = selected (mine key) R (scan_ids n) \<and> \<not> loading s' \<and> hook_error s' = None \<and>
      chainTotal s' = n \<and> scanned s' = min n MAX_SCAN"
proof -
  obtain w1 where c: "streamCount (app_stellar A) (app_client A) w = (Inr n, w1)" "I w1"
    using reads_from_count[OF assms(1,2)] by blast
  let ?s1 = "s\<lparr>loading := True, hook_error := None, streams := [], scanned := 0, chainTotal := n\<rparr>"
  show ?thesis
  proof (cases "n = 0")
    case True
    then show ?thesis using c
      by (simp add: load_streams_def bind_def set_state_run finally_do_run try_catch_def outside_run
        ret_run scan_ids_def MAX_SCAN_def)
  next
    case False
    define st where "st = max 0 (n - MAX_SCAN)"
    have ids: "scan_ids n = rev [st..n - 1]" by (simp add: scan_ids_def st_def)
    have empty: "streams ?s1 = []" by simp
    obtain s2 w2 where r: "scan_loop (visit A key) n st (n - 1) [] (?s1, w1) = (Inr (), (s2, w2))" "I w2"
      "streams s2 = [] @ selected (mine key) R (rev [st..n - 1])"
      "hook_error s2 = hook_error ?s1" "chainTotal s2 = chainTotal ?s1"
      "scanned s2 = (if st \<le> n - 1 then n - st else scanned ?s1)"
      using scan_loop_collects[OF assms(1) c(2) empty, of key n st "n - 1"] by blast
    have sc: "scanned s2 = min n MAX_SCAN" using r(6) False assms(3) by (auto simp: st_def MAX_SCAN_def)
    have "load_streams A (visit A key) (s, w) = (Inr (), (s2\<lparr>loading := False\<rparr>, w2))"
      using c(1) r(1) False
      by (simp add: load_streams_def bind_def set_state_run finally_do_run try_catch_def outside_run
        flip: st_def)
    with r(2-5) sc ids show ?thesis by simp
  qed
qed

end

lemma employer_visit_step:
  assumes "reads_from A I n R" "I w" "streams s = found"
  shows "\<exists>s' w'. employer_visit A key i found (s, w) =
      (Inr (found @ pick (\<lambda>x. employer x = JStr key) (R i)), (s', w')) \<and>
    I w' \<and> streams s' = found @ pick (\<lambda>x. employer x = JStr key) (R i) \<and> same_frame s s'"
proof -
  obtain w1 where "getStream (app_stellar A) (app_client A) i w = (R i, w1)" "I w1"
    using reads_from_stream[OF assms(1,2)] by blast
  with assms(3) show ?thesis
    by (cases "R i") (auto simp: employer_visit_def try_catch_def bind_def outside_run ret_run
      set_state_run pick_def same_frame_def)
qed

lemma watch_claimable_frame:
  assumes "reads_from A I n R" "I w"
  shows "\<exists>r s' w'. watch_claimable A i x (s, w) = (r, (s', w')) \<and> I w' \<and> streams s' = streams s \<and> same_frame s s'"
proof -
  obtain r w1 where "Sdk_Client.claimable (app_stellar A) (app_client A) i w = (r, w1)" "I w1"
    using reads_from_claimable[OF assms, of i]
    by (cases "Sdk_Client.claimable (app_stellar A) (app_client A) i w") auto
  with assms(2) show ?thesis
    by (cases r) (auto simp: watch_claimable_def Let_def bind_def gets_run outside_run set_state_run ret_run
      same_frame_def)
qed

lemma employee_visit_step:
  assumes "reads_from A I n R" "I w" "streams s = found"
  shows "\<exists>s' w'. employee_visit A key i found (s, w) =
      (Inr (found @ pick (\<lambda>x. employee x = JStr key) (R i)), (s', w')) \<and>
    I w' \<and> streams s' = found @ pick (\<lambda>x. employee x = JStr key) (R i) \<and> same_frame s s'"
proof -
  obtain w1 where g: "getStream (app_stellar A) (app_client A) i w = (R i, w1)" "I w1"
    using reads_from_stream[OF assms(1,2)] by blast
  show ?thesis
  proof (cases "\<exists>x. R i = Inr x \<and> employee x = JStr key")
    case True
    then obtain x where x: "R i = Inr x" "employee x = JStr key" by blast
    let ?s1 = "s\<lparr>streams := found @ [x]\<rparr>"
    obtain r s2 w2 where "watch_claimable A i x (?s1, w1) = (r, (s2, w2))" "I w2"
      "streams s2 = found @ [x]" "same_frame ?s1 s2"
      using watch_claimable_frame[OF assms(1) g(2), of i x ?s1] by auto
    with g x show ?thesis
      by (cases r) (auto simp: employee_visit_def try_catch_def bind_def outside_run ret_run
        set_state_run pick_def same_frame_def)
  next
    case False
    with g assms(3) show ?thesis
      by (cases "R i") (auto simp: employee_visit_def try_catch_def bind_def outside_run ret_run
        pick_def same_frame_def)
  qed
qed

interpretation er: scanner employer_visit "\<lambda>key x. employer x = JStr key"
  by unfold_locales (rule employer_visit_step)

interpretation ee: scanner employee_visit "\<lambda>key x. employee x = JStr key"
  by unfold_locales (rule employee_visit_step)
section \<open>Errors never leave a hook\<close>

lemma try_set_error: "\<exists>s' w'. try_catch m set_error sw = (Inr (), (s', w'))"
proof -
  obtain r s1 w1 where "m sw = (r, (s1, w1))" by (metis surj_pair)
  then show ?thesis by (cases r) (auto simp: try_catch_def set_error_def set_state_run)
qed

lemma load_streams_settles:
  "load_streams A visit (s, w) = (r, (s', w')) \<Longrightarrow> r = Inr () \<and> \<not> loading s'"
proof -
  assume run: "load_streams A visit (s, w) = (r, (s', w'))"
  let ?s1 = "s\<lparr>loading := True, hook_error := None, streams := [], scanned := 0\<rparr>"
  let ?m = "bind (outside (streamCount (app_stellar A) (app_client A))) (\<lambda>total.
      bind (set_state (\<lambda>s. s\<lparr>chainTotal := total\<rparr>)) (\<lambda>_.
        if total = 0 then ret ()
        else scan_loop visit total (max 0 (total - MAX_SCAN)) (total - 1) []))"
  obtain s2 w2 where "try_catch ?m set_error (?s1, w) = (Inr (), (s2, w2))"
    using try_set_error[of ?m "(?s1, w)"] by blast
  with run show ?thesis by (auto simp: load_streams_def bind_def set_state_run finally_do_run)
qed

lemma connect_settles:
  "connect_wallet msg A (s, w) = (r, (s', w')) \<Longrightarrow> r = Inr () \<and> \<not> loading s'"
proof -
  assume run: "connect_wallet msg A (s, w) = (r, (s', w'))"
  let ?s1 = "s\<lparr>loading := True, hook_error := None\<rparr>"
  let ?m = "bind (outside (isFreighterConnected (app_wallet A))) (\<lambda>ok.
      if \<not> ok then set_state (\<lambda>s. s\<lparr>hook_error := Some msg\<rparr>)
      else bind (outside (connectFreighter (app_wallet A))) (\<lambda>pk.
             set_state (\<lambda>s. s\<lparr>publicKey := Some pk\<rparr>)))"
  obtain s2 w2 where "try_catch ?m set_error (?s1, w) = (Inr (), (s2, w2))"
    using try_set_error[of ?m "(?s1, w)"] by blast
  with run show ?thesis by (auto simp: connect_wallet_def bind_def set_state_run finally_do_run)
qed

lemma loadStream_run:
  "loadStream A i (s, w) =
    (case getStream (app_stellar A) (app_client A) i w of
       (Inr x, w') \<Rightarrow> (Inr (), (start_poller (show_int i)
          (s\<lparr>loading := True, hook_error := None, streams := upsert_stream i x (streams s)\<rparr>)\<lparr>loading := False\<rparr>, w'))
     | (Inl e, w') \<Rightarrow> (Inr (), (s\<lparr>loading := False, hook_error := Some (error_to_string e)\<rparr>, w')))"
  by (auto simp: loadStream_def bind_def set_state_run finally_do_run try_catch_def outside_run
    set_error_def split: prod.split sum.split)

lemma with_wallet_settles:
  "with_wallet body (s, w) = (r, (s', w')) \<Longrightarrow>
    (\<exists>h. r = Inr h) \<and> (connected_key s \<noteq> None \<longrightarrow> \<not> loading s')"
  by (auto simp: with_wallet_def bind_def gets_run set_state_run finally_do_run try_catch_def ret_run
    set_error_def split: option.splits prod.splits sum.splits)

section \<open>Updating one stream\<close>

lemma replace_stream_nth:
  "k < length xs \<Longrightarrow> replace_stream i x xs ! k = (if sid (xs ! k) = i then x else xs ! k)"
  by (simp add: replace_stream_def map_where_def)

lemma length_replace_stream [simp]: "length (replace_stream i x xs) = length xs"
  by (simp add: replace_stream_def)

text \<open>The two outcomes of submitting and refreshing: the stream replaced and the hash kept, or the
  list as it was.\<close>

lemma submit_and_refresh_cases:
  assumes "submit_and_refresh A i prepare (s, w) = (r, (s', w'))"
  obtains (done_) h x where "r = Inr ()" "streams s' = replace_stream i x (streams s)"
      "lastTxHashes s' = jsset (show_int i) h (lastTxHashes s)" "hook_error s' = hook_error s"
    | (failed) e where "r = Inl e" "streams s' = streams s"
  using assms
  by (auto simp: submit_and_refresh_def refresh_stream_def bind_def outside_run set_state_run
    split: prod.splits sum.splits)

lemma upsert_stream_ids:
  "sid x = i \<Longrightarrow> map sid (upsert_stream i x xs) =
    (if i \<in> sid ` set xs then map sid xs else map sid xs @ [i])"
  by (induction xs) auto

lemma upsert_stream_mem: "sid x = i \<Longrightarrow> distinct (map sid xs) \<Longrightarrow>
    set (upsert_stream i x xs) = insert x {y \<in> set xs. sid y \<noteq> i}"
  by (induction xs) (auto simp: image_iff)

section \<open>An example application\<close>

text \<open>A wallet that signs everything, on the example ledger.\<close>

definition example_wallet :: "ledger freighter" where
  "example_wallet = \<lparr>installed = (\<lambda>_. True), api_isConnected = ret True,
     api_requestAccess = ret None, api_getPublicKey = ret (''GE'', None),
     api_signTransaction = (\<lambda>x _. ret (x, None))\<rparr>"

definition example_app :: "(ledger, string, string \<times> jsval list, jsval) app" where
  "example_app = \<lparr>app_stellar = example_stellar, app_wallet = example_wallet, app_client = example_client\<rparr>"

definition example_ledger :: ledger where
  "example_ledger = \<lparr>l_streams = [example_stream, example_stream\<lparr>cs_id := 2\<rparr>], l_statuses = [], l_clock = 0\<rparr>"

definition example_answer :: "int \<Rightarrow> js_error + stream" where
  "example_answer i =
     (if i = 1 then Inr (stream_view enum_as_vec example_stream)
      else if i = 2 then Inr (stream_view enum_as_vec (example_stream\<lparr>cs_id := 2\<rparr>))
      else Inl (result_error ''stream not found''))"

definition empty_employer :: employer_state where
  "empty_employer = \<lparr>publicKey = Some ''GE'', streams = [], loading = False, hook_error = None,
     actionLoading = None, scanned = 0, chainTotal = 0, lastTxHashes = []\<rparr>"

definition empty_employee :: employee_state where
  "empty_employee = \<lparr>publicKey = Some ''GW'', streams = [], loading = False, hook_error = None,
     actionLoading = None, scanned = 0, chainTotal = 0, claimableAmounts = [], pollHandles = []\<rparr>"

lemmas read_defs = read_call_def simulateRead_def simulate_call_def build_request_def bind_def
  of_result_run ret_run gets_run throw_run encode_args_def

lemma example_native [simp]: "scValToNative example_stellar v = v"
  by (simp add: example_stellar_def)

lemma example_id [simp]: "cs_id example_stream = 1"
  by (simp add: example_stream_def)

lemma example_read:
  "read_call example_stellar c (m, [IntArg i t]) l =
    (case ledger_read l m [JBig i] of
       SimError e \<Rightarrow> (Inl (result_error e), l)
     | SimSuccess None \<Rightarrow> (Inl (Error ''No result from simulation''), l)
     | SimSuccess (Some v) \<Rightarrow> (Inr v, l))"
  by (simp add: read_defs example_stellar_def split: sim_result.split option.split)

lemma example_reads: "reads_from example_app (\<lambda>l. l = example_ledger) 2 example_answer"
proof -
  have count: "streamCount example_stellar example_client example_ledger = (Inr 2, example_ledger)"
    by (simp add: streamCount_def streamCount_call_def read_defs example_stellar_def ledger_read_def
      read_bigint_def example_ledger_def)
  have streams: "getStream example_stellar example_client i example_ledger = (example_answer i, example_ledger)" for i
    by (simp add: getStream_def getStream_call_def example_read bind_def of_result_run scValToStream_def
      ledger_read_def example_ledger_def example_answer_def stream_of_native_of_stream)
  have claim: "snd (Sdk_Client.claimable example_stellar example_client i example_ledger) = example_ledger" for i
    by (simp add: claimable_def claimable_call_def example_read bind_def read_bigint_def of_result_run
      ledger_read_def)
  show ?thesis using count streams claim by (simp add: reads_from_def example_app_def)
qed

section \<open>Properties\<close>

text \<open>C10: While the chain does not change, both dashboards finish without an error and show exactly
  the user's readable streams among the scanned identifiers, newest first; an unreadable stream is
  skipped, and the progress counter ends at the number of identifiers scanned.\<close>

theorem dashboards_show_window:
  assumes "reads_from A I n R" "I w" "0 \<le> n"
  shows "(\<exists>s' w'. employer_loadDashboard A key (s, w) = (Inr (), (s', w')) \<and> I w' \<and>
      streams s' = selected (\<lambda>x. employer x = JStr key) R (scan_ids n) \<and>
      \<not> loading s' \<and> hook_error s' = None \<and> chainTotal s' = n \<and> scanned s' = min n MAX_SCAN) \<and>
    (\<exists>t' w'. employee_loadDashboard A key (t, w) = (Inr (), (t', w')) \<and> I w' \<and>
      streams t' = selected (\<lambda>x. employee x = JStr key) R (scan_ids n) \<and>
      \<not> loading t' \<and> hook_error t' = None \<and> chainTotal t' = n \<and> scanned t' = min n MAX_SCAN)"
  unfolding employer_loadDashboard_def employee_loadDashboard_def
  using er.load_collects[OF assms] ee.load_collects[OF assms] by blast

lemma example_selected:
  "selected (\<lambda>x. employer x = JStr ''GE'') example_answer (scan_ids 2) = [stream_view enum_as_vec example_stream]"
proof -
  have "scan_ids 2 = [1, 0]" by (simp add: scan_ids_def MAX_SCAN_def upto_rec1)
  then show ?thesis
    by (simp add: pick_def example_answer_def stream_view_def example_stream_def)
qed

theorem dashboards_show_window_witness:
  "\<exists>s' w'. employer_loadDashboard example_app ''GE'' (empty_employer, example_ledger) = (Inr (), (s', w')) \<and>
    streams s' = [stream_view enum_as_vec example_stream] \<and> chainTotal s' = 2 \<and> scanned s' = 2"
  using dashboards_show_window[OF example_reads refl, of "''GE''" empty_employer empty_employee]
  unfolding example_selected by (auto simp: MAX_SCAN_def)

text \<open>The contract numbers its streams from 1 to the count, the dashboards scan from the count
  minus one down to zero: the newest stream, whose identifier is the count, is never shown to its
  employer or its employee.\<close>

theorem newest_stream_not_shown:
  assumes "reads_from A I n R" "I w" "0 \<le> n" "\<And>i x. R i = Inr x \<Longrightarrow> sid x = i"
    and "employer_loadDashboard A key (s, w) = (r, (s', w'))"
    and "employee_loadDashboard A key (t, w) = (r2, (t', w2))"
  shows "n \<notin> sid ` set (streams s') \<and> n \<notin> sid ` set (streams t')"
proof -
  have *: "n \<notin> sid ` set (selected p R (scan_ids n))" for p
    using assms(4) by (auto simp: selected_iff set_scan_ids)
  show ?thesis using er.load_collects[OF assms(1-3), of key s] ee.load_collects[OF assms(1-3), of key t]
      assms(5,6) *
    by (auto simp: employer_loadDashboard_def employee_loadDashboard_def)
qed

theorem newest_stream_not_shown_witness:
  "example_answer 2 = Inr (stream_view enum_as_vec (example_stream\<lparr>cs_id := 2\<rparr>)) \<and>
   employer (stream_view enum_as_vec (example_stream\<lparr>cs_id := 2\<rparr>)) = JStr ''GE'' \<and>
   2 \<notin> sid ` set (streams (fst (snd (employer_loadDashboard example_app ''GE'' (empty_employer, example_ledger)))))"
proof -
  obtain r s' w' where er: "employer_loadDashboard example_app ''GE'' (empty_employer, example_ledger) = (r, (s', w'))"
    by (metis surj_pair)
  obtain r2 t' w2 where ee: "employee_loadDashboard example_app ''GE'' (empty_employee, example_ledger) = (r2, (t', w2))"
    by (metis surj_pair)
  have ids: "\<And>i x. example_answer i = Inr x \<Longrightarrow> sid x = i"
    by (auto simp: example_answer_def stream_view_def split: if_splits)
  show ?thesis using newest_stream_not_shown[OF example_reads refl _ ids er ee]
    by (simp add: er example_answer_def stream_view_def example_stream_def)
qed

text \<open>C11: An action of the employer never throws out of its handler and always ends with no action
  in progress. It changes no stream but the one acted on; if an error is shown afterwards the list of
  streams is as it was, and if none is shown the transaction's hash has been recorded.\<close>

theorem employer_action_isolated:
  assumes "handleAction A act i (s, w) = (r, (s', w'))" "connected_key s = Some pk"
  shows "r = Inr () \<and> actionLoading s' = None \<and> length (streams s') = length (streams s) \<and>
    (\<forall>k < length (streams s). sid (streams s ! k) \<noteq> i \<longrightarrow> streams s' ! k = streams s ! k) \<and>
    (if hook_error s' = None then jsget (lastTxHashes s') (show_int i) \<noteq> None else streams s' = streams s)"
proof -
  let ?s1 = "s\<lparr>actionLoading := Some (action_name act @ ''-'' @ show_int i), hook_error := None\<rparr>"
  obtain r1 s1 w1 where m: "submit_and_refresh A i (action_call A act pk i) (?s1, w) = (r1, (s1, w1))"
    by (metis surj_pair)
  have run: "handleAction A act i (s, w) =
      (case r1 of Inr u \<Rightarrow> (Inr (), (s1\<lparr>actionLoading := None\<rparr>, w1))
       | Inl e \<Rightarrow> (Inr (), (s1\<lparr>hook_error := Some (error_to_string e), actionLoading := None\<rparr>, w1)))"
    using assms(2) m
    by (auto simp: handleAction_def bind_def gets_run set_state_run finally_do_run try_catch_def
      set_error_def split: sum.split)
  from m show ?thesis
  proof (cases rule: submit_and_refresh_cases)
    case (done_ h x)
    then show ?thesis using run assms(1) by (auto simp: replace_stream_nth)
  next
    case (failed e)
    then show ?thesis using run assms(1) by auto
  qed
qed

theorem employer_action_isolated_witness:
  "connected_key empty_employer = Some ''GE'' \<and>
   (\<exists>s' w'. handleAction example_app Pause 1
       (empty_employer\<lparr>streams := [stream_view enum_as_vec (example_stream\<lparr>cs_id := 2\<rparr>)]\<rparr>, example_ledger) = (Inr (), (s', w'))
     \<and> streams s' = [stream_view enum_as_vec (example_stream\<lparr>cs_id := 2\<rparr>)] \<and> actionLoading s' = None)"
proof -
  let ?x = "stream_view enum_as_vec (example_stream\<lparr>cs_id := 2\<rparr>)"
  let ?s = "empty_employer\<lparr>streams := [?x]\<rparr>"
  have k: "connected_key empty_employer = Some ''GE''" "connected_key ?s = Some ''GE''"
    by (simp_all add: connected_key_def empty_employer_def)
  obtain r s' w' where run: "handleAction example_app Pause 1 (?s, example_ledger) = (r, (s', w'))"
    by (metis surj_pair)
  have p: "r = Inr ()" "actionLoading s' = None" "length (streams s') = 1" "streams s' ! 0 = ?x"
    using employer_action_isolated[OF run k(2)] by (auto simp: stream_view_def)
  have "streams s' = [?x]" using p(3,4) by (cases "streams s'") auto
  then show ?thesis using k p run by (intro conjI exI[of _ s'] exI[of _ w']) simp_all
qed

text \<open>Nothing is sent without the wallet's signature: when the wallet refuses, the outcome of
  the whole submission is the refusal, and it does not depend on how transactions would be sent or
  confirmed.\<close>

theorem refused_signature_sends_nothing:
  assumes "prepare w = (Inr xdr, w1)"
    and "freighterSignTransaction (app_wallet A) xdr (networkPassphrase (app_client A)) w1 = (Inl e, w2)"
  shows "sign_and_submit A prepare w = (Inl e, w2) \<and>
    sign_and_submit (A\<lparr>app_stellar := (app_stellar A)\<lparr>sendTransaction := send, getTransaction := get, fromXDR := parse\<rparr>\<rparr>)
      prepare w = (Inl e, w2)"
  using assms by (simp add: sign_and_submit_def bind_def)

theorem refused_signature_sends_nothing_witness:
  "fst (sign_and_submit (example_app\<lparr>app_wallet := example_wallet\<lparr>api_signTransaction := \<lambda>x p. ret (x, Some ''User declined'')\<rparr>\<rparr>)
      (ret ''AAAA'') example_ledger) = Inl (Error ''Freighter signing failed: User declined'')"
proof -
  let ?A = "example_app\<lparr>app_wallet := example_wallet\<lparr>api_signTransaction := \<lambda>x p. ret (x, Some ''User declined'')\<rparr>\<rparr>"
  have "freighterSignTransaction (app_wallet ?A) ''AAAA'' (networkPassphrase (app_client ?A)) example_ledger
      = (Inl (Error ''Freighter signing failed: User declined''), example_ledger)"
    by (simp add: freighterSignTransaction_def bind_def getFreighterApi_run example_wallet_def ret_run
      throw_run error_text_def)
  from refused_signature_sends_nothing[of "ret ''AAAA''" example_ledger "''AAAA''" example_ledger ?A, OF _ this]
  show ?thesis by (simp add: ret_run)
qed

lemma loadStream_settles: "loadStream A i (p, w) = (r, (s', w')) \<Longrightarrow> r = Inr () \<and> \<not> loading s'"
  by (auto simp: loadStream_run start_poller_def split: prod.splits sum.splits if_splits)

lemma ps_createStream_settles:
  "ps_createStream A ee tok dep rate stopT (p, w) = (r, (s', w')) \<Longrightarrow> connected_key p \<noteq> None \<Longrightarrow>
    (\<exists>h. r = Inr h) \<and> \<not> loading s'"
  unfolding ps_createStream_def by (drule with_wallet_settles) simp

lemma ps_withdraw_settles:
  "ps_withdraw A i (p, w) = (r, (s', w')) \<Longrightarrow> connected_key p \<noteq> None \<Longrightarrow>
    (\<exists>h. r = Inr h) \<and> \<not> loading s'"
  unfolding ps_withdraw_def by (drule with_wallet_settles) simp

text \<open>No hook is left in its loading state: connecting, scanning, loading a stream, creating a
  stream and withdrawing all return normally with \<^verbatim>\<open>loading\<close> cleared, whatever the wallet
  and the network answer.\<close>

theorem hooks_settle:
  "(\<forall>r s' w'. connect_wallet msg A (s, w) = (r, (s', w')) \<longrightarrow> r = Inr () \<and> \<not> loading s') \<and>
   (\<forall>r s' w'. load_streams A visit (d, w) = (r, (s', w')) \<longrightarrow> r = Inr () \<and> \<not> loading s') \<and>
   (\<forall>r s' w'. loadStream A i (p, w) = (r, (s', w')) \<longrightarrow> r = Inr () \<and> \<not> loading s') \<and>
   (\<forall>r s' w'. connected_key p \<noteq> None \<longrightarrow> ps_createStream A ee tok dep rate stopT (p, w) = (r, (s', w')) \<longrightarrow>
      (\<exists>h. r = Inr h) \<and> \<not> loading s') \<and>
   (\<forall>r s' w'. connected_key p \<noteq> None \<longrightarrow> ps_withdraw A i (p, w) = (r, (s', w')) \<longrightarrow>
      (\<exists>h. r = Inr h) \<and> \<not> loading s')"
  by (intro conjI allI impI)
    (blast dest: connect_settles load_streams_settles loadStream_settles ps_createStream_settles
      ps_withdraw_settles)+

definition empty_paystream :: paystream_state where
  "empty_paystream = \<lparr>publicKey = Some ''GE'', streams = [], loading = False, hook_error = None,
     ps_claimableAmounts = [], ps_pollHandles = []\<rparr>"

theorem hooks_settle_witness:
  "connected_key empty_paystream \<noteq> None \<and>
   (\<exists>h s' w'. ps_withdraw example_app 1 (empty_paystream, example_ledger) = (Inr h, (s', w')) \<and> \<not> loading s')"
proof -
  have k: "connected_key empty_paystream \<noteq> None" by (simp add: connected_key_def empty_paystream_def)
  obtain r s' w' where run: "ps_withdraw example_app 1 (empty_paystream, example_ledger) = (r, (s', w'))"
    by (metis surj_pair)
  note H = hooks_settle[where p = empty_paystream and A = example_app and i = 1 and w = example_ledger]
  have "(\<exists>h. r = Inr h) \<and> \<not> loading s'" using H run k by blast
  then show ?thesis using run k by auto
qed

text \<open>\<open>loadStream\<close> keeps one entry per identifier: a stream read again replaces its entry in
  place, a new one is appended, all other entries stay; a failed read changes nothing but the error.
  Each stream gets one poller, which a reload keeps.\<close>

theorem loadStream_upserts:
  assumes "getStream (app_stellar A) (app_client A) i w = (Inr x, w1)" "sid x = i"
    and "distinct (map sid (streams s))"
    and "loadStream A i (s, w) = (r, (s', w'))"
  shows "distinct (map sid (streams s')) \<and>
    set (streams s') = insert x {y \<in> set (streams s). sid y \<noteq> i} \<and>
    jsget (ps_pollHandles s') (show_int i) =
      (case jsget (ps_pollHandles s) (show_int i) of
         None \<Rightarrow> Some (pollClaimable (jsint 5000) True) | Some p \<Rightarrow> Some p)"
proof -
  have st: "streams s' = upsert_stream i x (streams s)"
    using assms(1,4) by (auto simp: loadStream_run start_poller_def split: if_splits)
  have ph: "jsget (ps_pollHandles s') (show_int i) =
      (case jsget (ps_pollHandles s) (show_int i) of
         None \<Rightarrow> Some (pollClaimable (jsint 5000) True) | Some p \<Rightarrow> Some p)"
    using assms(1,4) by (auto simp: loadStream_run start_poller_def split: if_splits option.split)
  have "distinct (map sid (streams s'))"
    using upsert_stream_ids[OF assms(2), of "streams s"] assms(3) st by (auto simp: image_iff)
  then show ?thesis using upsert_stream_mem[OF assms(2,3)] st ph by simp
qed

theorem loadStream_upserts_witness:
  "\<exists>s' w'. loadStream example_app 2 (empty_paystream, example_ledger) = (Inr (), (s', w')) \<and>
     set (streams s') = {stream_view enum_as_vec (example_stream\<lparr>cs_id := 2\<rparr>)}"
proof -
  let ?x = "stream_view enum_as_vec (example_stream\<lparr>cs_id := 2\<rparr>)"
  have g: "getStream (app_stellar example_app) (app_client example_app) 2 example_ledger = (Inr ?x, example_ledger)"
    using reads_from_stream[OF example_reads, of example_ledger 2] by (simp add: example_answer_def)
  obtain r s' w' where run: "loadStream example_app 2 (empty_paystream, example_ledger) = (r, (s', w'))"
    by (metis surj_pair)
  have "r = Inr ()" using run g by (simp add: loadStream_run)
  moreover have "set (streams s') = {?x}"
    using loadStream_upserts[OF g _ _ run] by (simp add: stream_view_def empty_paystream_def)
  ultimately show ?thesis using run by blast
qed

section \<open>Statistics\<close>

definition status_count :: "string \<Rightarrow> stream list \<Rightarrow> int" where
  "status_count st ss = int (length (filter (\<lambda>s. has_status s st) ss))"

lemma status_count_simps [simp]:
  "status_count st [] = 0"
  "status_count st (s # ss) = (if has_status s st then 1 else 0) + status_count st ss"
  by (simp_all add: status_count_def)

lemma has_status_unique: "has_status s a \<Longrightarrow> has_status s b \<longleftrightarrow> a = b"
  by (auto simp: has_status_def)

lemma add_stream_counts:
  "st_total (add_stream s a) = st_total a + 1"
  "st_active (add_stream s a) = st_active a + (if has_status s ''Active'' then 1 else 0)"
  "st_paused (add_stream s a) = st_paused a + (if has_status s ''Paused'' then 1 else 0)"
  "st_cancelled (add_stream s a) = st_cancelled a + (if has_status s ''Cancelled'' then 1 else 0)"
  "st_exhausted (add_stream s a) = st_exhausted a + (if has_status s ''Exhausted'' then 1 else 0)"
  by (simp_all add: add_stream_def Let_def count_status_def has_status_unique)

lemma fold_add_stream_counts:
  "st_total (fold add_stream ss a) = st_total a + int (length ss)"
  "st_active (fold add_stream ss a) = st_active a + status_count ''Active'' ss"
  "st_paused (fold add_stream ss a) = st_paused a + status_count ''Paused'' ss"
  "st_cancelled (fold add_stream ss a) = st_cancelled a + status_count ''Cancelled'' ss"
  "st_exhausted (fold add_stream ss a) = st_exhausted a + status_count ''Exhausted'' ss"
  by (induction ss arbitrary: a) (simp_all add: add_stream_counts)

lemma status_counts_total:
  "list_all well_typed_status ss \<Longrightarrow>
    status_count ''Active'' ss + status_count ''Paused'' ss + status_count ''Cancelled'' ss
      + status_count ''Exhausted'' ss = int (length ss)"
  by (induction ss) (auto simp: well_typed_status_def stream_statuses_def has_status_def)

text \<open>Amounts of whole XLM are added without rounding.\<close>

lemma xlm_of_whole: "safe_int (10000000 * k) \<Longrightarrow> xlm_of (10000000 * k) = jsint k"
proof -
  assume s: "safe_int (10000000 * k)"
  then have k: "safe_int k" by linarith
  have "(of_int (10000000 * k) / of_int 10000000 :: rat) = of_int k" by simp
  then have "js_div (jsint (10000000 * k)) (jsint 10000000) = jsint k"
    using num_of_rat_int[OF k] by (simp add: jsint_def)
  then show ?thesis using s by (simp add: xlm_of_def)
qed

definition whole_xlm :: "stream \<Rightarrow> bool" where
  "whole_xlm s = (10000000 dvd deposit s \<and> 10000000 dvd withdrawn s \<and> 0 \<le> withdrawn s \<and>
     withdrawn s \<le> deposit s)"

definition dep_xlm :: "stream list \<Rightarrow> int" where
  "dep_xlm ss = (\<Sum>s\<leftarrow>ss. deposit s div 10000000)"

definition wd_xlm :: "stream list \<Rightarrow> int" where
  "wd_xlm ss = (\<Sum>s\<leftarrow>ss. withdrawn s div 10000000)"

definition xlm_totals :: "dashboard_stats \<Rightarrow> int \<Rightarrow> int \<Rightarrow> int \<Rightarrow> bool" where
  "xlm_totals a d w l = (totalDepositXlm a = jsint d \<and> totalWithdrawnXlm a = jsint w \<and> totalLockedXlm a = jsint l)"

lemma add_stream_whole:
  assumes "whole_xlm s" "xlm_totals a d w l" "0 \<le> d" "0 \<le> w" "0 \<le> l" "w \<le> d" "l \<le> d"
    and "10000000 * d + deposit s \<le> 2 ^ 53"
  shows "xlm_totals (add_stream s a) (d + deposit s div 10000000) (w + withdrawn s div 10000000)
    (l + (deposit s div 10000000 - withdrawn s div 10000000))"
proof -
  obtain x y where xy: "deposit s = 10000000 * x" "withdrawn s = 10000000 * y"
    using assms(1) by (auto simp: whole_xlm_def elim!: dvdE)
  have b: "0 \<le> y" "y \<le> x" using assms(1) xy by (simp_all add: whole_xlm_def)
  have "10000000 * d + 10000000 * x \<le> 2 ^ 53" using assms(8) xy by simp
  then have safe: "safe_int (10000000 * x)" "safe_int (10000000 * y)" "safe_int (10000000 * (x - y))"
    "safe_int (d + x)" "safe_int (w + y)" "safe_int (l + (x - y))"
    using b assms(3-7) unfolding abs_le_iff right_diff_distrib by (intro conjI; linarith)+
  have diff: "deposit s - withdrawn s = 10000000 * (x - y)" using xy by simp
  have xlm: "xlm_of (deposit s) = jsint x" "xlm_of (withdrawn s) = jsint y"
    "xlm_of (deposit s - withdrawn s) = jsint (x - y)"
    unfolding diff unfolding xy using safe(1-3) by (simp_all only: xlm_of_whole)
  have q: "deposit s div 10000000 = x" "withdrawn s div 10000000 = y" using xy by simp_all
  show ?thesis using assms(2) safe(4-6) b unfolding xlm_totals_def q
    by (auto simp: add_stream_def Let_def xlm Fin_0_jsint count_status_def)
qed

lemma dep_wd_simps [simp]:
  "dep_xlm [] = 0" "dep_xlm (s # ss) = deposit s div 10000000 + dep_xlm ss"
  "wd_xlm [] = 0" "wd_xlm (s # ss) = withdrawn s div 10000000 + wd_xlm ss"
  by (simp_all add: dep_xlm_def wd_xlm_def)

lemma whole_sums: "list_all whole_xlm ss \<Longrightarrow> 0 \<le> wd_xlm ss \<and> wd_xlm ss \<le> dep_xlm ss"
proof (induction ss)
  case (Cons s ss)
  then have "0 \<le> withdrawn s div 10000000" "withdrawn s div 10000000 \<le> deposit s div 10000000"
    by (auto simp: whole_xlm_def intro: zdiv_mono1)
  with Cons show ?case by simp
qed simp

lemma fold_add_stream_whole:
  "list_all whole_xlm ss \<Longrightarrow> xlm_totals a d w l \<Longrightarrow> 0 \<le> d \<Longrightarrow> 0 \<le> w \<Longrightarrow> 0 \<le> l \<Longrightarrow> w \<le> d \<Longrightarrow> l \<le> d \<Longrightarrow>
    10000000 * (d + dep_xlm ss) \<le> 2 ^ 53 \<Longrightarrow>
    xlm_totals (fold add_stream ss a) (d + dep_xlm ss) (w + wd_xlm ss) (l + (dep_xlm ss - wd_xlm ss))"
proof (induction ss arbitrary: a d w l)
  case Nil
  then show ?case by simp
next
  case (Cons s ss)
  let ?x = "deposit s div 10000000" and ?y = "withdrawn s div 10000000"
  have s: "whole_xlm s" "list_all whole_xlm ss" using Cons.prems(1) by simp_all
  then have dx: "deposit s = 10000000 * ?x" and yx: "0 \<le> ?y" "?y \<le> ?x"
    by (auto simp: whole_xlm_def intro: zdiv_mono1)
  have le: "10000000 * (d + (?x + dep_xlm ss)) \<le> 2 ^ 53" using Cons.prems(8) by simp
  have "0 \<le> dep_xlm ss" using whole_sums[OF s(2)] by simp
  then have "10000000 * d + 10000000 * ?x \<le> 2 ^ 53" using le by simp
  then have "10000000 * d + deposit s \<le> 2 ^ 53" using dx by simp
  from add_stream_whole[OF s(1) Cons.prems(2-7) this]
  have "xlm_totals (fold add_stream ss (add_stream s a)) ((d + ?x) + dep_xlm ss) ((w + ?y) + wd_xlm ss)
      ((l + (?x - ?y)) + (dep_xlm ss - wd_xlm ss))"
    using Cons.prems yx le by (intro Cons.IH[OF s(2)]) (simp_all add: algebra_simps)
  then show ?case by (simp add: algebra_simps)
qed

text \<open>The employer's statistics: the total is the number of streams and splits into the four
  status counts when every status is one of the four names; for amounts of whole XLM the three sums
  are exact, and the locked sum is the deposits less the withdrawals.\<close>

theorem employer_stats_correct:
  assumes "list_all well_typed_status ss" "list_all whole_xlm ss" "10000000 * dep_xlm ss \<le> 2 ^ 53"
  shows "st_total (employer_stats ss) = int (length ss)
    \<and> st_active (employer_stats ss) + st_paused (employer_stats ss) + st_cancelled (employer_stats ss)
      + st_exhausted (employer_stats ss) = st_total (employer_stats ss)
    \<and> st_active (employer_stats ss) = status_count ''Active'' ss
    \<and> xlm_totals (employer_stats ss) (dep_xlm ss) (wd_xlm ss) (dep_xlm ss - wd_xlm ss)"
proof -
  have "xlm_totals stats_init 0 0 0" by (simp add: xlm_totals_def stats_init_def Fin_0_jsint)
  then have "xlm_totals (employer_stats ss) (dep_xlm ss) (wd_xlm ss) (dep_xlm ss - wd_xlm ss)"
    using fold_add_stream_whole[OF assms(2), of stats_init 0 0 0] assms(3) by (simp add: employer_stats_def)
  then show ?thesis using status_counts_total[OF assms(1)]
    by (simp add: employer_stats_def fold_add_stream_counts stats_init_def)
qed

definition stats_stream :: stream where
  "stats_stream = (stream_view (\<lambda>st. JStr (status_name st)) example_stream)
     \<lparr>deposit := 50000000, withdrawn := 20000000\<rparr>"

theorem employer_stats_correct_witness:
  "xlm_totals (employer_stats [stats_stream, stats_stream]) 10 4 6 \<and>
   st_active (employer_stats [stats_stream, stats_stream]) = 2"
proof -
  have "list_all well_typed_status [stats_stream, stats_stream]" "list_all whole_xlm [stats_stream, stats_stream]"
    by (simp_all add: stats_stream_def well_typed_status_def stream_statuses_def whole_xlm_def
      stream_view_def example_stream_def)
  moreover have "dep_xlm [stats_stream, stats_stream] = 10" "wd_xlm [stats_stream, stats_stream] = 4"
    "status_count ''Active'' [stats_stream, stats_stream] = 2"
    by (simp_all add: stats_stream_def stream_view_def example_stream_def has_status_def)
  ultimately show ?thesis using employer_stats_correct[of "[stats_stream, stats_stream]"] by simp
qed

section \<open>useTokenBalance\<close>

text \<open>Only the answer to the latest request is used: after the effect has run for a key and a
  token, answers to all other requests, in any number and order, change nothing, and the first answer
  to its own request ends the loading state. If the key or the token goes away while a request is open,
  the balance is cleared but the loading flag stays set, since the cancelled request no longer clears it.\<close>

theorem token_balance_latest:
  assumes "pk \<noteq> ''''" "tok \<noteq> ''''" "tb_next b \<notin> fst ` set answers"
  shows "(let b1 = token_balance_effect (Some pk) (Some tok) b;
          b2 = fold (\<lambda>(n, r). token_balance_answer n r) answers b1
      in b2 = b1 \<and> tb_loading b2 \<and>
         tb_balance (token_balance_answer (tb_next b) (Inr bal) b2) = Some bal \<and>
         \<not> tb_loading (token_balance_answer (tb_next b) r b2) \<and>
         tb_loading (token_balance_answer m r (token_balance_effect None (Some tok) b2)) \<and>
         tb_balance (token_balance_answer m r (token_balance_effect None (Some tok) b2)) = None)"
proof -
  let ?b1 = "token_balance_effect (Some pk) (Some tok) b"
  have req: "tb_request ?b1 = Some (tb_next b)" "tb_loading ?b1"
    using assms(1,2) by (simp_all add: token_balance_effect_def)
  have "fold (\<lambda>(n, r). token_balance_answer n r) answers ?b1 = ?b1"
    using assms(3) req(1) by (induction answers) (auto simp: token_balance_answer_def)
  then show ?thesis using req
    by (auto simp: Let_def token_balance_answer_def token_balance_effect_def split: sum.split)
qed

theorem token_balance_latest_witness:
  "tb_balance (token_balance_answer 3 (Inr 500) (token_balance_answer 2 (Inr 9)
      (token_balance_effect (Some ''GE'') (Some ''CT'')
        \<lparr>tb_balance = None, tb_loading = False, tb_error = None, tb_request = Some 2, tb_next = 3\<rparr>))) = Some 500"
  using token_balance_latest[of "''GE''" "''CT''"
    "\<lparr>tb_balance = None, tb_loading = False, tb_error = None, tb_request = Some 2, tb_next = 3\<rparr>" "[(2, Inr 9)]" 500 "Inr 500" 0]
  by (auto simp: Let_def)

end
