(* ===== verification/Amounts.thy ===== *)
theory Amounts
  imports Js_Value
begin

text \<open>
  Conversions between amounts of XLM and stroops (\<open>10 ^ 7\<close> to one XLM) that the forms of the demo
  use (\<^verbatim>\<open>demo/src/streamFormValidation.ts\<close>, \<^verbatim>\<open>demo/src/StreamWithdrawalForm.tsx\<close>), and
  how exact they are: below \<open>2 ^ 51\<close> stroops, dividing by \<open>10 ^ 7\<close> and multiplying back is off by less
  than half a stroop.
\<close>

definition STROOPS_PER_XLM :: int where
  "STROOPS_PER_XLM = 10000000"

definition BASE_FEE_STROOPS :: int where
  "BASE_FEE_STROOPS = 100000"

definition xlmToStroops :: "jsnum \<Rightarrow> js_error + int" where
  "xlmToStroops xlm = bigint_of_num (math_round (js_mul xlm (jsint STROOPS_PER_XLM)))"

text \<open>\<^verbatim>\<open>s.replace(/\.?0+$/, "")\<close>: the trailing zeros and a point before them.\<close>

definition strip_trailing_zeros :: "string \<Rightarrow> string" where
  "strip_trailing_zeros s =
     (let t = rev (dropWhile (\<lambda>c. c = CHR ''0'') (rev s)) in
      if t = s then s
      else if t \<noteq> [] \<and> last t = CHR ''.'' then butlast t else t)"

definition formatXlm :: "jsnum \<Rightarrow> string" where
  "formatXlm num = strip_trailing_zeros (toFixed 7 (js_div num (jsint STROOPS_PER_XLM)))"

text \<open>The withdrawal form's conversions: seven digits, and back by rounding down.\<close>

definition toXlm :: "int \<Rightarrow> string" where
  "toXlm stroops = toFixed 7 (js_div (num_of_bigint stroops) (jsint STROOPS_PER_XLM))"

definition toStroops :: "string \<Rightarrow> js_error + int" where
  "toStroops xlm =
     (let n = parseFloat xlm in
      if isNaN n \<or> js_le n (Fin 0) then Inr 0
      else bigint_of_num (math_floor (js_mul n (jsint STROOPS_PER_XLM))))"

section \<open>Rounding errors\<close>

lemma num_of_rat_small: "0 \<le> x \<Longrightarrow> x \<le> 2 ^ 53 \<Longrightarrow> num_of_rat x = Fin (rnd x)"
proof -
  assume x: "0 \<le> x" "x \<le> 2 ^ 53"
  have "rnd x \<le> rnd (of_int (2 ^ 53))" using x(2) by (intro rnd_mono) simp
  also have "\<dots> = 2 ^ 53" by (subst rnd_int) simp_all
  also have "(2 :: rat) ^ 53 < 2 ^ 1024" by (rule power_strict_increasing) simp_all
  finally have "rnd x < 2 ^ 1024" .
  moreover have "- (2 ^ 1024) < rnd x" using rnd_nonneg[OF x(1)] by (rule less_le_trans[rotated]) simp
  ultimately show ?thesis by (simp add: num_of_rat_def Let_def not_le)
qed

text \<open>The number read for \<open>c\<close> stroops, and its product with \<open>10 ^ 7\<close>.\<close>

lemma xlm_error:
  assumes "0 < c" "c < 2 ^ 51"
  shows "\<bar>rnd (of_int c / 10 ^ 7) * 10 ^ 7 - of_int c\<bar> \<le> of_int c * 2 powi (- 53)"
proof -
  have c1: "(1 :: rat) \<le> of_int c" using assms(1) by simp
  have pos: "(0 :: rat) < of_int c / 10 ^ 7" using c1 by simp
  have "(2 powi (- 1022) :: rat) \<le> 2 powi (- 24)" by (simp only: powi2_le_iff)
  also have "(2 powi (- 24) :: rat) \<le> 1 / 10 ^ 7" by (simp add: power_int_minus)
  also have "\<dots> \<le> of_int c / 10 ^ 7" using c1 by (intro divide_right_mono) auto
  finally have "\<bar>rnd (of_int c / 10 ^ 7) - of_int c / 10 ^ 7\<bar> \<le> of_int c / 10 ^ 7 * 2 powi (- 53)"
    by (rule rnd_error[OF pos])
  then have "\<bar>rnd (of_int c / 10 ^ 7) - of_int c / 10 ^ 7\<bar> * 10 ^ 7 \<le> of_int c / 10 ^ 7 * 2 powi (- 53) * 10 ^ 7"
    by (rule mult_right_mono) simp
  moreover have "\<bar>rnd (of_int c / 10 ^ 7) - of_int c / 10 ^ 7\<bar> * 10 ^ 7
      = \<bar>rnd (of_int c / 10 ^ 7) * 10 ^ 7 - of_int c\<bar>"
  proof -
    have "\<bar>(rnd (of_int c / 10 ^ 7) - of_int c / 10 ^ 7) * 10 ^ 7\<bar>
        = \<bar>rnd (of_int c / 10 ^ 7) - of_int c / 10 ^ 7\<bar> * 10 ^ 7" unfolding abs_mult by simp
    then show ?thesis by (simp add: left_diff_distrib)
  qed
  ultimately show ?thesis by simp
qed
lemma rat_of_int_below: "c < 2 ^ 51 \<Longrightarrow> (of_int c :: rat) \<le> 2 ^ 51 - 1"
proof -
  assume "c < 2 ^ 51"
  then have "(of_int c :: rat) \<le> of_int (2 ^ 51 - 1)" by (simp only: of_int_le_iff)
  then show ?thesis by simp
qed

text \<open>Multiplying back gives a number less than half a stroop away.\<close>

lemma xlm_times:
  assumes "0 \<le> c" "c < 2 ^ 51"
  shows "\<exists>y. js_mul (num_of_rat (of_int c / 10 ^ 7)) (jsint STROOPS_PER_XLM) = Fin y \<and>
    \<bar>y - of_int c\<bar> < 1 / 2"
proof (cases "c = 0")
  case True
  then show ?thesis by (simp add: num_of_rat_def jsint_def)
next
  case False
  then have c0: "0 < c" using assms(1) by simp
  define x where "x = rnd (of_int c / 10 ^ 7)"
  define v where "v = x * 10 ^ 7"
  let ?u = "2 powi (- 53) :: rat"
  have u: "?u = 1 / 2 ^ 53" by (simp add: power_int_minus)
  have cb: "(1 :: rat) \<le> of_int c" "(of_int c :: rat) \<le> 2 ^ 51 - 1"
    using c0 rat_of_int_below[OF assms(2)] by simp_all
  have e1: "\<bar>v - of_int c\<bar> \<le> of_int c * ?u" using xlm_error[OF c0 assms(2)] by (simp add: v_def x_def)
  have "of_int c * ?u \<le> (2 ^ 51 - 1) * ?u" using cb(2) by (intro mult_right_mono) (simp_all add: u)
  then have q: "of_int c * ?u \<le> 1 / 4" by (simp add: u)
  have v: "0 < v" "2 powi (- 1022) \<le> v" "v \<le> of_int c + 1 / 4" "v \<le> 2 ^ 53"
  proof -
    show "0 < v" using e1 q cb(1) by linarith
    have "(2 powi (- 1022) :: rat) \<le> 2 powi (- 1)" by (simp only: powi2_le_iff)
    also have "(2 powi (- 1) :: rat) = 1 / 2" by (simp add: power_int_minus)
    finally show "2 powi (- 1022) \<le> v" using e1 q cb(1) by linarith
    show "v \<le> of_int c + 1 / 4" using e1 q by linarith
    then show "v \<le> 2 ^ 53" using cb(2) by simp
  qed
  have "\<bar>rnd v - v\<bar> \<le> v * ?u" by (rule rnd_error[OF v(1,2)])
  also have "v * ?u \<le> (of_int c + 1 / 4) * ?u" using v(3) by (intro mult_right_mono) (simp_all add: u)
  finally have "\<bar>rnd v - of_int c\<bar> \<le> of_int c * ?u + (of_int c + 1 / 4) * ?u" using e1 by linarith
  also have "\<dots> = (2 * of_int c + 1 / 4) * ?u" by (simp add: algebra_simps)
  also have "\<dots> \<le> (2 * (2 ^ 51 - 1) + 1 / 4) * ?u" using cb(2) by (intro mult_right_mono) (simp_all add: u)
  also have "\<dots> < 1 / 2" by (simp add: u)
  finally have near: "\<bar>rnd v - of_int c\<bar> < 1 / 2" .
  have "num_of_rat (of_int c / 10 ^ 7) = Fin x"
    unfolding x_def using cb by (intro num_of_rat_small) (simp_all add: divide_le_eq)
  moreover have "num_of_rat v = Fin (rnd v)" using v by (intro num_of_rat_small) simp_all
  ultimately have "js_mul (num_of_rat (of_int c / 10 ^ 7)) (jsint STROOPS_PER_XLM) = Fin (rnd v)"
    by (simp add: jsint_def STROOPS_PER_XLM_def v_def)
  with near show ?thesis by blast
qed

lemma xlm_positive:
  assumes "0 < c" "c < 2 ^ 51"
  shows "\<not> js_le (num_of_rat (of_int c / 10 ^ 7)) (Fin 0)"
proof -
  define x where "x = rnd (of_int c / 10 ^ 7)"
  have cb: "(1 :: rat) \<le> of_int c" "(of_int c :: rat) \<le> 2 ^ 51 - 1"
    using assms(1) rat_of_int_below[OF assms(2)] by simp_all
  have "of_int c * 2 powi (- 53) < (of_int c * 1 :: rat)"
    using cb(1) by (intro mult_strict_left_mono) (simp_all add: power_int_minus)
  then have "0 < x * 10 ^ 7" using xlm_error[OF assms] unfolding x_def abs_le_iff by linarith
  then have "0 < x" by simp
  moreover have "num_of_rat (of_int c / 10 ^ 7) = Fin x"
    unfolding x_def using cb by (intro num_of_rat_small) (simp_all add: divide_le_eq)
  ultimately show ?thesis by simp
qed

lemma floor_half: "\<bar>y - of_int c\<bar> < 1 / 2 \<Longrightarrow> \<lfloor>y + 1 / 2\<rfloor> = c" for y :: rat
  by (rule floor_unique) (simp_all add: abs_if split: if_splits)

lemma xlmToStroops_exact:
  assumes "0 \<le> c" "c < 2 ^ 51"
  shows "xlmToStroops (num_of_rat (of_int c / 10 ^ 7)) = Inr c"
  using xlm_times[OF assms] floor_half by (auto simp: xlmToStroops_def)

text \<open>Printing with seven digits is exact too: the digits are those of \<open>c\<close>.\<close>

lemma toFixed_exact:
  assumes "0 \<le> c" "c < 2 ^ 51"
  shows "toFixed 7 (js_div (num_of_bigint c) (jsint STROOPS_PER_XLM)) = fixed_digits 7 c"
proof -
  define x where "x = rnd (of_int c / 10 ^ 7)"
  have safe: "safe_int c" using assms by simp
  have cb: "(0 :: rat) \<le> of_int c" "(of_int c :: rat) \<le> 2 ^ 51"
    using assms(1) rat_of_int_below[OF assms(2)] by simp_all
  have b: "0 \<le> (of_int c / 10 ^ 7 :: rat)" "(of_int c / 10 ^ 7 :: rat) \<le> 2 ^ 53"
    using cb by (simp_all add: divide_le_eq)
  have div: "js_div (num_of_bigint c) (jsint STROOPS_PER_XLM) = Fin x"
    using num_of_rat_small[OF b] safe
    by (simp add: num_of_bigint_safe jsint_def STROOPS_PER_XLM_def x_def)
  have x: "0 \<le> x" "x \<le> 2 ^ 53"
  proof -
    show "0 \<le> x" unfolding x_def by (rule rnd_nonneg[OF b(1)])
    have "x \<le> rnd (of_int (2 ^ 53))" unfolding x_def using b(2) by (intro rnd_mono) simp
    then show "x \<le> 2 ^ 53" by (subst (asm) rnd_int) simp_all
  qed
  have "\<bar>x * 10 ^ 7 - of_int c\<bar> < 1 / 2"
  proof (cases "c = 0")
    case False
    then have "\<bar>x * 10 ^ 7 - of_int c\<bar> \<le> of_int c * 2 powi (- 53)"
      using xlm_error[of c] assms by (simp add: x_def)
    also have "\<dots> \<le> 2 ^ 51 * 2 powi (- 53)" using cb(2) by (intro mult_right_mono) auto
    also have "\<dots> < 1 / 2" by (simp add: power_int_minus)
    finally show ?thesis .
  qed (simp add: x_def)
  from floor_half[OF this] show ?thesis using x unfolding div by (simp add: fixed_pos_def)
qed

section \<open>Printing and reading amounts\<close>

lemma length_zeros [simp]: "length (zeros k) = k"
  by (simp add: zeros_def)

lemma digits_value_append_zeros: "digits_value a (xs @ zeros k) = digits_value a xs * 10 ^ k"
proof (induction k)
  case (Suc k)
  have "zeros (Suc k) = zeros k @ ''0''" by (simp add: zeros_def replicate_append_same)
  then show ?case using Suc by (simp add: digits_value_append digit_val_def)
qed (simp add: zeros_def)

lemma parseFloat_integer:
  assumes "ip \<noteq> []" "list_all is_digit ip"
  shows "parseFloat ip = num_of_rat (of_int (digits_value 0 ip))"
proof -
  obtain c ip' where ip: "ip = c # ip'" using assms(1) by (cases ip) auto
  have "lit_decimal ip = Some (of_int (digits_value 0 ip), [])"
    using assms by (simp add: lit_decimal_def lit_exponent_def)
  then show ?thesis using parseFloat_digit[of c ip'] assms(2)
    by (simp add: ip parse_unsigned_def del: digits_value.simps)
qed

lemma fraction_split:
  fixes fp :: string
  defines "fp' \<equiv> rev (dropWhile (\<lambda>c. c = CHR ''0'') (rev fp))"
  obtains k where "fp = fp' @ zeros k"
proof -
  let ?z = "takeWhile (\<lambda>c. c = CHR ''0'') (rev fp)"
  have z: "?z = zeros (length ?z)"
    unfolding zeros_def by (subst replicate_length_same[symmetric]) (auto dest: set_takeWhileD)
  have "fp = fp' @ rev ?z"
    unfolding fp'_def by (metis rev_append rev_rev_ident takeWhile_dropWhile_id)
  also have "rev ?z = zeros (length ?z)" by (subst z) (simp add: zeros_def)
  finally show ?thesis by (rule that)
qed

lemma parse_stripped:
  assumes "ip \<noteq> []" "list_all is_digit ip" "list_all is_digit fp" "fp \<noteq> []"
  shows "parseFloat (strip_trailing_zeros (ip @ ''.'' @ fp)) = parseFloat (ip @ ''.'' @ fp)"
proof -
  define fp' where "fp' = rev (dropWhile (\<lambda>c. c = CHR ''0'') (rev fp))"
  obtain k where fp: "fp = fp' @ zeros k"
    unfolding fp'_def using fraction_split[of fp] by blast
  have dig: "list_all is_digit fp'" using assms(3) unfolding fp by simp
  have "dropWhile (\<lambda>c. c = CHR ''0'') (rev (ip @ ''.'' @ fp)) = rev fp' @ CHR ''.'' # rev ip"
  proof (cases "\<forall>c \<in> set fp. c = CHR ''0''")
    case True
    then have "dropWhile (\<lambda>c. c = CHR ''0'') (rev fp) = []" by simp
    then show ?thesis using True by (simp add: fp'_def dropWhile_append)
  next
    case False
    then show ?thesis by (auto simp: fp'_def dropWhile_append)
  qed
  then have t: "rev (dropWhile (\<lambda>c. c = CHR ''0'') (rev (ip @ ''.'' @ fp))) = ip @ ''.'' @ fp'" by simp
  have orig: "parseFloat (ip @ ''.'' @ fp)
      = num_of_rat (of_int (digits_value 0 (ip @ fp') * 10 ^ k) / 10 ^ (length fp' + k))"
    unfolding parseFloat_decimal[OF assms] using digits_value_append_zeros[of 0 "ip @ fp'" k] by (simp add: fp)
  have scale: "(of_int (m * 10 ^ k) / 10 ^ (length fp' + k) :: rat) = of_int m / 10 ^ length fp'" for m
    by (simp add: power_add)
  show ?thesis
  proof (cases "fp' = fp")
    case True
    then show ?thesis using t by (simp add: strip_trailing_zeros_def)
  next
    case False
    then have ne: "ip @ ''.'' @ fp' \<noteq> ip @ ''.'' @ fp" by simp
    show ?thesis
    proof (cases "fp' = []")
      case True
      then have "strip_trailing_zeros (ip @ ''.'' @ fp) = ip"
        using ne unfolding strip_trailing_zeros_def Let_def t by simp
      then show ?thesis using parseFloat_integer[OF assms(1,2)] unfolding orig scale by (simp add: True)
    next
      case nonempty: False
      then have "last fp' \<noteq> CHR ''.''"
        using dig not_digit_dot by (metis last_in_set list_all_iff)
      then have "strip_trailing_zeros (ip @ ''.'' @ fp) = ip @ ''.'' @ fp'"
        using ne nonempty unfolding strip_trailing_zeros_def Let_def t by simp
      then show ?thesis using parseFloat_decimal[OF assms(1,2) dig nonempty] unfolding orig scale by simp
    qed
  qed
qed

lemma fixed_digits_shape:
  assumes "0 < d" "0 \<le> n"
  obtains ip fp where "fixed_digits d n = ip @ ''.'' @ fp" "ip \<noteq> []" "fp \<noteq> []"
    "list_all is_digit ip" "list_all is_digit fp"
proof -
  let ?m = "show_dec n"
  let ?z = "if length ?m \<le> d then zeros (d + 1 - length ?m) @ ?m else ?m"
  let ?k = "length ?z - d"
  have z: "list_all is_digit ?z" using show_dec_digits[OF assms(2)] by (auto simp: list_all_zeros)
  have len: "d < length ?z" by (auto simp: zeros_def)
  show ?thesis
  proof (rule that)
    show "fixed_digits d n = take ?k ?z @ ''.'' @ drop ?k ?z"
      using assms by (simp add: fixed_digits_def Let_def)
    show "take ?k ?z \<noteq> []" "drop ?k ?z \<noteq> []" using len assms by (auto simp del: length_append)
    show "list_all is_digit (take ?k ?z)" "list_all is_digit (drop ?k ?z)"
      using z set_take_subset[of ?k ?z] set_drop_subset[of ?k ?z] by (auto simp only: list_all_iff)
  qed
qed

lemma parseFloat_formatXlm:
  assumes "0 \<le> c" "c < 2 ^ 51"
  shows "parseFloat (formatXlm (num_of_bigint c)) = num_of_rat (of_int c / 10 ^ 7)"
proof -
  obtain ip fp where s: "fixed_digits 7 c = ip @ ''.'' @ fp" "ip \<noteq> []" "fp \<noteq> []"
    "list_all is_digit ip" "list_all is_digit fp"
    using fixed_digits_shape[of 7 c] assms(1) by auto
  have "parseFloat (formatXlm (num_of_bigint c)) = parseFloat (fixed_digits 7 c)"
    unfolding formatXlm_def toFixed_exact[OF assms] unfolding s(1) by (rule parse_stripped[OF s(2,4,5,3)])
  then show ?thesis using parseFloat_fixed_digits[of 7 c] assms(1) by simp
qed

section \<open>Properties\<close>

text \<open>C12: Amounts below \<open>2 ^ 51\<close> stroops survive the forms: an amount printed by \<open>formatXlm\<close>, and
  an amount typed with seven decimals, are read back by \<open>parseFloat\<close> and \<open>xlmToStroops\<close> as exactly the
  same number of stroops.\<close>

theorem xlm_round_trip:
  assumes "0 \<le> c" "c < 2 ^ 51"
  shows "xlmToStroops (parseFloat (formatXlm (num_of_bigint c))) = Inr c
    \<and> xlmToStroops (parseFloat (fixed_digits 7 c)) = Inr c"
  using xlmToStroops_exact[OF assms] parseFloat_formatXlm[OF assms] parseFloat_fixed_digits[of 7 c] assms(1)
  by simp

lemma digit_char_table:
  "digit_char 0 = CHR ''0''" "digit_char 1 = CHR ''1''" "digit_char 2 = CHR ''2''"
  "digit_char 3 = CHR ''3''" "digit_char 4 = CHR ''4''" "digit_char 5 = CHR ''5''"
  "digit_char 6 = CHR ''6''" "digit_char 7 = CHR ''7''" "digit_char 8 = CHR ''8''"
  "digit_char 9 = CHR ''9''"
  by code_simp+

theorem xlm_round_trip_witness:
  "xlmToStroops (parseFloat ''12.3456789'') = Inr 123456789"
  using xlm_round_trip[of 123456789]
  by (simp add: fixed_digits_def show_dec.simps digit_char_table Let_def)

text \<open>The Max button of the withdrawal form never asks for more than is claimable, and for at most
  one stroop less: the printed amount is exact, but reading it back rounds down.\<close>

theorem max_button_bounds:
  assumes "0 \<le> c" "c < 2 ^ 51"
  shows "\<exists>a. toStroops (toXlm c) = Inr a \<and> c - 1 \<le> a \<and> a \<le> c"
proof (cases "c = 0")
  case True
  have "parseFloat (fixed_digits 7 0) = Fin 0"
    using parseFloat_fixed_digits[of 7 0] by (simp add: num_of_rat_def)
  then show ?thesis using True toFixed_exact[of 0] by (simp add: toStroops_def toXlm_def)
next
  case False
  obtain y where y: "js_mul (num_of_rat (of_int c / 10 ^ 7)) (jsint STROOPS_PER_XLM) = Fin y"
    "\<bar>y - of_int c\<bar> < 1 / 2" using xlm_times[OF assms] by blast
  have p: "parseFloat (toXlm c) = num_of_rat (of_int c / 10 ^ 7)"
    using toFixed_exact[OF assms] parseFloat_fixed_digits[of 7 c] assms(1) by (simp add: toXlm_def)
  have "of_int (c - 1) \<le> y" "y < of_int (c + 1)" 
    using y(2) unfolding abs_less_iff of_int_diff of_int_add of_int_1 by linarith+
  then have fl: "c - 1 \<le> \<lfloor>y\<rfloor>" "\<lfloor>y\<rfloor> \<le> c" by (simp_all add: le_floor_iff floor_le_iff)
  have "\<not> js_le (num_of_rat (of_int c / 10 ^ 7)) (Fin 0)" using False assms by (intro xlm_positive) auto
  moreover have "num_of_rat (of_int c / 10 ^ 7) \<noteq> NaN" using y(1) by auto
  ultimately show ?thesis using fl y(1) unfolding toStroops_def Let_def p by simp
qed

theorem max_button_bounds_witness:
  "\<exists>a. toStroops (toXlm 21) = Inr a \<and> 20 \<le> a \<and> a \<le> 21"
  using max_button_bounds[of 21] by simp

text \<open>The lost stroop occurs: with 21 stroops claimable the Max button asks for 20.\<close>

lemma max_button_loses_stroop: "toStroops (toXlm 21) = Inr 20"
proof -
  let ?x = "of_int 4958484807013127 * 2 powi (- 71) :: rat"
  let ?y = "of_int 5910974510923775 * 2 powi (- 48) :: rat"
  have p: "parseFloat (toXlm 21) = num_of_rat (of_int 21 / 10 ^ 7)"
    using toFixed_exact[of 21] parseFloat_fixed_digits[of 7 21] by (simp add: toXlm_def)
  have "rnd (of_int 21 / 10 ^ 7) = of_int 4958484807013127 * 2 powi (- 19 - 52)"
    by (rule rnd_evalI) (simp_all add: power_int_minus)
  then have x: "num_of_rat (of_int 21 / 10 ^ 7) = Fin ?x"
    using num_of_rat_small[of "of_int 21 / 10 ^ 7"] by simp
  have "rnd (?x * 10 ^ 7) = of_int 5910974510923775 * 2 powi (4 - 52)"
    by (rule rnd_evalI) (simp_all add: power_int_minus)
  then have "num_of_rat (?x * 10 ^ 7) = Fin ?y"
    using num_of_rat_small[of "?x * 10 ^ 7"] by (simp add: power_int_minus)
  then have m: "js_mul (Fin ?x) (jsint STROOPS_PER_XLM) = Fin ?y" by (simp add: jsint_def STROOPS_PER_XLM_def)
  have "\<lfloor>?y\<rfloor> = 20" by (rule floor_unique) (simp_all add: power_int_minus)
  moreover have "\<not> ?x \<le> 0" by (simp add: power_int_minus)
  ultimately show ?thesis unfolding toStroops_def Let_def p x m by simp
qed

end
