(* ===== verification/Stream_Form.thy ===== *)
theory Stream_Form
  imports Amounts Dashboard
begin

text \<open>
  The forms of the demo: the validators of \<^verbatim>\<open>demo/src/streamFormValidation.ts\<close>, the creation
  form (\<^verbatim>\<open>StreamCreationForm.tsx\<close>), the batch form (\<^verbatim>\<open>BatchCreateStreams.tsx\<close>) and the
  withdrawal dialog (\<^verbatim>\<open>StreamWithdrawalForm.tsx\<close>). \<open>StrKey\<close> of the Stellar SDK is a parameter.
  \<open>now\<close> is \<^verbatim>\<open>Date.now()\<close> in milliseconds. Static markup and styles are not modelled.
\<close>

section \<open>Validators\<close>

record strkey =
  isValidEd25519PublicKey :: "string \<Rightarrow> js_error + bool"
  isValidContract :: "string \<Rightarrow> js_error + bool"

record stream_form_errors =
  e_employee :: "string option"
  e_token :: "string option"
  e_deposit :: "string option"
  e_rate :: "string option"
  e_stopTime :: "string option"
  e_depositVsRate :: "string option"

record fee_estimate =
  baseFee :: jsnum
  totalFee :: jsnum
  totalFeeXlm :: jsnum
  estimatedDuration :: string
  estimatedDurationSeconds :: jsnum

text \<open>\<^verbatim>\<open>a || b\<close> inside the \<^verbatim>\<open>try\<close>: an exception of either check gives \<^verbatim>\<open>false\<close>.\<close>

definition isValidStellarAddress :: "strkey \<Rightarrow> string \<Rightarrow> bool" where
  "isValidStellarAddress K address =
     (address \<noteq> '''' \<and>
      (case isValidEd25519PublicKey K address of
         Inl _ \<Rightarrow> False
       | Inr True \<Rightarrow> True
       | Inr False \<Rightarrow> (case isValidContract K address of Inl _ \<Rightarrow> False | Inr b \<Rightarrow> b)))"

definition blank :: "string \<Rightarrow> bool" where
  "blank s = (s = '''' \<or> trim s = '''')"

definition validateDeposit :: "string \<Rightarrow> string option" where
  "validateDeposit dep =
     (if blank dep then Some ''Deposit is required''
      else (let d = parseFloat dep in
        if isNaN d then Some ''Deposit must be a valid number''
        else if js_le d (jsint 0) then Some ''Deposit must be greater than 0''
        else if js_less (jsint 1000000000) d then Some ''Deposit amount is too large''
        else None))"

definition validateRate :: "string \<Rightarrow> string option" where
  "validateRate rate =
     (if blank rate then Some ''Rate is required''
      else (let r = parseFloat rate in
        if isNaN r then Some ''Rate must be a valid number''
        else if js_le r (jsint 0) then Some ''Rate must be greater than 0''
        else if js_less (jsint 1000000000) r then Some ''Rate is too large''
        else None))"

definition validateDepositVsRate :: "string \<Rightarrow> string \<Rightarrow> string option" where
  "validateDepositVsRate dep rate =
     (let d = parseFloat dep; r = parseFloat rate in
      if isNaN d \<or> isNaN r \<or> js_le d (jsint 0) \<or> js_le r (jsint 0) then None
      else (let depositStroops = js_mul d (jsint STROOPS_PER_XLM) in
        if js_less depositStroops r then
          Some (''Deposit must be at least '' @ toFixed 6 (js_div r (jsint STROOPS_PER_XLM))
            @ '' XLM to stream for 1 second at this rate'')
        else None))"

definition validateEmployeeAddress :: "strkey \<Rightarrow> string \<Rightarrow> string option" where
  "validateEmployeeAddress K address =
     (if blank address then Some ''Employee address is required''
      else if \<not> isValidStellarAddress K address
      then Some ''Invalid Stellar address format (must start with G for public key)''
      else None)"

definition validateTokenAddress :: "strkey \<Rightarrow> string \<Rightarrow> string option" where
  "validateTokenAddress K address =
     (if blank address then Some ''Token contract ID is required''
      else if \<not> isValidStellarAddress K address
      then Some ''Invalid contract address format (must start with C for contract)''
      else None)"

definition validateStopTime :: "int \<Rightarrow> string \<Rightarrow> string option" where
  "validateStopTime now stop =
     (if stop = '''' \<or> stop = ''0'' then None
      else (let st = parseInt stop in
        if isNaN st then Some ''Stop time must be a valid number''
        else if js_le st (now_seconds now) then Some ''Stop time must be in the future''
        else None))"

definition validateStreamForm ::
  "strkey \<Rightarrow> int \<Rightarrow> string \<Rightarrow> string \<Rightarrow> string \<Rightarrow> string \<Rightarrow> string \<Rightarrow> stream_form_errors" where
  "validateStreamForm K now ee tok dep rate stop =
     (let depositError = validateDeposit dep; rateError = validateRate rate in
      \<lparr>e_employee = validateEmployeeAddress K ee,
       e_token = validateTokenAddress K tok,
       e_deposit = depositError,
       e_rate = rateError,
       e_stopTime = validateStopTime now stop,
       e_depositVsRate =
         (if depositError = None \<and> rateError = None then validateDepositVsRate dep rate else None)\<rparr>)"

definition no_errors :: stream_form_errors where
  "no_errors = \<lparr>e_employee = None, e_token = None, e_deposit = None, e_rate = None,
     e_stopTime = None, e_depositVsRate = None\<rparr>"

text \<open>\<^verbatim>\<open>!dep || !r || dep <= 0 || r <= 0\<close>.\<close>

definition not_positive :: "jsnum \<Rightarrow> jsnum \<Rightarrow> bool" where
  "not_positive d r = (\<not> num_truthy d \<or> \<not> num_truthy r \<or> js_le d (jsint 0) \<or> js_le r (jsint 0))"

definition calculateStreamDuration :: "string \<Rightarrow> string \<Rightarrow> string option" where
  "calculateStreamDuration dep rate =
     (let d = parseFloat dep; r = parseFloat rate in
      if not_positive d r then None
      else (let secs = js_div (js_mul d (jsint STROOPS_PER_XLM)) r in
        if js_less secs (jsint 60) then Some (''~'' @ num_to_string (math_round secs) @ ''s'')
        else if js_less secs (jsint 3600)
        then Some (''~'' @ num_to_string (math_round (js_div secs (jsint 60))) @ ''m'')
        else if js_less secs (jsint 86400)
        then Some (''~'' @ toFixed 1 (js_div secs (jsint 3600)) @ ''h'')
        else Some (''~'' @ toFixed 1 (js_div secs (jsint 86400)) @ '' days'')))"

definition calculateFeeEstimate :: "string \<Rightarrow> string \<Rightarrow> fee_estimate option" where
  "calculateFeeEstimate dep rate =
     (let d = parseFloat dep; r = parseFloat rate in
      if not_positive d r then None
      else (let secs = js_div (js_mul d (jsint STROOPS_PER_XLM)) r;
                fee = jsint BASE_FEE_STROOPS
            in Some \<lparr>baseFee = fee, totalFee = fee,
                 totalFeeXlm = js_div fee (jsint STROOPS_PER_XLM),
                 estimatedDuration =
                   (case calculateStreamDuration dep rate of
                      Some t \<Rightarrow> if t = '''' then ''Unknown'' else t | None \<Rightarrow> ''Unknown''),
                 estimatedDurationSeconds = math_floor secs\<rparr>))"

section \<open>The creation form\<close>

record creation_form =
  f_employee :: string
  f_token :: string
  f_deposit :: string
  f_rate :: string
  f_stopTime :: string
  f_errors :: stream_form_errors
  f_submitted :: bool
  f_feeEstimate :: "fee_estimate option"
  f_duration :: "string option"
  f_balanceRefreshes :: nat

definition form_init :: "string \<Rightarrow> creation_form" where
  "form_init defaultToken =
     \<lparr>f_employee = '''', f_token = defaultToken, f_deposit = '''', f_rate = '''', f_stopTime = ''0'',
      f_errors = no_errors, f_submitted = False, f_feeEstimate = None, f_duration = None,
      f_balanceRefreshes = 0\<rparr>"

definition form_validate :: "strkey \<Rightarrow> int \<Rightarrow> creation_form \<Rightarrow> stream_form_errors" where
  "form_validate K now f =
     validateStreamForm K now (f_employee f) (f_token f) (f_deposit f) (f_rate f) (f_stopTime f)"

text \<open>The effects that follow a change: validate again after a first submit, renew the estimate.\<close>

definition form_effects :: "strkey \<Rightarrow> int \<Rightarrow> creation_form \<Rightarrow> creation_form" where
  "form_effects K now f =
     (let f1 = (if f_submitted f then f\<lparr>f_errors := form_validate K now f\<rparr> else f) in
      if f_deposit f1 \<noteq> '''' \<and> f_rate f1 \<noteq> '''' then
        f1\<lparr>f_feeEstimate := calculateFeeEstimate (f_deposit f1) (f_rate f1),
           f_duration := calculateStreamDuration (f_deposit f1) (f_rate f1)\<rparr>
      else f1\<lparr>f_feeEstimate := None, f_duration := None\<rparr>)"

text \<open>The arguments of \<^verbatim>\<open>onSubmit\<close>; a conversion may throw.\<close>

definition form_amounts :: "creation_form \<Rightarrow> js_error + int \<times> int \<times> int" where
  "form_amounts f =
     rbind (xlmToStroops (parseFloat (f_deposit f))) (\<lambda>dep.
     rbind (bigint_of_num (math_round (parseFloat (f_rate f)))) (\<lambda>rate.
     rbind (bigint_of_string (if f_stopTime f = '''' then ''0'' else f_stopTime f)) (\<lambda>stop.
       Inr (dep, rate, stop))))"

definition form_reset :: "string \<Rightarrow> creation_form \<Rightarrow> creation_form" where
  "form_reset defaultToken f =
     f\<lparr>f_employee := '''', f_token := defaultToken, f_deposit := '''', f_rate := '''',
       f_stopTime := ''0'', f_submitted := False, f_errors := no_errors,
       f_balanceRefreshes := f_balanceRefreshes f + 1\<rparr>"

definition form_handleSubmit ::
  "strkey \<Rightarrow> int \<Rightarrow> string \<Rightarrow> (string \<Rightarrow> string \<Rightarrow> int \<Rightarrow> int \<Rightarrow> int \<Rightarrow> ('w, unit) io) \<Rightarrow>
    (creation_form \<times> 'w, unit) io" where
  "form_handleSubmit K now defaultToken onSubmit =
     bind (gets fst) (\<lambda>f.
     (let newErrors = form_validate K now f in
      bind (set_state (\<lambda>f. f\<lparr>f_submitted := True, f_errors := newErrors\<rparr>)) (\<lambda>_.
        if newErrors \<noteq> no_errors then ret ()
        else
          try_catch
            (bind (of_result (form_amounts f)) (\<lambda>(dep, rate, stop).
             bind (outside (onSubmit (f_employee f) (f_token f) dep rate stop)) (\<lambda>_.
               set_state (form_reset defaultToken))))
            (\<lambda>_. ret ()))))"

text \<open>The amount used for the balance warning; it is computed during rendering and may throw.\<close>

definition insufficientBalance :: "creation_form \<Rightarrow> int option \<Rightarrow> js_error + bool" where
  "insufficientBalance f tokenBalance =
     rbind (if f_deposit f \<noteq> '''' then xlmToStroops (parseFloat (f_deposit f)) else Inr 0) (\<lambda>depositStroops.
       Inr (case tokenBalance of None \<Rightarrow> False | Some b \<Rightarrow> 0 < depositStroops \<and> b < depositStroops))"

section \<open>The batch form\<close>

record batch_row =
  row_id :: string
  row_employee :: string
  row_deposit :: string
  row_rate :: string
  row_stopTime :: string

record row_errors =
  re_employee :: "string option"
  re_deposit :: "string option"
  re_rate :: "string option"
  re_stopTime :: "string option"

definition emptyRow :: "string \<Rightarrow> batch_row" where
  "emptyRow uuid = \<lparr>row_id = uuid, row_employee = '''', row_deposit = ''10'', row_rate = ''1'', row_stopTime = ''0''\<rparr>"

definition validateRow :: "int \<Rightarrow> batch_row \<Rightarrow> row_errors" where
  "validateRow now row =
     \<lparr>re_employee = (if trim (row_employee row) = '''' then Some ''Required'' else None),
      re_deposit = (let d = parseFloat (row_deposit row) in
        if isNaN d \<or> js_le d (jsint 0) then Some ''Must be > 0'' else None),
      re_rate = (let r = parseFloat (row_rate row) in
        if isNaN r \<or> js_le r (jsint 0) then Some ''Must be > 0'' else None),
      re_stopTime =
        (if row_stopTime row \<noteq> ''0'' \<and> row_stopTime row \<noteq> '''' then
           (let st = parseInt (row_stopTime row) in
            if isNaN st \<or> js_le st (now_seconds now) then Some ''Must be future or 0'' else None)
         else None)\<rparr>"

definition no_row_errors :: row_errors where
  "no_row_errors = \<lparr>re_employee = None, re_deposit = None, re_rate = None, re_stopTime = None\<rparr>"

record batch_state = hook_state +
  b_rows :: "batch_row list"
  b_rowErrors :: "(string, row_errors) jsmap"
  b_submitted :: bool
  b_successTxHash :: "string option"

datatype row_field = RowEmployee | RowDeposit | RowRate | RowStopTime

fun set_row_field :: "row_field \<Rightarrow> string \<Rightarrow> batch_row \<Rightarrow> batch_row" where
  "set_row_field RowEmployee v r = r\<lparr>row_employee := v\<rparr>"
| "set_row_field RowDeposit v r = r\<lparr>row_deposit := v\<rparr>"
| "set_row_field RowRate v r = r\<lparr>row_rate := v\<rparr>"
| "set_row_field RowStopTime v r = r\<lparr>row_stopTime := v\<rparr>"

text \<open>\<open>uuid\<close> is the value of \<^verbatim>\<open>crypto.randomUUID()\<close>.\<close>

definition addRow :: "string \<Rightarrow> batch_state \<Rightarrow> batch_state" where
  "addRow uuid s = s\<lparr>b_rows := b_rows s @ [emptyRow uuid]\<rparr>"

definition removeRow :: "string \<Rightarrow> batch_state \<Rightarrow> batch_state" where
  "removeRow i s = s\<lparr>b_rows := filter (\<lambda>r. row_id r \<noteq> i) (b_rows s), b_rowErrors := jsdel i (b_rowErrors s)\<rparr>"

definition updateRow :: "int \<Rightarrow> string \<Rightarrow> row_field \<Rightarrow> string \<Rightarrow> batch_state \<Rightarrow> batch_state" where
  "updateRow now i field v s =
     (let s1 = s\<lparr>b_rows := map_where (\<lambda>r. row_id r = i) (set_row_field field v) (b_rows s)\<rparr> in
      if b_submitted s then
        (case find (\<lambda>r. row_id r = i) (b_rows s) of
           Some row \<Rightarrow> s1\<lparr>b_rowErrors := jsset i (validateRow now (set_row_field field v row)) (b_rowErrors s)\<rparr>
         | None \<Rightarrow> s1)
      else s1)"

definition totalDeposit :: "batch_row list \<Rightarrow> jsnum" where
  "totalDeposit rows =
     fold (\<lambda>r sum. (let d = parseFloat (row_deposit r) in js_add sum (if isNaN d then Fin 0 else d))) rows (Fin 0)"

definition row_params :: "string \<Rightarrow> batch_row \<Rightarrow> js_error + stream_params" where
  "row_params tok r =
     rbind (bigint_of_num (math_round (js_mul (parseFloat (row_deposit r)) (jsint 10000000)))) (\<lambda>dep.
     rbind (bigint_of_num (math_round (parseFloat (row_rate r)))) (\<lambda>rate.
     rbind (bigint_of_string (if row_stopTime r = '''' then ''0'' else row_stopTime r)) (\<lambda>stop.
       Inr \<lparr>p_employee = trim (row_employee r), p_token = tok, p_deposit = dep,
            p_ratePerSecond = rate, p_stopTime = stop, p_cliffTime = 0\<rparr>)))"

definition row_errors_of :: "int \<Rightarrow> batch_row list \<Rightarrow> (string, row_errors) jsmap" where
  "row_errors_of now rows = fold (\<lambda>r m. jsset (row_id r) (validateRow now r) m) rows []"

definition batch_handleSubmit ::
  "('w, 'a, 't, 'v) app \<Rightarrow> config \<Rightarrow> int \<Rightarrow> string \<Rightarrow> (batch_state \<times> 'w, unit) io" where
  "batch_handleSubmit A cfg now uuid =
     bind (gets fst) (\<lambda>s0.
     (let hasErrors = list_ex (\<lambda>r. validateRow now r \<noteq> no_row_errors) (b_rows s0) in
      bind (set_state (\<lambda>s. s\<lparr>b_submitted := True, b_successTxHash := None,
        b_rowErrors := row_errors_of now (b_rows s0)\<rparr>)) (\<lambda>_.
        case connected_key s0 of
          None \<Rightarrow> ret ()
        | Some pk \<Rightarrow>
            if hasErrors then ret ()
            else
              bind (set_state (\<lambda>s. s\<lparr>loading := True, hook_error := None\<rparr>)) (\<lambda>_.
              finally_do
                (try_catch
                   (bind (of_result (seq_results (map (row_params (cfg_defaultToken cfg)) (b_rows s0)))) (\<lambda>params.
                    bind (outside (sign_and_submit A
                      (createStreamsBatch (app_stellar A) (app_client A) pk params))) (\<lambda>txHash.
                      set_state (\<lambda>s. s\<lparr>b_successTxHash := Some txHash, b_rows := [emptyRow uuid],
                        b_submitted := False, b_rowErrors := []\<rparr>))))
                   set_error)
                (\<lambda>(s, w). (s\<lparr>loading := False\<rparr>, w))))))"

section \<open>The withdrawal dialog\<close>

datatype withdraw_step = FormStep | ConfirmStep

record withdraw_form =
  wf_amountXlm :: string
  wf_step :: withdraw_step
  wf_submitting :: bool
  wf_error :: "string option"
  wf_closed :: bool

definition withdraw_init :: withdraw_form where
  "withdraw_init = \<lparr>wf_amountXlm = '''', wf_step = FormStep, wf_submitting = False, wf_error = None, wf_closed = False\<rparr>"

text \<open>\<^verbatim>\<open>enteredStroops\<close>; an entered infinity makes \<^verbatim>\<open>BigInt\<close> throw while rendering.\<close>

definition enteredStroops :: "withdraw_form \<Rightarrow> js_error + int" where
  "enteredStroops f = toStroops (wf_amountXlm f)"

definition isInvalid :: "int \<Rightarrow> int \<Rightarrow> bool" where
  "isInvalid claimableStroops entered = (claimableStroops < entered \<or> entered = 0)"

definition handleMaxClick :: "int \<Rightarrow> withdraw_form \<Rightarrow> withdraw_form" where
  "handleMaxClick claimableStroops f = f\<lparr>wf_amountXlm := toXlm claimableStroops\<rparr>"

definition withdraw_type :: "string \<Rightarrow> withdraw_form \<Rightarrow> withdraw_form" where
  "withdraw_type s f = f\<lparr>wf_amountXlm := s, wf_error := None\<rparr>"

definition handleSubmitForm :: "int \<Rightarrow> int \<Rightarrow> withdraw_form \<Rightarrow> withdraw_form" where
  "handleSubmitForm claimableStroops entered f =
     (if isInvalid claimableStroops entered then f else f\<lparr>wf_step := ConfirmStep\<rparr>)"

text \<open>\<^verbatim>\<open>handleConfirm\<close> up to the call of \<^verbatim>\<open>onWithdraw\<close>, and its continuation.\<close>

definition handleConfirm_start :: "withdraw_form \<Rightarrow> withdraw_form" where
  "handleConfirm_start f = f\<lparr>wf_submitting := True, wf_error := None\<rparr>"

definition handleConfirm_end :: "js_error + unit \<Rightarrow> withdraw_form \<Rightarrow> withdraw_form" where
  "handleConfirm_end r f =
     (case r of
        Inr _ \<Rightarrow> f\<lparr>wf_closed := True, wf_submitting := False\<rparr>
      | Inl e \<Rightarrow> f\<lparr>wf_error := Some (errMsg e), wf_step := FormStep, wf_submitting := False\<rparr>)"

text \<open>What the dialog shows: the step, the hint under the amount, and which buttons work.\<close>

definition withdraw_hint :: "int \<Rightarrow> int \<Rightarrow> string" where
  "withdraw_hint claimableStroops entered =
     (if claimableStroops < entered then ''Amount exceeds claimable balance''
      else ''Max: '' @ toXlm claimableStroops @ '' XLM'')"
end
