(* ===== verification/Form_Props.thy ===== *)
theory Form_Props
  imports Stream_Form Sdk_Contract Dashboard_Props
begin

text \<open>
  Properties of the forms: what an accepted creation form submits, what the withdrawal dialog can
  ask for, and that a batch is submitted as a whole or not at all.
\<close>

section \<open>Amounts an accepted form can hold\<close>

lemma rnd_le_ten16: "x \<le> 10 ^ 16 \<Longrightarrow> rnd x \<le> 10 ^ 16"
proof -
  assume "x \<le> 10 ^ 16"
  then have "rnd x \<le> rnd (10 ^ 16)" by (rule rnd_mono)
  also have "rnd (10 ^ 16) = of_int 5000000000000000 * 2 powi (53 - 52)" by (rule rnd_evalI) simp_all
  finally show ?thesis by simp
qed

lemma num_of_rat_ten16: "0 \<le> x \<Longrightarrow> x \<le> 10 ^ 16 \<Longrightarrow> num_of_rat x = Fin (rnd x)"
proof -
  assume x: "0 \<le> x" "x \<le> 10 ^ 16"
  have "(10 :: rat) ^ 16 < 2 ^ 54" by simp
  also have "(2 :: rat) ^ 54 < 2 ^ 1024" by (rule power_strict_increasing) simp_all
  finally have "rnd x < 2 ^ 1024" using rnd_le_ten16[OF x(2)] by (rule le_less_trans[rotated])
  moreover have "- (2 ^ 1024) < rnd x" using rnd_nonneg[OF x(1)] by (rule less_le_trans[rotated]) simp
  ultimately show ?thesis by (simp add: num_of_rat_def Let_def not_le)
qed

lemma num_in_range:
  assumes "x \<noteq> NaN" "\<not> js_le x (jsint 0)" "\<not> js_less (jsint 1000000000) x"
  obtains q where "x = Fin q" "0 < q" "q \<le> 10 ^ 9"
  using assms by (cases x) (auto simp: jsint_def not_le not_less)

lemma xlmToStroops_range:
  assumes "0 < q" "q \<le> 10 ^ 9"
  obtains d where "xlmToStroops (Fin q) = Inr d" "0 \<le> d" "d \<le> 10 ^ 16"
proof -
  let ?v = "q * 10 ^ 7"
  have v: "0 \<le> ?v" "?v \<le> 10 ^ 16" using assms by simp_all
  have r: "0 \<le> rnd ?v" "rnd ?v \<le> 10 ^ 16" using rnd_nonneg[OF v(1)] rnd_le_ten16[OF v(2)] by simp_all
  have "xlmToStroops (Fin q) = Inr \<lfloor>rnd ?v + 1 / 2\<rfloor>"
    using num_of_rat_ten16[OF v] by (simp add: xlmToStroops_def jsint_def STROOPS_PER_XLM_def)
  moreover have "0 \<le> \<lfloor>rnd ?v + 1 / 2\<rfloor>" using r(1) by (simp add: le_floor_iff)
  moreover have "\<lfloor>rnd ?v + 1 / 2\<rfloor> \<le> 10 ^ 16" using r(2) by (simp add: floor_le_iff)
  ultimately show ?thesis by (rule that)
qed

lemma rate_range:
  assumes "0 < q" "q \<le> 10 ^ 9"
  obtains r where "bigint_of_num (math_round (Fin q)) = Inr r" "0 \<le> r" "r \<le> 10 ^ 9"
proof (rule that)
  show "bigint_of_num (math_round (Fin q)) = Inr \<lfloor>q + 1 / 2\<rfloor>" by simp
  show "0 \<le> \<lfloor>q + 1 / 2\<rfloor>" using assms(1) by (simp add: le_floor_iff)
  show "\<lfloor>q + 1 / 2\<rfloor> \<le> 10 ^ 9" using assms(2) by (simp add: floor_le_iff)
qed

lemma accepted_fields:
  assumes "form_validate K now f = no_errors"
  shows "isValidStellarAddress K (f_employee f)" "isValidStellarAddress K (f_token f)"
    "validateDeposit (f_deposit f) = None" "validateRate (f_rate f) = None"
  using assms
  by (auto simp: form_validate_def validateStreamForm_def no_errors_def validateEmployeeAddress_def
    validateTokenAddress_def Let_def split: if_splits)

lemma accepted_amounts:
  assumes "form_validate K now f = no_errors"
  obtains d r where "0 \<le> d" "d \<le> 10 ^ 16" "0 \<le> r" "r \<le> 10 ^ 9"
    "form_amounts f = rbind (bigint_of_string (if f_stopTime f = '''' then ''0'' else f_stopTime f))
      (\<lambda>stop. Inr (d, r, stop))"
proof -
  note v = accepted_fields(3,4)[OF assms]
  obtain p where p: "parseFloat (f_deposit f) = Fin p" "0 < p" "p \<le> 10 ^ 9"
    using v(1) by (auto simp: validateDeposit_def Let_def split: if_splits elim: num_in_range)
  obtain q where q: "parseFloat (f_rate f) = Fin q" "0 < q" "q \<le> 10 ^ 9"
    using v(2) by (auto simp: validateRate_def Let_def split: if_splits elim: num_in_range)
  obtain d where d: "xlmToStroops (Fin p) = Inr d" "0 \<le> d" "d \<le> 10 ^ 16" using xlmToStroops_range[OF p(2,3)] .
  obtain r where r: "bigint_of_num (math_round (Fin q)) = Inr r" "0 \<le> r" "r \<le> 10 ^ 9" using rate_range[OF q(2,3)] .
  show ?thesis using d r p(1) q(1) by (intro that[of d r]) (simp_all add: form_amounts_def)
qed

text \<open>The form after a submit that did not go through.\<close>

definition form_kept :: "strkey \<Rightarrow> int \<Rightarrow> creation_form \<Rightarrow> creation_form" where
  "form_kept K now f = f\<lparr>f_submitted := True, f_errors := form_validate K now f\<rparr>"

text \<open>C13: The creation form. A form with an error is not submitted: nothing happens outside it. An
  accepted form has valid addresses and hands \<^verbatim>\<open>onSubmit\<close> a deposit of 0 to \<open>10 ^ 16\<close> stroops and
  a rate of 0 to \<open>10 ^ 9\<close>; it is cleared exactly if \<^verbatim>\<open>onSubmit\<close> succeeds. If the stop time is
  not an integer literal, nothing is submitted and the form stays as it is.\<close>

theorem creation_form_guard:
  "if form_validate K now f \<noteq> no_errors
   then form_handleSubmit K now tok onSubmit (f, w) = (Inr (), (form_kept K now f, w))
   else isValidStellarAddress K (f_employee f) \<and> isValidStellarAddress K (f_token f) \<and>
     (\<exists>d r. 0 \<le> d \<and> d \<le> 10 ^ 16 \<and> 0 \<le> r \<and> r \<le> 10 ^ 9 \<and>
       form_handleSubmit K now tok onSubmit (f, w) =
         (case bigint_of_string (if f_stopTime f = '''' then ''0'' else f_stopTime f) of
            Inl _ \<Rightarrow> (Inr (), (form_kept K now f, w))
          | Inr stop \<Rightarrow>
              (case onSubmit (f_employee f) (f_token f) d r stop w of
                 (Inr _, w') \<Rightarrow> (Inr (), (form_reset tok (form_kept K now f), w'))
               | (Inl _, w') \<Rightarrow> (Inr (), (form_kept K now f, w')))))"
proof (cases "form_validate K now f = no_errors")
  case False
  then show ?thesis
    by (simp add: form_handleSubmit_def bind_def gets_run set_state_run ret_run Let_def form_kept_def)
next
  case True
  obtain d r where a: "0 \<le> d" "d \<le> 10 ^ 16" "0 \<le> r" "r \<le> 10 ^ 9"
    "form_amounts f = rbind (bigint_of_string (if f_stopTime f = '''' then ''0'' else f_stopTime f))
      (\<lambda>stop. Inr (d, r, stop))" using accepted_amounts[OF True] .
  have "form_handleSubmit K now tok onSubmit (f, w) =
         (case bigint_of_string (if f_stopTime f = '''' then ''0'' else f_stopTime f) of
            Inl _ \<Rightarrow> (Inr (), (form_kept K now f, w))
          | Inr stop \<Rightarrow>
              (case onSubmit (f_employee f) (f_token f) d r stop w of
                 (Inr _, w') \<Rightarrow> (Inr (), (form_reset tok (form_kept K now f), w'))
               | (Inl _, w') \<Rightarrow> (Inr (), (form_kept K now f, w'))))"
    using True a(5)
    by (auto simp: form_handleSubmit_def bind_def gets_run set_state_run ret_run Let_def form_kept_def
      of_result_run try_catch_def outside_run rbind_def split: sum.split prod.split)
  with True a accepted_fields[OF True] show ?thesis by auto
qed

text \<open>A rate below one half is accepted and submitted as zero, which the contract refuses.\<close>

lemma small_rate_becomes_zero:
  assumes "\<not> blank rate" "parseFloat rate = Fin x" "0 < x" "x < 1 / 2"
  shows "validateRate rate = None \<and> bigint_of_num (math_round (parseFloat rate)) = Inr 0"
proof -
  have "\<lfloor>x + 1 / 2\<rfloor> = 0" using assms(3,4) by (intro floor_unique) simp_all
  then show ?thesis using assms by (simp add: validateRate_def Let_def jsint_def)
qed

section \<open>The withdrawal dialog\<close>

lemma toStroops_nonneg: "toStroops s = Inr a \<Longrightarrow> 0 \<le> a"
proof -
  assume a: "toStroops s = Inr a"
  show ?thesis
  proof (cases "isNaN (parseFloat s) \<or> js_le (parseFloat s) (Fin 0)")
    case True
    then show ?thesis using a by (auto simp: toStroops_def Let_def)
  next
    case False
    show ?thesis
    proof (cases "parseFloat s")
      case (Fin x)
      then have x: "0 < x" using False by simp
      have "0 \<le> rnd (x * 10 ^ 7)" using x by (intro rnd_nonneg) simp
      moreover have "toStroops s = bigint_of_num (math_floor (num_of_rat (x * 10 ^ 7)))"
        using False Fin by (simp add: toStroops_def jsint_def STROOPS_PER_XLM_def)
      ultimately show ?thesis using a by (auto simp: num_of_rat_def Let_def split: if_splits)
    qed (use False a in \<open>auto simp: toStroops_def jsint_def STROOPS_PER_XLM_def js_inf_def\<close>)
  qed
qed

text \<open>
  The dialog's events for a fixed claimable amount \<open>c\<close>: typing, Max, Review, Back and Confirm, each
  where its control is shown and enabled, and the end of the submission. The second component lists
  the amounts passed to \<^verbatim>\<open>onWithdraw\<close>.
\<close>

inductive dialog_step :: "int \<Rightarrow> withdraw_form \<times> int list \<Rightarrow> withdraw_form \<times> int list \<Rightarrow> bool"
  for c :: int where
  typed: "wf_step f = FormStep \<Longrightarrow> dialog_step c (f, as) (withdraw_type s f, as)"
| max_clicked: "wf_step f = FormStep \<Longrightarrow> dialog_step c (f, as) (handleMaxClick c f, as)"
| review: "wf_step f = FormStep \<Longrightarrow> enteredStroops f = Inr a \<Longrightarrow>
    dialog_step c (f, as) (handleSubmitForm c a f, as)"
| go_back: "wf_step f = ConfirmStep \<Longrightarrow> \<not> wf_submitting f \<Longrightarrow> dialog_step c (f, as) (f\<lparr>wf_step := FormStep\<rparr>, as)"
| confirm: "wf_step f = ConfirmStep \<Longrightarrow> \<not> wf_submitting f \<Longrightarrow> enteredStroops f = Inr a \<Longrightarrow>
    dialog_step c (f, as) (handleConfirm_start f, as @ [a])"
| settled: "wf_submitting f \<Longrightarrow> dialog_step c (f, as) (handleConfirm_end r f, as)"

inductive_cases dialog_stepE: "dialog_step c p q"

inductive dialog_run :: "int \<Rightarrow> withdraw_form \<times> int list \<Rightarrow> bool" for c :: int where
  opened: "dialog_run c (withdraw_init, [])"
| continued: "dialog_run c p \<Longrightarrow> dialog_step c p q \<Longrightarrow> dialog_run c q"

definition dialog_ok :: "int \<Rightarrow> withdraw_form \<times> int list \<Rightarrow> bool" where
  "dialog_ok c p =
     ((wf_step (fst p) = ConfirmStep \<longrightarrow> (\<exists>a. enteredStroops (fst p) = Inr a \<and> 0 < a \<and> a \<le> c)) \<and>
      (wf_submitting (fst p) \<longrightarrow> wf_step (fst p) = ConfirmStep) \<and>
      list_all (\<lambda>a. 0 < a \<and> a \<le> c) (snd p))"

lemmas dialog_defs = withdraw_type_def handleMaxClick_def handleSubmitForm_def handleConfirm_start_def
  handleConfirm_end_def enteredStroops_def isInvalid_def

lemma dialog_step_ok: "dialog_step c p q \<Longrightarrow> dialog_ok c p \<Longrightarrow> dialog_ok c q"
proof (induction rule: dialog_step.induct)
  case (review f a as)
  then show ?case using toStroops_nonneg[of "wf_amountXlm f" a] by (auto simp: dialog_ok_def dialog_defs)
qed (auto simp: dialog_ok_def dialog_defs split: sum.splits)

lemma dialog_run_ok: "dialog_run c p \<Longrightarrow> dialog_ok c p"
proof (induction rule: dialog_run.induct)
  case opened
  then show ?case by (simp add: dialog_ok_def withdraw_init_def)
qed (rule dialog_step_ok)

text \<open>C35: Whatever the user does in the withdrawal dialog, every amount it passes on is positive and at
  most the claimable amount it was opened with, and no second withdrawal starts while one is running.\<close>

theorem withdraw_dialog_bounded:
  assumes "dialog_run c (f, as)"
  shows "(\<forall>a \<in> set as. 0 < a \<and> a \<le> c) \<and>
    (wf_submitting f \<longrightarrow> \<not> (\<exists>f' a. dialog_step c (f, as) (f', as @ [a])))"
proof -
  have "\<not> dialog_step c (f, as) (f', as @ [a])" if "wf_submitting f" for f' a
    using that by (auto elim!: dialog_stepE)
  then show ?thesis using dialog_run_ok[OF assms] by (auto simp: dialog_ok_def list_all_iff)
qed

theorem withdraw_dialog_bounded_witness:
  "\<exists>f. dialog_run 50 (f, [20]) \<and> (\<forall>a \<in> set [20 :: int]. 0 < a \<and> a \<le> 50)"
proof -
  let ?f1 = "withdraw_type (toXlm 21) withdraw_init"
  let ?f2 = "handleSubmitForm 50 20 ?f1"
  have e1: "enteredStroops ?f1 = Inr 20" and e2: "enteredStroops ?f2 = Inr 20"
    using max_button_loses_stroop by (simp_all add: dialog_defs)
  have r1: "dialog_run 50 (?f1, [])"
    by (rule continued[OF opened], rule typed) (simp add: withdraw_init_def)
  have r2: "dialog_run 50 (?f2, [])"
    by (rule continued[OF r1], rule review) (simp add: withdraw_init_def withdraw_type_def, rule e1)
  have "dialog_step 50 (?f2, []) (handleConfirm_start ?f2, [] @ [20])"
    by (rule confirm) (simp add: withdraw_init_def dialog_defs, simp add: withdraw_init_def dialog_defs, rule e2)
  then have r3: "dialog_run 50 (handleConfirm_start ?f2, [20])" using continued[OF r2] by simp
  show ?thesis using withdraw_dialog_bounded[OF r3] r3 by blast
qed
section \<open>Finding: a stop time that is accepted and cannot be converted\<close>

lemma stop_time_fraction_accepted:
  "validateStopTime 1700000000000 ''99999999999.5'' = None \<and>
   (\<exists>e. bigint_of_string ''99999999999.5'' = Inl e)"
proof -
  have now: "now_seconds 1700000000000 = jsint 1700000000"
  proof -
    have "(of_int 1700000000000 / of_int 1000 :: rat) = of_int 1700000000" by simp
    then show ?thesis using num_of_rat_int[of 1700000000] by (simp add: now_seconds_def jsint_def)
  qed
  have d: "is_digit (CHR ''9'')" "digit_val (CHR ''9'') = Some 9" by (simp_all add: is_digit_def digit_val_def)
  have "parseInt ''99999999999.5'' = num_of_rat (of_int 99999999999)"
    by (simp add: parseInt_def trim_left_def is_space_def with_sign_def parse_digits_def d)
  then have "parseInt ''99999999999.5'' = jsint 99999999999"
    using num_of_rat_int[of 99999999999] by (simp add: jsint_def)
  then have "validateStopTime 1700000000000 ''99999999999.5'' = None"
    by (simp add: validateStopTime_def now)
  moreover have "\<exists>e. bigint_of_string ''99999999999.5'' = Inl e"
    by (simp add: bigint_of_string_def trim_def is_space_def all_digits_def d radix_literal_def)
  ultimately show ?thesis by blast
qed

section \<open>The batch form\<close>

definition batch_ready :: "int \<Rightarrow> config \<Rightarrow> batch_state \<Rightarrow> bool" where
  "batch_ready now cfg s =
     (connected_key s \<noteq> None \<and> list_all (\<lambda>r. validateRow now r = no_row_errors) (b_rows s) \<and>
      (\<exists>ps. seq_results (map (row_params (cfg_defaultToken cfg)) (b_rows s)) = Inr ps))"

text \<open>The rows and the hash of a state that the batch handler left.\<close>

lemma list_ex_not_all: "list_ex (\<lambda>x. P x \<noteq> Q) xs \<longleftrightarrow> \<not> list_all (\<lambda>x. P x = Q) xs"
  by (auto simp: list_ex_iff list_all_iff)

text \<open>The batch form submits everything or nothing. Unless a wallet is connected, every row passes
  its checks and every row's numbers convert, no effect leaves the form and the rows stay. When a
  transaction hash is shown, the batch with one entry per row was prepared, signed and submitted in one
  transaction, and the form is back to one empty row.\<close>

theorem batch_all_or_nothing:
  assumes "batch_handleSubmit A cfg now uuid (s, w) = (r, (s', w'))"
  shows "r = Inr () \<and>
    (\<not> batch_ready now cfg s \<longrightarrow> w' = w \<and> b_rows s' = b_rows s \<and> b_successTxHash s' = None) \<and>
    (b_successTxHash s' \<noteq> None \<longrightarrow>
      (\<exists>pk ps h. connected_key s = Some pk \<and> length ps = length (b_rows s) \<and>
        seq_results (map (row_params (cfg_defaultToken cfg)) (b_rows s)) = Inr ps \<and>
        sign_and_submit A (createStreamsBatch (app_stellar A) (app_client A) pk ps) w = (Inr h, w') \<and>
        b_successTxHash s' = Some h \<and> b_rows s' = [emptyRow uuid]))"
proof (cases "connected_key s = None \<or> list_ex (\<lambda>r. validateRow now r \<noteq> no_row_errors) (b_rows s)")
  case True
  then have "r = Inr ()" "w' = w" "b_rows s' = b_rows s" "b_successTxHash s' = None"
    using assms by (auto simp: batch_handleSubmit_def bind_def gets_run set_state_run ret_run Let_def
      split: option.splits if_splits)
  then show ?thesis by simp
next
  case False
  then obtain pk where pk: "connected_key s = Some pk" by auto
  have valid: "list_all (\<lambda>r. validateRow now r = no_row_errors) (b_rows s)"
    using False unfolding list_ex_not_all by blast
  let ?ps = "seq_results (map (row_params (cfg_defaultToken cfg)) (b_rows s))"
  let ?s1 = "s\<lparr>b_submitted := True, b_successTxHash := None, b_rowErrors := row_errors_of now (b_rows s),
    loading := True, hook_error := None\<rparr>"
  have run: "batch_handleSubmit A cfg now uuid (s, w) =
    (case ?ps of
       Inl e \<Rightarrow> (Inr (), (?s1\<lparr>hook_error := Some (error_to_string e), loading := False\<rparr>, w))
     | Inr ps \<Rightarrow>
         (case sign_and_submit A (createStreamsBatch (app_stellar A) (app_client A) pk ps) w of
            (Inl e, w1) \<Rightarrow> (Inr (), (?s1\<lparr>hook_error := Some (error_to_string e), loading := False\<rparr>, w1))
          | (Inr h, w1) \<Rightarrow> (Inr (), (?s1\<lparr>b_successTxHash := Some h, b_rows := [emptyRow uuid],
               b_submitted := False, b_rowErrors := [], loading := False\<rparr>, w1))))"
    using False pk
    by (auto simp: batch_handleSubmit_def bind_def gets_run set_state_run Let_def finally_do_run
      try_catch_def of_result_run outside_run set_error_def split: sum.split prod.split)
  show ?thesis
  proof (cases ?ps)
    case (Inl e)
    then show ?thesis using run assms by (auto simp: batch_ready_def)
  next
    case (Inr ps)
    then have "batch_ready now cfg s" "length ps = length (b_rows s)"
      using pk valid seq_results_Inr_iff[of "map (row_params (cfg_defaultToken cfg)) (b_rows s)" ps]
      by (auto simp: batch_ready_def dest: arg_cong[of _ _ length])
    then show ?thesis using run assms Inr pk by (auto split: sum.splits prod.splits)
  qed
qed

definition empty_batch :: batch_state where
  "empty_batch = \<lparr>publicKey = None, streams = [], loading = False, hook_error = None,
     b_rows = [emptyRow ''r1''], b_rowErrors = [], b_submitted = False, b_successTxHash = None\<rparr>"

definition example_config :: config where
  "example_config = CONFIG \<lparr>PUBLIC = ''Public Global Stellar Network ; September 2015'',
     TESTNET = ''Test SDF Network ; September 2015''\<rparr>
     \<lparr>VITE_NETWORK = None, VITE_CONTRACT_ID = None, VITE_TOKEN_ADDRESS = None\<rparr>"

theorem batch_all_or_nothing_witness:
  "\<exists>s'. batch_handleSubmit example_app example_config 0 ''r2'' (empty_batch, example_ledger) = (Inr (), (s', example_ledger)) \<and>
     b_rows s' = [emptyRow ''r1'']"
proof -
  obtain r s' w' where run: "batch_handleSubmit example_app example_config 0 ''r2'' (empty_batch, example_ledger) = (r, (s', w'))"
    by (metis surj_pair)
  have "\<not> batch_ready 0 example_config empty_batch" by (simp add: batch_ready_def empty_batch_def connected_key_def)
  then show ?thesis using batch_all_or_nothing[OF run] run by (auto simp: empty_batch_def)
qed

end
