(* ===== verification/Http.thy ===== *)
theory Http
  imports Js_Value
begin

text \<open>
  The browser functions the demo calls: \<^verbatim>\<open>fetch\<close> as a parameter that answers a request, and
  the encoding of query strings. A request body is kept as the value given to
  \<^verbatim>\<open>JSON.stringify\<close>, an answer's body as the result of \<^verbatim>\<open>res.json()\<close>.
\<close>

record http_request =
  req_method :: string
  req_url :: string
  req_body :: "jsval option"

record http_response =
  resp_ok :: bool
  resp_status :: int
  resp_json :: "js_error + jsval"

type_synonym 'w fetch = "http_request \<Rightarrow> ('w, http_response) io"

definition get_request :: "string \<Rightarrow> http_request" where
  "get_request url = \<lparr>req_method = ''GET'', req_url = url, req_body = None\<rparr>"

definition post_request :: "string \<Rightarrow> jsval \<Rightarrow> http_request" where
  "post_request url body = \<lparr>req_method = ''POST'', req_url = url, req_body = Some body\<rparr>"

section \<open>Query strings\<close>

definition hex_digit :: "int \<Rightarrow> char" where
  "hex_digit n = (if n < 10 then char_of (48 + n) else char_of (55 + n))"

definition is_alnum :: "char \<Rightarrow> bool" where
  "is_alnum c = (let n = (of_char c :: int) in
     48 \<le> n \<and> n \<le> 57 \<or> 65 \<le> n \<and> n \<le> 90 \<or> 97 \<le> n \<and> n \<le> 122)"

definition percent :: "char \<Rightarrow> string" where
  "percent c = (let n = (of_char c :: int) in [CHR ''%'', hex_digit (n div 16), hex_digit (n mod 16)])"

text \<open>\<^verbatim>\<open>URLSearchParams\<close> (form encoding) and \<^verbatim>\<open>encodeURIComponent\<close> on ASCII text.\<close>

definition form_encode :: "string \<Rightarrow> string" where
  "form_encode s = concat (map (\<lambda>c. if is_alnum c \<or> c \<in> set ''*-._'' then [c]
     else if c = CHR '' '' then ''+'' else percent c) s)"

definition encodeURIComponent :: "string \<Rightarrow> string" where
  "encodeURIComponent s = concat (map (\<lambda>c. if is_alnum c \<or> c \<in> set ''-_.!~*()'' \<or> c = char_of (39 :: int)
     then [c] else percent c) s)"

definition search_params :: "(string \<times> string) list \<Rightarrow> string" where
  "search_params ps = join ''&'' (map (\<lambda>(k, v). form_encode k @ ''='' @ form_encode v) ps)"

end
