(* ===== verification/History.thy ===== *)
theory History
  imports Http Balance_Periods Dashboard
begin

text \<open>
  The transaction history (\<^verbatim>\<open>demo/src/useTransactionHistory.ts\<close>) and its export as CSV
  (\<^verbatim>\<open>demo/src/csvExport.ts\<close>). \<^verbatim>\<open>new Date(s)\<close> reads strings in an
  implementation-defined way beyond the ISO format: the reader is the parameter \<open>date_of\<close>, which gives
  the milliseconds since the epoch, or nothing for an invalid date. Printing a date follows
  \<^verbatim>\<open>toISOString\<close> with the calendar of \<open>Balance_Periods\<close>.
\<close>

section \<open>Dates\<close>

definition pad :: "nat \<Rightarrow> int \<Rightarrow> string" where
  "pad k n = (let d = show_dec n in zeros (k - length d) @ d)"

definition iso_year :: "int \<Rightarrow> string" where
  "iso_year y = (if 0 \<le> y \<and> y \<le> 9999 then pad 4 y
     else if y < 0 then ''-'' @ pad 6 (- y) else ''+'' @ pad 6 y)"

definition toISOString :: "int \<Rightarrow> string" where
  "toISOString ms =
     (let d = ms div 86400000; t = ms mod 86400000; y = year_from_day d; m = month_from_day d
      in iso_year y @ ''-'' @ pad 2 (m + 1) @ ''-'' @ pad 2 (d - month_start y m + 1) @ ''T'' @
         pad 2 (t div 3600000) @ '':'' @ pad 2 (t div 60000 mod 60) @ '':'' @ pad 2 (t div 1000 mod 60) @
         ''.'' @ pad 3 (t mod 1000) @ ''Z'')"

section \<open>CSV export\<close>

record tx_record =
  tx_id :: string
  tx_timestamp :: string
  tx_type :: string
  tx_amount :: "string option"

record date_range =
  range_from :: "int option"
  range_to :: "int option"

definition HEADERS :: "string list" where
  "HEADERS = [''date'', ''stream_id'', ''employee'', ''token'', ''type'', ''amount'']"

definition LF :: char where "LF = CHR 0x0A"

definition CR :: char where "CR = CHR 0x0D"

definition QUOTE :: char where "QUOTE = CHR 0x22"

definition double_quotes :: "string \<Rightarrow> string" where
  "double_quotes s = concat (map (\<lambda>c. if c = QUOTE then [QUOTE, QUOTE] else [c]) s)"

definition needs_quotes :: "string \<Rightarrow> bool" where
  "needs_quotes v = (CHR '','' \<in> set v \<or> QUOTE \<in> set v \<or> LF \<in> set v)"

definition escapeCell :: "string \<Rightarrow> string" where
  "escapeCell v = (if needs_quotes v then [QUOTE] @ double_quotes v @ [QUOTE] else v)"

text \<open>A record outside the range is skipped; a record without a timestamp never is. An invalid date
  compares false with every bound.\<close>

definition in_range :: "(string \<Rightarrow> int option) \<Rightarrow> date_range option \<Rightarrow> tx_record \<Rightarrow> bool" where
  "in_range date_of rng r =
     (case rng of
        None \<Rightarrow> True
      | Some rg \<Rightarrow>
          if tx_timestamp r = '''' then True
          else (case date_of (tx_timestamp r) of
                  None \<Rightarrow> True
                | Some ts \<Rightarrow>
                    \<not> (case range_from rg of Some f \<Rightarrow> ts < f | None \<Rightarrow> False) \<and>
                    \<not> (case range_to rg of Some t \<Rightarrow> t < ts | None \<Rightarrow> False)))"

text \<open>The cells of a row; printing an invalid date throws.\<close>

definition csv_date :: "(string \<Rightarrow> int option) \<Rightarrow> tx_record \<Rightarrow> js_error + string" where
  "csv_date date_of r =
     (if tx_timestamp r = '''' then Inr ''''
      else (case date_of (tx_timestamp r) of
              None \<Rightarrow> Inl (RangeError ''Invalid time value'')
            | Some ms \<Rightarrow> Inr (toISOString ms)))"

definition csv_cells :: "int \<Rightarrow> string \<Rightarrow> string \<Rightarrow> string \<Rightarrow> tx_record \<Rightarrow> string list" where
  "csv_cells streamId ee tok date r =
     [date, show_int streamId, ee, tok, tx_type r, case tx_amount r of Some a \<Rightarrow> a | None \<Rightarrow> '''']"

definition csv_line :: "string list \<Rightarrow> string" where
  "csv_line cells = join '','' (map escapeCell cells)"

text \<open>The loop over the records: the date is computed before the range is checked.\<close>

fun csv_rows ::
  "(string \<Rightarrow> int option) \<Rightarrow> int \<Rightarrow> string \<Rightarrow> string \<Rightarrow> date_range option \<Rightarrow> tx_record list \<Rightarrow>
    js_error + string list" where
  "csv_rows date_of streamId ee tok rng [] = Inr []"
| "csv_rows date_of streamId ee tok rng (r # rs) =
     rbind (csv_date date_of r) (\<lambda>date.
       if in_range date_of rng r then
         rbind (csv_rows date_of streamId ee tok rng rs) (\<lambda>rows.
           Inr (csv_line (csv_cells streamId ee tok date r) # rows))
       else csv_rows date_of streamId ee tok rng rs)"

definition buildCsv ::
  "(string \<Rightarrow> int option) \<Rightarrow> tx_record list \<Rightarrow> int \<Rightarrow> string \<Rightarrow> string \<Rightarrow> date_range option \<Rightarrow> js_error + string" where
  "buildCsv date_of records streamId ee tok rng =
     rbind (csv_rows date_of streamId ee tok rng records) (\<lambda>rows.
       Inr (join [CR, LF] (join '','' HEADERS # rows)))"

text \<open>
  \<^verbatim>\<open>exportAllHistory\<close>: pages are fetched until there is no next cursor. The loop need not end;
  \<open>None\<close> stands for a loop that does not. \<open>download\<close> is \<^verbatim>\<open>downloadCsv\<close>, which only drives the
  browser's document.
\<close>

record page =
  page_records :: "tx_record list"
  page_nextCursor :: "string option"

definition next_cursor_of :: "page \<Rightarrow> string option" where
  "next_cursor_of p = (case page_nextCursor p of Some c \<Rightarrow> if c = '''' then None else Some c | None \<Rightarrow> None)"

partial_function (option) fetch_all ::
  "(string option \<Rightarrow> ('w, page) io) \<Rightarrow> string option \<Rightarrow> tx_record list \<Rightarrow> 'w \<Rightarrow>
    ((js_error + tx_record list) \<times> 'w) option" where
  "fetch_all fetchPage cursor acc w =
     (case fetchPage cursor w of
        (Inl e, w') \<Rightarrow> Some (Inl e, w')
      | (Inr p, w') \<Rightarrow>
          (case next_cursor_of p of
             None \<Rightarrow> Some (Inr (acc @ page_records p), w')
           | Some c \<Rightarrow> fetch_all fetchPage (Some c) (acc @ page_records p) w'))"

definition export_filename :: "int \<Rightarrow> string" where
  "export_filename streamId = ''stream-'' @ show_int streamId @ ''-history.csv''"

definition exportAllHistory ::
  "(string \<Rightarrow> int option) \<Rightarrow> (string \<Rightarrow> string \<Rightarrow> ('w, unit) io) \<Rightarrow> int \<Rightarrow>
    (string option \<Rightarrow> ('w, page) io) \<Rightarrow> date_range option \<Rightarrow> string \<Rightarrow> string \<Rightarrow> 'w \<Rightarrow>
    ((js_error + unit) \<times> 'w) option" where
  "exportAllHistory date_of download streamId fetchPage rng ee tok w =
     (case fetch_all fetchPage None [] w of
        None \<Rightarrow> None
      | Some (Inl e, w') \<Rightarrow> Some (Inl e, w')
      | Some (Inr records, w') \<Rightarrow>
          (case buildCsv date_of records streamId ee tok rng of
             Inl e \<Rightarrow> Some (Inl e, w')
           | Inr csv \<Rightarrow> Some (download csv (export_filename streamId) w')))"

section \<open>Fetching the history\<close>

definition HORIZON_BASE :: string where
  "HORIZON_BASE = ''https://horizon-testnet.stellar.org''"

definition PAGE_SIZE :: nat where
  "PAGE_SIZE = 10"

text \<open>\<^verbatim>\<open>op.type.replace(/_/g, " ")\<close> throws when the type is not a string.\<close>

definition opType :: "jsval \<Rightarrow> js_error + string" where
  "opType op =
     rbind (js_field op ''type'') (\<lambda>t.
       case t of
         JStr s \<Rightarrow>
           Inr (if s = ''invoke_host_function'' then ''Contract Call''
                else if s = ''payment'' then ''Payment''
                else if s = ''create_account'' then ''Create Account''
                else map (\<lambda>c. if c = CHR ''_'' then CHR '' '' else c) s)
       | _ \<Rightarrow> Inl (TypeError ''op.type.replace is not a function''))"

definition opAmount :: "jsval \<Rightarrow> js_error + string option" where
  "opAmount op =
     rbind (js_field op ''amount'') (\<lambda>a.
       Inr (case a of JStr s \<Rightarrow> Some (s @ '' XLM'') | _ \<Rightarrow> None))"

text \<open>\<^verbatim>\<open>String(v ?? "")\<close>.\<close>

definition string_or_empty :: "jsval \<Rightarrow> string" where
  "string_or_empty v = (if v = JUndef \<or> v = JNull then '''' else js_string v)"

definition tx_of_op :: "jsval \<Rightarrow> js_error + tx_record" where
  "tx_of_op op =
     rbind (js_field op ''id'') (\<lambda>i.
     rbind (js_field op ''created_at'') (\<lambda>t.
     rbind (opType op) (\<lambda>ty.
     rbind (opAmount op) (\<lambda>a.
       Inr \<lparr>tx_id = js_string i, tx_timestamp = string_or_empty t, tx_type = ty, tx_amount = a\<rparr>))))"

record history_state =
  h_records :: "tx_record list"
  h_loading :: bool
  h_error :: "string option"
  h_cursor :: "string option"
  h_hasMore :: bool

definition history_url :: "string \<Rightarrow> string option \<Rightarrow> string" where
  "history_url contract nextCursor =
     HORIZON_BASE @ ''/accounts/'' @ contract @ ''/operations?'' @
     search_params ([(''limit'', show_int (int PAGE_SIZE)), (''order'', ''desc'')] @
       (case nextCursor of Some c \<Rightarrow> if c = '''' then [] else [(''cursor'', c)] | None \<Rightarrow> []))"

text \<open>\<^verbatim>\<open>data._embedded.records\<close> and the records built from it.\<close>

definition history_page :: "http_response \<Rightarrow> js_error + jsval list \<times> tx_record list" where
  "history_page res =
     (if \<not> resp_ok res then Inl (Error (''Horizon error: '' @ show_int (resp_status res)))
      else rbind (resp_json res) (\<lambda>data.
           rbind (js_field data ''_embedded'') (\<lambda>emb.
           rbind (js_field emb ''records'') (\<lambda>ops.
             case ops of
               JArr os \<Rightarrow> rbind (seq_results (map tx_of_op os)) (\<lambda>rs. Inr (os, rs))
             | _ \<Rightarrow> Inl (TypeError ''ops.map is not a function'')))))"

definition paging_token :: "jsval list \<Rightarrow> js_error + string option" where
  "paging_token ops =
     (if ops = [] then Inr None
      else rbind (js_field (last ops) ''paging_token'') (\<lambda>t. Inr (Some (string_or_empty t))))"

definition fetchHistory ::
  "'w fetch \<Rightarrow> config \<Rightarrow> int \<Rightarrow> string option \<Rightarrow> (history_state \<times> 'w, unit) io" where
  "fetchHistory fetch cfg streamId nextCursor =
     bind (set_state (\<lambda>s. s\<lparr>h_loading := True, h_error := None\<rparr>)) (\<lambda>_.
     finally_do
       (try_catch
          (bind (outside (fetch (get_request (history_url (cfg_contractId cfg) nextCursor)))) (\<lambda>res.
           bind (of_result (history_page res)) (\<lambda>(ops, newRecords).
           bind (set_state (\<lambda>s. s\<lparr>h_records :=
             (if nextCursor = None \<or> nextCursor = Some '''' then newRecords else h_records s @ newRecords)\<rparr>)) (\<lambda>_.
           bind (of_result (paging_token ops)) (\<lambda>tok.
             set_state (\<lambda>s. s\<lparr>h_cursor := tok, h_hasMore := (length ops = PAGE_SIZE)\<rparr>))))))
          (\<lambda>e. set_state (\<lambda>s. s\<lparr>h_error := Some (error_to_string e)\<rparr>)))
       (\<lambda>(s, w). (s\<lparr>h_loading := False\<rparr>, w)))"

definition loadMore ::
  "'w fetch \<Rightarrow> config \<Rightarrow> int \<Rightarrow> (history_state \<times> 'w, unit) io" where
  "loadMore fetch cfg streamId =
     bind (gets (\<lambda>(s, w). h_cursor s)) (\<lambda>c.
       if c = None \<or> c = Some '''' then ret () else fetchHistory fetch cfg streamId c)"

definition history_reset :: "history_state \<Rightarrow> history_state" where
  "history_reset s = s\<lparr>h_records := [], h_cursor := None, h_hasMore := False, h_error := None\<rparr>"
end
