(* ===== verification/History_Props.thy ===== *)
theory History_Props
  imports History Amounts
begin

text \<open>
  The CSV export read back. \<open>csv_parse\<close> reads CSV text after RFC 4180 (commas, CRLF between
  records, quoted fields with doubled quotes); it takes a bare CR in an unquoted field as data.
\<close>

section \<open>Reading CSV\<close>

datatype csv_state = FieldStart | Plain | Quoted | QuoteSeen

fun csv_go :: "csv_state \<Rightarrow> string \<Rightarrow> string list \<Rightarrow> string \<Rightarrow> string list list" where
  "csv_go st f row [] = [rev (rev f # row)]"
| "csv_go st f row (c # cs) =
     (if st = Quoted then
        (if c = QUOTE then csv_go QuoteSeen f row cs else csv_go Quoted (c # f) row cs)
      else if st = QuoteSeen \<and> c = QUOTE then csv_go Quoted (QUOTE # f) row cs
      else if st = FieldStart \<and> c = QUOTE then csv_go Quoted f row cs
      else if c = CHR '','' then csv_go FieldStart [] (rev f # row) cs
      else if c = CR \<and> cs \<noteq> [] \<and> hd cs = LF then rev (rev f # row) # csv_go FieldStart [] [] (tl cs)
      else csv_go Plain (c # f) row cs)"

definition csv_parse :: "string \<Rightarrow> string list list" where
  "csv_parse s = csv_go FieldStart [] [] s"

declare csv_go.simps(2) [simp del]

lemma csv_chars [simp]: "QUOTE \<noteq> CHR '',''" "CR \<noteq> QUOTE" "CR \<noteq> CHR '',''" "LF \<noteq> CR" "CR \<noteq> LF" "CHR '','' \<noteq> QUOTE"
  "CHR '','' \<noteq> CR" "QUOTE \<noteq> CR" "QUOTE \<noteq> LF"
  by (simp_all add: QUOTE_def CR_def LF_def)

text \<open>What may follow a field: the end, a comma, or CRLF; and what the reader makes of it.\<close>

datatype csv_next = End | Comma string | Newline string

fun next_text :: "csv_next \<Rightarrow> string" where
  "next_text End = []"
| "next_text (Comma s) = CHR '','' # s"
| "next_text (Newline s) = CR # LF # s"

fun next_rows :: "string list \<Rightarrow> csv_next \<Rightarrow> string list list" where
  "next_rows row End = [rev row]"
| "next_rows row (Comma s) = csv_go FieldStart [] row s"
| "next_rows row (Newline s) = rev row # csv_go FieldStart [] [] s"

lemma csv_go_next:
  "st \<noteq> Quoted \<Longrightarrow> csv_go st f row (next_text nx) = next_rows (rev f # row) nx"
  by (cases nx) (auto simp: csv_go.simps(2))

lemma next_text_no_LF: "next_text nx \<noteq> [] \<Longrightarrow> hd (next_text nx) \<noteq> LF"
  by (cases nx) (auto simp: LF_def CR_def)

lemma csv_go_plain:
  "\<not> needs_quotes v \<Longrightarrow> st = Plain \<or> st = FieldStart \<Longrightarrow>
    csv_go st f row (v @ next_text nx) = next_rows (rev (rev v @ f) # row) nx"
proof (induction v arbitrary: f st)
  case Nil
  then show ?case using csv_go_next[of st f row nx] by auto
next
  case (Cons c v)
  have c: "c \<noteq> CHR '',''" "c \<noteq> QUOTE" "c \<noteq> LF" "\<not> needs_quotes v"
    using Cons.prems(1) by (auto simp: needs_quotes_def)
  have "\<not> (v @ next_text nx \<noteq> [] \<and> hd (v @ next_text nx) = LF)"
  proof (cases v)
    case Nil
    then show ?thesis using next_text_no_LF[of nx] by auto
  next
    case (Cons d v')
    then show ?thesis using c(4) by (auto simp: needs_quotes_def)
  qed
  then have "csv_go st f row ((c # v) @ next_text nx) = csv_go Plain (c # f) row (v @ next_text nx)"
    using c Cons.prems(2) by (auto simp: csv_go.simps(2))
  then show ?case using Cons.IH[OF c(4), of Plain "c # f"] by simp
qed

lemma csv_go_quoted:
  "csv_go Quoted f row (double_quotes v @ QUOTE # s) = csv_go QuoteSeen (rev v @ f) row s"
proof (induction v arbitrary: f)
  case Nil
  then show ?case by (simp add: double_quotes_def csv_go.simps(2))
next
  case (Cons c v)
  then show ?case
    by (cases "c = QUOTE") (simp_all add: double_quotes_def csv_go.simps(2))
qed

lemma csv_go_cell:
  "csv_go FieldStart [] row (escapeCell v @ next_text nx) = next_rows (v # row) nx"
proof (cases "needs_quotes v")
  case True
  have "csv_go FieldStart [] row (escapeCell v @ next_text nx)
      = csv_go Quoted [] row (double_quotes v @ QUOTE # next_text nx)"
    using True by (simp add: escapeCell_def csv_go.simps(2))
  also have "\<dots> = csv_go QuoteSeen (rev v) row (next_text nx)" by (simp add: csv_go_quoted)
  also have "\<dots> = next_rows (v # row) nx" by (subst csv_go_next) simp_all
  finally show ?thesis .
next
  case False
  then show ?thesis using csv_go_plain[OF False, of FieldStart "[]"] by (simp add: escapeCell_def)
qed

lemma csv_go_line:
  "cells \<noteq> [] \<Longrightarrow> csv_go FieldStart [] row (csv_line cells @ next_text nx) = next_rows (rev cells @ row) nx"
proof (induction cells arbitrary: row)
  case (Cons v vs)
  show ?case
  proof (cases vs)
    case Nil
    then show ?thesis using csv_go_cell[of row v nx] by (simp add: csv_line_def)
  next
    case (Cons u us)
    have "csv_line (v # vs) @ next_text nx = escapeCell v @ next_text (Comma (csv_line vs @ next_text nx))"
      using Cons by (simp add: csv_line_def)
    then have "csv_go FieldStart [] row (csv_line (v # vs) @ next_text nx)
        = csv_go FieldStart [] (v # row) (csv_line vs @ next_text nx)"
      using csv_go_cell[of row v "Comma (csv_line vs @ next_text nx)"] by simp
    then show ?thesis using Cons.IH[of "v # row"] Cons by simp
  qed
qed simp

lemma csv_parse_lines:
  "rows \<noteq> [] \<Longrightarrow> list_all (\<lambda>r. r \<noteq> []) rows \<Longrightarrow> csv_parse (join [CR, LF] (map csv_line rows)) = rows"
proof (induction rows)
  case (Cons r rs)
  show ?case
  proof (cases rs)
    case Nil
    then show ?thesis using csv_go_line[of r "[]" End] Cons.prems(2) by (simp add: csv_parse_def)
  next
    case (Cons q qs)
    let ?rest = "join [CR, LF] (map csv_line rs)"
    have "join [CR, LF] (map csv_line (r # rs)) = csv_line r @ next_text (Newline ?rest)"
      using Cons by simp
    then have "csv_parse (join [CR, LF] (map csv_line (r # rs))) = r # csv_parse ?rest"
      using csv_go_line[of r "[]" "Newline ?rest"] Cons.prems(2) by (simp add: csv_parse_def)
    then show ?thesis using Cons.IH Cons.prems(2) Cons by simp
  qed
qed simp

lemma csv_header: "join '','' HEADERS = csv_line HEADERS"
  by (simp add: csv_line_def HEADERS_def escapeCell_def needs_quotes_def QUOTE_def LF_def)
section \<open>All pages\<close>

text \<open>The source serves the pages \<open>ps\<close> one after the other, starting at cursor \<open>c\<close>.\<close>

fun serves :: "(string option \<Rightarrow> ('w, page) io) \<Rightarrow> string option \<Rightarrow> 'w \<Rightarrow> page list \<Rightarrow> 'w \<Rightarrow> bool" where
  "serves fetchPage c w [] w' = False"
| "serves fetchPage c w [p] w' = (fetchPage c w = (Inr p, w') \<and> next_cursor_of p = None)"
| "serves fetchPage c w (p # q # ps) w' =
     (\<exists>c' w1. fetchPage c w = (Inr p, w1) \<and> next_cursor_of p = Some c' \<and>
       serves fetchPage (Some c') w1 (q # ps) w')"

lemma fetch_all_serves:
  "serves fetchPage c w ps w' \<Longrightarrow>
    fetch_all fetchPage c acc w = Some (Inr (acc @ concat (map page_records ps)), w')"
proof (induction fetchPage c w ps w' arbitrary: acc rule: serves.induct)
  case (2 fetchPage c w p w')
  then show ?case by (subst fetch_all.simps) simp
next
  case (3 fetchPage c w p q ps w')
  then obtain c' w1 where "fetchPage c w = (Inr p, w1)" "next_cursor_of p = Some c'"
    "serves fetchPage (Some c') w1 (q # ps) w'" by auto
  then show ?case using "3.IH" by (subst fetch_all.simps) simp
qed simp

definition date_ok :: "(string \<Rightarrow> int option) \<Rightarrow> tx_record \<Rightarrow> bool" where
  "date_ok date_of r = (tx_timestamp r = '''' \<or> date_of (tx_timestamp r) \<noteq> None)"

definition date_text :: "(string \<Rightarrow> int option) \<Rightarrow> tx_record \<Rightarrow> string" where
  "date_text date_of r = (case csv_date date_of r of Inr d \<Rightarrow> d | Inl _ \<Rightarrow> '''')"

lemma csv_date_ok: "date_ok date_of r \<Longrightarrow> csv_date date_of r = Inr (date_text date_of r)"
  by (auto simp: date_ok_def date_text_def csv_date_def)

lemma csv_rows_ok:
  "list_all (date_ok date_of) rs \<Longrightarrow> csv_rows date_of i ee tok rng rs =
    Inr (map (\<lambda>r. csv_line (csv_cells i ee tok (date_text date_of r) r)) (filter (in_range date_of rng) rs))"
  by (induction rs) (auto simp: csv_date_ok)

lemma csv_cells_nonempty: "csv_cells i ee tok d r \<noteq> []"
  by (simp add: csv_cells_def)

text \<open>C22: Exporting ends and loses nothing: if the history is served in finitely many pages and its
  dates are valid, the export downloads a CSV file that reads back as the header and one row per record
  in the date range, in the order of the pages, with every cell as it was, whatever commas, quotes or
  line breaks it contains.\<close>

theorem export_reads_back:
  assumes "serves fetchPage None w ps w'" "list_all (date_ok date_of) (concat (map page_records ps))"
  shows "\<exists>csv. exportAllHistory date_of download i fetchPage rng ee tok w
      = Some (download csv (export_filename i) w') \<and>
    csv_parse csv = HEADERS # map (\<lambda>r. csv_cells i ee tok (date_text date_of r) r)
      (filter (in_range date_of rng) (concat (map page_records ps)))"
proof -
  let ?rs = "filter (in_range date_of rng) (concat (map page_records ps))"
  let ?cells = "\<lambda>r. csv_cells i ee tok (date_text date_of r) r"
  let ?csv = "join [CR, LF] (map csv_line (HEADERS # map ?cells ?rs))"
  have "buildCsv date_of (concat (map page_records ps)) i ee tok rng = Inr ?csv"
    by (simp add: buildCsv_def csv_rows_ok[OF assms(2)] csv_header comp_def del: concat.simps)
  then have "exportAllHistory date_of download i fetchPage rng ee tok w
      = Some (download ?csv (export_filename i) w')"
    by (simp add: exportAllHistory_def fetch_all_serves[OF assms(1)] del: join.simps)
  moreover have "csv_parse ?csv = HEADERS # map ?cells ?rs"
    by (rule csv_parse_lines) (auto simp: list_all_iff HEADERS_def csv_cells_nonempty)
  ultimately show ?thesis by blast
qed

definition two_pages :: "string option \<Rightarrow> (string list, page) io" where
  "two_pages c = ret (if c = None
     then \<lparr>page_records = [\<lparr>tx_id = ''1'', tx_timestamp = '''', tx_type = ''Payment, large'', tx_amount = Some ''5 XLM''\<rparr>],
           page_nextCursor = Some ''p2''\<rparr>
     else \<lparr>page_records = [\<lparr>tx_id = ''2'', tx_timestamp = '''', tx_type = ''Contract Call'', tx_amount = None\<rparr>],
           page_nextCursor = None\<rparr>)"

theorem export_reads_back_witness:
  "\<exists>csv. exportAllHistory (\<lambda>_. None) (\<lambda>csv name. modify (\<lambda>fs. fs @ [csv])) 7 two_pages None ''GW'' ''CT'' []
      = Some (Inr (), [csv]) \<and>
    csv_parse csv = [HEADERS, ['''', ''7'', ''GW'', ''CT'', ''Payment, large'', ''5 XLM''],
      ['''', ''7'', ''GW'', ''CT'', ''Contract Call'', '''']]"
proof -
  let ?ps = "map (\<lambda>c. Sum_Type.projr (fst (two_pages c []))) [None, Some ''p2'']"
  have s: "serves two_pages None [] ?ps []"
    by (simp add: two_pages_def ret_run next_cursor_of_def)
  have d: "list_all (date_ok (\<lambda>_. None)) (concat (map page_records ?ps))"
    by (simp add: two_pages_def ret_run date_ok_def)
  have i: "show_int 7 = ''7''" by (simp add: show_int_def show_dec.simps digit_char_table)
  show ?thesis
    using export_reads_back[OF s d, where download = "\<lambda>csv name. modify (\<lambda>fs. fs @ [csv])" and i = 7
      and rng = None and ee = "''GW''" and tok = "''CT''"]
    by (auto simp: modify_run two_pages_def ret_run csv_cells_def date_text_def csv_date_def in_range_def i)
qed

text \<open>RFC 4180 asks for quotes around a field with a carriage return; \<open>escapeCell\<close> leaves it bare.\<close>

lemma bare_carriage_return: "escapeCell [CHR ''a'', CR, CHR ''b''] = [CHR ''a'', CR, CHR ''b'']"
  by (simp add: escapeCell_def needs_quotes_def QUOTE_def LF_def CR_def)

section \<open>The history hook\<close>

text \<open>The stream identifier is not used: every stream shows the same operations.\<close>

lemma fetchHistory_ignores_stream: "fetchHistory fetch cfg i c = fetchHistory fetch cfg j c"
  by (simp add: fetchHistory_def)

lemma fetchHistory_run:
  "fetchHistory fetch cfg i c (s, w) =
    (case fetch (get_request (history_url (cfg_contractId cfg) c)) w of
       (Inl e, w') \<Rightarrow> (Inr (), (s\<lparr>h_loading := False, h_error := Some (error_to_string e)\<rparr>, w'))
     | (Inr res, w') \<Rightarrow>
         (case history_page res of
            Inl e \<Rightarrow> (Inr (), (s\<lparr>h_loading := False, h_error := Some (error_to_string e)\<rparr>, w'))
          | Inr (ops, rs) \<Rightarrow>
              (let all = (if c = None \<or> c = Some '''' then rs else h_records s @ rs) in
               case paging_token ops of
                 Inl e \<Rightarrow> (Inr (), (s\<lparr>h_records := all, h_loading := False, h_error := Some (error_to_string e)\<rparr>, w'))
               | Inr t \<Rightarrow> (Inr (), (s\<lparr>h_records := all, h_loading := False, h_error := None, h_cursor := t,
                     h_hasMore := (length ops = PAGE_SIZE)\<rparr>, w')))))"
  by (auto simp: fetchHistory_def bind_def set_state_run finally_do_run try_catch_def outside_run of_result_run
    Let_def split: prod.split sum.split)

end
