(* ===== verification/Session.thy ===== *)
theory Session
  imports Http Dashboard
begin

text \<open>
  Browser sessions of the demo: wallet login with a persisted token (\<^verbatim>\<open>demo/src/useAuth.ts\<close>)
  and fiat prices (\<^verbatim>\<open>demo/src/useFiatPrice.ts\<close>). \<^verbatim>\<open>localStorage\<close> and
  \<^verbatim>\<open>sessionStorage\<close> are maps from strings to strings in the state; the clock is the parameter
  \<open>now\<close>, milliseconds read from the world.
\<close>

section \<open>Stored sessions\<close>

record storages =
  localStorage :: "(string, string) jsmap"
  sessionStorage :: "(string, string) jsmap"

definition TOKEN_KEY :: string where "TOKEN_KEY = ''paystream_auth_token''"
definition EXPIRY_KEY :: string where "EXPIRY_KEY = ''paystream_auth_expiry''"
definition REMEMBER_KEY :: string where "REMEMBER_KEY = ''paystream_remember_me''"

record persisted =
  pr_token :: "string option"
  pr_tokenExpiry :: "jsnum option"
  pr_rememberMe :: bool

text \<open>\<^verbatim>\<open>token && tokenExpiry && Date.now() < tokenExpiry\<close>.\<close>

definition session_valid :: "int \<Rightarrow> string option \<Rightarrow> jsnum option \<Rightarrow> bool" where
  "session_valid now tok ex =
     (case tok of
        None \<Rightarrow> False
      | Some t \<Rightarrow> t \<noteq> '''' \<and> (case ex of None \<Rightarrow> False | Some e \<Rightarrow> num_truthy e \<and> js_less (jsint now) e))"

definition readPersistedSession :: "int \<Rightarrow> 'z storages_scheme \<Rightarrow> persisted" where
  "readPersistedSession now st =
     (let rememberMe = (jsget (localStorage st) REMEMBER_KEY = Some ''true'');
          store = (if rememberMe then localStorage st else sessionStorage st);
          tok = jsget store TOKEN_KEY;
          tokenExpiry = (case jsget store EXPIRY_KEY of
            None \<Rightarrow> None | Some e \<Rightarrow> if e = '''' then None else Some (number_of_string e))
      in if session_valid now tok tokenExpiry
         then \<lparr>pr_token = tok, pr_tokenExpiry = tokenExpiry, pr_rememberMe = rememberMe\<rparr>
         else \<lparr>pr_token = None, pr_tokenExpiry = None, pr_rememberMe = rememberMe\<rparr>)"

definition persistSession :: "string \<Rightarrow> jsnum \<Rightarrow> bool \<Rightarrow> 'z storages_scheme \<Rightarrow> 'z storages_scheme" where
  "persistSession tok expiryMs rememberMe st0 =
     (let st = st0\<lparr>localStorage := jsset REMEMBER_KEY (if rememberMe then ''true'' else ''false'') (localStorage st0)\<rparr>;
          write = (\<lambda>m. jsset EXPIRY_KEY (num_to_string expiryMs) (jsset TOKEN_KEY tok m))
      in if rememberMe then st\<lparr>localStorage := write (localStorage st)\<rparr>
         else st\<lparr>sessionStorage := write (sessionStorage st)\<rparr>)"

definition clearSession :: "'z storages_scheme \<Rightarrow> 'z storages_scheme" where
  "clearSession st =
     st\<lparr>localStorage := jsdel EXPIRY_KEY (jsdel TOKEN_KEY (localStorage st)),
        sessionStorage := jsdel EXPIRY_KEY (jsdel TOKEN_KEY (sessionStorage st))\<rparr>"

section \<open>useAuth\<close>

datatype wallet_type = Freighter | WalletConnect | Ledger

fun wallet_name :: "wallet_type \<Rightarrow> string" where
  "wallet_name Freighter = ''freighter''"
| "wallet_name WalletConnect = ''walletconnect''"
| "wallet_name Ledger = ''ledger''"

record auth_state = storages +
  a_publicKey :: "string option"
  a_token :: "string option"
  a_tokenExpiry :: "jsnum option"
  a_rememberMe :: bool
  a_loading :: bool
  a_error :: "string option"

text \<open>The hook's first render: the stored session, no wallet.\<close>

definition auth_init :: "int \<Rightarrow> (string, string) jsmap \<Rightarrow> (string, string) jsmap \<Rightarrow> auth_state" where
  "auth_init now ls ss =
     (let p = readPersistedSession now \<lparr>localStorage = ls, sessionStorage = ss\<rparr> in
      \<lparr>localStorage = ls, sessionStorage = ss, a_publicKey = None, a_token = pr_token p,
       a_tokenExpiry = pr_tokenExpiry p, a_rememberMe = pr_rememberMe p, a_loading = False, a_error = None\<rparr>)"

definition isAuthenticated :: "int \<Rightarrow> auth_state \<Rightarrow> bool" where
  "isAuthenticated now s = session_valid now (a_token s) (a_tokenExpiry s)"

definition show_auth_error :: "js_error \<Rightarrow> (auth_state \<times> 'w, unit) io" where
  "show_auth_error e = set_state (\<lambda>s. s\<lparr>a_error := Some (error_to_string e)\<rparr>)"

definition auth_connect ::
  "('w, 'a, 't, 'v) app \<Rightarrow> wallet_type \<Rightarrow> (auth_state \<times> 'w, string) io" where
  "auth_connect A walletType =
     bind (set_state (\<lambda>s. s\<lparr>a_loading := True, a_error := None\<rparr>)) (\<lambda>_.
     finally_do
       (try_catch
          (if walletType = Freighter then
             bind (outside (isFreighterConnected (app_wallet A))) (\<lambda>connected.
               if \<not> connected then throw (Error ''Freighter not installed. Visit https://freighter.app'')
               else bind (outside (connectFreighter (app_wallet A))) (\<lambda>pk.
                    bind (set_state (\<lambda>s. s\<lparr>a_publicKey := Some pk\<rparr>)) (\<lambda>_. ret pk)))
           else throw (Error (wallet_name walletType @ '' support coming soon'')))
          (\<lambda>e. bind (show_auth_error e) (\<lambda>_. throw e)))
       (\<lambda>(s, w). (s\<lparr>a_loading := False\<rparr>, w)))"

text \<open>\<^verbatim>\<open>parseInt(expiresIn, 10) || 24\<close>, in milliseconds after \<open>t\<close>. \<^verbatim>\<open>CONFIG.apiBase\<close> is not
  a field of the configuration, so \<^verbatim>\<open>API_BASE\<close> is the empty string.\<close>

definition expiry_after :: "int \<Rightarrow> jsval \<Rightarrow> jsnum" where
  "expiry_after t expiresIn =
     (let h = parseInt (js_string expiresIn); hours = (if num_truthy h then h else jsint 24)
      in js_add (jsint t) (js_mul (js_mul (js_mul hours (jsint 60)) (jsint 60)) (jsint 1000)))"

definition API_BASE :: string where "API_BASE = ''''"

text \<open>A token that is missing in the answer is \<^verbatim>\<open>undefined\<close> in the state and the word
  \<^verbatim>\<open>undefined\<close> in the store.\<close>

definition auth_token_state :: "jsval \<Rightarrow> string option" where
  "auth_token_state v = (case v of JUndef \<Rightarrow> None | JNull \<Rightarrow> None | _ \<Rightarrow> Some (js_string v))"

definition verify_error :: "http_response \<Rightarrow> js_error" where
  "verify_error res =
     (case rbind (resp_json res) (\<lambda>b. js_field b ''error'') of
        Inl e \<Rightarrow> e
      | Inr v \<Rightarrow> Error (if v = JUndef \<or> v = JNull then ''Verification failed'' else js_string v))"

definition doLogin ::
  "'w fetch \<Rightarrow> ('w \<Rightarrow> int) \<Rightarrow> ('w, 'a, 't, 'v) app \<Rightarrow> string \<Rightarrow> bool \<Rightarrow> (auth_state \<times> 'w, unit) io" where
  "doLogin fetch now A pk remember =
     bind (outside (fetch (post_request (API_BASE @ ''/auth/challenge'') (JObj [(''address'', JStr pk)])))) (\<lambda>challengeRes.
       if \<not> resp_ok challengeRes then throw (Error ''Failed to fetch challenge'')
       else
         bind (of_result (rbind (resp_json challengeRes) (\<lambda>b. js_field b ''nonce''))) (\<lambda>nonce.
         bind (outside (freighterSignTransaction (app_wallet A) (js_string nonce)
           (networkPassphrase (app_client A)))) (\<lambda>signature.
         bind (outside (fetch (post_request (API_BASE @ ''/auth/verify'')
           (JObj [(''address'', JStr pk), (''signature'', JStr signature)])))) (\<lambda>verifyRes.
           if \<not> resp_ok verifyRes then throw (verify_error verifyRes)
           else
             bind (of_result (rbind (resp_json verifyRes) (\<lambda>b. js_field b ''token''))) (\<lambda>jwt.
             bind (of_result (rbind (resp_json verifyRes) (\<lambda>b. js_field b ''expiresIn''))) (\<lambda>expiresIn.
             bind (gets (\<lambda>(s, w). now w)) (\<lambda>t.
               set_state (\<lambda>s. persistSession (js_string jwt) (expiry_after t expiresIn) remember
                 (s\<lparr>a_token := auth_token_state jwt, a_tokenExpiry := Some (expiry_after t expiresIn)\<rparr>)))))))))"

definition auth_login ::
  "'w fetch \<Rightarrow> ('w \<Rightarrow> int) \<Rightarrow> ('w, 'a, 't, 'v) app \<Rightarrow> bool option \<Rightarrow> (auth_state \<times> 'w, unit) io" where
  "auth_login fetch now A opt_remember =
     bind (gets fst) (\<lambda>s0.
       case a_publicKey s0 of
         None \<Rightarrow> throw (Error ''Connect a wallet first'')
       | Some pk \<Rightarrow>
           if pk = '''' then throw (Error ''Connect a wallet first'')
           else
             bind (set_state (\<lambda>s. s\<lparr>a_loading := True, a_error := None\<rparr>)) (\<lambda>_.
             finally_do
               (try_catch
                  (let remember = (case opt_remember of Some b \<Rightarrow> b | None \<Rightarrow> a_rememberMe s0) in
                   bind (set_state (\<lambda>s. s\<lparr>a_rememberMe := remember\<rparr>)) (\<lambda>_. doLogin fetch now A pk remember))
                  (\<lambda>e. bind (show_auth_error e) (\<lambda>_. throw e)))
               (\<lambda>(s, w). (s\<lparr>a_loading := False\<rparr>, w))))"

definition auth_logout :: "auth_state \<Rightarrow> auth_state" where
  "auth_logout s = clearSession (s\<lparr>a_publicKey := None, a_token := None, a_tokenExpiry := None\<rparr>)"

text \<open>The silent refresh: the delay of its timer, if one is set, and what the timer does.\<close>

definition refresh_delay :: "int \<Rightarrow> auth_state \<Rightarrow> jsnum option" where
  "refresh_delay now s =
     (case (a_token s, a_tokenExpiry s) of
        (Some t, Some e) \<Rightarrow>
          (if t = '''' \<or> \<not> num_truthy e then None
           else (let d = js_sub (js_sub e (jsint now)) (jsint 300000) in
                 if js_le d (Fin 0) then None else Some d))
      | _ \<Rightarrow> None)"

definition silent_refresh ::
  "'w fetch \<Rightarrow> ('w \<Rightarrow> int) \<Rightarrow> ('w, 'a, 't, 'v) app \<Rightarrow> string option \<Rightarrow> bool \<Rightarrow> (auth_state \<times> 'w, unit) io" where
  "silent_refresh fetch now A pk remember =
     (case pk of
        None \<Rightarrow> ret ()
      | Some k \<Rightarrow> if k = '''' then ret () else try_catch (doLogin fetch now A k remember) (\<lambda>_. ret ()))"

section \<open>Fiat prices\<close>

record pricing_metadata =
  pm_symbol :: string
  coingeckoId :: string
  pm_label :: string

definition KNOWN_TOKEN_PRICES :: "(string, pricing_metadata) jsmap" where
  "KNOWN_TOKEN_PRICES =
     [(USDC_testnet, \<lparr>pm_symbol = ''USDC'', coingeckoId = ''usd-coin'', pm_label = ''USD Coin''\<rparr>),
      (USDC_mainnet, \<lparr>pm_symbol = ''USDC'', coingeckoId = ''usd-coin'', pm_label = ''USD Coin''\<rparr>)]"

definition AVAILABLE_FIAT_CURRENCIES :: "(string \<times> string) list" where
  "AVAILABLE_FIAT_CURRENCIES = [(''usd'', ''USD''), (''eur'', ''EUR''), (''gbp'', ''GBP'')]"

definition FIAT_KEY :: string where "FIAT_KEY = ''paystream-fiat-currency''"

definition getTokenPricingMetadata :: "string \<Rightarrow> pricing_metadata option" where
  "getTokenPricingMetadata tok = jsget KNOWN_TOKEN_PRICES tok"

text \<open>The currency signs as UTF-8 bytes.\<close>

definition getCurrencySymbol :: "string \<Rightarrow> string" where
  "getCurrencySymbol currency =
     (if currency = ''usd'' then ''$''
      else if currency = ''eur'' then [CHR 0xE2, CHR 0x82, CHR 0xAC]
      else if currency = ''gbp'' then [CHR 0xC2, CHR 0xA3]
      else '''')"

record fiat_state =
  fiatCurrency :: string
  prices :: "(string, jsnum) jsmap"
  fp_loading :: bool
  fp_error :: "string option"
  fp_lastUpdated :: "int option"

definition fiat_init :: "(string, string) jsmap \<Rightarrow> fiat_state" where
  "fiat_init ls =
     \<lparr>fiatCurrency = (case jsget ls FIAT_KEY of
        Some c \<Rightarrow> if c = ''eur'' \<or> c = ''gbp'' \<or> c = ''usd'' then c else ''usd'' | None \<Rightarrow> ''usd''),
      prices = [], fp_loading = False, fp_error = None, fp_lastUpdated = None\<rparr>"

definition tokenIds :: "string list" where
  "tokenIds = rev (remdups (rev (map (\<lambda>(k, m). coingeckoId m) KNOWN_TOKEN_PRICES)))"

text \<open>\<^verbatim>\<open>data[id]?.[fiatCurrency] ?? 0\<close>; a price that is not a number is kept as \<^verbatim>\<open>NaN\<close>.\<close>

definition price_of :: "jsval \<Rightarrow> string \<Rightarrow> string \<Rightarrow> js_error + jsnum" where
  "price_of data i currency =
     rbind (js_field data i) (\<lambda>o1.
       if o1 = JUndef \<or> o1 = JNull then Inr (Fin 0)
       else rbind (js_field o1 currency) (\<lambda>v.
         Inr (case v of JUndef \<Rightarrow> Fin 0 | JNull \<Rightarrow> Fin 0 | JNum x \<Rightarrow> x | _ \<Rightarrow> NaN)))"

definition price_url :: "string \<Rightarrow> string" where
  "price_url currency =
     ''https://api.coingecko.com/api/v3/simple/price?ids='' @ encodeURIComponent (join '','' tokenIds) @
     ''&vs_currencies='' @ encodeURIComponent currency"

definition fetchPrices :: "'w fetch \<Rightarrow> ('w \<Rightarrow> int) \<Rightarrow> (fiat_state \<times> 'w, unit) io" where
  "fetchPrices fetch now =
     bind (gets fst) (\<lambda>s0.
     bind (set_state (\<lambda>s. s\<lparr>fp_loading := True, fp_error := None\<rparr>)) (\<lambda>_.
     finally_do
       (try_catch
          (bind (outside (fetch (get_request (price_url (fiatCurrency s0))))) (\<lambda>res.
             if \<not> resp_ok res then throw (Error (''CoinGecko responded with '' @ show_int (resp_status res)))
             else
               bind (of_result (resp_json res)) (\<lambda>data.
               bind (of_result (seq_results (map (\<lambda>i. price_of data i (fiatCurrency s0)) tokenIds))) (\<lambda>ps.
               bind (gets (\<lambda>(s, w). now w)) (\<lambda>t.
                 set_state (\<lambda>s. s\<lparr>prices := zip tokenIds ps, fp_lastUpdated := Some t\<rparr>))))))
          (\<lambda>e. set_state (\<lambda>s. s\<lparr>fp_error := Some (errMsg e)\<rparr>)))
       (\<lambda>(s, w). (s\<lparr>fp_loading := False\<rparr>, w))))"

definition getPriceForToken :: "fiat_state \<Rightarrow> string \<Rightarrow> jsnum option" where
  "getPriceForToken s tok =
     (case getTokenPricingMetadata tok of None \<Rightarrow> None | Some m \<Rightarrow> jsget (prices s) (coingeckoId m))"

text \<open>The effect that stores the chosen currency.\<close>

definition store_currency :: "fiat_state \<Rightarrow> (string, string) jsmap \<Rightarrow> (string, string) jsmap" where
  "store_currency s ls = jsset FIAT_KEY (fiatCurrency s) ls"
end
