(* ===== verification/Session_Props.thy ===== *)
theory Session_Props
  imports Session
begin

text \<open>
  Sessions survive a reload exactly until they expire or the user logs out.
\<close>

section \<open>Numbers in the store\<close>

lemma radix_literal_digits: "list_all is_digit s \<Longrightarrow> radix_literal s = None"
proof -
  assume d: "list_all is_digit s"
  have nx: "take 2 s \<noteq> [CHR ''0'', c]" if "\<not> is_digit c" for c
  proof
    assume "take 2 s = [CHR ''0'', c]"
    then have "c \<in> set s" using set_take_subset[of 2 s] by auto
    then show False using d that by (auto simp: list_all_iff)
  qed
  have "\<not> is_digit (CHR ''x'')" "\<not> is_digit (CHR ''X'')" "\<not> is_digit (CHR ''o'')"
    "\<not> is_digit (CHR ''O'')" "\<not> is_digit (CHR ''b'')" "\<not> is_digit (CHR ''B'')"
    by (simp_all add: is_digit_def digit_val_def)
  then show ?thesis by (simp add: radix_literal_def Let_def nx)
qed

lemma number_of_show_dec:
  assumes "0 \<le> n" "n \<le> 2 ^ 53"
  shows "number_of_string (show_dec n) = jsint n"
proof -
  have d: "list_all is_digit (show_dec n)" using assms(1) by (rule show_dec_digits)
  obtain c cs where s: "show_dec n = c # cs" using show_dec_nonempty[of n] by (cases "show_dec n") auto
  have c: "is_digit c" using d s by simp
  have "lit_decimal (show_dec n) = Some (of_int n, [])"
    using d assms(1) by (simp add: lit_decimal_def lit_exponent_def)
  then have "with_sign number_unsigned (show_dec n) = num_of_rat (of_int n)"
    using digit_not_sign[OF c] s by (simp add: with_sign_def number_unsigned_def)
  then show ?thesis
    using trim_digits[OF d] radix_literal_digits[OF d] num_of_rat_int[of n] assms
    by (simp add: number_of_string_def jsint_def)
qed

lemma num_to_string_jsint: "0 \<le> n \<Longrightarrow> n \<le> 2 ^ 53 \<Longrightarrow> num_to_string (jsint n) = show_dec n"
proof -
  assume n: "0 \<le> n" "n \<le> 2 ^ 53"
  then have "(of_int n :: rat) \<le> of_int (2 ^ 53)" by (simp only: of_int_le_iff)
  with n show ?thesis by (simp add: jsint_def show_pos_def)
qed

section \<open>Reading what was written\<close>

lemma session_keys [simp]: "TOKEN_KEY \<noteq> EXPIRY_KEY" "TOKEN_KEY \<noteq> REMEMBER_KEY" "EXPIRY_KEY \<noteq> REMEMBER_KEY"
  "EXPIRY_KEY \<noteq> TOKEN_KEY" "REMEMBER_KEY \<noteq> TOKEN_KEY" "REMEMBER_KEY \<noteq> EXPIRY_KEY"
  by (simp_all add: TOKEN_KEY_def EXPIRY_KEY_def REMEMBER_KEY_def)

lemma persisted_store:
  "jsget (localStorage (persistSession t e r st)) REMEMBER_KEY = Some (if r then ''true'' else ''false'')"
  "jsget (if r then localStorage (persistSession t e r st) else sessionStorage (persistSession t e r st)) TOKEN_KEY = Some t"
  "jsget (if r then localStorage (persistSession t e r st) else sessionStorage (persistSession t e r st)) EXPIRY_KEY
    = Some (num_to_string e)"
  by (auto simp: persistSession_def Let_def jsm.get_put)

text \<open>C23: A session written by \<open>persistSession\<close> is read back unchanged by any later page load before
  its expiry, whichever store was chosen, and is treated as absent from the moment it expires; after
  \<open>clearSession\<close> no session is read, whatever was stored.\<close>

theorem session_survives_reload:
  assumes "t \<noteq> ''''" "0 < e" "e \<le> 2 ^ 53"
  shows "readPersistedSession now (persistSession t (jsint e) r st) =
      (if now < e then \<lparr>pr_token = Some t, pr_tokenExpiry = Some (jsint e), pr_rememberMe = r\<rparr>
       else \<lparr>pr_token = None, pr_tokenExpiry = None, pr_rememberMe = r\<rparr>)
    \<and> pr_token (readPersistedSession now (clearSession st)) = None"
proof -
  have num: "number_of_string (num_to_string (jsint e)) = jsint e" "num_to_string (jsint e) \<noteq> ''''"
    using number_of_show_dec[of e] num_to_string_jsint[of e] assms(2,3) by simp_all
  have "num_truthy (jsint e)" using assms(2) by (simp add: num_truthy_def Fin_0_jsint)
  then have "session_valid now (Some t) (Some (jsint e)) = (now < e)" using assms(1) by (simp add: session_valid_def)
  then have "readPersistedSession now (persistSession t (jsint e) r st) =
      (if now < e then \<lparr>pr_token = Some t, pr_tokenExpiry = Some (jsint e), pr_rememberMe = r\<rparr>
       else \<lparr>pr_token = None, pr_tokenExpiry = None, pr_rememberMe = r\<rparr>)"
    using num persisted_store[where t = t and e = "jsint e" and r = r and st = st]
    by (cases r) (simp_all add: readPersistedSession_def Let_def)
  moreover have "pr_token (readPersistedSession now (clearSession st)) = None"
    by (auto simp: readPersistedSession_def clearSession_def session_valid_def Let_def jsm.get_del)
  ultimately show ?thesis by simp
qed

theorem session_survives_reload_witness:
  "pr_token (readPersistedSession 1000 (persistSession ''jwt'' (jsint 5000) True
      \<lparr>localStorage = [], sessionStorage = []\<rparr>)) = Some ''jwt''
   \<and> pr_token (readPersistedSession 5000 (persistSession ''jwt'' (jsint 5000) True
      \<lparr>localStorage = [], sessionStorage = []\<rparr>)) = None"
  using session_survives_reload[of "''jwt''" 5000 1000 True "\<lparr>localStorage = [], sessionStorage = []\<rparr>"]
    session_survives_reload[of "''jwt''" 5000 5000 True "\<lparr>localStorage = [], sessionStorage = []\<rparr>"] by simp

text \<open>Logging in without \<^verbatim>\<open>remember me\<close> leaves a token that was remembered before in
  \<^verbatim>\<open>localStorage\<close>.\<close>

lemma old_token_stays:
  "jsget (localStorage (persistSession t2 e2 False (persistSession t1 e1 True st))) TOKEN_KEY = Some t1"
  by (simp add: persistSession_def Let_def)

text \<open>A failed login leaves token and expiry as they were and shows the error; the loading flag is
  cleared in every case.\<close>

lemma doLogin_fail_keeps:
  "doLogin fetch now A pk rm (s, w) = (Inl e, (s', w')) \<Longrightarrow> s' = s"
  by (auto simp: doLogin_def bind_def outside_run of_result_run gets_run set_state_run throw_run
    split: prod.splits sum.splits if_splits)
end
