(* ===== verification/Frontend.thy ===== *)
theory Frontend
  imports Js_Value
begin

text \<open>
  The web front end (\<^verbatim>\<open>frontend/src\<close>): the HTTP client with its interceptors
  (\<^verbatim>\<open>api/client.ts\<close>, \<^verbatim>\<open>api/endpoints.ts\<close>) and the store (\<^verbatim>\<open>store/*.ts\<close>).
  axios is a parameter: \<open>send\<close> performs one attempt.
\<close>

section \<open>The HTTP client\<close>

definition auth_token_key :: string where "auth_token_key = ''auth_token''"

definition MAX_RETRIES :: nat where "MAX_RETRIES = 2"

record api_config =
  ac_method :: string
  ac_url :: string
  ac_data :: jsval
  ac_authorization :: "string option"
  ac_retryCount :: nat

text \<open>How one attempt ends: axios resolves, or rejects with a response (its status) or without one.\<close>

datatype attempt = Resolved jsval | Refused int string | NoResponse string

datatype api_error = ApiError (err_status: "int option") (err_message: string)

type_synonym 'w transport = "api_config \<Rightarrow> 'w \<Rightarrow> attempt \<times> 'w"
type_synonym web_storage = "(string, string) jsmap"

text \<open>The request interceptor: the stored token goes into the header.\<close>

definition request_interceptor :: "web_storage \<Rightarrow> api_config \<Rightarrow> api_config" where
  "request_interceptor ls c =
     (case jsget ls auth_token_key of
        Some t \<Rightarrow> if t = '''' then c else c\<lparr>ac_authorization := Some (''Bearer '' @ t)\<rparr>
      | None \<Rightarrow> c)"

text \<open>
  One call: send, and on an error run the response interceptor. Without a response the request is
  sent again, with its counter, until the counter exceeds the limit; a 401 removes the stored token.
  The state is \<^verbatim>\<open>localStorage\<close> and the world.
\<close>

function client_call ::
  "'w transport \<Rightarrow> api_config \<Rightarrow> web_storage \<times> 'w \<Rightarrow> (api_error + jsval) \<times> (web_storage \<times> 'w)" where
  "client_call send c (ls, w) =
     (case send (request_interceptor ls c) w of
        (Resolved d, w') \<Rightarrow> (Inr d, (ls, w'))
      | (Refused s m, w') \<Rightarrow>
          (Inl (ApiError (Some s) m), (if s = 401 then jsdel auth_token_key ls else ls, w'))
      | (NoResponse m, w') \<Rightarrow>
          (let k = ac_retryCount c + 1 in
           if k \<le> MAX_RETRIES then client_call send (request_interceptor ls c\<lparr>ac_retryCount := k\<rparr>) (ls, w')
           else (Inl (ApiError None m), (ls, w'))))"
  by pat_completeness auto
termination
  by (relation "measure (\<lambda>(_, c, _). MAX_RETRIES - ac_retryCount c)") (auto simp: MAX_RETRIES_def)

declare client_call.simps [simp del]

definition client_request :: "string \<Rightarrow> string \<Rightarrow> jsval \<Rightarrow> api_config" where
  "client_request m url d = \<lparr>ac_method = m, ac_url = url, ac_data = d, ac_authorization = None, ac_retryCount = 0\<rparr>"

definition getStreams where "getStreams send = client_call send (client_request ''GET'' ''/streams'' JUndef)"

definition getStream_api where
  "getStream_api send i = client_call send (client_request ''GET'' (''/streams/'' @ i) JUndef)"

definition createStream_api where
  "createStream_api send d = client_call send (client_request ''POST'' ''/streams'' d)"

definition getPayments where "getPayments send = client_call send (client_request ''GET'' ''/payments'' JUndef)"

text \<open>Login stores the token of the answer; a missing field is stored as the word
  \<^verbatim>\<open>undefined\<close>.\<close>

definition auth_login_api ::
  "'w transport \<Rightarrow> jsval \<Rightarrow> web_storage \<times> 'w \<Rightarrow> (api_error + jsval) \<times> (web_storage \<times> 'w)" where
  "auth_login_api send credentials st =
     (case client_call send (client_request ''POST'' ''/auth/login'' credentials) st of
        (Inl e, st') \<Rightarrow> (Inl e, st')
      | (Inr d, (ls, w)) \<Rightarrow>
          (case js_field d ''token'' of
             Inl e \<Rightarrow> (Inl (ApiError None (errMsg e)), (ls, w))
           | Inr t \<Rightarrow> (Inr d, (jsset auth_token_key (js_string t) ls, w))))"

definition auth_logout_api ::
  "'w transport \<Rightarrow> web_storage \<times> 'w \<Rightarrow> (api_error + jsval) \<times> (web_storage \<times> 'w)" where
  "auth_logout_api send st =
     (case st of (ls, w) \<Rightarrow>
        client_call send (client_request ''POST'' ''/auth/logout'' JUndef) (jsdel auth_token_key ls, w))"

section \<open>The store\<close>

record user =
  u_id :: string
  u_email :: string
  u_name :: string

record payment =
  pay_id :: string
  pay_amount :: jsnum
  pay_token :: string

record merchant =
  m_id :: string
  m_name :: string

record toast =
  toast_message :: string
  toast_type :: string

text \<open>The slices are spread into one object: merchants and payments share \<^verbatim>\<open>loading\<close> and
  \<^verbatim>\<open>error\<close>.\<close>

record store_state =
  s_user :: "user option"
  s_token :: "string option"
  s_isAuthenticated :: bool
  s_merchants :: "merchant list"
  s_payments :: "payment list"
  s_loading :: bool
  s_error :: "string option"
  s_isLoading :: bool
  s_modal :: "string option"
  s_toast :: "toast option"

definition useStore :: store_state where
  "useStore = \<lparr>s_user = None, s_token = None, s_isAuthenticated = False, s_merchants = [], s_payments = [],
     s_loading = False, s_error = None, s_isLoading = False, s_modal = None, s_toast = None\<rparr>"

definition store_login :: "user \<Rightarrow> string \<Rightarrow> store_state \<Rightarrow> store_state" where
  "store_login u t s = s\<lparr>s_user := Some u, s_token := Some t, s_isAuthenticated := True\<rparr>"

definition store_logout :: "store_state \<Rightarrow> store_state" where
  "store_logout s = s\<lparr>s_user := None, s_token := None, s_isAuthenticated := False\<rparr>"

definition setMerchants :: "merchant list \<Rightarrow> store_state \<Rightarrow> store_state" where
  "setMerchants ms s = s\<lparr>s_merchants := ms\<rparr>"

definition setPayments :: "payment list \<Rightarrow> store_state \<Rightarrow> store_state" where
  "setPayments ps s = s\<lparr>s_payments := ps\<rparr>"

definition setLoading :: "bool \<Rightarrow> store_state \<Rightarrow> store_state" where
  "setLoading b s = s\<lparr>s_isLoading := b\<rparr>"

definition showToast :: "toast \<Rightarrow> store_state \<Rightarrow> store_state" where
  "showToast t s = s\<lparr>s_toast := Some t\<rparr>"

definition selectUser :: "store_state \<Rightarrow> user option" where "selectUser = s_user"
definition selectIsAuthenticated :: "store_state \<Rightarrow> bool" where "selectIsAuthenticated = s_isAuthenticated"
definition selectMerchants :: "store_state \<Rightarrow> merchant list" where "selectMerchants = s_merchants"
definition selectPayments :: "store_state \<Rightarrow> payment list" where "selectPayments = s_payments"

definition selectUI :: "store_state \<Rightarrow> bool \<times> string option \<times> toast option" where
  "selectUI s = (s_isLoading s, s_modal s, s_toast s)"

datatype store_action =
    Login user string
  | Logout
  | SetMerchants "merchant list"
  | SetPayments "payment list"
  | SetLoading bool
  | ShowToast toast

fun dispatch :: "store_action \<Rightarrow> store_state \<Rightarrow> store_state" where
  "dispatch (Login u t) = store_login u t"
| "dispatch Logout = store_logout"
| "dispatch (SetMerchants ms) = setMerchants ms"
| "dispatch (SetPayments ps) = setPayments ps"
| "dispatch (SetLoading b) = setLoading b"
| "dispatch (ShowToast t) = showToast t"

text \<open>The authentication flag agrees with the user and the token after any sequence of actions.\<close>

definition store_consistent :: "store_state \<Rightarrow> bool" where
  "store_consistent s = (s_isAuthenticated s = (s_user s \<noteq> None) \<and> s_isAuthenticated s = (s_token s \<noteq> None))"

lemma dispatch_consistent: "store_consistent s \<Longrightarrow> store_consistent (dispatch a s)"
  by (cases a) (auto simp: store_consistent_def store_login_def store_logout_def setMerchants_def
    setPayments_def setLoading_def showToast_def)

lemma store_reachable_consistent: "store_consistent (fold dispatch as useStore)"
proof -
  have "store_consistent s \<Longrightarrow> store_consistent (fold dispatch as s)" for s
    by (induction as arbitrary: s) (auto intro: dispatch_consistent)
  moreover have "store_consistent useStore" by (simp add: store_consistent_def useStore_def)
  ultimately show ?thesis by blast
qed

section \<open>Retries\<close>

text \<open>The transport gives no answer \<open>k\<close> times in a row, whatever is sent, leading from \<open>w\<close> to \<open>w'\<close>.\<close>

fun silent :: "'w transport \<Rightarrow> nat \<Rightarrow> 'w \<Rightarrow> 'w \<Rightarrow> bool" where
  "silent send 0 w w' = (w' = w)"
| "silent send (Suc k) w w' = (\<exists>w1. (\<forall>c. \<exists>m. send c w = (NoResponse m, w1)) \<and> silent send k w1 w')"

definition with_token :: "web_storage \<Rightarrow> api_config \<Rightarrow> nat \<Rightarrow> api_config" where
  "with_token ls c k = request_interceptor ls c\<lparr>ac_retryCount := ac_retryCount c + k\<rparr>"

lemma interceptor_idem: "request_interceptor ls (request_interceptor ls c\<lparr>ac_retryCount := n\<rparr>)
    = request_interceptor ls c\<lparr>ac_retryCount := n\<rparr>"
  by (auto simp: request_interceptor_def split: option.splits)

lemma interceptor_count [simp]: "ac_retryCount (request_interceptor ls c) = ac_retryCount c"
  by (auto simp: request_interceptor_def split: option.splits)

lemma client_call_silent:
  "silent send k w w' \<Longrightarrow> ac_retryCount c + k \<le> MAX_RETRIES \<Longrightarrow>
    client_call send c (ls, w) =
      (if k = 0 then client_call send c (ls, w') else client_call send (with_token ls c k) (ls, w'))"
proof (induction send k w w' arbitrary: c rule: silent.induct)
  case (1 send w w')
  then show ?case by simp
next
  case (2 send k w w')
  then obtain w1 where w1: "\<And>c. \<exists>m. send c w = (NoResponse m, w1)" "silent send k w1 w'" by auto
  obtain m where "send (request_interceptor ls c) w = (NoResponse m, w1)" using w1(1) by blast
  then have step: "client_call send c (ls, w) =
      client_call send (request_interceptor ls c\<lparr>ac_retryCount := ac_retryCount c + 1\<rparr>) (ls, w1)"
    using "2.prems"(2) by (subst client_call.simps) simp
  have "client_call send (request_interceptor ls c\<lparr>ac_retryCount := ac_retryCount c + 1\<rparr>) (ls, w1) =
      client_call send (with_token ls c (Suc k)) (ls, w')"
    using "2.IH"[OF w1(2), of "request_interceptor ls c\<lparr>ac_retryCount := ac_retryCount c + 1\<rparr>"] "2.prems"(2)
    by (auto simp: with_token_def interceptor_idem split: if_splits)
  with step show ?case by simp
qed

lemma with_token_sent: "request_interceptor ls (with_token ls c k) = with_token ls c k"
  by (simp add: with_token_def interceptor_idem)

text \<open>What an answered attempt makes of the call.\<close>

fun answered :: "web_storage \<Rightarrow> attempt \<Rightarrow> (api_error + jsval) \<times> web_storage" where
  "answered ls (Resolved d) = (Inr d, ls)"
| "answered ls (Refused s m) = (Inl (ApiError (Some s) m), if s = 401 then jsdel auth_token_key ls else ls)"
| "answered ls (NoResponse m) = (Inl (ApiError None m), ls)"

lemma client_call_answered:
  assumes "send (request_interceptor ls c) w = (a, w')" and "\<forall>m. a \<noteq> NoResponse m"
  shows "client_call send c (ls, w) = (fst (answered ls a), (snd (answered ls a), w'))"
  using assms by (subst client_call.simps) (cases a; simp)

text \<open>The HTTP client. A request that gets no answer is sent again, with the stored token, at most
  twice: if one of the first three attempts is answered, that answer decides the call, and after three
  silent attempts the call fails. The stored token is removed exactly by an answer with status 401.\<close>

theorem client_call_retries:
  assumes "ac_retryCount c = 0"
  shows "(\<forall>k w1 a w2. k \<le> 2 \<and> silent send k w w1 \<and> (\<forall>m. a \<noteq> NoResponse m) \<and>
      send (if k = 0 then request_interceptor ls c else with_token ls c k) w1 = (a, w2) \<longrightarrow>
      client_call send c (ls, w) = (fst (answered ls a), (snd (answered ls a), w2))) \<and>
    (\<forall>w3. silent send 3 w w3 \<longrightarrow> (\<exists>m. client_call send c (ls, w) = (Inl (ApiError None m), (ls, w3))))"
proof (intro conjI allI impI)
  fix k w1 a w2
  assume a: "k \<le> 2 \<and> silent send k w w1 \<and> (\<forall>m. a \<noteq> NoResponse m) \<and>
    send (if k = 0 then request_interceptor ls c else with_token ls c k) w1 = (a, w2)"
  then have "client_call send c (ls, w) =
      client_call send (if k = 0 then c else with_token ls c k) (ls, w1)"
    using client_call_silent[of send k w w1 c ls] assms by (simp add: MAX_RETRIES_def)
  then show "client_call send c (ls, w) = (fst (answered ls a), (snd (answered ls a), w2))"
    using a by (cases "k = 0") (auto simp: client_call_answered with_token_sent)
next
  fix w3
  assume "silent send 3 w w3"
  then obtain w2 where s2: "silent send 2 w w2" "\<And>c. \<exists>m. send c w2 = (NoResponse m, w3)"
    by (auto simp: numeral_3_eq_3 numeral_2_eq_2)
  have eq: "client_call send c (ls, w) = client_call send (with_token ls c 2) (ls, w2)"
    using client_call_silent[OF s2(1), of c ls] assms by (simp add: MAX_RETRIES_def)
  obtain m where "send (with_token ls c 2) w2 = (NoResponse m, w3)" using s2(2) by blast
  then have "client_call send (with_token ls c 2) (ls, w2) = (Inl (ApiError None m), (ls, w3))"
    using assms by (subst client_call.simps) (simp add: with_token_sent with_token_def MAX_RETRIES_def interceptor_idem)
  with eq show "\<exists>m. client_call send c (ls, w) = (Inl (ApiError None m), (ls, w3))" by auto
qed

text \<open>A transport that follows a script and counts what it sent.\<close>

definition scripted :: "(attempt list \<times> nat) transport" where
  "scripted c st = (case st of
     ([], n) \<Rightarrow> (NoResponse ''Network Error'', ([], n + 1))
   | (a # as, n) \<Rightarrow> (a, (as, n + 1)))"

theorem client_call_retries_witness:
  "client_call scripted (client_request ''GET'' ''/streams'' JUndef)
      ([(auth_token_key, ''t'')], ([NoResponse ''x'', Refused 401 ''no''], 0)) =
    (Inl (ApiError (Some 401) ''no''), ([], ([], 2)))"
proof -
  let ?c = "client_request ''GET'' ''/streams'' JUndef" and ?ls = "[(auth_token_key, ''t'')]"
  let ?w = "([NoResponse ''x'', Refused 401 ''no''], 0 :: nat)"
  let ?w1 = "([Refused 401 ''no''], 1 :: nat)"
  have "silent scripted 1 ?w ?w1" by (simp add: scripted_def)
  moreover have "scripted (with_token ?ls ?c 1) ?w1 = (Refused 401 ''no'', ([], 2))" by (simp add: scripted_def)
  moreover have "ac_retryCount ?c = 0" by (simp add: client_request_def)
  ultimately have "client_call scripted ?c (?ls, ?w) =
      (Inl (ApiError (Some 401) ''no''), (jsdel auth_token_key ?ls, ([], 2)))"
    using client_call_retries[of ?c scripted ?w ?ls, THEN conjunct1, rule_format, of 1 ?w1 "Refused 401 ''no''" "([], 2)"]
    by simp
  then show ?thesis by simp
qed

end
