(* ===== verification/Jsx.thy ===== *)
theory Jsx
  imports Js_Value
begin

text \<open>
  What React components render: trees of elements with attributes, and the actions their event handlers
  stand for. Inline \<^verbatim>\<open>style\<close> objects and React keys are left out. Texts are UTF-8. A value
  \<^verbatim>\<open>undefined\<close> of an attribute means that the attribute is absent, and a condition
  \<^verbatim>\<open>c && x\<close> that nothing is rendered, so a component is a list of nodes.
\<close>

datatype 'a handler =
    Click 'a
  | Input "string \<Rightarrow> 'a"
  | Toggle "bool \<Rightarrow> 'a"
  | Files "string list option \<Rightarrow> 'a"
  | Key "string \<Rightarrow> 'a option"

datatype 'a attr = Str string | Flag bool | Num jsnum | On "'a handler"

type_synonym 'a attrs = "(string \<times> 'a attr) list"

datatype 'a node = Text string | Elem string "'a attrs" "'a node list"

definition show_if :: "bool \<Rightarrow> 'a node \<Rightarrow> 'a node list" where
  "show_if b n = (if b then [n] else [])"

definition opt_attr :: "string \<Rightarrow> string option \<Rightarrow> 'a attrs" where
  "opt_attr k v = (case v of None \<Rightarrow> [] | Some s \<Rightarrow> [(k, Str s)])"

text \<open>\<^verbatim>\<open>{...props}\<close> after other attributes: a given property replaces an attribute of that name.\<close>

definition spread :: "'a attrs \<Rightarrow> 'a attrs \<Rightarrow> 'a attrs" where
  "spread ats props = fold (\<lambda>(k, v). jsset k v) props ats"

definition or_empty :: "string option \<Rightarrow> string" where
  "or_empty t = (case t of Some s \<Rightarrow> s | None \<Rightarrow> '''')"

definition truthy_text :: "string option \<Rightarrow> bool" where
  "truthy_text t = (case t of None \<Rightarrow> False | Some s \<Rightarrow> s \<noteq> '''')"

definition to_upper :: "char \<Rightarrow> char" where
  "to_upper c = (let n = (of_char c :: int) in if 97 \<le> n \<and> n \<le> 122 then char_of (n - 32) else c)"

section \<open>Reading a page\<close>

fun elements :: "'a node \<Rightarrow> (string \<times> 'a attrs) list" where
  "elements (Text s) = []"
| "elements (Elem t ats ns) = (t, ats) # concat (map elements ns)"

definition page_elements :: "'a node list \<Rightarrow> (string \<times> 'a attrs) list" where
  "page_elements ns = concat (map elements ns)"

fun text_content :: "'a node \<Rightarrow> string" where
  "text_content (Text s) = s"
| "text_content (Elem t ats ns) = concat (map text_content ns)"

definition str_attr :: "string \<Rightarrow> 'a attrs \<Rightarrow> string option" where
  "str_attr k ats = (case map_of ats k of Some (Str s) \<Rightarrow> Some s | _ \<Rightarrow> None)"

definition ids :: "'a node list \<Rightarrow> string list" where
  "ids ns = List.map_filter (\<lambda>(t, ats). str_attr ''id'' ats) (page_elements ns)"

definition refs :: "'a node list \<Rightarrow> string list" where
  "refs ns = concat (map (\<lambda>(t, ats). List.map_filter (\<lambda>k. str_attr k ats)
     [''htmlFor'', ''aria-describedby'', ''aria-labelledby'']) (page_elements ns))"

text \<open>Every label and description refers to an element of the page.\<close>

definition refs_resolved :: "'a node list \<Rightarrow> bool" where
  "refs_resolved ns = list_all (\<lambda>r. r \<in> set (ids ns)) (refs ns)"

text \<open>The actions that a click can cause: a disabled element takes no clicks.\<close>

definition is_disabled :: "'a attrs \<Rightarrow> bool" where
  "is_disabled ats = (case map_of ats ''disabled'' of Some (Flag b) \<Rightarrow> b | _ \<Rightarrow> False)"

definition click_of :: "'a attrs \<Rightarrow> 'a option" where
  "click_of ats =
     (if is_disabled ats then None
      else (case map_of ats ''onClick'' of Some (On (Click a)) \<Rightarrow> Some a | _ \<Rightarrow> None))"

definition clicks :: "'a node list \<Rightarrow> 'a list" where
  "clicks ns = List.map_filter (\<lambda>(t, ats). click_of ats) (page_elements ns)"

text \<open>The actions of a key press anywhere on the page.\<close>

definition key_of :: "string \<Rightarrow> 'a attrs \<Rightarrow> 'a option" where
  "key_of k ats = (case map_of ats ''onKeyDown'' of Some (On (Key f)) \<Rightarrow> f k | _ \<Rightarrow> None)"

definition presses :: "string \<Rightarrow> 'a node list \<Rightarrow> 'a list" where
  "presses k ns = List.map_filter (\<lambda>(t, ats). key_of k ats) (page_elements ns)"

named_theorems jsx

lemma page_elements_simps [jsx]:
  "page_elements [] = []"
  "page_elements (Text s # ns) = page_elements ns"
  "page_elements (Elem t ats cs # ns) = (t, ats) # page_elements cs @ page_elements ns"
  "page_elements (ns @ ms) = page_elements ns @ page_elements ms"
  "page_elements (if b then ns else ms) = (if b then page_elements ns else page_elements ms)"
  by (simp_all add: page_elements_def)

lemma map_filter_append [jsx]: "List.map_filter f (xs @ ys) = List.map_filter f xs @ List.map_filter f ys"
  by (simp add: List.map_filter_def)

lemmas [jsx] = show_if_def opt_attr_def str_attr_def is_disabled_def click_of_def key_of_def
  List.map_filter_simps

lemma refs_resolved_iff: "refs_resolved ns \<longleftrightarrow> set (refs ns) \<subseteq> set (ids ns)"
  by (auto simp: refs_resolved_def list_all_iff)

lemma spread_get: "map_of (spread ats props) k = (case map_of (rev props) k of Some v \<Rightarrow> Some v | None \<Rightarrow> map_of ats k)"
  by (induction props arbitrary: ats) (auto simp: spread_def split: option.split)

text \<open>The same, node by node.\<close>

definition node_clicks :: "'a node \<Rightarrow> 'a list" where
  "node_clicks n = clicks [n]"

lemma clicks_nodes:
  "clicks [] = []"
  "clicks (n # ns) = node_clicks n @ clicks ns"
  "clicks (ns @ ms) = clicks ns @ clicks ms"
  by (simp_all add: node_clicks_def clicks_def page_elements_def List.map_filter_def)

lemma node_clicks_simps:
  "node_clicks (Text t) = []"
  "node_clicks (Elem t ats cs) = (case click_of ats of None \<Rightarrow> [] | Some a \<Rightarrow> [a]) @ clicks cs"
  by (simp_all add: node_clicks_def clicks_def page_elements_simps List.map_filter_simps split: option.split)

lemma no_click: "map_of ats ''onClick'' = None \<Longrightarrow> click_of ats = None"
  by (simp add: click_of_def)

lemma click_of_simps:
  "is_disabled ats \<Longrightarrow> click_of ats = None"
  "map_of ats ''onClick'' = Some (On (Click a)) \<Longrightarrow> \<not> is_disabled ats \<Longrightarrow> click_of ats = Some a"
  by (simp_all add: click_of_def)

lemma clicks_map: "clicks (map f xs) = concat (map (\<lambda>x. node_clicks (f x)) xs)"
  by (induction xs) (simp_all add: clicks_nodes)

lemma clicks_show_if [simp]: "clicks (show_if b n) = (if b then node_clicks n else [])"
  by (simp add: show_if_def clicks_nodes)

lemmas clicking = clicks_nodes node_clicks_simps no_click click_of_simps is_disabled_def clicks_map

end
