(* ===== verification/Frontend_Forms.thy ===== *)
theory Frontend_Forms
  imports Jsx
begin

text \<open>
  The form fields of the web front end (\<^verbatim>\<open>frontend/src/components/forms/*.tsx\<close>) as the pages they
  render, and that their labels and hints are wired up.
\<close>

section \<open>What the fields share\<close>

text \<open>\<^verbatim>\<open>label.toLowerCase().replace(/\s+/g, '-')\<close> on ASCII text.\<close>

fun dash_spaces :: "bool \<Rightarrow> string \<Rightarrow> string" where
  "dash_spaces after [] = []"
| "dash_spaces after (c # cs) =
     (if is_space c then (if after then dash_spaces True cs else CHR ''-'' # dash_spaces True cs)
      else c # dash_spaces False cs)"

definition fieldId :: "string option \<Rightarrow> string \<Rightarrow> string" where
  "fieldId i label = (case i of Some x \<Rightarrow> x | None \<Rightarrow> dash_spaces False (map to_lower label))"

text \<open>\<^verbatim>\<open>helpText || error\<close>, and the hint with \<^verbatim>\<open>error ?? helpText\<close>.\<close>

definition has_hint :: "string option \<Rightarrow> string option \<Rightarrow> bool" where
  "has_hint helpText error = (truthy_text helpText \<or> truthy_text error)"

definition hint_class :: "string option \<Rightarrow> string" where
  "hint_class error = (if truthy_text error then ''form-field__error'' else ''form-field__help'')"

definition hint_text :: "string option \<Rightarrow> string option \<Rightarrow> string" where
  "hint_text helpText error = (case error of Some e \<Rightarrow> e | None \<Rightarrow> or_empty helpText)"

definition hint :: "string \<Rightarrow> string option \<Rightarrow> string option \<Rightarrow> 'a node list" where
  "hint f helpText error =
     show_if (has_hint helpText error)
       (Elem ''span'' [(''id'', Str (f @ ''-hint'')), (''className'', Str (hint_class error))]
         [Text (hint_text helpText error)])"

definition described :: "string \<Rightarrow> string option \<Rightarrow> string option \<Rightarrow> 'a attrs" where
  "described f helpText error =
     opt_attr ''aria-describedby'' (if has_hint helpText error then Some (f @ ''-hint'') else None)"

text \<open>\<open>base\<close> and, if there is an error, \<open>base--error\<close>.\<close>

definition error_class :: "string \<Rightarrow> string option \<Rightarrow> string" where
  "error_class base error = base @ (if truthy_text error then '' '' @ base @ ''--error'' else '''')"

definition field_box :: "string option \<Rightarrow> 'a node list \<Rightarrow> 'a node list" where
  "field_box className ns = [Elem ''div'' [(''className'', Str (''form-field '' @ or_empty className))] ns]"

definition field_label :: "string \<Rightarrow> string \<Rightarrow> 'a node" where
  "field_label f label = Elem ''label'' [(''htmlFor'', Str f), (''className'', Str ''form-field__label'')] [Text label]"

section \<open>The fields\<close>

record 'a field_props =
  fp_label :: string
  fp_helpText :: "string option"
  fp_error :: "string option"
  fp_id :: "string option"
  fp_className :: "string option"
  fp_rest :: "'a attrs"

definition TextField :: "'a field_props \<Rightarrow> 'a node list" where
  "TextField p =
     (let f = fieldId (fp_id p) (fp_label p) in
      field_box (fp_className p)
        ([field_label f (fp_label p),
          Elem ''input'' (spread ([(''id'', Str f), (''className'', Str (error_class ''form-field__input'' (fp_error p)))] @
            described f (fp_helpText p) (fp_error p)) (fp_rest p)) []] @
         hint f (fp_helpText p) (fp_error p)))"

definition DatePicker :: "'a field_props \<Rightarrow> 'a node list" where
  "DatePicker p =
     (let f = fieldId (fp_id p) (fp_label p) in
      field_box (fp_className p)
        ([field_label f (fp_label p),
          Elem ''input'' (spread ([(''id'', Str f), (''type'', Str ''date''),
            (''className'', Str (error_class ''form-field__input'' (fp_error p)))] @
            described f (fp_helpText p) (fp_error p)) (fp_rest p)) []] @
         hint f (fp_helpText p) (fp_error p)))"

text \<open>\<^verbatim>\<open>rows\<close> is 4 unless given.\<close>

definition Textarea :: "int option \<Rightarrow> 'a field_props \<Rightarrow> 'a node list" where
  "Textarea rows p =
     (let f = fieldId (fp_id p) (fp_label p) in
      field_box (fp_className p)
        ([field_label f (fp_label p),
          Elem ''textarea'' (spread ([(''id'', Str f), (''rows'', Num (jsint (case rows of Some r \<Rightarrow> r | None \<Rightarrow> 4))),
            (''className'', Str (error_class ''form-field__textarea'' (fp_error p)))] @
            described f (fp_helpText p) (fp_error p)) (fp_rest p)) []] @
         hint f (fp_helpText p) (fp_error p)))"

record field_option =
  fo_value :: string
  fo_label :: string

definition Select :: "field_option list \<Rightarrow> 'a field_props \<Rightarrow> 'a node list" where
  "Select options p =
     (let f = fieldId (fp_id p) (fp_label p) in
      field_box (fp_className p)
        ([field_label f (fp_label p),
          Elem ''select'' (spread ([(''id'', Str f),
            (''className'', Str (error_class ''form-field__select'' (fp_error p)))] @
            described f (fp_helpText p) (fp_error p)) (fp_rest p))
            (map (\<lambda>q. Elem ''option'' [(''value'', Str (fo_value q))] [Text (fo_label q)]) options)] @
         hint f (fp_helpText p) (fp_error p)))"

definition FileUpload ::
  "(string list option \<Rightarrow> 'a) \<Rightarrow> string option \<Rightarrow> bool \<Rightarrow> bool \<Rightarrow> 'a field_props \<Rightarrow> 'a node list" where
  "FileUpload onChange accept mult disabled p =
     (let f = fieldId (fp_id p) (fp_label p) in
      field_box (fp_className p)
        ([field_label f (fp_label p),
          Elem ''input'' ([(''id'', Str f), (''type'', Str ''file'')] @ opt_attr ''accept'' accept @
            [(''multiple'', Flag mult), (''disabled'', Flag disabled), (''onChange'', On (Files onChange)),
             (''className'', Str (error_class ''form-field__file'' (fp_error p)))] @
            described f (fp_helpText p) (fp_error p)) []] @
         hint f (fp_helpText p) (fp_error p)))"

definition Checkbox :: "bool \<Rightarrow> (bool \<Rightarrow> 'a) \<Rightarrow> bool \<Rightarrow> 'a field_props \<Rightarrow> 'a node list" where
  "Checkbox checked onChange disabled p =
     (let f = fieldId (fp_id p) (fp_label p) in
      [Elem ''div'' [(''className'', Str (''form-field form-field--checkbox '' @ or_empty (fp_className p)))]
        ([Elem ''label'' [(''htmlFor'', Str f), (''className'', Str ''form-field__checkbox-label'')]
           [Elem ''input'' ([(''id'', Str f), (''type'', Str ''checkbox''), (''checked'', Flag checked),
              (''onChange'', On (Toggle onChange)), (''disabled'', Flag disabled),
              (''className'', Str ''form-field__checkbox'')] @ described f (fp_helpText p) (fp_error p)) [],
            Text (fp_label p)]] @
         hint f (fp_helpText p) (fp_error p))])"

text \<open>The radio group has no id; its hint has none either.\<close>

definition Radio ::
  "string \<Rightarrow> field_option list \<Rightarrow> string \<Rightarrow> (string \<Rightarrow> 'a) \<Rightarrow> 'a field_props \<Rightarrow> 'a node list" where
  "Radio name options val onChange p =
     [Elem ''fieldset'' [(''className'', Str (''form-field form-field--radio '' @ or_empty (fp_className p)))]
       ([Elem ''legend'' [(''className'', Str ''form-field__label'')] [Text (fp_label p)]] @
        map (\<lambda>q. Elem ''label'' [(''className'', Str ''form-field__radio-label'')]
          [Elem ''input'' [(''type'', Str ''radio''), (''name'', Str name), (''value'', Str (fo_value q)),
             (''checked'', Flag (val = fo_value q)), (''onChange'', On (Click (onChange (fo_value q)))),
             (''className'', Str ''form-field__radio'')] [],
           Text (fo_label q)]) options @
        show_if (has_hint (fp_helpText p) (fp_error p))
          (Elem ''span'' [(''className'', Str (hint_class (fp_error p)))] [Text (hint_text (fp_helpText p) (fp_error p))]))]"

section \<open>Labels and hints\<close>

text \<open>The caller's own attributes do not interfere with the wiring.\<close>

definition plain_rest :: "'a attrs \<Rightarrow> bool" where
  "plain_rest r = list_all (\<lambda>(k, v). k \<notin> {''id'', ''htmlFor'', ''aria-describedby'', ''aria-labelledby''}) r"

lemma plain_rest_get:
  assumes "plain_rest r" "k \<in> {''id'', ''htmlFor'', ''aria-describedby'', ''aria-labelledby''}"
  shows "map_of (spread ats r) k = map_of ats k"
proof -
  have "map_of (rev r) k = None"
    using assms by (auto simp: plain_rest_def list_all_iff map_of_eq_None_iff)
  then show ?thesis by (simp add: spread_get)
qed

lemmas wiring = field_box_def field_label_def described_def hint_def refs_resolved_def refs_def ids_def

text \<open>Options and radio buttons have no references and no ids.\<close>

lemma options_page [jsx]:
  "page_elements (map (\<lambda>q. Elem ''option'' [(''value'', Str (fo_value q))] [Text (fo_label q)]) options)
    = map (\<lambda>q. (''option'', [(''value'', Str (fo_value q))])) options"
  by (induction options) (simp_all add: jsx)

lemma options_silent [jsx]:
  "List.map_filter f (map g xs) = List.map_filter (f \<circ> g) xs"
  "List.map_filter (\<lambda>x. None) xs = []"
  "concat (map (\<lambda>x. []) xs) = []"
  by (simp_all add: List.map_filter_def comp_def filter_map)

text \<open>Every label of a field names its input, and every description the field refers to is on the page.\<close>

lemma TextField_wired: "plain_rest (fp_rest p) \<Longrightarrow> refs_resolved (TextField p)"
  by (simp add: TextField_def Let_def plain_rest_get wiring jsx)

lemma DatePicker_wired: "plain_rest (fp_rest p) \<Longrightarrow> refs_resolved (DatePicker p)"
  by (simp add: DatePicker_def Let_def plain_rest_get wiring jsx)

lemma Textarea_wired: "plain_rest (fp_rest p) \<Longrightarrow> refs_resolved (Textarea rows p)"
  by (simp add: Textarea_def Let_def plain_rest_get wiring jsx)

lemma Select_wired: "plain_rest (fp_rest p) \<Longrightarrow> refs_resolved (Select options p)"
  by (simp add: Select_def Let_def plain_rest_get wiring jsx comp_def)

lemma FileUpload_wired: "refs_resolved (FileUpload onChange accept mult disabled p)"
  by (cases accept) (simp_all add: FileUpload_def Let_def wiring jsx)

lemma Checkbox_wired: "refs_resolved (Checkbox checked onChange disabled p)"
  by (simp add: Checkbox_def Let_def wiring jsx)

text \<open>Exactly one radio button is checked when the value is one of several distinct options.\<close>

definition checked_values :: "'a node list \<Rightarrow> string list" where
  "checked_values ns =
     List.map_filter (\<lambda>(t, ats). case map_of ats ''checked'' of Some (Flag True) \<Rightarrow> str_attr ''value'' ats | _ \<Rightarrow> None)
       (page_elements ns)"

lemma radio_page:
  "page_elements (map (\<lambda>q. Elem ''label'' [(''className'', Str ''form-field__radio-label'')]
     [Elem ''input'' [(''type'', Str ''radio''), (''name'', Str name), (''value'', Str (fo_value q)),
        (''checked'', Flag (val = fo_value q)), (''onChange'', On (Click (onChange (fo_value q)))),
        (''className'', Str ''form-field__radio'')] [], Text (fo_label q)]) options) =
   concat (map (\<lambda>q. [(''label'', [(''className'', Str ''form-field__radio-label'')]),
     (''input'', [(''type'', Str ''radio''), (''name'', Str name), (''value'', Str (fo_value q)),
        (''checked'', Flag (val = fo_value q)), (''onChange'', On (Click (onChange (fo_value q)))),
        (''className'', Str ''form-field__radio'')])]) options)"
  by (induction options) (simp_all add: jsx)

lemma radio_checked_options:
  "List.map_filter (\<lambda>(t, ats). case map_of ats ''checked'' of Some (Flag True) \<Rightarrow> str_attr ''value'' ats | _ \<Rightarrow> None)
     (concat (map (\<lambda>q. [(''label'', [(''className'', Str ''form-field__radio-label'')]),
     (''input'', [(''type'', Str ''radio''), (''name'', Str name), (''value'', Str (fo_value q)),
        (''checked'', Flag (val = fo_value q)), (''onChange'', On (Click (onChange (fo_value q)))),
        (''className'', Str ''form-field__radio'')])]) options))
   = filter (\<lambda>v. v = val) (map fo_value options)"
  by (induction options) (auto simp: jsx)

lemma Radio_checked: "checked_values (Radio name options val onChange p) = filter (\<lambda>v. v = val) (map fo_value options)"
  by (simp add: checked_values_def Radio_def radio_page radio_checked_options jsx)

text \<open>An empty error hides the help text: the hint is shown for the help text's sake and then shows the error.\<close>

lemma empty_error_hides_help: "h \<noteq> '''' \<Longrightarrow> has_hint (Some h) (Some '''') \<and> hint_text (Some h) (Some '''') = ''''"
  by (simp add: has_hint_def truthy_text_def hint_text_def)

end
