(* ===== verification/Api_Auth.thy ===== *)
theory Api_Auth
  imports Js_Value
begin

text \<open>
  Authentication of the API server: the failure counter with lockouts
  (\<^verbatim>\<open>api/middleware/authRateLimiter.js\<close>), the challenge and verify routes
  (\<^verbatim>\<open>api/routes/auth.js\<close>) and the unlock route (\<^verbatim>\<open>api/routes/auth-admin.js\<close>). Random
  bytes, the validator's check for hex digits, the signature check of the Stellar SDK and the token signer
  are parameters. \<open>now\<close> is \<^verbatim>\<open>Date.now()\<close>; in the routes \<open>now0\<close> is the clock when the limiter
  looks at it and \<open>now\<close> the clock after the limiter's delay.
\<close>

section \<open>The failure counter\<close>

record limiter_config =
  maxAttempts :: int
  lockoutMs :: int
  baseDelayMs :: int
  cooldownMultiplier :: int

definition DEFAULTS :: limiter_config where
  "DEFAULTS = \<lparr>maxAttempts = 5, lockoutMs = 900000, baseDelayMs = 500, cooldownMultiplier = 2\<rparr>"

record failure_entry =
  fe_count :: int
  lastFailureAt :: int

record limiter_state =
  failures :: "(string, failure_entry) jsmap"
  lockouts :: "(string, int) jsmap"

definition empty_limiter :: limiter_state where
  "empty_limiter = \<lparr>failures = [], lockouts = []\<rparr>"

definition getIdentifier :: "string \<Rightarrow> string \<Rightarrow> string" where
  "getIdentifier ip address = (if ip = '''' then ''unknown'' else ip) @ '':'' @ address"

definition getFailureEntry :: "limiter_state \<Rightarrow> string \<Rightarrow> failure_entry" where
  "getFailureEntry st i = (case jsget (failures st) i of Some e \<Rightarrow> e | None \<Rightarrow> \<lparr>fe_count = 0, lastFailureAt = 0\<rparr>)"

definition recordFailure :: "int \<Rightarrow> string \<Rightarrow> limiter_state \<Rightarrow> failure_entry \<times> limiter_state" where
  "recordFailure now i st =
     (let e = \<lparr>fe_count = fe_count (getFailureEntry st i) + 1, lastFailureAt = now\<rparr>
      in (e, st\<lparr>failures := jsset i e (failures st)\<rparr>))"

text \<open>The middleware: refuse with a waiting time in seconds, or go on after a delay in milliseconds.\<close>

datatype limiter_answer = TooMany (retryAfterSeconds: int) | Admit (delayMs: int)

definition ceil_div :: "int \<Rightarrow> int \<Rightarrow> int" where
  "ceil_div a b = - ((- a) div b)"

definition authRateLimiter ::
  "limiter_config \<Rightarrow> int \<Rightarrow> string \<Rightarrow> limiter_state \<Rightarrow> limiter_answer \<times> limiter_state" where
  "authRateLimiter cfg now i st =
     (case jsget (lockouts st) i of
        Some ex \<Rightarrow>
          if now < ex then (TooMany (ceil_div (ex - now) 1000), st)
          else (let st1 = st\<lparr>lockouts := jsdel i (lockouts st)\<rparr> in
            if maxAttempts cfg \<le> fe_count (getFailureEntry st1 i)
            then (TooMany (ceil_div (lockoutMs cfg) 1000), st1\<lparr>lockouts := jsset i (now + lockoutMs cfg) (lockouts st1)\<rparr>)
            else (Admit (baseDelayMs cfg * cooldownMultiplier cfg ^ nat (fe_count (getFailureEntry st1 i))), st1))
      | None \<Rightarrow>
          if maxAttempts cfg \<le> fe_count (getFailureEntry st i)
          then (TooMany (ceil_div (lockoutMs cfg) 1000), st\<lparr>lockouts := jsset i (now + lockoutMs cfg) (lockouts st)\<rparr>)
          else (Admit (baseDelayMs cfg * cooldownMultiplier cfg ^ nat (fe_count (getFailureEntry st i))), st))"

definition applyAuthFailure :: "int \<Rightarrow> string \<Rightarrow> limiter_state \<Rightarrow> limiter_state" where
  "applyAuthFailure now i st =
     (let (e, st1) = recordFailure now i st in
      if maxAttempts DEFAULTS \<le> fe_count e
      then st1\<lparr>lockouts := jsset i (now + lockoutMs DEFAULTS) (lockouts st1)\<rparr> else st1)"

definition resetAuthRateLimit :: "string \<Rightarrow> limiter_state \<Rightarrow> limiter_state" where
  "resetAuthRateLimit i st =
     (if i \<noteq> '''' then \<lparr>failures = jsdel i (failures st), lockouts = jsdel i (lockouts st)\<rparr> else empty_limiter)"

definition resetAuthFailure :: "string \<Rightarrow> limiter_state \<Rightarrow> limiter_state" where
  "resetAuthFailure i st = resetAuthRateLimit i st"

text \<open>The unlock route.\<close>

definition unlock_route :: "jsval \<Rightarrow> limiter_state \<Rightarrow> int \<times> limiter_state" where
  "unlock_route body st =
     (case js_field body ''identifier'' of
        Inr v \<Rightarrow> (let i = (if truthy v then js_string v else '''') in
                 if i = '''' then (400, st) else (200, resetAuthRateLimit i st))
      | Inl _ \<Rightarrow> (400, st))"

section \<open>The routes\<close>

record nonce_entry =
  nonce :: string
  expiresAt :: int

record auth_server =
  limiter :: limiter_state
  nonceStore :: "(string, nonce_entry) jsmap"

definition NONCE_TTL_MS :: int where "NONCE_TTL_MS = 300000"

definition JWT_EXPIRY :: string where "JWT_EXPIRY = ''24h''"

record auth_request =
  rq_ip :: string
  rq_address :: string
  rq_signature :: string

datatype auth_answer =
    RateLimited int
  | Invalid
  | Challenge string int
  | NonceExpired
  | BadSignature
  | Token string

definition is_upper_alnum :: "char \<Rightarrow> bool" where
  "is_upper_alnum c = (let n = (of_char c :: int) in 48 \<le> n \<and> n \<le> 57 \<or> 65 \<le> n \<and> n \<le> 90)"

text \<open>\<^verbatim>\<open>/^G[A-Z0-9]{55}$/\<close>.\<close>

definition is_G_address :: "string \<Rightarrow> bool" where
  "is_G_address s = (length s = 56 \<and> hd s = CHR ''G'' \<and> list_all is_upper_alnum (tl s))"

text \<open>The timer that removes expired nonces.\<close>

definition purge_nonces :: "int \<Rightarrow> auth_server \<Rightarrow> auth_server" where
  "purge_nonces now S = S\<lparr>nonceStore := filter (\<lambda>(k, v). \<not> expiresAt v < now) (nonceStore S)\<rparr>"

definition request_id :: "auth_request \<Rightarrow> string" where
  "request_id rq = getIdentifier (rq_ip rq) (rq_address rq)"

definition challenge_route ::
  "limiter_config \<Rightarrow> int \<Rightarrow> int \<Rightarrow> string \<Rightarrow> auth_request \<Rightarrow> auth_server \<Rightarrow> auth_answer \<times> auth_server" where
  "challenge_route cfg now0 now fresh rq S =
     (case authRateLimiter cfg now0 (request_id rq) (limiter S) of
        (TooMany r, l) \<Rightarrow> (RateLimited r, S\<lparr>limiter := l\<rparr>)
      | (Admit _, l) \<Rightarrow>
          (let S1 = S\<lparr>limiter := l\<rparr> in
           if \<not> is_G_address (rq_address rq) then (Invalid, S1)
           else (Challenge fresh (now + NONCE_TTL_MS),
                 S1\<lparr>nonceStore := jsset (rq_address rq) \<lparr>nonce = fresh, expiresAt = now + NONCE_TTL_MS\<rparr> (nonceStore S1)\<rparr>)))"

text \<open>\<open>verify address nonce signature\<close> is the SDK's check; an exception counts as a failure. \<open>sign\<close> issues the
  token for an address.\<close>

definition verify_route ::
  "limiter_config \<Rightarrow> (string \<Rightarrow> bool) \<Rightarrow> (string \<Rightarrow> string \<Rightarrow> string \<Rightarrow> js_error + bool) \<Rightarrow> (string \<Rightarrow> string) \<Rightarrow>
    int \<Rightarrow> int \<Rightarrow> auth_request \<Rightarrow> auth_server \<Rightarrow> auth_answer \<times> auth_server" where
  "verify_route cfg isHexadecimal verify sign now0 now rq S =
     (case authRateLimiter cfg now0 (request_id rq) (limiter S) of
        (TooMany r, l) \<Rightarrow> (RateLimited r, S\<lparr>limiter := l\<rparr>)
      | (Admit _, l) \<Rightarrow>
          (let S1 = S\<lparr>limiter := l\<rparr>; a = rq_address rq;
               failed = S1\<lparr>limiter := applyAuthFailure now (request_id rq) l\<rparr>
           in
           if \<not> is_G_address a \<or> \<not> isHexadecimal (rq_signature rq) then (Invalid, S1)
           else
             (case jsget (nonceStore S1) a of
                None \<Rightarrow> (NonceExpired, failed\<lparr>nonceStore := jsdel a (nonceStore S1)\<rparr>)
              | Some e \<Rightarrow>
                  if expiresAt e < now then (NonceExpired, failed\<lparr>nonceStore := jsdel a (nonceStore S1)\<rparr>)
                  else
                    (case verify a (nonce e) (rq_signature rq) of
                       Inr True \<Rightarrow>
                         (Token (sign a), \<lparr>limiter = resetAuthFailure (request_id rq) l,
                            nonceStore = jsdel a (nonceStore S1)\<rparr>)
                     | _ \<Rightarrow> (BadSignature, failed)))))"

section \<open>Histories of the failure counter\<close>

datatype limiter_event = Attempt int string | Failed int string | Cleared string

fun limiter_step :: "limiter_event \<Rightarrow> limiter_state \<Rightarrow> limiter_state" where
  "limiter_step (Attempt now i) st = snd (authRateLimiter DEFAULTS now i st)"
| "limiter_step (Failed now i) st = applyAuthFailure now i st"
| "limiter_step (Cleared i) st = resetAuthFailure i st"

text \<open>The failures of an identifier since it was last cleared.\<close>

fun failures_since :: "string \<Rightarrow> limiter_event list \<Rightarrow> int" where
  "failures_since i [] = 0"
| "failures_since i (e # es) =
     (case e of
        Attempt _ _ \<Rightarrow> failures_since i es
      | Failed _ j \<Rightarrow> if j = i then failures_since i es + 1 else failures_since i es
      | Cleared j \<Rightarrow> if j = i then 0 else failures_since i es)"

text \<open>The events of a history, the latest first, applied to the empty state.\<close>

definition limiter_run :: "limiter_event list \<Rightarrow> limiter_state" where
  "limiter_run es = foldr limiter_step es empty_limiter"

definition limiter_ok :: "limiter_state \<Rightarrow> bool" where
  "limiter_ok st = (\<forall>i. jsget (lockouts st) i \<noteq> None \<longrightarrow> 5 \<le> fe_count (getFailureEntry st i))"

lemma attempt_failures [simp]: "failures (snd (authRateLimiter cfg now i st)) = failures st"
  by (auto simp: authRateLimiter_def Let_def split: option.split)

lemma failure_entry_cong: "failures st = failures st' \<Longrightarrow> getFailureEntry st i = getFailureEntry st' i"
  by (simp add: getFailureEntry_def)

lemma attempt_lockouts:
  "jsget (lockouts (snd (authRateLimiter DEFAULTS now i st))) j \<noteq> None \<Longrightarrow>
    jsget (lockouts st) j \<noteq> None \<or> j = i \<and> 5 \<le> fe_count (getFailureEntry st i)"
  by (auto simp: authRateLimiter_def Let_def DEFAULTS_def getFailureEntry_def split: option.splits if_splits)

lemma attempt_ok: "limiter_ok st \<Longrightarrow> limiter_ok (snd (authRateLimiter DEFAULTS now i st))"
  using attempt_lockouts failure_entry_cong[OF attempt_failures] unfolding limiter_ok_def by metis

lemma applyAuthFailure_count:
  "fe_count (getFailureEntry (applyAuthFailure now i st) j) =
    fe_count (getFailureEntry st j) + (if j = i then 1 else 0)"
  by (auto simp: applyAuthFailure_def recordFailure_def Let_def getFailureEntry_def)

lemma applyAuthFailure_lockouts:
  "jsget (lockouts (applyAuthFailure now i st)) j \<noteq> None \<Longrightarrow>
    jsget (lockouts st) j \<noteq> None \<or> j = i \<and> 5 \<le> fe_count (getFailureEntry st i) + 1"
  by (auto simp: applyAuthFailure_def recordFailure_def Let_def DEFAULTS_def split: if_splits)

lemma applyAuthFailure_ok: "limiter_ok st \<Longrightarrow> limiter_ok (applyAuthFailure now i st)"
  unfolding limiter_ok_def applyAuthFailure_count using applyAuthFailure_lockouts by fastforce

lemma reset_entry: "i \<noteq> '''' \<Longrightarrow> getFailureEntry (resetAuthFailure i st) j =
    (if j = i then \<lparr>fe_count = 0, lastFailureAt = 0\<rparr> else getFailureEntry st j)"
  by (simp add: resetAuthFailure_def resetAuthRateLimit_def getFailureEntry_def)

lemma reset_ok: "i \<noteq> '''' \<Longrightarrow> limiter_ok st \<Longrightarrow> limiter_ok (resetAuthFailure i st)"
  by (auto simp: limiter_ok_def reset_entry) (simp_all add: resetAuthFailure_def resetAuthRateLimit_def split: if_splits)

definition event_ids_ok :: "limiter_event list \<Rightarrow> bool" where
  "event_ids_ok es = list_all (\<lambda>e. case e of Cleared i \<Rightarrow> i \<noteq> '''' | _ \<Rightarrow> True) es"

lemma limiter_run_invariant:
  "event_ids_ok es \<Longrightarrow> limiter_ok (limiter_run es) \<and>
    (\<forall>i. fe_count (getFailureEntry (limiter_run es) i) = failures_since i es)"
proof (induction es)
  case Nil
  then show ?case by (simp add: limiter_run_def limiter_ok_def empty_limiter_def getFailureEntry_def)
next
  case (Cons e es)
  then have IH: "limiter_ok (limiter_run es)"
    "\<And>i. fe_count (getFailureEntry (limiter_run es) i) = failures_since i es"
    by (auto simp: event_ids_ok_def)
  have run: "limiter_run (x # es) = limiter_step x (limiter_run es)" for x by (simp add: limiter_run_def)
  show ?case
  proof (cases e)
    case (Attempt now i)
    then show ?thesis
      using attempt_ok[OF IH(1)] failure_entry_cong[OF attempt_failures[of DEFAULTS now i "limiter_run es"]] IH(2)
      by (simp add: run)
  next
    case (Failed now i)
    then show ?thesis using applyAuthFailure_ok[OF IH(1)] IH(2) by (simp add: run applyAuthFailure_count)
  next
    case (Cleared i)
    then have "i \<noteq> ''''" using Cons.prems by (simp add: event_ids_ok_def)
    then show ?thesis using Cleared reset_ok[OF _ IH(1)] IH(2) by (simp add: run reset_entry)
  qed
qed

lemma admits_iff:
  assumes "limiter_ok st"
  shows "(\<exists>d. fst (authRateLimiter DEFAULTS now i st) = Admit d) = (fe_count (getFailureEntry st i) < 5)"
proof -
  have e: "getFailureEntry (st\<lparr>lockouts := l\<rparr>) i = getFailureEntry st i" for l by (simp add: getFailureEntry_def)
  show ?thesis
  proof (cases "jsget (lockouts st) i")
    case None
    then show ?thesis by (auto simp: authRateLimiter_def DEFAULTS_def)
  next
    case (Some ex)
    then have "5 \<le> fe_count (getFailureEntry st i)" using assms by (auto simp: limiter_ok_def)
    with Some show ?thesis by (auto simp: authRateLimiter_def DEFAULTS_def e Let_def)
  qed
qed
section \<open>Properties\<close>

text \<open>C29: With the default limits, after any history of attempts, failures and clearings, a login attempt
  is let through exactly if the identifier has fewer than five failures since it was last cleared. So
  guessing is stopped after five failures; and since failures do not age, the lockout does not end
  after its fifteen minutes but only when someone clears the identifier.\<close>

theorem limiter_admits_below_five:
  assumes "event_ids_ok es"
  shows "(\<exists>d. fst (authRateLimiter DEFAULTS now i (limiter_run es)) = Admit d) = (failures_since i es < 5)"
  using admits_iff[of "limiter_run es" now i] limiter_run_invariant[OF assms] by simp

theorem limiter_admits_below_five_witness:
  "event_ids_ok (replicate 5 (Failed 0 ''ip:G'')) \<and>
   \<not> (\<exists>d. fst (authRateLimiter DEFAULTS (10 ^ 12) ''ip:G'' (limiter_run (replicate 5 (Failed 0 ''ip:G'')))) = Admit d)"
proof -
  let ?es = "replicate 5 (Failed 0 ''ip:G'')"
  have ok: "event_ids_ok ?es" by (simp add: event_ids_ok_def list_all_iff)
  have "failures_since ''ip:G'' ?es = 5" by (simp add: numeral_eq_Suc)
  then show ?thesis using limiter_admits_below_five[OF ok, of "10 ^ 12" "''ip:G''"] ok by simp
qed

text \<open>C27: A token is issued only for a challenge that was stored for the address, is not expired and
  whose nonce the signature verifies; the nonce is used up by it, so that no further token can be had for
  that address, with any signature and at any time, before a new challenge is requested.\<close>

theorem token_needs_fresh_challenge:
  assumes "verify_route cfg isHexadecimal verify sign now0 now rq S = (Token t, S')"
  shows "t = sign (rq_address rq) \<and>
    (\<exists>e. jsget (nonceStore S) (rq_address rq) = Some e \<and> now \<le> expiresAt e \<and>
      verify (rq_address rq) (nonce e) (rq_signature rq) = Inr True) \<and>
    (\<forall>now0' now' rq'. rq_address rq' = rq_address rq \<longrightarrow>
      \<not> (\<exists>t' S''. verify_route cfg isHexadecimal verify sign now0' now' rq' S' = (Token t', S'')))"
proof -
  have eff: "t = sign (rq_address rq)" "jsget (nonceStore S') (rq_address rq) = None"
    "\<exists>e. jsget (nonceStore S) (rq_address rq) = Some e \<and> now \<le> expiresAt e \<and>
      verify (rq_address rq) (nonce e) (rq_signature rq) = Inr True"
    using assms
    by (auto simp: verify_route_def Let_def split: prod.splits limiter_answer.splits if_splits option.splits
      sum.splits bool.splits)
  have none: "\<not> (\<exists>t' S''. verify_route cfg isHexadecimal verify sign now0' now' rq' S' = (Token t', S''))"
    if "rq_address rq' = rq_address rq" for now0' now' rq'
    using eff(2) that
    by (auto simp: verify_route_def Let_def split: prod.splits limiter_answer.splits if_splits)
  show ?thesis using eff(1,3) none by blast
qed

definition example_address :: string where
  "example_address = CHR ''G'' # replicate 55 (CHR ''A'')"

definition example_server :: auth_server where
  "example_server = \<lparr>limiter = empty_limiter,
     nonceStore = [(example_address, \<lparr>nonce = ''ab12'', expiresAt = 300000\<rparr>)]\<rparr>"

theorem token_needs_fresh_challenge_witness:
  "\<exists>S'. verify_route DEFAULTS (\<lambda>s. s = ''c0ffee'') (\<lambda>a n s. Inr (s = ''c0ffee'')) (\<lambda>a. ''jwt'') 1000 1500
      \<lparr>rq_ip = ''1.2.3.4'', rq_address = example_address, rq_signature = ''c0ffee''\<rparr> example_server = (Token ''jwt'', S')
    \<and> \<not> (\<exists>t' S''. verify_route DEFAULTS (\<lambda>s. s = ''c0ffee'') (\<lambda>a n s. Inr (s = ''c0ffee'')) (\<lambda>a. ''jwt'') 1501 2001
      \<lparr>rq_ip = ''1.2.3.4'', rq_address = example_address, rq_signature = ''c0ffee''\<rparr> S' = (Token t', S''))"
proof -
  let ?rq = "\<lparr>rq_ip = ''1.2.3.4'', rq_address = example_address, rq_signature = ''c0ffee''\<rparr>"
  let ?v = "\<lambda>(a :: string) (n :: string) (s :: string). (Inr (s = ''c0ffee'') :: js_error + bool)"
  have addr: "is_G_address example_address"
    by (simp add: is_G_address_def example_address_def is_upper_alnum_def list_all_iff)
  have run: "\<exists>S'. verify_route DEFAULTS (\<lambda>s. s = ''c0ffee'') ?v (\<lambda>a. ''jwt'') 1000 1500 ?rq example_server = (Token ''jwt'', S')"
    using addr
    by (simp add: verify_route_def example_server_def authRateLimiter_def empty_limiter_def getFailureEntry_def
      DEFAULTS_def Let_def)
  then obtain S' where S': "verify_route DEFAULTS (\<lambda>s. s = ''c0ffee'') ?v (\<lambda>a. ''jwt'') 1000 1500 ?rq example_server = (Token ''jwt'', S')" ..
  show ?thesis using token_needs_fresh_challenge[OF S'] S' by auto
qed

end
