(* ===== verification/Api_Services.thy ===== *)
theory Api_Services
  imports Js_Value
begin

text \<open>
  Services of the API server: API keys (\<^verbatim>\<open>api/services/apiKeyService.js\<close>), idempotent writes
  (\<^verbatim>\<open>api/middleware/idempotency.js\<close>, with the table of
  \<^verbatim>\<open>services/indexer/src/migrate.js\<close>) and approvals
  (\<^verbatim>\<open>api/services/streamWorkflowService.js\<close>). SHA-256, random bytes and identifiers are
  parameters; \<open>stamp\<close> stands for \<^verbatim>\<open>new Date().toISOString()\<close>.
\<close>

section \<open>API keys\<close>

definition KEY_PREFIX :: string where "KEY_PREFIX = ''psk_''"

record rate_limit =
  windowMs :: int
  rl_max :: int

definition DEFAULT_RATE_LIMIT :: rate_limit where
  "DEFAULT_RATE_LIMIT = \<lparr>windowMs = 900000, rl_max = 1000\<rparr>"

text \<open>What a listing shows of a key, and the stored metadata, which adds the hash.\<close>

record key_info =
  k_id :: string
  k_name :: string
  k_ownerId :: string
  k_rateLimit :: rate_limit
  k_revoked :: bool
  k_createdAt :: string
  k_lastUsedAt :: "string option"
  k_rotatedFrom :: "string option"
  k_revokedAt :: "string option"

record key_meta = key_info +
  k_hash :: string

record key_usage =
  us_count :: int
  us_windowStart :: int

record key_store =
  keys :: "(string, key_meta) jsmap"
  usage :: "(string, key_usage) jsmap"

definition generateRawKey :: "string \<Rightarrow> string" where
  "generateRawKey random_hex = KEY_PREFIX @ random_hex"

definition new_meta :: "string \<Rightarrow> string \<Rightarrow> string \<Rightarrow> string \<Rightarrow> rate_limit \<Rightarrow> string \<Rightarrow> string option \<Rightarrow> key_meta" where
  "new_meta i name owner hash rl stamp from =
     \<lparr>k_id = i, k_name = name, k_ownerId = owner, k_rateLimit = rl, k_revoked = False,
      k_createdAt = stamp, k_lastUsedAt = None, k_rotatedFrom = from, k_revokedAt = None, k_hash = hash\<rparr>"

definition createKey ::
  "(string \<Rightarrow> string) \<Rightarrow> string \<Rightarrow> string \<Rightarrow> string \<Rightarrow> string \<Rightarrow> string \<Rightarrow> rate_limit option \<Rightarrow> key_store \<Rightarrow>
    (string \<times> string \<times> string) \<times> key_store" where
  "createKey hashKey random_hex uuid stamp name owner rl K =
     (let raw = generateRawKey random_hex; hash = hashKey raw;
          m = new_meta uuid name owner hash (case rl of Some l \<Rightarrow> l | None \<Rightarrow> DEFAULT_RATE_LIMIT) stamp None
      in ((raw, uuid, stamp), K\<lparr>keys := jsset hash m (keys K)\<rparr>))"

definition validateKey ::
  "(string \<Rightarrow> string) \<Rightarrow> string \<Rightarrow> string \<Rightarrow> key_store \<Rightarrow> key_meta option \<times> key_store" where
  "validateKey hashKey stamp raw K =
     (if raw = '''' \<or> \<not> starts_with KEY_PREFIX raw then (None, K)
      else (case jsget (keys K) (hashKey raw) of
              None \<Rightarrow> (None, K)
            | Some m \<Rightarrow>
                if k_revoked m then (None, K)
                else (let m' = m\<lparr>k_lastUsedAt := Some stamp\<rparr> in (Some m', K\<lparr>keys := jsset (hashKey raw) m' (keys K)\<rparr>))))"

definition checkRateLimit :: "int \<Rightarrow> string \<Rightarrow> key_store \<Rightarrow> bool \<times> key_store" where
  "checkRateLimit now hash K =
     (case jsget (keys K) hash of
        None \<Rightarrow> (False, K)
      | Some m \<Rightarrow>
          (let u = (case jsget (usage K) hash of
                 None \<Rightarrow> \<lparr>us_count = 0, us_windowStart = now\<rparr>
               | Some u0 \<Rightarrow> if windowMs (k_rateLimit m) < now - us_windowStart u0
                            then \<lparr>us_count = 0, us_windowStart = now\<rparr> else u0);
               u' = u\<lparr>us_count := us_count u + 1\<rparr>
           in (us_count u' \<le> rl_max (k_rateLimit m), K\<lparr>usage := jsset hash u' (usage K)\<rparr>)))"

definition rotateKey ::
  "(string \<Rightarrow> string) \<Rightarrow> string \<Rightarrow> string \<Rightarrow> string \<Rightarrow> string \<Rightarrow> key_store \<Rightarrow> (js_error + string \<times> string) \<times> key_store" where
  "rotateKey hashKey random_hex uuid stamp rawOldKey K =
     (case jsget (keys K) (hashKey rawOldKey) of
        None \<Rightarrow> (Inl (Error ''Key not found or already revoked''), K)
      | Some m \<Rightarrow>
          if k_revoked m then (Inl (Error ''Key not found or already revoked''), K)
          else
            (let m' = m\<lparr>k_revoked := True, k_revokedAt := Some stamp\<rparr>;
                 raw = generateRawKey random_hex; newHash = hashKey raw;
                 n = new_meta uuid (k_name m) (k_ownerId m) newHash (k_rateLimit m) stamp (Some (k_id m))
             in (Inr (raw, uuid), K\<lparr>keys := jsset newHash n (jsset (hashKey rawOldKey) m' (keys K))\<rparr>)))"

text \<open>Revoke the first key with the identifier, in the map's order.\<close>

fun revoke_first :: "string \<Rightarrow> string \<Rightarrow> (string, key_meta) jsmap \<Rightarrow> bool \<times> (string, key_meta) jsmap" where
  "revoke_first i stamp [] = (False, [])"
| "revoke_first i stamp ((h, m) # ks) =
     (if k_id m = i then (True, (h, m\<lparr>k_revoked := True, k_revokedAt := Some stamp\<rparr>) # ks)
      else (case revoke_first i stamp ks of (b, ks') \<Rightarrow> (b, (h, m) # ks')))"

definition revokeById :: "string \<Rightarrow> string \<Rightarrow> key_store \<Rightarrow> bool \<times> key_store" where
  "revokeById i stamp K = (case revoke_first i stamp (keys K) of (b, ks) \<Rightarrow> (b, K\<lparr>keys := ks\<rparr>))"

text \<open>The listing leaves out the hash.\<close>

definition listKeys :: "string \<Rightarrow> key_store \<Rightarrow> key_info list" where
  "listKeys owner K = map (\<lambda>(h, m). key_info.truncate m) (filter (\<lambda>(h, m). k_ownerId m = owner) (keys K))"

definition getUsage :: "string \<Rightarrow> key_store \<Rightarrow> (string \<times> int \<times> int option \<times> string option) option" where
  "getUsage i K =
     (case find (\<lambda>(h, m). k_id m = i) (keys K) of
        None \<Rightarrow> None
      | Some (h, m) \<Rightarrow>
          (case jsget (usage K) h of
             None \<Rightarrow> Some (i, 0, None, k_lastUsedAt m)
           | Some u \<Rightarrow> Some (i, us_count u, Some (us_windowStart u), k_lastUsedAt m)))"

lemma starts_with_append [simp]: "starts_with p (p @ s)"
  by (simp add: starts_with_def)

lemma validateKey_Some:
  "fst (validateKey hashKey stamp raw K) = Some m \<longleftrightarrow>
    raw \<noteq> '''' \<and> starts_with KEY_PREFIX raw \<and>
    (\<exists>m0. jsget (keys K) (hashKey raw) = Some m0 \<and> \<not> k_revoked m0 \<and> m = m0\<lparr>k_lastUsedAt := Some stamp\<rparr>)"
  by (auto simp: validateKey_def Let_def split: option.splits if_splits)

text \<open>Within one window the \<open>n\<close>-th call of a key is allowed exactly up to the limit.\<close>

fun rate_calls :: "int list \<Rightarrow> string \<Rightarrow> key_store \<Rightarrow> bool list" where
  "rate_calls [] h K = []"
| "rate_calls (t # ts) h K = (case checkRateLimit t h K of (b, K') \<Rightarrow> b # rate_calls ts h K')"

lemma rate_calls_window:
  assumes "jsget (keys K) h = Some m" "jsget (usage K) h = Some u"
    and "list_all (\<lambda>t. t - us_windowStart u \<le> windowMs (k_rateLimit m)) ts"
  shows "rate_calls ts h K = map (\<lambda>j. us_count u + int j + 1 \<le> rl_max (k_rateLimit m)) [0..<length ts]"
  using assms
proof (induction ts arbitrary: K u)
  case Nil
  then show ?case by simp
next
  case (Cons t ts)
  let ?u = "u\<lparr>us_count := us_count u + 1\<rparr>" and ?K = "K\<lparr>usage := jsset h (u\<lparr>us_count := us_count u + 1\<rparr>) (usage K)\<rparr>"
  have step: "checkRateLimit t h K = (us_count u + 1 \<le> rl_max (k_rateLimit m), ?K)"
    using Cons.prems by (simp add: checkRateLimit_def Let_def)
  have "rate_calls ts h ?K = map (\<lambda>j. us_count ?u + int j + 1 \<le> rl_max (k_rateLimit m)) [0..<length ts]"
    using Cons.prems by (intro Cons.IH) simp_all
  moreover have "[0..<length (t # ts)] = 0 # map Suc [0..<length ts]" by (simp only: list.size add_Suc_right add_0_right upt_Suc_map)
  ultimately show ?case by (simp add: step algebra_simps)
qed

section \<open>Idempotent writes\<close>

record idem_row =
  request_body :: jsval
  response_status :: int
  response_body :: jsval

type_synonym idem_table = "(string \<times> string, idem_row) jsmap"

record idem_request =
  iq_key :: "string option"
  iq_method :: string
  iq_address :: "string option"
  iq_body :: jsval

datatype idem_answer = Plain int jsval | Replayed int jsval | Mismatch

definition hashBody :: "(jsval \<Rightarrow> string) \<Rightarrow> jsval \<Rightarrow> string" where
  "hashBody sha body = sha (if truthy body then body else JObj [])"

definition write_method :: "string \<Rightarrow> bool" where
  "write_method m = (m \<in> {''POST'', ''PUT'', ''PATCH'', ''DELETE''})"

definition idem_target :: "idem_request \<Rightarrow> (string \<times> string) option" where
  "idem_target rq =
     (case (iq_key rq, iq_address rq) of
        (Some k, Some a) \<Rightarrow> if k = '''' \<or> a = '''' \<or> \<not> write_method (iq_method rq) then None else Some (k, a)
      | _ \<Rightarrow> None)"

text \<open>The lookup: \<open>None\<close> means the request goes on to its handler.\<close>

definition idem_lookup ::
  "(jsval \<Rightarrow> string) \<Rightarrow> idem_table \<Rightarrow> string \<times> string \<Rightarrow> jsval \<Rightarrow> idem_answer option" where
  "idem_lookup sha tbl ka body =
     (case jsget tbl ka of
        None \<Rightarrow> None
      | Some row \<Rightarrow>
          if hashBody sha body \<noteq> hashBody sha (request_body row) then Some Mismatch
          else Some (Replayed (response_status row) (response_body row)))"

text \<open>\<^verbatim>\<open>INSERT ... ON CONFLICT DO NOTHING\<close> into columns of type \<^verbatim>\<open>JSONB\<close>: \<open>jsonb\<close> is what
  the database makes of a value.\<close>

definition idem_insert :: "(jsval \<Rightarrow> jsval) \<Rightarrow> string \<times> string \<Rightarrow> jsval \<Rightarrow> int \<Rightarrow> jsval \<Rightarrow> idem_table \<Rightarrow> idem_table" where
  "idem_insert jsonb ka rq_body s d tbl =
     (if jsget tbl ka = None
      then jsset ka \<lparr>request_body = jsonb rq_body, response_status = s, response_body = jsonb d\<rparr> tbl
      else tbl)"

text \<open>
  The middleware around a handler that answers with a status and a body. \<open>pool\<close> says whether there is
  a database, \<open>down\<close> whether its query fails.
\<close>

definition idempotencyMiddleware ::
  "(jsval \<Rightarrow> string) \<Rightarrow> (jsval \<Rightarrow> jsval) \<Rightarrow> bool \<Rightarrow> bool \<Rightarrow>
    (idem_request \<Rightarrow> 'w \<Rightarrow> (int \<times> jsval) \<times> 'w) \<Rightarrow> idem_request \<Rightarrow> idem_table \<times> 'w \<Rightarrow> idem_answer \<times> (idem_table \<times> 'w)" where
  "idempotencyMiddleware sha jsonb pool down handler rq st =
     (case st of (tbl, w) \<Rightarrow>
        (case idem_target rq of
           None \<Rightarrow> (case handler rq w of ((s, d), w') \<Rightarrow> (Plain s d, (tbl, w')))
         | Some ka \<Rightarrow>
             if pool \<and> down then (case handler rq w of ((s, d), w') \<Rightarrow> (Plain s d, (tbl, w')))
             else
               (case (if pool then idem_lookup sha tbl ka (iq_body rq) else None) of
                  Some a \<Rightarrow> (a, (tbl, w))
                | None \<Rightarrow>
                    (case handler rq w of ((s, d), w') \<Rightarrow>
                       (Plain s d,
                        (if pool \<and> s < 500 then idem_insert jsonb ka (iq_body rq) s d tbl else tbl, w'))))))"

section \<open>Approvals\<close>

datatype approval_status = Pending | Approved | Rejected | Overridden

datatype audit_action = Requested | ApprovedBy | RejectedBy | OverriddenBy

record audit_entry =
  au_actor :: string
  au_action :: audit_action
  au_timestamp :: string
  au_note :: string

record approval_metadata =
  md_deadline :: "string option"
  md_note :: "string option"

record notification =
  nt_approver :: string
  nt_channel :: string
  nt_sentAt :: string

record approval_request =
  ap_id :: string
  ap_title :: string
  ap_requestedBy :: string
  ap_approvers :: "string list"
  ap_requiredApprovals :: int
  ap_status :: approval_status
  ap_deadline :: string
  auditTrail :: "audit_entry list"
  notifications :: "notification list"
  ap_metadata :: approval_metadata
  decisions :: "(string \<times> string) list"
  rejectionReason :: "string option"
  overrideReason :: "string option"
  overrideBy :: "string option"

type_synonym requests = "(string, approval_request) jsmap"

definition audit :: "string \<Rightarrow> audit_action \<Rightarrow> string \<Rightarrow> string \<Rightarrow> audit_entry" where
  "audit actor act stamp note = \<lparr>au_actor = actor, au_action = act, au_timestamp = stamp, au_note = note\<rparr>"

definition or_text :: "string option \<Rightarrow> string \<Rightarrow> string" where
  "or_text t d = (case t of Some s \<Rightarrow> if s = '''' then d else s | None \<Rightarrow> d)"

text \<open>\<open>ms\<close> is \<^verbatim>\<open>Date.now()\<close>, \<open>stamp\<close> and \<open>tomorrow\<close> are ISO strings of now and of one day later.\<close>

definition createApprovalRequest ::
  "int \<Rightarrow> string \<Rightarrow> string \<Rightarrow> string option \<Rightarrow> string \<Rightarrow> string list \<Rightarrow> int \<Rightarrow> approval_metadata \<Rightarrow>
    requests \<Rightarrow> approval_request \<times> requests" where
  "createApprovalRequest ms stamp tomorrow title requestedBy approvers required md R =
     (let r = \<lparr>ap_id = ''approval-'' @ show_int ms, ap_title = or_text title ''Pending approval'',
          ap_requestedBy = requestedBy, ap_approvers = approvers, ap_requiredApprovals = required,
          ap_status = Pending, ap_deadline = or_text (md_deadline md) tomorrow,
          auditTrail = [audit requestedBy Requested stamp (or_text (md_note md) ''Approval requested'')],
          notifications = map (\<lambda>p. \<lparr>nt_approver = p, nt_channel = ''email'', nt_sentAt = stamp\<rparr>) approvers,
          ap_metadata = md, decisions = [], rejectionReason = None, overrideReason = None,
          overrideBy = None\<rparr>
      in (r, jsset (ap_id r) r R))"

definition approvals :: "approval_request \<Rightarrow> int" where
  "approvals r = int (length (filter (\<lambda>e. au_action e = ApprovedBy) (auditTrail r)))"

definition not_found :: js_error where "not_found = Error ''Approval request not found''"

definition approve_one :: "string \<Rightarrow> string \<Rightarrow> string \<Rightarrow> approval_request \<Rightarrow> approval_request" where
  "approve_one approver stamp note r =
     (if ap_status r \<noteq> Pending then r
      else (let r1 = r\<lparr>auditTrail := auditTrail r @ [audit approver ApprovedBy stamp note],
                       decisions := decisions r @ [(approver, note)]\<rparr>
            in if ap_requiredApprovals r1 \<le> approvals r1 then r1\<lparr>ap_status := Approved\<rparr> else r1))"

definition reject_one :: "string \<Rightarrow> string \<Rightarrow> string \<Rightarrow> approval_request \<Rightarrow> approval_request" where
  "reject_one approver stamp reason r =
     (if ap_status r \<noteq> Pending then r
      else r\<lparr>auditTrail := auditTrail r @ [audit approver RejectedBy stamp reason],
             rejectionReason := Some reason, ap_status := Rejected\<rparr>)"

definition override_one :: "string \<Rightarrow> string \<Rightarrow> string \<Rightarrow> approval_request \<Rightarrow> approval_request" where
  "override_one actor stamp reason r =
     r\<lparr>auditTrail := auditTrail r @ [audit actor OverriddenBy stamp reason],
       overrideReason := Some reason, overrideBy := Some actor, ap_status := Overridden\<rparr>"

definition on_request ::
  "(approval_request \<Rightarrow> approval_request) \<Rightarrow> string \<Rightarrow> requests \<Rightarrow> (js_error + approval_request) \<times> requests" where
  "on_request f i R =
     (case jsget R i of None \<Rightarrow> (Inl not_found, R) | Some r \<Rightarrow> (Inr (f r), jsset i (f r) R))"

definition approveApprovalRequest where
  "approveApprovalRequest i approver stamp note R = on_request (approve_one approver stamp note) i R"

definition rejectApprovalRequest where
  "rejectApprovalRequest i approver stamp reason R = on_request (reject_one approver stamp reason) i R"

definition overrideApprovalRequest where
  "overrideApprovalRequest i actor stamp reason R = on_request (override_one actor stamp reason) i R"
end
