(* ===== verification/Api_Services_Props.thy ===== *)
theory Api_Services_Props
  imports Api_Services "HOL-Library.Sublist"
begin

text \<open>
  Properties of the API services: the life of a rotated key, the replay of an idempotent write, and
  the life of an approval request.
\<close>

section \<open>API keys\<close>

lemma generateRawKey_shape [simp]: "generateRawKey r \<noteq> ''''" "starts_with KEY_PREFIX (generateRawKey r)"
  by (simp_all add: generateRawKey_def KEY_PREFIX_def starts_with_def)

lemma validateKey_fst:
  "fst (validateKey hashKey stamp raw K) =
    (if raw = '''' \<or> \<not> starts_with KEY_PREFIX raw then None
     else (case jsget (keys K) (hashKey raw) of
        None \<Rightarrow> None | Some m \<Rightarrow> if k_revoked m then None else Some (m\<lparr>k_lastUsedAt := Some stamp\<rparr>)))"
  by (simp add: validateKey_def Let_def split: option.split)

lemma createKey_valid:
  "createKey hashKey fresh uuid stamp name owner rl K = ((raw, i, t), K') \<Longrightarrow>
    \<exists>m. fst (validateKey hashKey stamp' raw K') = Some m \<and> k_ownerId m = owner \<and> k_id m = i"
  by (auto simp: createKey_def Let_def validateKey_fst new_meta_def)

text \<open>
  Rotating a live key answers with a fresh key. From then on the old key is refused and cannot be
  rotated again, the new key is accepted with the name, owner and rate limit of the old one and a link
  to it, and every key with another hash is judged as before. (The hash of the fresh key differs from
  that of the old one.)
\<close>

theorem rotation_replaces_key:
  assumes "jsget (keys K) (hashKey old) = Some m" and "\<not> k_revoked m"
    and "hashKey (generateRawKey fresh) \<noteq> hashKey old"
    and "rotateKey hashKey fresh uuid stamp old K = (res, K')"
  shows "res = Inr (generateRawKey fresh, uuid) \<and>
    fst (validateKey hashKey t old K') = None \<and>
    fst (rotateKey hashKey fresh2 uuid' t old K') = Inl (Error ''Key not found or already revoked'') \<and>
    (\<exists>n. fst (validateKey hashKey t (generateRawKey fresh) K') = Some n \<and> k_name n = k_name m \<and>
       k_ownerId n = k_ownerId m \<and> k_rateLimit n = k_rateLimit m \<and> k_rotatedFrom n = Some (k_id m)) \<and>
    (\<forall>raw. hashKey raw \<noteq> hashKey old \<and> hashKey raw \<noteq> hashKey (generateRawKey fresh) \<longrightarrow>
       fst (validateKey hashKey t raw K') = fst (validateKey hashKey t raw K))"
proof -
  have K': "keys K' = jsset (hashKey (generateRawKey fresh))
      (new_meta uuid (k_name m) (k_ownerId m) (hashKey (generateRawKey fresh)) (k_rateLimit m) stamp (Some (k_id m)))
      (jsset (hashKey old) (m\<lparr>k_revoked := True, k_revokedAt := Some stamp\<rparr>) (keys K))"
    and res: "res = Inr (generateRawKey fresh, uuid)"
    using assms by (auto simp: rotateKey_def Let_def)
  have "fst (rotateKey hashKey fresh2 uuid' t old K') = Inl (Error ''Key not found or already revoked'')"
    using assms(3) by (simp add: rotateKey_def K')
  then show ?thesis using assms(3) by (simp add: res validateKey_fst K' new_meta_def)
qed

definition example_keys :: key_store where
  "example_keys = snd (createKey rev ''01'' ''u1'' ''t0'' ''ci'' ''alice'' None \<lparr>keys = [], usage = []\<rparr>)"

theorem rotation_replaces_key_witness:
  "fst (rotateKey rev ''02'' ''u2'' ''t1'' ''psk_01'' example_keys) = Inr (''psk_02'', ''u2'') \<and>
   fst (validateKey rev ''t2'' ''psk_01'' (snd (rotateKey rev ''02'' ''u2'' ''t1'' ''psk_01'' example_keys))) = None"
proof -
  define m where "m = new_meta ''u1'' ''ci'' ''alice'' (rev ''psk_01'') DEFAULT_RATE_LIMIT ''t0'' None"
  have 1: "jsget (keys example_keys) (rev ''psk_01'') = Some m" "\<not> k_revoked m"
    by (simp_all add: example_keys_def createKey_def Let_def generateRawKey_def KEY_PREFIX_def m_def new_meta_def)
  have 2: "rev (generateRawKey ''02'') \<noteq> rev ''psk_01''" by (simp add: generateRawKey_def KEY_PREFIX_def)
  show ?thesis
    using rotation_replaces_key [OF 1 2 surjective_pairing, of "''u2''" "''t1''" "''t2''" "''03''" "''u3''"]
    by (simp add: generateRawKey_def KEY_PREFIX_def)
qed

section \<open>Idempotent writes\<close>

text \<open>Requests one after the other.\<close>

fun idem_run where
  "idem_run sha jsonb handler [] st = ([], st)"
| "idem_run sha jsonb handler (rq # rqs) st =
     (case idempotencyMiddleware sha jsonb True False handler rq st of (a, st') \<Rightarrow>
       (case idem_run sha jsonb handler rqs st' of (as, st'') \<Rightarrow> (a # as, st'')))"

definition replay :: "(jsval \<Rightarrow> string) \<Rightarrow> idem_row \<Rightarrow> idem_request \<Rightarrow> idem_answer" where
  "replay sha row rq =
     (if hashBody sha (iq_body rq) = hashBody sha (request_body row)
      then Replayed (response_status row) (response_body row) else Mismatch)"

lemma idem_run_cached:
  assumes "jsget tbl ka = Some row" and "list_all (\<lambda>r. idem_target r = Some ka) rqs"
  shows "idem_run sha jsonb handler rqs (tbl, w) = (map (replay sha row) rqs, (tbl, w))"
  using assms(2) by (induction rqs)
    (simp_all add: idempotencyMiddleware_def idem_lookup_def assms(1) replay_def)


definition example_write :: idem_request where
  "example_write = \<lparr>iq_key = Some ''k'', iq_method = ''POST'', iq_address = Some ''GA'', iq_body = JStr ''pay''\<rparr>"


text \<open>
  Two requests that both look the table up before either has stored its answer both reach the handler.
\<close>

lemma idem_race:
  assumes "jsget tbl ka = None"
  shows "idem_lookup sha tbl ka body = None"
    and "idem_insert jsonb ka body s2 d2 (idem_insert jsonb ka body s1 d1 tbl) = idem_insert jsonb ka body s1 d1 tbl"
  using assms by (simp_all add: idem_lookup_def idem_insert_def)

text \<open>
  A \<^verbatim>\<open>JSONB\<close> column does not keep the order of an object's keys, \<^verbatim>\<open>JSON.stringify\<close> does: when the hash
  of the stored body differs from that of the body sent, the identical retry is refused.
\<close>

lemma identical_retry_refused:
  assumes "idem_target rq = Some ka" and "jsget tbl ka = None" and "handler rq w = ((s, d), w')" and "s < 500"
    and "hashBody sha (iq_body rq) \<noteq> hashBody sha (jsonb (iq_body rq))"
  shows "fst (idem_run sha jsonb handler [rq, rq] (tbl, w)) = [Plain s d, Mismatch]"
  using assms by (simp add: idempotencyMiddleware_def idem_lookup_def idem_insert_def)

section \<open>Approvals\<close>

datatype workflow_op =
    Approve string string string string
  | Reject string string string string
  | Override string string string string

primrec op_target :: "workflow_op \<Rightarrow> string" where
  "op_target (Approve i a t n) = i"
| "op_target (Reject i a t n) = i"
| "op_target (Override i a t n) = i"

primrec workflow_step :: "workflow_op \<Rightarrow> requests \<Rightarrow> requests" where
  "workflow_step (Approve i a t n) R = snd (approveApprovalRequest i a t n R)"
| "workflow_step (Reject i a t n) R = snd (rejectApprovalRequest i a t n R)"
| "workflow_step (Override i a t n) R = snd (overrideApprovalRequest i a t n R)"

primrec act :: "workflow_op \<Rightarrow> approval_request \<Rightarrow> approval_request" where
  "act (Approve i a t n) = approve_one a t n"
| "act (Reject i a t n) = reject_one a t n"
| "act (Override i a t n) = override_one a t n"

lemmas workflow_ops = approveApprovalRequest_def rejectApprovalRequest_def overrideApprovalRequest_def

lemma workflow_step_get:
  "jsget (workflow_step p R) i = (if op_target p = i then map_option (act p) (jsget R i) else jsget R i)"
  by (cases p) (simp_all add: workflow_ops on_request_def split: option.split)

lemma workflow_run_get:
  "jsget (fold workflow_step ops R) i = map_option (fold act (filter (\<lambda>p. op_target p = i) ops)) (jsget R i)"
  by (induction ops arbitrary: R) (auto simp: workflow_step_get option.map_comp comp_def option.map_ident id_def)

text \<open>What the audit trail and the status say of each other.\<close>

fun trail_ok :: "approval_request \<Rightarrow> bool" where
  "trail_ok r =
     (let acts = map au_action (auditTrail r) in
      case ap_status r of
        Pending \<Rightarrow> (approvals r = 0 \<or> approvals r < ap_requiredApprovals r) \<and> list_all (\<lambda>x. x = Requested \<or> x = ApprovedBy) acts
      | Approved \<Rightarrow> approvals r = max 1 (ap_requiredApprovals r) \<and> list_all (\<lambda>x. x = Requested \<or> x = ApprovedBy) acts
      | Rejected \<Rightarrow> last acts = RejectedBy \<and> rejectionReason r \<noteq> None \<and>
          (approvals r = 0 \<or> approvals r < ap_requiredApprovals r)
      | Overridden \<Rightarrow> last acts = OverriddenBy \<and> overrideBy r \<noteq> None)"

lemma approvals_snoc [simp]:
  "approvals (r\<lparr>auditTrail := auditTrail r @ [audit a x t n]\<rparr>) = approvals r + (if x = ApprovedBy then 1 else 0)"
  by (simp add: approvals_def audit_def)

lemma approvals_cong: "auditTrail r = auditTrail r' \<Longrightarrow> approvals r = approvals r'"
  by (simp add: approvals_def)

lemma approvals_nonneg: "0 \<le> approvals r"
  by (simp add: approvals_def)

lemma approve_trail: "trail_ok r \<Longrightarrow> trail_ok (approve_one a t n r)"
  using approvals_nonneg [of r] by (auto simp: approve_one_def Let_def approvals_def audit_def)

lemma reject_trail: "trail_ok r \<Longrightarrow> trail_ok (reject_one a t n r)"
  by (auto simp: reject_one_def Let_def approvals_def audit_def)

lemma override_trail: "trail_ok (override_one a t n r)"
  by (simp add: override_one_def audit_def)

lemma act_trail: "trail_ok r \<Longrightarrow> trail_ok (act p r)"
  by (cases p) (simp_all only: act.simps approve_trail reject_trail override_trail)

lemma act_appends: "prefix (auditTrail r) (auditTrail (act p r))"
  by (cases p) (simp_all add: approve_one_def reject_one_def override_one_def Let_def)

lemma act_decided: "ap_status r \<noteq> Pending \<Longrightarrow> (\<forall>i a t n. p \<noteq> Override i a t n) \<Longrightarrow> act p r = r"
  by (cases p) (simp_all add: approve_one_def reject_one_def)

lemma acts_trail: "trail_ok r \<Longrightarrow> trail_ok (fold act ps r)"
  by (induction ps arbitrary: r) (simp_all add: act_trail del: trail_ok.simps)

lemma acts_append: "prefix (auditTrail r) (auditTrail (fold act ps r))"
proof (induction ps arbitrary: r)
  case (Cons p ps)
  show ?case using prefix_order.trans [OF act_appends [of r p] Cons.IH [of "act p r"]] by simp
qed simp

lemma acts_decided:
  "ap_status r \<noteq> Pending \<Longrightarrow> \<forall>i a t n. Override i a t n \<notin> set ps \<Longrightarrow> fold act ps r = r"
proof (induction ps)
  case (Cons p ps)
  then have "act p r = r" by (intro act_decided) auto
  with Cons show ?case by simp
qed simp

lemma created_trail: "trail_ok (fst (createApprovalRequest ms st tm ti rb aps rq md R))"
  by (simp add: createApprovalRequest_def Let_def approvals_def audit_def)

lemma created_get:
  "createApprovalRequest ms st tm ti rb aps rq md R = (r0, R0) \<Longrightarrow> jsget R0 (ap_id r0) = Some r0"
  by (auto simp: createApprovalRequest_def Let_def)

text \<open>
  C33: After any sequence of approvals, rejections and overrides a request that was created is still
  there, its audit trail only ever grew, and trail and status agree: approved means exactly the
  required number of approvals (at least one) and nothing else on the trail, pending means too few of
  them, rejected and overridden end with that entry. Once decided it is changed by overrides only.
\<close>

theorem approval_lifecycle:
  assumes "createApprovalRequest ms stamp tomorrow title who approvers required md R = (r0, R0)"
  shows "\<exists>r. jsget (fold workflow_step ops R0) (ap_id r0) = Some r \<and>
    prefix (auditTrail r0) (auditTrail r) \<and> trail_ok r \<and>
    (ap_status r \<noteq> Pending \<longrightarrow> (\<forall>i a t n. Override i a t n \<notin> set later) \<longrightarrow>
       jsget (fold workflow_step later (fold workflow_step ops R0)) (ap_id r0) = Some r)"
proof -
  let ?r = "fold act (filter (\<lambda>p. op_target p = ap_id r0) ops) r0"
  have "jsget (fold workflow_step ops R0) (ap_id r0) = Some ?r"
    using created_get [OF assms] by (simp add: workflow_run_get)
  moreover have "trail_ok r0" using created_trail [of ms stamp tomorrow title who approvers required md R] assms by simp
  ultimately show ?thesis
    using acts_append [of r0] acts_trail [of r0] acts_decided [of ?r "filter (\<lambda>p. op_target p = ap_id r0) later"]
    by (auto simp: workflow_run_get simp del: trail_ok.simps)
qed

definition example_request :: "approval_request \<times> requests" where
  "example_request =
     createApprovalRequest 7 ''t0'' ''t1'' None ''alice'' [''bob'', ''carol''] 2 \<lparr>md_deadline = None, md_note = None\<rparr> []"

theorem approval_lifecycle_witness:
  "\<exists>r. jsget (fold workflow_step [Approve ''approval-7'' ''bob'' ''t2'' ''ok'', Reject ''approval-8'' ''bob'' ''t2'' ''no'',
        Approve ''approval-7'' ''carol'' ''t3'' ''ok'', Reject ''approval-7'' ''dave'' ''t4'' ''late''] (snd example_request))
      ''approval-7'' = Some r \<and> trail_ok r \<and> ap_status r = Approved \<and> prefix (auditTrail (fst example_request)) (auditTrail r)"
proof -
  let ?ops = "[Approve ''approval-7'' ''bob'' ''t2'' ''ok'', Reject ''approval-8'' ''bob'' ''t2'' ''no'',
        Approve ''approval-7'' ''carol'' ''t3'' ''ok'', Reject ''approval-7'' ''dave'' ''t4'' ''late'']"
  have ident: "ap_id (fst example_request) = ''approval-7''" by code_simp
  have st: "map_option ap_status (jsget (fold workflow_step ?ops (snd example_request)) ''approval-7'') = Some Approved"
    by code_simp
  have "createApprovalRequest 7 ''t0'' ''t1'' None ''alice'' [''bob'', ''carol''] 2
      \<lparr>md_deadline = None, md_note = None\<rparr> [] = (fst example_request, snd example_request)"
    by (simp add: example_request_def)
  from approval_lifecycle [OF this, of ?ops "[]"]
  show ?thesis using st by (auto simp: ident simp del: trail_ok.simps)
qed

text \<open>
  Approvals are counted by entry, not by person: one approver can give both of two required approvals,
  and nothing checks that he is among the approvers.
\<close>

lemma outsider_approves_twice:
  "map_option ap_status (jsget (fold workflow_step [Approve ''approval-7'' ''mallory'' ''t2'' ''ok'',
      Approve ''approval-7'' ''mallory'' ''t3'' ''ok''] (snd example_request)) ''approval-7'') = Some Approved"
  by code_simp

text \<open>Identifiers are timestamps: a second request made in the same millisecond replaces the first.\<close>

lemma same_millisecond_replaces:
  assumes "createApprovalRequest ms st1 tm1 ti1 who1 aps1 rq1 md1 R = (r1, R1)"
    and "createApprovalRequest ms st2 tm2 ti2 who2 aps2 rq2 md2 R1 = (r2, R2)"
  shows "jsget R2 (ap_id r1) = Some r2"
  using assms by (auto simp: createApprovalRequest_def Let_def)

end
