(* ===== verification/Dialogs.thy ===== *)
theory Dialogs
  imports Jsx
begin

text \<open>
  Notifications and dialogs of the demo: \<^verbatim>\<open>demo/src/Toast.tsx\<close>,
  \<^verbatim>\<open>demo/src/PauseResumeControls.tsx\<close>, \<^verbatim>\<open>demo/src/CancelConfirmModal.tsx\<close> and
  \<^verbatim>\<open>demo/src/WalletModal.tsx\<close>: their state, their handlers and the pages they render. What the
  user can do is read off the rendered page.
\<close>

section \<open>Notifications\<close>

datatype toast_kind = SuccessToast | ErrorToast | WarningToast | InfoToast

fun kind_name :: "toast_kind \<Rightarrow> string" where
  "kind_name SuccessToast = ''success''"
| "kind_name ErrorToast = ''error''"
| "kind_name WarningToast = ''warning''"
| "kind_name InfoToast = ''info''"

record toast_entry =
  te_id :: string
  te_type :: toast_kind
  te_message :: string
  te_duration :: int

datatype toast_action = ADD toast_entry | REMOVE string

fun toastReducer :: "toast_entry list \<Rightarrow> toast_action \<Rightarrow> toast_entry list" where
  "toastReducer ts (ADD t) = ts @ [t]"
| "toastReducer ts (REMOVE i) = filter (\<lambda>t. te_id t \<noteq> i) ts"

text \<open>A pending \<^verbatim>\<open>setTimeout\<close> is the time at which it is due.\<close>

record toast_state =
  toasts :: "toast_entry list"
  timers :: "(string, int) jsmap"

definition removeToast :: "string \<Rightarrow> toast_state \<Rightarrow> toast_state" where
  "removeToast i S = \<lparr>toasts = toastReducer (toasts S) (REMOVE i), timers = jsdel i (timers S)\<rparr>"

text \<open>\<open>suffix\<close> is the random part of the identifier.\<close>

definition toast_id :: "int \<Rightarrow> string \<Rightarrow> string" where
  "toast_id now suffix = ''toast-'' @ show_int now @ ''-'' @ suffix"

definition addToast ::
  "int \<Rightarrow> string \<Rightarrow> string \<Rightarrow> toast_kind option \<Rightarrow> int option \<Rightarrow> toast_state \<Rightarrow> toast_state" where
  "addToast now suffix message kind duration S =
     (let i = toast_id now suffix;
          d = (case duration of Some x \<Rightarrow> x | None \<Rightarrow> 5000);
          t = \<lparr>te_id = i, te_type = (case kind of Some x \<Rightarrow> x | None \<Rightarrow> InfoToast), te_message = message, te_duration = d\<rparr>
      in \<lparr>toasts = toastReducer (toasts S) (ADD t),
          timers = (if 0 < d then jsset i (now + d) (timers S) else timers S)\<rparr>)"

fun TOAST_ICONS :: "toast_kind \<Rightarrow> string" where
  "TOAST_ICONS SuccessToast = [CHR 0xE2, CHR 0x9C, CHR 0x93]"
| "TOAST_ICONS ErrorToast = [CHR 0xE2, CHR 0x9C, CHR 0x95]"
| "TOAST_ICONS WarningToast = [CHR 0xE2, CHR 0x9A, CHR 0xA0]"
| "TOAST_ICONS InfoToast = [CHR 0xE2, CHR 0x84, CHR 0xB9]"

definition ToastItem :: "toast_entry \<Rightarrow> 'a \<Rightarrow> 'a node" where
  "ToastItem t onDismiss =
     Elem ''div'' [(''className'', Str (''toast toast-'' @ kind_name (te_type t))), (''role'', Str ''alert''),
       (''aria-live'', Str (if te_type t = ErrorToast then ''assertive'' else ''polite'')), (''aria-atomic'', Str ''true'')]
      [Elem ''span'' [(''className'', Str ''toast-icon''), (''aria-hidden'', Str ''true'')] [Text (TOAST_ICONS (te_type t))],
       Elem ''span'' [(''className'', Str ''toast-message'')] [Text (te_message t)],
       Elem ''button'' [(''className'', Str ''toast-dismiss''), (''onClick'', On (Click onDismiss)),
         (''aria-label'', Str ''Dismiss notification'')] [Text [CHR 0xC3, CHR 0x97]]]"

text \<open>The action of a click is the identifier given to \<^verbatim>\<open>removeToast\<close>.\<close>

definition ToastContainer :: "toast_state \<Rightarrow> string node list" where
  "ToastContainer S =
     (if toasts S = [] then []
      else [Elem ''div'' [(''className'', Str ''toast-container''), (''aria-label'', Str ''Notifications''),
              (''aria-live'', Str ''polite'')]
             (map (\<lambda>t. ToastItem t (te_id t)) (toasts S))])"

text \<open>Events: a notification with a fresh identifier, a click on a dismiss button, a timer that is due.\<close>

inductive toast_step :: "toast_state \<Rightarrow> toast_state \<Rightarrow> bool" where
  add: "toast_id now suffix \<notin> te_id ` set (toasts S) \<Longrightarrow>
    toast_step S (addToast now suffix message kind duration S)"
| dismiss: "i \<in> set (clicks (ToastContainer S)) \<Longrightarrow> toast_step S (removeToast i S)"
| expire: "jsget (timers S) i = Some due \<Longrightarrow> toast_step S (removeToast i S)"

inductive_cases toast_stepE: "toast_step S S'"

lemma items_page:
  "page_elements (map (\<lambda>t. ToastItem t (f t)) ts) = concat (map (\<lambda>t. elements (ToastItem t (f t))) ts)"
  by (simp add: page_elements_def comp_def)

lemma item_clicks: "List.map_filter (\<lambda>(t, ats). click_of ats) (elements (ToastItem t a)) = [a]"
  by (simp add: ToastItem_def jsx)

lemma items_clicks:
  "List.map_filter (\<lambda>(t, ats). click_of ats) (concat (map (\<lambda>t. elements (ToastItem t (te_id t))) ts)) = map te_id ts"
  by (induction ts) (simp_all add: List.map_filter_simps map_filter_append item_clicks)

lemma top_click: "click_of [(''className'', Str c), (''aria-label'', Str l), (''aria-live'', Str v)] = None"
  by (simp add: click_of_def is_disabled_def)

lemma container_clicks: "clicks (ToastContainer S) = map te_id (toasts S)"
  by (simp add: clicks_def ToastContainer_def jsx(1-6) List.map_filter_simps items_page items_clicks top_click)

text \<open>Identifiers are distinct, and a timer runs exactly for the shown notifications that expire.\<close>

definition toasts_ok :: "toast_state \<Rightarrow> bool" where
  "toasts_ok S \<longleftrightarrow> distinct (map te_id (toasts S)) \<and>
     (\<forall>i. (jsget (timers S) i \<noteq> None) = (\<exists>t \<in> set (toasts S). te_id t = i \<and> 0 < te_duration t))"

lemma removeToast_ok: "toasts_ok S \<Longrightarrow> toasts_ok (removeToast i S)"
  by (auto simp: toasts_ok_def removeToast_def distinct_map_filter simp del: not_None_eq)

lemma addToast_ok:
  "toasts_ok S \<Longrightarrow> toast_id now suffix \<notin> te_id ` set (toasts S) \<Longrightarrow>
    toasts_ok (addToast now suffix message kind duration S)"
  by (auto simp: toasts_ok_def addToast_def Let_def simp del: not_None_eq)

lemma toasts_reachable: "toast_step\<^sup>*\<^sup>* \<lparr>toasts = [], timers = []\<rparr> S \<Longrightarrow> toasts_ok S"
proof (induction rule: rtranclp_induct)
  case base
  show ?case by (simp add: toasts_ok_def)
next
  case (step S S')
  from step.hyps(2) step.IH show ?case by (elim toast_stepE) (auto intro: addToast_ok removeToast_ok)
qed

section \<open>The cancellation dialog\<close>

datatype cancel_action = TypeText string | ConfirmCancel | CloseCancel

definition fmtXlm :: "int \<Rightarrow> string" where
  "fmtXlm stroops = toFixed 4 (js_div (num_of_bigint stroops) (jsint 10000000))"

definition cancel_keys :: "string \<Rightarrow> cancel_action option" where
  "cancel_keys key = (if key = ''Escape'' then Some CloseCancel else None)"

definition cancel_class :: "string \<Rightarrow> string" where
  "cancel_class typed =
     ''input'' @ (if typed = ''CANCEL'' then '''' else if typed \<noteq> '''' then '' input-error'' else '''')"

text \<open>\<open>typed\<close> is the state of the dialog, \<open>inputId\<close> what \<^verbatim>\<open>useId\<close> gives.\<close>

definition CancelConfirmModal :: "string \<Rightarrow> string \<Rightarrow> int \<Rightarrow> int \<Rightarrow> string \<Rightarrow> cancel_action node list" where
  "CancelConfirmModal inputId streamId earned refund typed =
     (let confirmed = (typed = ''CANCEL'') in
      [Elem ''div'' [(''className'', Str ''modal-backdrop''), (''role'', Str ''dialog''), (''aria-modal'', Str ''true''),
         (''aria-labelledby'', Str ''cancel-modal-title''), (''onKeyDown'', On (Key cancel_keys))]
        [Elem ''div'' [(''className'', Str ''modal-box'')]
          [Elem ''h2'' [(''id'', Str ''cancel-modal-title''), (''className'', Str ''modal-title'')]
             [Text (''Cancel Stream #'' @ streamId @ ''?'')],
           Elem ''p'' [(''className'', Str ''modal-warning'')]
             [Text ([CHR 0xE2, CHR 0x9A, CHR 0xA0, CHR 0xEF, CHR 0xB8, CHR 0x8F] @ '' This action is ''), Elem ''strong'' [] [Text ''irreversible''], Text ''.''],
           Elem ''dl'' [(''className'', Str ''modal-summary'')]
             [Elem ''div'' [(''className'', Str ''modal-summary-row'')]
                [Elem ''dt'' [] [Text ''Employee receives''],
                 Elem ''dd'' [(''className'', Str ''modal-earned'')] [Text (fmtXlm earned @ '' XLM'')]],
              Elem ''div'' [(''className'', Str ''modal-summary-row'')]
                [Elem ''dt'' [] [Text ''Employer refund''], Elem ''dd'' [] [Text (fmtXlm refund @ '' XLM'')]]],
           Elem ''div'' [(''className'', Str ''field'')]
             [Elem ''label'' [(''htmlFor'', Str inputId), (''className'', Str ''field-label'')]
                [Text ''Type '', Elem ''strong'' [] [Text ''CANCEL''], Text '' to confirm''],
              Elem ''input'' [(''id'', Str inputId), (''className'', Str (cancel_class typed)), (''value'', Str typed),
                (''onChange'', On (Input TypeText)), (''placeholder'', Str ''CANCEL''), (''autoComplete'', Str ''off''),
                (''aria-describedby'', Str ''cancel-hint'')] [],
              Elem ''span'' [(''id'', Str ''cancel-hint''), (''className'', Str ''field-hint'')]
                [Text ''This will immediately settle the stream on-chain.'']],
           Elem ''div'' [(''className'', Str ''modal-actions'')]
             [Elem ''button'' [(''className'', Str ''btn btn-secondary''), (''onClick'', On (Click CloseCancel))] [Text ''Abort''],
              Elem ''button'' [(''className'', Str ''btn btn-danger''), (''onClick'', On (Click ConfirmCancel)),
                (''disabled'', Flag (\<not> confirmed)), (''aria-disabled'', Flag (\<not> confirmed))] [Text ''Confirm Cancel'']]]]])"

text \<open>The stream is cancelled only by a click, and the button takes it only after the word is typed.\<close>

lemma cancel_clicks:
  "clicks (CancelConfirmModal i s e r typed) = CloseCancel # (if typed = ''CANCEL'' then [ConfirmCancel] else [])"
  by (simp add: CancelConfirmModal_def Let_def clicking)

lemma cancel_presses: "ConfirmCancel \<notin> set (presses key (CancelConfirmModal i s e r typed))"
  by (simp add: CancelConfirmModal_def Let_def presses_def cancel_keys_def jsx)

lemma cancel_wired: "refs_resolved (CancelConfirmModal i s e r typed)"
  by (simp add: CancelConfirmModal_def Let_def refs_resolved_def refs_def ids_def jsx)

section \<open>Pause and resume\<close>

datatype modal_action = DoPause | DoResume

record controls =
  ct_pending :: "modal_action option"
  ct_busy :: bool
  ct_txError :: "string option"
  ct_success :: "string option"

definition controls_init :: controls where
  "controls_init = \<lparr>ct_pending = None, ct_busy = False, ct_txError = None, ct_success = None\<rparr>"

definition openModal :: "modal_action \<Rightarrow> controls \<Rightarrow> controls" where
  "openModal a C = C\<lparr>ct_txError := None, ct_success := None, ct_pending := Some a\<rparr>"

definition closeModal :: "controls \<Rightarrow> controls" where
  "closeModal C = C\<lparr>ct_pending := None\<rparr>"

text \<open>\<^verbatim>\<open>handleConfirm\<close> up to its call, which it returns, and after the call has ended.\<close>

definition confirm_start :: "controls \<Rightarrow> controls \<times> modal_action option" where
  "confirm_start C =
     (case ct_pending C of None \<Rightarrow> (C, None) | Some a \<Rightarrow> (C\<lparr>ct_busy := True, ct_txError := None\<rparr>, Some a))"

definition confirm_end :: "modal_action \<Rightarrow> js_error + unit \<Rightarrow> controls \<Rightarrow> controls" where
  "confirm_end a res C =
     (case res of
        Inr _ \<Rightarrow> C\<lparr>ct_success := Some (case a of DoPause \<Rightarrow> ''Stream paused successfully.'' | DoResume \<Rightarrow> ''Stream resumed successfully.''),
                   ct_pending := None, ct_busy := False\<rparr>
      | Inl e \<Rightarrow> C\<lparr>ct_txError := Some (error_to_string e), ct_busy := False\<rparr>)"

datatype control_action = OpenModal modal_action | CloseModal | Confirm

definition control_keys :: "string \<Rightarrow> control_action option" where
  "control_keys key = (if key = ''Escape'' then Some CloseModal else None)"

definition action_buttons :: "string \<Rightarrow> string \<Rightarrow> controls \<Rightarrow> control_action node" where
  "action_buttons streamId st C =
     Elem ''div'' [(''className'', Str ''pause-resume-controls'')]
       (show_if (st = ''Active'')
          (Elem ''button'' [(''className'', Str ''btn btn-warning''), (''onClick'', On (Click (OpenModal DoPause))),
             (''disabled'', Flag (ct_busy C)), (''aria-label'', Str (''Pause stream '' @ streamId))] [Text ([CHR 0xE2, CHR 0x8F, CHR 0xB8] @ '' Pause'')]) @
        show_if (st = ''Paused'')
          (Elem ''button'' [(''className'', Str ''btn btn-success''), (''onClick'', On (Click (OpenModal DoResume))),
             (''disabled'', Flag (ct_busy C)), (''aria-label'', Str (''Resume stream '' @ streamId))] [Text ([CHR 0xE2, CHR 0x96, CHR 0xB6] @ '' Resume'')]) @
        show_if (truthy_text (ct_success C))
          (Elem ''span'' [(''className'', Str ''field-hint'')] [Text (or_empty (ct_success C))]))"

definition confirm_modal :: "string \<Rightarrow> modal_action \<Rightarrow> controls \<Rightarrow> control_action node" where
  "confirm_modal streamId a C =
     Elem ''div'' [(''className'', Str ''modal-backdrop''), (''role'', Str ''dialog''), (''aria-modal'', Str ''true''),
        (''aria-labelledby'', Str ''pr-modal-title''), (''onKeyDown'', On (Key control_keys))]
       [Elem ''div'' [(''className'', Str ''modal-box'')]
         ([Elem ''h2'' [(''id'', Str ''pr-modal-title''), (''className'', Str ''modal-title'')]
             [Text ((if a = DoPause then ''Pause'' else ''Resume'') @ '' Stream #'' @ streamId @ ''?'')],
           Elem ''p'' [(''className'', Str ''modal-warning'')]
             [Text (if a = DoPause then ([CHR 0xE2, CHR 0x8F, CHR 0xB8] @ '' Earnings will stop accruing until the stream is resumed.'')
                    else ([CHR 0xE2, CHR 0x96, CHR 0xB6] @ '' Earnings will resume accruing from this moment.''))]] @
          show_if (truthy_text (ct_txError C))
            (Elem ''div'' [(''className'', Str ''error-box''), (''role'', Str ''alert'')]
               [Elem ''span'' [] [Text (or_empty (ct_txError C))],
                Elem ''button'' [(''className'', Str ''btn btn-secondary''), (''onClick'', On (Click Confirm)),
                  (''disabled'', Flag (ct_busy C))] [Text ''Retry'']]) @
          [Elem ''div'' [(''className'', Str ''modal-actions'')]
             [Elem ''button'' [(''className'', Str ''btn btn-secondary''), (''onClick'', On (Click CloseModal)),
                (''disabled'', Flag (ct_busy C))] [Text ''Cancel''],
              Elem ''button'' [(''className'', Str (''btn '' @ (if a = DoPause then ''btn-warning'' else ''btn-success''))),
                (''onClick'', On (Click Confirm)), (''disabled'', Flag (ct_busy C)), (''aria-busy'', Flag (ct_busy C))]
                [Text (if ct_busy C then (''Submitting'' @ [CHR 0xE2, CHR 0x80, CHR 0xA6]) else if a = DoPause then ''Confirm Pause'' else ''Confirm Resume'')]]])]"

definition PauseResumeControls :: "string \<Rightarrow> string \<Rightarrow> controls \<Rightarrow> control_action node list" where
  "PauseResumeControls streamId st C =
     action_buttons streamId st C # (case ct_pending C of None \<Rightarrow> [] | Some a \<Rightarrow> [confirm_modal streamId a C])"

text \<open>
  A run: the user clicks what the page offers or presses Escape in the dialog, and calls end. The
  state has the controls, the call in flight and the calls made so far; the parent may change the
  status at any time.
\<close>

type_synonym control_run = "controls \<times> modal_action option \<times> modal_action list"

fun do_action :: "control_action \<Rightarrow> control_run \<Rightarrow> control_run" where
  "do_action (OpenModal a) (C, inflight, calls) = (openModal a C, inflight, calls)"
| "do_action CloseModal (C, inflight, calls) = (closeModal C, inflight, calls)"
| "do_action Confirm (C, inflight, calls) =
     (case confirm_start C of (C', None) \<Rightarrow> (C', inflight, calls) | (C', Some a) \<Rightarrow> (C', Some a, calls @ [a]))"

inductive control_step :: "control_run \<Rightarrow> control_run \<Rightarrow> bool" where
  act: "u \<in> set (clicks (PauseResumeControls streamId st C)) \<union> set (presses key (PauseResumeControls streamId st C)) \<Longrightarrow>
    control_step (C, inflight, calls) (do_action u (C, inflight, calls))"
| call_ends: "control_step (C, Some a, calls) (confirm_end a res C, None, calls)"

inductive_cases control_stepE: "control_step R R'"

lemma control_clicks:
  "clicks (PauseResumeControls i st C) =
    (if ct_busy C then []
     else (if st = ''Active'' then [OpenModal DoPause] else []) @ (if st = ''Paused'' then [OpenModal DoResume] else []) @
       (if ct_pending C = None then []
        else (if truthy_text (ct_txError C) then [Confirm] else []) @ [CloseModal, Confirm]))"
  by (simp add: PauseResumeControls_def action_buttons_def confirm_modal_def clicking split: option.split)

lemma control_presses:
  "presses key (PauseResumeControls i st C) = (if ct_pending C \<noteq> None \<and> key = ''Escape'' then [CloseModal] else [])"
  by (simp add: PauseResumeControls_def action_buttons_def confirm_modal_def presses_def control_keys_def jsx
    split: option.split)

text \<open>The steps, without the page.\<close>

lemma step_open: "\<not> ct_busy C \<Longrightarrow> control_step (C, f, calls) (openModal a C, f, calls)"
  using control_step.act [of "OpenModal a" "''''" "case a of DoPause \<Rightarrow> ''Active'' | DoResume \<Rightarrow> ''Paused''" C "''''" f calls]
  by (cases a) (simp_all add: control_clicks)

lemma step_close: "ct_pending C \<noteq> None \<Longrightarrow> control_step (C, f, calls) (closeModal C, f, calls)"
  using control_step.act [of CloseModal "''''" "''''" C "''Escape''" f calls] by (simp add: control_presses)

lemma step_confirm:
  "\<not> ct_busy C \<Longrightarrow> ct_pending C = Some a \<Longrightarrow>
    control_step (C, f, calls) (C\<lparr>ct_busy := True, ct_txError := None\<rparr>, Some a, calls @ [a])"
  using control_step.act [of Confirm "''''" "''''" C "''''" f calls] by (simp add: control_clicks confirm_start_def)

lemma control_step_cases [consumes 1, case_names opened closed confirmed ended]:
  assumes "control_step (C, f, calls) (C', f', calls')"
  obtains a where "\<not> ct_busy C" "C' = openModal a C" "f' = f" "calls' = calls"
  | "ct_pending C \<noteq> None" "C' = closeModal C" "f' = f" "calls' = calls"
  | a where "\<not> ct_busy C" "ct_pending C = Some a" "C' = C\<lparr>ct_busy := True, ct_txError := None\<rparr>" "f' = Some a"
      "calls' = calls @ [a]"
  | a res where "f = Some a" "C' = confirm_end a res C" "f' = None" "calls' = calls"
  using assms
  by (cases rule: control_step.cases)
    (auto simp: control_clicks control_presses confirm_start_def split: if_splits option.splits)

text \<open>At most one call is in flight, and the controls are busy exactly then.\<close>

definition control_ok :: "control_run \<Rightarrow> bool" where
  "control_ok R = (case R of (C, f, calls) \<Rightarrow> ct_busy C = (f \<noteq> None) \<and> (\<forall>a. f = Some a \<longrightarrow> calls \<noteq> [] \<and> last calls = a))"

lemma confirm_end_busy [simp]: "\<not> ct_busy (confirm_end a res C)"
  by (cases res) (simp_all add: confirm_end_def)

lemma control_step_ok:
  assumes "control_step R R'" "control_ok R"
  shows "control_ok R'"
proof -
  obtain C f calls C' f' calls' where R: "R = (C, f, calls)" "R' = (C', f', calls')" by (cases R, cases R') auto
  from assms(1) [unfolded R] assms(2) show ?thesis
    unfolding R by (cases rule: control_step_cases) (auto simp: control_ok_def openModal_def closeModal_def)
qed

lemma controls_reachable: "control_step\<^sup>*\<^sup>* (controls_init, None, []) R \<Longrightarrow> control_ok R"
proof (induction rule: rtranclp_induct)
  case base
  show ?case by (simp add: control_ok_def controls_init_def)
qed (rule control_step_ok)

text \<open>Escape closes the dialog while the call is in flight; if the call then fails, nothing says so.\<close>

lemma escape_hides_failure:
  assumes "ct_pending C = Some a" "ct_busy C" "ct_success C = None"
  shows "control_step (C, Some a, calls) (closeModal C, Some a, calls)"
    and "control_step (closeModal C, Some a, calls) (confirm_end a (Inl e) (closeModal C), None, calls)"
    and "PauseResumeControls i st (confirm_end a (Inl e) (closeModal C)) = PauseResumeControls i st controls_init"
  using assms step_close [of C "Some a" calls] control_step.call_ends [of "closeModal C" a calls "Inl e"]
  by (simp_all add: PauseResumeControls_def action_buttons_def confirm_end_def closeModal_def controls_init_def)

text \<open>
  C39: Pausing and resuming. In every state the controls can reach, they are busy exactly while a call is
  in flight, so never two at once; and a call is made only by confirming the open dialog for that very
  action, while no other call is in flight.
\<close>

theorem pause_resume_guarded:
  assumes "control_step\<^sup>*\<^sup>* (controls_init, None, []) (C, f, calls)"
  shows "ct_busy C = (f \<noteq> None) \<and>
    (\<forall>C' f' calls'. control_step (C, f, calls) (C', f', calls') \<longrightarrow>
       calls' = calls \<or> (f = None \<and> (\<exists>a. ct_pending C = Some a \<and> f' = Some a \<and> calls' = calls @ [a])))"
proof (intro conjI allI impI)
  from controls_reachable [OF assms] show busy: "ct_busy C = (f \<noteq> None)" by (simp add: control_ok_def)
  fix C' f' calls'
  assume "control_step (C, f, calls) (C', f', calls')"
  then show "calls' = calls \<or> (f = None \<and> (\<exists>a. ct_pending C = Some a \<and> f' = Some a \<and> calls' = calls @ [a]))"
    by (cases rule: control_step_cases) (use busy in auto)
qed

theorem pause_resume_guarded_witness:
  "control_step\<^sup>*\<^sup>* (controls_init, None, []) (openModal DoPause controls_init, None, []) \<and>
   ct_busy (openModal DoPause controls_init) = False \<and>
   control_step (openModal DoPause controls_init, None, [])
     ((openModal DoPause controls_init)\<lparr>ct_busy := True, ct_txError := None\<rparr>, Some DoPause, [DoPause])"
proof -
  have 1: "control_step (controls_init, None, []) (openModal DoPause controls_init, None, [])"
    by (rule step_open) (simp add: controls_init_def)
  have 2: "control_step (openModal DoPause controls_init, None, [])
     ((openModal DoPause controls_init)\<lparr>ct_busy := True, ct_txError := None\<rparr>, Some DoPause, [] @ [DoPause])"
    by (rule step_confirm) (simp_all add: controls_init_def openModal_def)
  have r: "control_step\<^sup>*\<^sup>* (controls_init, None, []) (openModal DoPause controls_init, None, [])"
    using 1 by (rule r_into_rtranclp)
  show ?thesis using pause_resume_guarded [OF r] r 2 by (simp only: append_Nil not_True_eq_False simp_thms)
qed

section \<open>The wallet dialog\<close>

datatype wallet_action = CloseWallet | ConnectFreighter

text \<open>\<^verbatim>\<open>handleConnect\<close>: connect and close; a failure leaves the dialog open.\<close>

definition handleConnect :: "('w, unit) io \<Rightarrow> ('w \<Rightarrow> 'w) \<Rightarrow> ('w, unit) io" where
  "handleConnect onConnect onClose = try_catch (bind onConnect (\<lambda>_. modify onClose)) (\<lambda>e. ret ())"

text \<open>A click on the dialog element itself is a click on its backdrop.\<close>

definition WalletModal :: "bool \<Rightarrow> string option \<Rightarrow> wallet_action node list" where
  "WalletModal loading error =
     [Elem ''dialog'' [(''className'', Str ''wallet-modal''), (''onClick'', On (Click CloseWallet)), (''onCancel'', On (Click CloseWallet))]
       [Elem ''div'' [(''className'', Str ''wallet-modal-content'')]
         [Elem ''div'' [(''className'', Str ''wallet-modal-header'')]
           [Elem ''h2'' [] [Text ''Connect Wallet''],
            Elem ''button'' [(''className'', Str ''wallet-modal-close''), (''onClick'', On (Click CloseWallet)),
              (''aria-label'', Str ''Close wallet connection modal'')] [Text [CHR 0xE2, CHR 0x9C, CHR 0x95]]],
          Elem ''div'' [(''className'', Str ''wallet-modal-body'')]
           ([Elem ''p'' [(''className'', Str ''wallet-modal-description'')]
              [Text ''Select a wallet to connect to PayStream. We support Stellar wallets that are compatible with the Freighter extension.'']] @
            show_if (truthy_text error)
              (Elem ''div'' [(''className'', Str ''wallet-modal-error''), (''role'', Str ''alert'')]
                [Elem ''span'' [(''aria-hidden'', Str ''true'')] [Text [CHR 0xE2, CHR 0x9A, CHR 0xA0, CHR 0xEF, CHR 0xB8, CHR 0x8F]], Text (or_empty error)]) @
            [Elem ''div'' [(''className'', Str ''wallet-options'')]
              [Elem ''button'' [(''className'', Str ''wallet-option''), (''onClick'', On (Click ConnectFreighter)),
                  (''disabled'', Flag loading), (''aria-busy'', Flag loading)]
                ([Elem ''div'' [(''className'', Str ''wallet-option-icon'')] [Text [CHR 0xF0, CHR 0x9F, CHR 0x94, CHR 0x90]],
                  Elem ''div'' [(''className'', Str ''wallet-option-content'')]
                   [Elem ''div'' [(''className'', Str ''wallet-option-name'')] [Text ''Freighter''],
                    Elem ''div'' [(''className'', Str ''wallet-option-description'')]
                      [Text (if loading then ''Connecting...'' else ''Browser extension wallet for Stellar'')]]] @
                 show_if loading (Elem ''span'' [(''className'', Str ''wallet-option-spinner''), (''aria-hidden'', Str ''true'')] [])),
               Elem ''div'' [(''className'', Str ''wallet-options-note'')]
                [Elem ''p'' []
                  [Text ([CHR ''D'', CHR ''o'', CHR ''n'', CHR 0x27] @ ''t have a wallet? ''),
                   Elem ''a'' [(''href'', Str ''https://freighter.app''), (''target'', Str ''_blank''), (''rel'', Str ''noopener noreferrer'')]
                     [Text ''Install Freighter'']]]]]),
          Elem ''div'' [(''className'', Str ''wallet-modal-footer'')]
           [Elem ''button'' [(''className'', Str ''wallet-modal-button-secondary''), (''onClick'', On (Click CloseWallet)),
              (''disabled'', Flag loading)] [Text ''Cancel'']]]]]"

text \<open>While connecting, the wallet cannot be asked again, but the dialog can be closed.\<close>

lemma wallet_clicks:
  "clicks (WalletModal loading error) =
    [CloseWallet, CloseWallet] @ (if loading then [] else [ConnectFreighter, CloseWallet])"
  by (simp add: WalletModal_def clicking)

lemma handleConnect_result:
  "handleConnect onConnect onClose w =
    (case onConnect w of (Inr _, w') \<Rightarrow> (Inr (), onClose w') | (Inl _, w') \<Rightarrow> (Inr (), w'))"
  by (simp add: handleConnect_def try_catch_def bind_def modify_def ret_def split: prod.split sum.split)

end
