(* ===== verification/Stream_Card.thy ===== *)
theory Stream_Card
  imports Jsx Live_Counter History
begin

text \<open>
  The status badge and the stream card of the demo (\<^verbatim>\<open>demo/src/StreamStatusBadge.tsx\<close>,
  \<^verbatim>\<open>demo/src/StreamStatusCard.tsx\<close>) as the pages they render. Rendering can throw, since the
  status and the addresses of a decoded stream are unchecked values. \<^verbatim>\<open>toLocaleString\<close> depends on
  the browser and is a parameter; the live amount comes from \<open>useBalanceTicker\<close> of
  \<open>Live_Counter\<close>.
\<close>

section \<open>Texts\<close>

definition card_formatXlm :: "int \<Rightarrow> string" where
  "card_formatXlm stroops = toFixed 4 (js_div (num_of_bigint stroops) (jsint 10000000))"

definition formatRate :: "int \<Rightarrow> string" where
  "formatRate stroopsPerSec =
     (let xlmPerSec = js_div (num_of_bigint stroopsPerSec) (jsint 10000000) in
      if js_le (num_of_rat (1 / 100)) xlmPerSec then toFixed 4 xlmPerSec @ '' XLM/s''
      else (let xlmPerMin = js_mul xlmPerSec (jsint 60) in
        if js_le (num_of_rat (1 / 100)) xlmPerMin then toFixed 4 xlmPerMin @ '' XLM/min''
        else show_int stroopsPerSec @ '' stroops/s''))"

definition formatFiat :: "jsnum \<Rightarrow> jsnum \<Rightarrow> string \<Rightarrow> string" where
  "formatFiat amount price currency = map to_upper currency @ '' '' @ toFixed 2 (js_mul amount price)"

definition maybeFiatSublabel :: "int \<Rightarrow> jsnum option \<Rightarrow> string option \<Rightarrow> string option" where
  "maybeFiatSublabel amount tokenPrice fiatCurrency =
     (case (tokenPrice, fiatCurrency) of
        (Some p, Some c) \<Rightarrow>
          if num_truthy p \<and> c \<noteq> '''' then Some (([CHR 0xE2, CHR 0x89, CHR 0x88] @ '' '') @ formatFiat (js_div (num_of_bigint amount) (jsint 10000000)) p c)
          else None
      | _ \<Rightarrow> None)"

text \<open>A date outside the range of \<^verbatim>\<open>Date\<close> is invalid; \<^verbatim>\<open>toISOString\<close> throws on it.\<close>

definition date_of_ts :: "int \<Rightarrow> int option" where
  "date_of_ts ts =
     (case js_mul (num_of_bigint ts) (jsint 1000) of
        Fin q \<Rightarrow> if \<bar>q\<bar> \<le> 8640000000000000 then Some (if 0 \<le> q then \<lfloor>q\<rfloor> else \<lceil>q\<rceil>) else None
      | _ \<Rightarrow> None)"

definition formatTs :: "(int option \<Rightarrow> string) \<Rightarrow> int \<Rightarrow> string" where
  "formatTs toLocaleString ts = (if ts = 0 then ''Indefinite'' else toLocaleString (date_of_ts ts))"

definition isoTs :: "int \<Rightarrow> js_error + string" where
  "isoTs ts = (case date_of_ts ts of Some ms \<Rightarrow> Inr (toISOString ms) | None \<Rightarrow> Inl (RangeError ''Invalid time value''))"

definition card_EXPLORER_BASE :: string where
  "card_EXPLORER_BASE = ''https://stellar.expert/explorer/testnet''"

definition card_explorerAccountUrl :: "string \<Rightarrow> string" where
  "card_explorerAccountUrl address = card_EXPLORER_BASE @ ''/account/'' @ address"

definition card_explorerTxUrl :: "string \<Rightarrow> string" where
  "card_explorerTxUrl hash = card_EXPLORER_BASE @ ''/tx/'' @ hash"

text \<open>\<^verbatim>\<open>s.slice(0, m)\<close>, an ellipsis and \<^verbatim>\<open>s.slice(-n)\<close>.\<close>

definition shorten :: "nat \<Rightarrow> nat \<Rightarrow> string \<Rightarrow> string" where
  "shorten m n s = take m s @ [CHR 0xE2, CHR 0x80, CHR 0xA6] @ drop (length s - n) s"

text \<open>Methods of strings on an unchecked value. (An array has a \<^verbatim>\<open>slice\<close> of its own; decoded
  addresses are strings, so that case is left out.)\<close>

definition js_toLowerCase :: "jsval \<Rightarrow> js_error + string" where
  "js_toLowerCase v = (case v of JStr s \<Rightarrow> Inr (map to_lower s) | _ \<Rightarrow> Inl (TypeError ''toLowerCase is not a function''))"

definition js_shorten :: "jsval \<Rightarrow> js_error + string" where
  "js_shorten v = (case v of JStr s \<Rightarrow> Inr (shorten 6 4 s) | _ \<Rightarrow> Inl (TypeError ''slice is not a function''))"

section \<open>The status badge\<close>

record status_meta =
  sm_icon :: string
  sm_label :: string
  sm_description :: string

definition STATUS_META :: "(string, status_meta) jsmap" where
  "STATUS_META =
     [(''Active'', \<lparr>sm_icon = [CHR 0xE2, CHR 0x96, CHR 0xB6], sm_label = ''Active'',
         sm_description = ''The stream is running and tokens are being distributed.''\<rparr>),
      (''Paused'', \<lparr>sm_icon = [CHR 0xE2, CHR 0x8F, CHR 0xB8], sm_label = ''Paused'',
         sm_description = ''The stream has been temporarily stopped by the employer.''\<rparr>),
      (''Cancelled'', \<lparr>sm_icon = [CHR 0xE2, CHR 0x9C, CHR 0x95], sm_label = ''Cancelled'',
         sm_description = ''The stream has been permanently terminated.''\<rparr>),
      (''Exhausted'', \<lparr>sm_icon = [CHR 0xE2, CHR 0x96, CHR 0xA0], sm_label = ''Exhausted'',
         sm_description = ''The deposit has been fully streamed.''\<rparr>)]"

text \<open>The key of \<^verbatim>\<open>STATUS_META[status]\<close> is the status as a string; destructuring
  \<^verbatim>\<open>undefined\<close> throws.\<close>

definition StreamStatusBadge :: "jsval \<Rightarrow> js_error + 'a node list" where
  "StreamStatusBadge st =
     (case jsget STATUS_META (js_string st) of
        None \<Rightarrow> Inl (TypeError ''Cannot destructure property icon of undefined'')
      | Some m \<Rightarrow>
          rbind (js_toLowerCase st) (\<lambda>low. Inr
            [Elem ''span'' [(''className'', Str ''status-badge-container'')]
              [Elem ''span'' [(''className'', Str (''status-badge status-'' @ low)), (''role'', Str ''status''),
                 (''aria-label'', Str (''Status: '' @ sm_label m)),
                 (''aria-describedby'', Str (''status-tooltip-'' @ js_string st))]
                [Elem ''span'' [(''className'', Str ''status-badge-icon''), (''aria-hidden'', Str ''true'')] [Text (sm_icon m)],
                 Text (sm_label m)],
               Elem ''span'' [(''id'', Str (''status-tooltip-'' @ js_string st)), (''className'', Str ''status-tooltip''),
                 (''role'', Str ''tooltip''), (''aria-hidden'', Str ''true'')] [Text (sm_description m)]]]))"

section \<open>Parts of the card\<close>

definition ExplorerLink :: "string \<Rightarrow> string \<Rightarrow> 'a node list \<Rightarrow> 'a node" where
  "ExplorerLink href label children =
     Elem ''a'' [(''href'', Str href), (''target'', Str ''_blank''), (''rel'', Str ''noopener noreferrer''),
       (''aria-label'', Str label), (''className'', Str ''explorer-link'')] children"

definition MetricItem :: "string \<Rightarrow> string \<Rightarrow> string option \<Rightarrow> bool \<Rightarrow> bool \<Rightarrow> 'a node" where
  "MetricItem label val sublabel highlight live =
     Elem ''div'' [(''className'', Str (''ssc-metric'' @ (if highlight then '' ssc-metric--hi'' else '''')))]
       [Elem ''dt'' [(''className'', Str ''ssc-metric-label'')]
          (Text label # show_if live (Elem ''span'' [(''className'', Str ''ssc-live-dot''), (''aria-hidden'', Str ''true''),
             (''title'', Str (''Live '' @ [CHR 0xE2, CHR 0x80, CHR 0x94] @ '' updates every 5 s''))] [])),
        Elem ''dd'' ((''className'', Str ''ssc-metric-value'') # opt_attr ''aria-live'' (if live then Some ''polite'' else None) @
             opt_attr ''aria-atomic'' (if live then Some ''true'' else None))
          (Text val # show_if (truthy_text sublabel) (Elem ''span'' [(''className'', Str ''ssc-metric-sub'')] [Text (or_empty sublabel)]))]"

text \<open>\<open>None\<close> is a callback that is not given.\<close>

record 'a card_props =
  cp_tokenSymbol :: "string option"
  cp_fiatCurrency :: "string option"
  cp_tokenPrice :: "jsnum option"
  cp_onWithdraw :: "'a option"
  cp_onPause :: "'a option"
  cp_onResume :: "'a option"
  cp_onCancel :: "'a option"
  cp_onShowHistory :: "'a option"
  cp_onExportCsv :: "'a option"
  cp_onShowTopUp :: "'a option"
  cp_lastTxHash :: "string option"
  cp_loading :: bool
  cp_actionLoading :: "string option"
  cp_children :: "'a node list"

text \<open>BigInt division rounds towards zero.\<close>

definition card_locked :: "stream \<Rightarrow> int" where
  "card_locked s = (if deposit s > withdrawn s then deposit s - withdrawn s else 0)"

definition card_progress :: "stream \<Rightarrow> jsnum" where
  "card_progress s =
     (if deposit s > 0 then math_min (jsint 100) (num_of_bigint (sgn (withdrawn s) * (\<bar>withdrawn s\<bar> * 100 div deposit s)))
      else jsint 0)"

definition anyBusy :: "'a card_props \<Rightarrow> bool" where
  "anyBusy p = (cp_loading p \<or> truthy_text (cp_actionLoading p))"

definition doing :: "'a card_props \<Rightarrow> string \<Rightarrow> bool" where
  "doing p a = (cp_actionLoading p = Some a)"

text \<open>The callback of a button that is shown only under a condition.\<close>

definition if_shown :: "bool \<Rightarrow> 'a option \<Rightarrow> 'a option" where
  "if_shown b f = (if b then f else None)"

definition live_or_paused :: "stream \<Rightarrow> bool" where
  "live_or_paused s = (has_status s ''Active'' \<or> has_status s ''Paused'')"

definition showWithdraw where "showWithdraw p s = if_shown (has_status s ''Active'') (cp_onWithdraw p)"
definition showPause where "showPause p s = if_shown (has_status s ''Active'') (cp_onPause p)"
definition showResume where "showResume p s = if_shown (has_status s ''Paused'') (cp_onResume p)"
definition showCancel where "showCancel p s = if_shown (live_or_paused s) (cp_onCancel p)"
definition showTopUp where "showTopUp p s = if_shown (live_or_paused s) (cp_onShowTopUp p)"

definition hasActions :: "'a card_props \<Rightarrow> stream \<Rightarrow> bool" where
  "hasActions p s = (\<exists>x \<in> set [showWithdraw p s, showPause p s, showResume p s, showCancel p s, showTopUp p s,
     cp_onShowHistory p, cp_onExportCsv p]. x \<noteq> None)"

text \<open>A button of the card; \<open>busy\<close> is its \<^verbatim>\<open>aria-busy\<close>, where it has one.\<close>

definition card_button ::
  "'a option \<Rightarrow> string \<Rightarrow> bool option \<Rightarrow> bool option \<Rightarrow> string \<Rightarrow> string \<Rightarrow> string \<Rightarrow> 'a node list" where
  "card_button f cls disabled busy label i txt =
     (case f of None \<Rightarrow> []
      | Some a \<Rightarrow>
          [Elem ''button'' ([(''className'', Str cls), (''onClick'', On (Click a))] @
             (case disabled of None \<Rightarrow> [] | Some d \<Rightarrow> [(''disabled'', Flag d)]) @
             (case busy of None \<Rightarrow> [] | Some b \<Rightarrow> [(''aria-busy'', Flag b)]) @
             [(''aria-label'', Str label), (''id'', Str i)]) [Text txt]])"

definition card_actions :: "'a card_props \<Rightarrow> stream \<Rightarrow> 'a node list" where
  "card_actions p s =
     (let key = show_int (sid s); d = Some (anyBusy p) in
      show_if (hasActions p s)
        (Elem ''div'' [(''className'', Str ''ssc-actions''), (''role'', Str ''group''),
            (''aria-label'', Str (''Actions for stream '' @ key))]
          (card_button (showWithdraw p s) ''btn'' d (Some (doing p ''withdraw''))
             (''Withdraw claimable tokens from stream '' @ key) (''withdraw-btn-'' @ key)
             (if doing p ''withdraw'' then (''Withdrawing'' @ [CHR 0xE2, CHR 0x80, CHR 0xA6]) else ([CHR 0xF0, CHR 0x9F, CHR 0x92, CHR 0xB8] @ '' Withdraw'')) @
           card_button (showPause p s) ''btn btn-warning btn-sm'' d (Some (doing p ''pause''))
             (''Pause stream '' @ key) (''pause-btn-'' @ key) (if doing p ''pause'' then (''Pausing'' @ [CHR 0xE2, CHR 0x80, CHR 0xA6]) else ([CHR 0xE2, CHR 0x8F, CHR 0xB8] @ '' Pause'')) @
           card_button (showResume p s) ''btn btn-success btn-sm'' d (Some (doing p ''resume''))
             (''Resume stream '' @ key) (''resume-btn-'' @ key) (if doing p ''resume'' then (''Resuming'' @ [CHR 0xE2, CHR 0x80, CHR 0xA6]) else ([CHR 0xE2, CHR 0x96, CHR 0xB6] @ '' Resume'')) @
           card_button (showCancel p s) ''btn btn-danger btn-sm'' d (Some (doing p ''cancel''))
             (''Cancel stream '' @ key) (''cancel-btn-'' @ key) (if doing p ''cancel'' then (''Cancelling'' @ [CHR 0xE2, CHR 0x80, CHR 0xA6]) else ([CHR 0xE2, CHR 0x9C, CHR 0x95] @ '' Cancel'')) @
           card_button (showTopUp p s) ''btn btn-secondary btn-sm'' d None
             (''Top up stream '' @ key) (''topup-btn-'' @ key) ([CHR 0xE2, CHR 0x9E, CHR 0x95] @ '' Top Up'') @
           card_button (cp_onShowHistory p) ''btn btn-secondary'' None None
             (''View transaction history for stream '' @ key) (''history-btn-'' @ key) ([CHR 0xF0, CHR 0x9F, CHR 0x93, CHR 0x8B] @ '' History'') @
           card_button (cp_onExportCsv p) ''btn btn-secondary'' None None
             (''Export transaction history for stream '' @ key @ '' as CSV'') (''csv-btn-'' @ key) ([CHR 0xE2, CHR 0xAC, CHR 0x87] @ '' CSV''))))"

definition card_person :: "string \<Rightarrow> string \<Rightarrow> jsval \<Rightarrow> string \<Rightarrow> 'a node" where
  "card_person title role addr short =
     Elem ''p'' [(''className'', Str ''ssc-employee'')]
       [Elem ''span'' [(''className'', Str ''ssc-field-label'')] [Text (title @ '':'')], Text '' '',
        ExplorerLink (card_explorerAccountUrl (js_string addr))
          (''View '' @ role @ '' account '' @ js_string addr @ '' on Stellar Explorer'')
          [Elem ''code'' [(''title'', Str (js_string addr)), (''aria-label'', Str (title @ '' address: '' @ js_string addr))]
            [Text short]]]"

definition card_metrics :: "'a card_props \<Rightarrow> stream \<Rightarrow> int \<Rightarrow> 'a node" where
  "card_metrics p s liveClaimable =
     (let sym = (case cp_tokenSymbol p of Some t \<Rightarrow> t | None \<Rightarrow> ''XLM'') in
      Elem ''dl'' [(''className'', Str ''ssc-metrics'')]
        [MetricItem ''Rate'' (formatRate (ratePerSecond s)) (Some (show_int (ratePerSecond s) @ '' stroops/s'')) False False,
         MetricItem ''Total Deposit'' (card_formatXlm (deposit s) @ '' '' @ sym)
           (maybeFiatSublabel (deposit s) (cp_tokenPrice p) (cp_fiatCurrency p)) False False,
         MetricItem ''Withdrawn'' (card_formatXlm (withdrawn s) @ '' '' @ sym)
           (maybeFiatSublabel (withdrawn s) (cp_tokenPrice p) (cp_fiatCurrency p)) False False,
         MetricItem ''Claimable Now'' (card_formatXlm liveClaimable @ '' XLM'') None True (has_status s ''Active'')])"

definition card_progress_bar :: "stream \<Rightarrow> string \<Rightarrow> 'a node" where
  "card_progress_bar s low =
     Elem ''div'' [(''className'', Str ''ssc-progress-section'')]
       [Elem ''div'' [(''className'', Str ''ssc-progress-track''), (''role'', Str ''progressbar''),
          (''aria-valuenow'', Num (math_round (card_progress s))), (''aria-valuemin'', Num (jsint 0)), (''aria-valuemax'', Num (jsint 100)),
          (''aria-label'', Str (toFixed 1 (card_progress s) @ ''% of deposit paid out''))]
         [Elem ''div'' [(''className'', Str (''ssc-progress-fill ssc-fill-'' @ low))] []],
        Elem ''div'' [(''className'', Str ''ssc-progress-labels''), (''aria-hidden'', Str ''true'')]
         [Elem ''span'' [] [Text ([CHR 0xF0, CHR 0x9F, CHR 0x94, CHR 0x92] @ '' Locked: ''), Elem ''strong'' [] [Text (card_formatXlm (card_locked s) @ '' XLM'')]],
          Elem ''span'' [(''className'', Str ''muted'')] [Text (toFixed 1 (card_progress s) @ ''% paid out'')]]]"

text \<open>\<open>None\<close>: no time to show.\<close>

definition card_time :: "(int option \<Rightarrow> string) \<Rightarrow> int \<Rightarrow> string option \<Rightarrow> string \<Rightarrow> 'a node" where
  "card_time toLocaleString ts dt otherwise =
     (case dt of None \<Rightarrow> Elem ''span'' [] [Text otherwise]
      | Some i \<Rightarrow> Elem ''time'' [(''dateTime'', Str i)] [Text (formatTs toLocaleString ts)])"

definition card_times :: "(int option \<Rightarrow> string) \<Rightarrow> stream \<Rightarrow> string option \<Rightarrow> string option \<Rightarrow> 'a node" where
  "card_times toLocaleString s start stop =
     Elem ''div'' [(''className'', Str ''ssc-times'')]
       [Elem ''span'' [] [Elem ''span'' [(''className'', Str ''ssc-field-label'')] [Text ''Started:''], Text '' '',
          card_time toLocaleString (startTime s) start [CHR 0xE2, CHR 0x80, CHR 0x94]],
        Elem ''span'' [] [Elem ''span'' [(''className'', Str ''ssc-field-label'')] [Text ''Stops:''], Text '' '',
          card_time toLocaleString (stopTime s) stop ''Indefinite'']]"

definition card_last_tx :: "string option \<Rightarrow> 'a node list" where
  "card_last_tx hash =
     show_if (truthy_text hash)
       (Elem ''div'' [(''className'', Str ''ssc-last-tx'')]
         [Elem ''span'' [(''className'', Str ''ssc-field-label'')] [Text ''Last tx:''], Text '' '',
          ExplorerLink (card_explorerTxUrl (or_empty hash)) (''View transaction '' @ or_empty hash @ '' on Stellar Explorer'')
            [Elem ''code'' [] [Text (shorten 8 6 (or_empty hash))]]])"

definition opt_iso :: "bool \<Rightarrow> int \<Rightarrow> js_error + string option" where
  "opt_iso b ts = (if b then rbind (isoTs ts) (\<lambda>i. Inr (Some i)) else Inr None)"

section \<open>The card\<close>

definition StreamStatusCard ::
  "(int option \<Rightarrow> string) \<Rightarrow> 'a card_props \<Rightarrow> stream \<Rightarrow> int \<Rightarrow> js_error + 'a node list" where
  "StreamStatusCard toLocaleString p s liveClaimable =
     rbind (js_toLowerCase (status s)) (\<lambda>low.
     rbind (js_shorten (employee s)) (\<lambda>ee.
     rbind (js_shorten (employer s)) (\<lambda>er.
     rbind (opt_iso (startTime s > 0) (startTime s)) (\<lambda>start.
     rbind (opt_iso (stopTime s \<noteq> 0) (stopTime s)) (\<lambda>stop.
     rbind (StreamStatusBadge (status s)) (\<lambda>badge. Inr
       (let key = show_int (sid s) in
        [Elem ''article'' [(''className'', Str (''ssc-card ssc-status-'' @ low)),
            (''aria-label'', Str (''Stream '' @ key @ '', status: '' @ js_string (status s))), (''id'', Str (''stream-card-'' @ key))]
          ([Elem ''header'' [(''className'', Str ''ssc-header'')]
             [Elem ''div'' [(''className'', Str ''ssc-title-row'')]
                (Elem ''h3'' [(''className'', Str ''ssc-stream-id'')] [Text (''Stream #'' @ key)] # badge),
              card_person ''Employee'' ''employee'' (employee s) ee,
              card_person ''Employer'' ''employer'' (employer s) er],
            card_metrics p s liveClaimable, card_progress_bar s low, card_times toLocaleString s start stop] @
           card_actions p s @ cp_children p @ card_last_tx (cp_lastTxHash p))]))))))) "

section \<open>What the card offers\<close>

definition own_clicks :: "'a card_props \<Rightarrow> stream \<Rightarrow> 'a list" where
  "own_clicks p s =
     (let opt = (\<lambda>f. case f of None \<Rightarrow> [] | Some a \<Rightarrow> [a]) in
      (if anyBusy p then []
       else opt (showWithdraw p s) @ opt (showPause p s) @ opt (showResume p s) @ opt (showCancel p s) @ opt (showTopUp p s)) @
      opt (cp_onShowHistory p) @ opt (cp_onExportCsv p))"

lemma card_button_clicks:
  "clicks (card_button f cls d b l i t) = (if d = Some True then [] else case f of None \<Rightarrow> [] | Some a \<Rightarrow> [a])"
  by (cases f; cases d; cases b) (auto simp: card_button_def clicking split: if_splits)

lemma card_actions_clicks: "clicks (card_actions p s) = own_clicks p s"
  by (auto simp: card_actions_def Let_def clicking card_button_clicks own_clicks_def hasActions_def
    split: option.split)

lemma link_clicks: "node_clicks (ExplorerLink h l cs) = clicks cs"
  by (simp add: ExplorerLink_def clicking)

lemma person_clicks: "node_clicks (card_person t r a sh) = []"
  by (simp add: card_person_def clicking link_clicks)

lemma metric_clicks: "node_clicks (MetricItem l v sub h live) = []"
  by (simp add: MetricItem_def clicking opt_attr_def)

lemma metrics_clicks: "node_clicks (card_metrics p s c) = []"
  by (simp add: card_metrics_def Let_def clicking metric_clicks)

lemma bar_clicks: "node_clicks (card_progress_bar s low) = []"
  by (simp add: card_progress_bar_def clicking)

lemma time_clicks: "node_clicks (card_time f ts sh t) = []"
  by (cases sh) (simp_all add: card_time_def clicking)

lemma times_clicks: "node_clicks (card_times f s a b) = []"
  by (simp add: card_times_def clicking time_clicks)

lemma last_tx_clicks: "clicks (card_last_tx h) = []"
  by (simp add: card_last_tx_def clicking link_clicks)

lemma badge_clicks: "StreamStatusBadge st = Inr b \<Longrightarrow> clicks b = []"
  by (auto simp: StreamStatusBadge_def rbind_Inr_iff clicking split: option.splits)

lemmas part_clicks = person_clicks metrics_clicks bar_clicks times_clicks last_tx_clicks card_actions_clicks

text \<open>When the card renders, it offers exactly its own actions and those of its children.\<close>

lemma card_clicks:
  assumes "StreamStatusCard f p s c = Inr page"
  shows "clicks page = own_clicks p s @ clicks (cp_children p)"
proof -
  obtain low ee er start stop badge where badge: "StreamStatusBadge (status s) = Inr badge"
    and page: "page = [Elem ''article'' [(''className'', Str (''ssc-card ssc-status-'' @ low)),
            (''aria-label'', Str (''Stream '' @ show_int (sid s) @ '', status: '' @ js_string (status s))),
            (''id'', Str (''stream-card-'' @ show_int (sid s)))]
          ([Elem ''header'' [(''className'', Str ''ssc-header'')]
             [Elem ''div'' [(''className'', Str ''ssc-title-row'')]
                (Elem ''h3'' [(''className'', Str ''ssc-stream-id'')] [Text (''Stream #'' @ show_int (sid s))] # badge),
              card_person ''Employee'' ''employee'' (employee s) ee,
              card_person ''Employer'' ''employer'' (employer s) er],
            card_metrics p s c, card_progress_bar s low, card_times f s start stop] @
           card_actions p s @ cp_children p @ card_last_tx (cp_lastTxHash p))]"
    using assms unfolding StreamStatusCard_def rbind_Inr_iff Let_def by (elim exE conjE) auto
  show ?thesis
    by (simp add: page clicking badge_clicks [OF badge] part_clicks)
qed

text \<open>It renders exactly for a proper status, addresses that are strings and times in the range of dates.\<close>

lemma badge_renders: "(\<exists>b. StreamStatusBadge (JStr st) = Inr b) \<longleftrightarrow> st \<in> set stream_statuses"
  by (auto simp: StreamStatusBadge_def STATUS_META_def stream_statuses_def js_toLowerCase_def)

lemma card_renders:
  "(\<exists>page. StreamStatusCard f p s c = Inr page) \<longleftrightarrow>
    well_typed_status s \<and> (\<exists>a. employee s = JStr a) \<and> (\<exists>a. employer s = JStr a) \<and>
    (startTime s > 0 \<longrightarrow> date_of_ts (startTime s) \<noteq> None) \<and> (stopTime s \<noteq> 0 \<longrightarrow> date_of_ts (stopTime s) \<noteq> None)"
proof -
  have low: "(\<exists>l. js_toLowerCase (status s) = Inr l) \<and> (\<exists>b. StreamStatusBadge (status s) = Inr b) \<longleftrightarrow> well_typed_status s"
    using badge_renders by (auto simp: well_typed_status_def js_toLowerCase_def split: jsval.splits)
  have short: "(\<exists>t. js_shorten v = Inr t) \<longleftrightarrow> (\<exists>a. v = JStr a)" for v
    by (cases v) (simp_all add: js_shorten_def)
  have iso: "(\<exists>t. opt_iso b ts = Inr t) \<longleftrightarrow> (b \<longrightarrow> date_of_ts ts \<noteq> None)" for b ts
    by (cases "date_of_ts ts") (simp_all add: opt_iso_def isoTs_def)
  show ?thesis
    unfolding StreamStatusCard_def rbind_Inr_iff
    using low short [of "employee s"] short [of "employer s"] iso [of "startTime s > 0" "startTime s"]
      iso [of "stopTime s \<noteq> 0" "stopTime s"] by blast
qed

text \<open>A status that decodes to an array, as the contract's enum does, makes the card throw.\<close>

lemma card_throws_on_decoded: "StreamStatusCard f p (stream_view enum_as_vec s) c = Inl (TypeError ''toLowerCase is not a function'')"
  by (simp add: StreamStatusCard_def stream_view_def enum_as_vec_def js_toLowerCase_def)

text \<open>So does a stop time beyond the range of dates, which the contract allows.\<close>

lemma card_throws_on_far_stop:
  "\<lbrakk>stopTime s \<noteq> 0; date_of_ts (stopTime s) = None\<rbrakk> \<Longrightarrow> \<exists>e. StreamStatusCard f p s c = Inl e"
  using card_renders [of f p s c] by (cases "StreamStatusCard f p s c") auto

section \<open>The progress bar\<close>

lemma card_progress_bounds:
  assumes "0 \<le> withdrawn s" "withdrawn s \<le> deposit s" "0 < deposit s"
  shows "card_progress s = jsint (withdrawn s * 100 div deposit s) \<and>
    0 \<le> withdrawn s * 100 div deposit s \<and> withdrawn s * 100 div deposit s \<le> 100"
proof -
  let ?k = "withdrawn s * 100 div deposit s"
  have k0: "0 \<le> ?k" using assms by (simp add: pos_imp_zdiv_nonneg_iff)
  have "withdrawn s * 100 div deposit s \<le> deposit s * 100 div deposit s"
    using assms by (intro zdiv_mono1) auto
  then have k1: "?k \<le> 100" using assms by simp
  have "sgn (withdrawn s) * (\<bar>withdrawn s\<bar> * 100 div deposit s) = ?k" using assms by (auto simp: sgn_if)
  then have "card_progress s = math_min (jsint 100) (num_of_bigint ?k)"
    unfolding card_progress_def using assms(3) by (simp only: if_True)
  then show ?thesis using k0 k1 by simp
qed

lemma card_locked_nonneg: "0 \<le> card_locked s"
  by (simp add: card_locked_def)

end
