(* ===== verification/Soroban.thy ===== *)
theory Soroban
  imports Sdk_Types
begin

text \<open>
  What the contracts (\<^verbatim>\<open>contracts/*/src\<close>) use of the Soroban host: transactions that panic and
  are then rolled back, checked integers, and the interface of a token contract.

  A transaction maps a state to a panic message (\<open>Inl\<close>) or to a result and the new state. Time-to-live
  extensions and published events change nothing that the contracts read, and are left out.
\<close>

type_synonym ('s, 'a) tx = "'s \<Rightarrow> string + 'a \<times> 's"

definition tret :: "'a \<Rightarrow> ('s, 'a) tx" where
  "tret a s = Inr (a, s)"

definition panic :: "string \<Rightarrow> ('s, 'a) tx" where
  "panic msg s = Inl msg"

definition tbind :: "('s, 'a) tx \<Rightarrow> ('a \<Rightarrow> ('s, 'b) tx) \<Rightarrow> ('s, 'b) tx" where
  "tbind m f s = (case m s of Inl e \<Rightarrow> Inl e | Inr (a, s') \<Rightarrow> f a s')"

definition require :: "bool \<Rightarrow> string \<Rightarrow> ('s, unit) tx" where
  "require b msg = (if b then tret () else panic msg)"

definition expect :: "'a option \<Rightarrow> string \<Rightarrow> ('s, 'a) tx" where
  "expect v msg = (case v of Some a \<Rightarrow> tret a | None \<Rightarrow> panic msg)"

definition tget :: "('s \<Rightarrow> 'a) \<Rightarrow> ('s, 'a) tx" where
  "tget f s = Inr (f s, s)"

definition tput :: "('s \<Rightarrow> 's) \<Rightarrow> ('s, unit) tx" where
  "tput f s = Inr ((), f s)"

text \<open>\<^verbatim>\<open>checked_add\<close> and the like, unwrapped with \<^verbatim>\<open>expect\<close>; also a plain operation, which
  panics on overflow.\<close>

definition checked_i128 :: "int \<Rightarrow> string \<Rightarrow> ('s, int) tx" where
  "checked_i128 n msg = (if i128 n then tret n else panic msg)"

definition checked_u64 :: "int \<Rightarrow> string \<Rightarrow> ('s, int) tx" where
  "checked_u64 n msg = (if u64 n then tret n else panic msg)"

text \<open>A panic rolls the state back.\<close>

definition invoke :: "('s, 'a) tx \<Rightarrow> 's \<Rightarrow> 's" where
  "invoke m s = (case m s of Inl _ \<Rightarrow> s | Inr (_, s') \<Rightarrow> s')"

named_theorems tx

lemma tx_Inr [tx]:
  "tret a s = Inr (b, t) \<longleftrightarrow> b = a \<and> t = s"
  "panic msg s = Inr (b, t) \<longleftrightarrow> False"
  "require c msg s = Inr (u, t) \<longleftrightarrow> c \<and> t = s"
  "expect v msg s = Inr (b, t) \<longleftrightarrow> v = Some b \<and> t = s"
  "tget f s = Inr (b, t) \<longleftrightarrow> b = f s \<and> t = s"
  "tput g s = Inr (u, t) \<longleftrightarrow> t = g s"
  "checked_i128 n msg s = Inr (k, t) \<longleftrightarrow> i128 n \<and> k = n \<and> t = s"
  "checked_u64 n msg s = Inr (k, t) \<longleftrightarrow> u64 n \<and> k = n \<and> t = s"
  by (auto simp: tret_def panic_def require_def expect_def tget_def tput_def checked_i128_def checked_u64_def
    split: option.split)

lemma tbind_Inr [tx]:
  "tbind m f s = Inr (b, t) \<longleftrightarrow> (\<exists>a s1. m s = Inr (a, s1) \<and> f a s1 = Inr (b, t))"
  by (auto simp: tbind_def split: sum.split)

lemma tx_if [tx]: "(if c then m else m') s = (if c then m s else m' s)"
  by simp

text \<open>A transaction that satisfies its checks runs.\<close>

lemma tx_run:
  "tbind m f s = (case m s of Inl e \<Rightarrow> Inl e | Inr (a, s') \<Rightarrow> f a s')"
  "tret a s = Inr (a, s)"
  "require c msg s = (if c then Inr ((), s) else Inl msg)"
  "expect v msg s = (case v of Some a \<Rightarrow> Inr (a, s) | None \<Rightarrow> Inl msg)"
  "tget g s = Inr (g s, s)"
  "tput h s = Inr ((), h s)"
  "checked_i128 n msg s = (if i128 n then Inr (n, s) else Inl msg)"
  "checked_u64 n msg s = (if u64 n then Inr (n, s) else Inl msg)"
  by (simp_all add: tbind_def tret_def require_def expect_def tget_def tput_def checked_i128_def checked_u64_def
    panic_def split: option.split)

section \<open>Tokens\<close>

text \<open>The calls the stream contract makes to a token: does it answer a balance query, the balance, a
  transfer under given authorizations. \<open>'l\<close> is the state of all tokens.\<close>

record 'l token_api =
  tk_answers :: "string \<Rightarrow> string \<Rightarrow> 'l \<Rightarrow> bool"
  tk_balance :: "string \<Rightarrow> string \<Rightarrow> 'l \<Rightarrow> int"
  tk_transfer :: "(string \<Rightarrow> bool) \<Rightarrow> string \<Rightarrow> string \<Rightarrow> string \<Rightarrow> int \<Rightarrow> 'l \<Rightarrow> 'l option"

text \<open>What a token contract promises: a transfer moves exactly its amount, and nothing else.\<close>

locale token_contract =
  fixes T :: "'l token_api"
  assumes transfer_moves:
    "tk_transfer T auth tok a b n l = Some l' \<Longrightarrow>
      0 \<le> n \<and> tk_balance T t c l' = tk_balance T t c l +
        (if t = tok \<and> c = b then n else 0) - (if t = tok \<and> c = a then n else 0)"
begin

lemma transfer_nonneg: "tk_transfer T auth tok a b n l = Some l' \<Longrightarrow> 0 \<le> n"
  using transfer_moves by blast

lemma transfer_balance:
  "tk_transfer T auth tok a b n l = Some l' \<Longrightarrow> tk_balance T t c l' = tk_balance T t c l +
    (if t = tok \<and> c = b then n else 0) - (if t = tok \<and> c = a then n else 0)"
  using transfer_moves by blast

text \<open>A payment out of an account lowers it by at most the amount; a payment into it from elsewhere
  raises it by the amount; no other account and no other token is touched.\<close>

lemma pay_out: "tk_transfer T auth tok a b n l = Some l' \<Longrightarrow> tk_balance T tok a l - n \<le> tk_balance T tok a l'"
  using transfer_moves [of auth tok a b n l l' tok a] by auto

lemma pay_in: "tk_transfer T auth tok b a n l = Some l' \<Longrightarrow> a \<noteq> b \<Longrightarrow> tk_balance T tok a l' = tk_balance T tok a l + n"
  using transfer_moves [of auth tok b a n l l' tok a] by auto

lemma pay_others: "tk_transfer T auth tok a b n l = Some l' \<Longrightarrow> c \<noteq> a \<Longrightarrow> tk_balance T t c l \<le> tk_balance T t c l'"
  using transfer_moves [of auth tok a b n l l' t c] by auto

lemma pay_other_token: "tk_transfer T auth tok a b n l = Some l' \<Longrightarrow> t \<noteq> tok \<Longrightarrow> tk_balance T t c l' = tk_balance T t c l"
  using transfer_moves [of auth tok a b n l l' t c] by auto

end

end
