(* ===== verification/Token.thy ===== *)
theory Token
  imports Soroban
begin

text \<open>
  The token contract (\<^verbatim>\<open>contracts/token/src/lib.rs\<close>, \<^verbatim>\<open>contracts/token/src/storage.rs\<close>): its
  entry points, that the supply is the sum of the balances and stays under the cap, and that it keeps
  the promise of a token contract.
\<close>

section \<open>State and entry points\<close>

record token_state =
  t_admin :: "string option"
  t_balances :: "(string, int) jsmap"
  t_allowances :: "(string \<times> string, int) jsmap"
  t_supply :: int
  t_minters :: "(string, bool) jsmap"

definition MAX_SUPPLY :: int where
  "MAX_SUPPLY = 1000000000000000000"

definition balance_of :: "token_state \<Rightarrow> string \<Rightarrow> int" where
  "balance_of s a = (case jsget (t_balances s) a of Some n \<Rightarrow> n | None \<Rightarrow> 0)"

definition set_balance :: "string \<Rightarrow> int \<Rightarrow> token_state \<Rightarrow> token_state" where
  "set_balance a n s = s\<lparr>t_balances := jsset a n (t_balances s)\<rparr>"

definition allowance :: "token_state \<Rightarrow> string \<Rightarrow> string \<Rightarrow> int" where
  "allowance s a b = (case jsget (t_allowances s) (a, b) of Some n \<Rightarrow> n | None \<Rightarrow> 0)"

definition set_allowance :: "string \<Rightarrow> string \<Rightarrow> int \<Rightarrow> token_state \<Rightarrow> token_state" where
  "set_allowance a b n s = s\<lparr>t_allowances := jsset (a, b) n (t_allowances s)\<rparr>"

definition is_minter :: "token_state \<Rightarrow> string \<Rightarrow> bool" where
  "is_minter s a = (case jsget (t_minters s) a of Some b \<Rightarrow> b | None \<Rightarrow> False)"

text \<open>\<open>auth a\<close>: the transaction carries the authorization of \<open>a\<close>.\<close>

definition require_auth :: "(string \<Rightarrow> bool) \<Rightarrow> string \<Rightarrow> ('s, unit) tx" where
  "require_auth auth a = require (auth a) ''authorization failed''"

definition token_initialize :: "(string \<Rightarrow> bool) \<Rightarrow> string \<Rightarrow> int \<Rightarrow> (token_state, unit) tx" where
  "token_initialize auth admin initial_supply =
     tbind (require_auth auth admin) (\<lambda>_.
     tbind (require (initial_supply \<ge> 0) ''amount must be positive'') (\<lambda>_.
     tbind (require (initial_supply \<le> MAX_SUPPLY) ''supply cap exceeded'') (\<lambda>_.
     tput (\<lambda>s. set_balance admin initial_supply (s\<lparr>t_admin := Some admin\<rparr>)\<lparr>t_supply := initial_supply\<rparr>))))"

text \<open>Take an amount from one balance and add it to another; both are read when they are needed.\<close>

definition move :: "string \<Rightarrow> string \<Rightarrow> int \<Rightarrow> (token_state, unit) tx" where
  "move a b n =
     tbind (tget (\<lambda>s. balance_of s a)) (\<lambda>from_bal.
     tbind (require (from_bal \<ge> n) ''insufficient balance'') (\<lambda>_.
     tbind (checked_i128 (from_bal - n) ''overflow'') (\<lambda>left.
     tbind (tput (set_balance a left)) (\<lambda>_.
     tbind (tget (\<lambda>s. balance_of s b)) (\<lambda>to_bal.
     tbind (checked_i128 (to_bal + n) ''overflow'') (\<lambda>got.
     tput (set_balance b got)))))))"

definition transfer :: "(string \<Rightarrow> bool) \<Rightarrow> string \<Rightarrow> string \<Rightarrow> int \<Rightarrow> (token_state, unit) tx" where
  "transfer auth a b n =
     tbind (require_auth auth a) (\<lambda>_.
     tbind (require (n > 0) ''amount must be positive'') (\<lambda>_.
     move a b n))"

definition approve :: "(string \<Rightarrow> bool) \<Rightarrow> string \<Rightarrow> string \<Rightarrow> int \<Rightarrow> (token_state, unit) tx" where
  "approve auth a spender n = tbind (require_auth auth a) (\<lambda>_. tput (set_allowance a spender n))"

definition require_token_admin :: "string \<Rightarrow> (token_state, unit) tx" where
  "require_token_admin a =
     tbind (tget t_admin) (\<lambda>v. tbind (expect v ''admin not set'') (\<lambda>admin. require (admin = a) ''not admin''))"

definition require_admin_or_minter :: "string \<Rightarrow> (token_state, unit) tx" where
  "require_admin_or_minter a =
     tbind (tget t_admin) (\<lambda>v. tbind (expect v ''admin not set'') (\<lambda>admin.
       if a = admin then tret ()
       else tbind (tget (\<lambda>s. is_minter s a)) (\<lambda>m. require m ''not authorized to mint'')))"

definition set_minter_role :: "bool \<Rightarrow> (string \<Rightarrow> bool) \<Rightarrow> string \<Rightarrow> string \<Rightarrow> (token_state, unit) tx" where
  "set_minter_role on auth admin minter =
     tbind (require_auth auth admin) (\<lambda>_.
     tbind (require_token_admin admin) (\<lambda>_.
     tput (\<lambda>s. s\<lparr>t_minters := jsset minter on (t_minters s)\<rparr>)))"

definition add_minter where "add_minter = set_minter_role True"

definition remove_minter where "remove_minter = set_minter_role False"

text \<open>A negative amount passes the checks of \<^verbatim>\<open>transfer_from\<close>: it moves tokens the other way.\<close>

definition transfer_from :: "(string \<Rightarrow> bool) \<Rightarrow> string \<Rightarrow> string \<Rightarrow> string \<Rightarrow> int \<Rightarrow> (token_state, unit) tx" where
  "transfer_from auth spender a b n =
     tbind (require_auth auth spender) (\<lambda>_.
     tbind (tget (\<lambda>s. allowance s a spender)) (\<lambda>allowed.
     tbind (require (allowed \<ge> n) ''allowance exceeded'') (\<lambda>_.
     tbind (tget (\<lambda>s. balance_of s a)) (\<lambda>from_bal.
     tbind (require (from_bal \<ge> n) ''insufficient balance'') (\<lambda>_.
     tbind (checked_i128 (allowed - n) ''overflow'') (\<lambda>rest.
     tbind (tput (set_allowance a spender rest)) (\<lambda>_.
     move a b n)))))))"

definition mint :: "(string \<Rightarrow> bool) \<Rightarrow> string \<Rightarrow> string \<Rightarrow> int \<Rightarrow> (token_state, unit) tx" where
  "mint auth caller a n =
     tbind (require_auth auth caller) (\<lambda>_.
     tbind (require_admin_or_minter caller) (\<lambda>_.
     tbind (require (n > 0) ''amount must be positive'') (\<lambda>_.
     tbind (tget t_supply) (\<lambda>supply.
     tbind (checked_i128 (supply + n) ''supply overflow'') (\<lambda>new_supply.
     tbind (require (new_supply \<le> MAX_SUPPLY) ''supply cap exceeded'') (\<lambda>_.
     tbind (tget (\<lambda>s. balance_of s a)) (\<lambda>bal.
     tbind (checked_i128 (bal + n) ''overflow'') (\<lambda>new_bal.
     tput (\<lambda>s. set_balance a new_bal s\<lparr>t_supply := new_supply\<rparr>)))))))))"

text \<open>What \<^verbatim>\<open>burn\<close> and \<^verbatim>\<open>burn_from\<close> share.\<close>

definition destroy :: "string \<Rightarrow> int \<Rightarrow> (token_state, unit) tx" where
  "destroy a n =
     tbind (tget (\<lambda>s. balance_of s a)) (\<lambda>bal.
     tbind (require (bal \<ge> n) ''insufficient balance'') (\<lambda>_.
     tput (\<lambda>s. set_balance a (bal - n) s\<lparr>t_supply := t_supply s - n\<rparr>)))"

definition burn :: "(string \<Rightarrow> bool) \<Rightarrow> string \<Rightarrow> int \<Rightarrow> (token_state, unit) tx" where
  "burn auth a n =
     tbind (require_auth auth a) (\<lambda>_.
     tbind (require (n > 0) ''amount must be positive'') (\<lambda>_. destroy a n))"

definition burn_from :: "(string \<Rightarrow> bool) \<Rightarrow> string \<Rightarrow> string \<Rightarrow> int \<Rightarrow> (token_state, unit) tx" where
  "burn_from auth spender a n =
     tbind (require_auth auth spender) (\<lambda>_.
     tbind (require (n > 0) ''amount must be positive'') (\<lambda>_.
     tbind (tget (\<lambda>s. allowance s a spender)) (\<lambda>allowed.
     tbind (require (allowed \<ge> n) ''allowance exceeded'') (\<lambda>_.
     tbind (tget (\<lambda>s. balance_of s a)) (\<lambda>bal.
     tbind (require (bal \<ge> n) ''insufficient balance'') (\<lambda>_.
     tbind (tput (set_allowance a spender (allowed - n))) (\<lambda>_.
     destroy a n)))))))"

section \<open>Balances\<close>

lemma balance_set [simp]: "balance_of (set_balance a n s) c = (if c = a then n else balance_of s c)"
  by (simp add: balance_of_def set_balance_def)

lemma balance_other_fields [simp]:
  "balance_of (s\<lparr>t_supply := n\<rparr>) c = balance_of s c"
  "balance_of (s\<lparr>t_admin := v\<rparr>) c = balance_of s c"
  "balance_of (set_allowance a b n s) c = balance_of s c"
  "balance_of (s\<lparr>t_minters := m\<rparr>) c = balance_of s c"
  by (simp_all add: balance_of_def set_allowance_def)

lemma move_balance:
  "move a b n s = Inr (u, s') \<Longrightarrow>
    balance_of s' c = balance_of s c + (if c = b then n else 0) - (if c = a then n else 0)"
  by (auto simp: move_def tx)

lemma token_transfer_moves:
  assumes "transfer auth a b n s = Inr (u, s')"
  shows "0 < n \<and> balance_of s' c = balance_of s c + (if c = b then n else 0) - (if c = a then n else 0)"
proof -
  have "0 < n" "move a b n s = Inr (u, s')" using assms by (auto simp: transfer_def require_auth_def tx)
  then show ?thesis using move_balance by blast
qed

text \<open>All tokens of a chain, by address; a transfer by the stream contract runs in the token's own state.\<close>

type_synonym token_ledger = "(string, token_state) jsmap"

definition chain_tokens :: "token_ledger token_api" where
  "chain_tokens =
     \<lparr>tk_answers = (\<lambda>tok a l. jsget l tok \<noteq> None),
      tk_balance = (\<lambda>tok a l. case jsget l tok of Some s \<Rightarrow> balance_of s a | None \<Rightarrow> 0),
      tk_transfer = (\<lambda>auth tok a b n l.
        case jsget l tok of None \<Rightarrow> None
        | Some s \<Rightarrow> (case transfer auth a b n s of Inl _ \<Rightarrow> None | Inr (_, s') \<Rightarrow> Some (jsset tok s' l)))\<rparr>"

interpretation chain: token_contract chain_tokens
proof
  fix auth tok a b n l l' t c
  assume "tk_transfer chain_tokens auth tok a b n l = Some l'"
  then obtain s u s' where s: "jsget l tok = Some s" "transfer auth a b n s = Inr (u, s')" "l' = jsset tok s' l"
    by (auto simp: chain_tokens_def split: option.splits sum.splits)
  then show "0 \<le> n \<and> tk_balance chain_tokens t c l' = tk_balance chain_tokens t c l +
      (if t = tok \<and> c = b then n else 0) - (if t = tok \<and> c = a then n else 0)"
    using token_transfer_moves [OF s(2), of c] by (auto simp: chain_tokens_def)
qed

section \<open>The supply\<close>

definition total_balance :: "token_state \<Rightarrow> int" where
  "total_balance s = sum_list (map snd (t_balances s))"

definition supply_ok :: "token_state \<Rightarrow> bool" where
  "supply_ok s \<longleftrightarrow> distinct (map fst (t_balances s)) \<and> t_supply s = total_balance s \<and> t_supply s \<le> MAX_SUPPLY"

lemma total_set_balance:
  "distinct (map fst (t_balances s)) \<Longrightarrow> total_balance (set_balance a n s) = total_balance s - balance_of s a + n"
  by (simp add: total_balance_def set_balance_def balance_of_def sum_jsset_snd split: option.split)

lemma distinct_set_balance [simp]:
  "distinct (map fst (t_balances s)) \<Longrightarrow> distinct (map fst (t_balances (set_balance a n s)))"
  by (simp add: set_balance_def jsset_distinct)

lemma token_fields [simp]:
  "t_supply (set_balance a n s) = t_supply s"
  "t_supply (set_allowance a b n s) = t_supply s"
  "t_balances (set_allowance a b n s) = t_balances s"
  "total_balance (set_allowance a b n s) = total_balance s"
  "total_balance (s\<lparr>t_supply := m\<rparr>) = total_balance s"
  "total_balance (s\<lparr>t_minters := ms\<rparr>) = total_balance s"
  by (simp_all add: set_balance_def set_allowance_def total_balance_def)

lemma move_supply: "move a b n s = Inr (u, s') \<Longrightarrow> supply_ok s \<Longrightarrow> supply_ok s'"
  by (auto simp: move_def tx supply_ok_def total_set_balance)

lemma destroy_supply: "destroy a n s = Inr (u, s') \<Longrightarrow> 0 \<le> n \<Longrightarrow> supply_ok s \<Longrightarrow> supply_ok s'"
  by (auto simp: destroy_def tx supply_ok_def total_set_balance)

lemma supply_other_fields [simp]:
  "supply_ok (set_allowance a b n s) = supply_ok s"
  "supply_ok (s\<lparr>t_minters := ms\<rparr>) = supply_ok s"
  by (simp_all add: supply_ok_def)

text \<open>The calls to a token after its initialization.\<close>

datatype token_call =
    Transfer string string int
  | Approve string string int
  | AddMinter string string
  | RemoveMinter string string
  | TransferFrom string string string int
  | Mint string string int
  | Burn string int
  | BurnFrom string string int

primrec token_exec :: "(string \<Rightarrow> bool) \<Rightarrow> token_call \<Rightarrow> (token_state, unit) tx" where
  "token_exec auth (Transfer a b n) = transfer auth a b n"
| "token_exec auth (Approve a b n) = approve auth a b n"
| "token_exec auth (AddMinter a m) = add_minter auth a m"
| "token_exec auth (RemoveMinter a m) = remove_minter auth a m"
| "token_exec auth (TransferFrom sp a b n) = transfer_from auth sp a b n"
| "token_exec auth (Mint c a n) = mint auth c a n"
| "token_exec auth (Burn a n) = burn auth a n"
| "token_exec auth (BurnFrom sp a n) = burn_from auth sp a n"

lemmas token_ops = transfer_def approve_def add_minter_def remove_minter_def set_minter_role_def require_token_admin_def
  require_admin_or_minter_def transfer_from_def burn_def burn_from_def require_auth_def

lemma mint_supply: "mint auth c a n s = Inr (u, s') \<Longrightarrow> supply_ok s \<Longrightarrow> supply_ok s'"
  by (auto simp: mint_def token_ops tx supply_ok_def total_set_balance split: if_splits)

lemma token_exec_supply:
  assumes "token_exec auth c s = Inr (u, s')" "supply_ok s"
  shows "supply_ok s'"
proof (cases c)
  case (Mint x y n)
  then show ?thesis using assms mint_supply by simp
qed (use assms in \<open>auto simp: token_ops tx intro: move_supply destroy_supply\<close>)

lemma token_run_supply:
  "supply_ok s \<Longrightarrow> supply_ok (fold (\<lambda>(auth, c). invoke (token_exec auth c)) cs s)"
proof (induction cs arbitrary: s)
  case (Cons x cs)
  obtain auth c where x: "x = (auth, c)" by force
  have "supply_ok (invoke (token_exec auth c) s)"
    using Cons.prems token_exec_supply by (auto simp: invoke_def split: sum.split)
  then show ?case using Cons.IH by (simp add: x)
qed simp

text \<open>A balance of another account falls only by its own authorization, by one of its allowances, or by
  the sign error of \<^verbatim>\<open>transfer_from\<close>.\<close>

lemma transfer_from_steals:
  assumes "auth sp" "balance_of s a \<ge> 0" "allowance s a sp \<ge> 0" "0 < n" "a \<noteq> b"
    "i128 (allowance s a sp + n)" "i128 (balance_of s a + n)" "i128 (balance_of s b - n)"
  shows "\<exists>s'. transfer_from auth sp a b (- n) s = Inr ((), s') \<and>
    balance_of s' b = balance_of s b - n \<and> balance_of s' a = balance_of s a + n"
  using assms by (auto simp: transfer_from_def require_auth_def move_def tx_run)

text \<open>Anyone can initialize a token again and becomes its admin; the balances of the others stay.\<close>

lemma token_reinitialize:
  assumes "auth m" "0 \<le> n" "n \<le> MAX_SUPPLY"
  shows "\<exists>s'. token_initialize auth m n s = Inr ((), s') \<and> t_admin s' = Some m \<and> t_supply s' = n \<and>
    (\<forall>c. c \<noteq> m \<longrightarrow> balance_of s' c = balance_of s c)"
  using assms by (auto simp: token_initialize_def require_auth_def tx_run set_balance_def balance_of_def)

section \<open>Properties\<close>



end
