(* ===== verification/Contract.thy ===== *)
theory Contract
  imports Accrual Token
begin

text \<open>
  The stream contract (\<^verbatim>\<open>contracts/stream/src/lib.rs\<close>) with its storage
  (\<^verbatim>\<open>storage.rs\<close>), checks (\<^verbatim>\<open>validate.rs\<close>, \<^verbatim>\<open>access_control.rs\<close>) and state machine
  (\<^verbatim>\<open>state_machine.rs\<close>): every entry point that changes state, as a transaction. Amounts and times
  are integers with the checks of \<^verbatim>\<open>i128\<close> and \<^verbatim>\<open>u64\<close> where the code has them.
\<close>

section \<open>Storage\<close>

record contract_config =
  cf_min_deposit :: int
  cf_fee_bps :: int
  cf_max_streams :: int
  cf_admin_nonce :: int
  cf_paused :: bool

definition default_config :: contract_config where
  "default_config = \<lparr>cf_min_deposit = 0, cf_fee_bps = 0, cf_max_streams = 100, cf_admin_nonce = 0, cf_paused = False\<rparr>"

datatype gov_param = MinDeposit | MaxDuration | FeeBps

datatype proposal_status = ProposalActive | Passed | Executed | ProposalRejected

record proposal =
  pr_id :: int
  pr_param :: gov_param
  pr_new_value :: int
  pr_votes_for :: int
  pr_votes_against :: int
  pr_status :: proposal_status
  pr_executable_after :: int

record multisig_config =
  ms_admins :: "string list"
  ms_threshold :: int

datatype admin_op = Upgrade string | EmergencyPause

record pending_op =
  po_id :: int
  po_op :: admin_op
  po_approvals :: "string list"
  po_expires_at :: int
  po_executed :: bool

record 'l contract =
  c_streams :: "(int, contract_stream) jsmap"
  c_count :: int
  c_config :: contract_config
  c_admin :: "string option"
  c_pending_admin :: "string option"
  c_fee_recipient :: "string option"
  c_fee_balance :: "(string, int) jsmap"
  c_pending_employer :: "(int, string) jsmap"
  c_employer_streams :: "(string, int list) jsmap"
  c_employee_streams :: "(string, int list) jsmap"
  c_pause_history :: "(int, int pause_event list) jsmap"
  c_allowed :: "string list"
  c_proposals :: "(int, proposal) jsmap"
  c_proposal_count :: int
  c_voted :: "(int \<times> string) list"
  c_multisig :: "multisig_config option"
  c_pending_ops :: "(int, pending_op) jsmap"
  c_op_count :: int
  c_ledger :: 'l

text \<open>What a call sees of its surroundings: the contract's own address, the ledger time, who authorized
  the transaction, and the tokens.\<close>

record 'l env =
  e_self :: string
  e_now :: int
  e_auth :: "string \<Rightarrow> bool"
  e_token :: "'l token_api"

definition empty_contract :: "'l \<Rightarrow> 'l contract" where
  "empty_contract l =
     \<lparr>c_streams = [], c_count = 0, c_config = default_config, c_admin = None, c_pending_admin = None,
      c_fee_recipient = None, c_fee_balance = [], c_pending_employer = [], c_employer_streams = [],
      c_employee_streams = [], c_pause_history = [], c_allowed = [], c_proposals = [], c_proposal_count = 0,
      c_voted = [], c_multisig = None, c_pending_ops = [], c_op_count = 0, c_ledger = l\<rparr>"

definition auth_of :: "'l env \<Rightarrow> string \<Rightarrow> ('l contract, unit) tx" where
  "auth_of E a = require_auth (e_auth E) a"

definition load_stream :: "int \<Rightarrow> ('l contract, contract_stream) tx" where
  "load_stream i = tbind (tget (\<lambda>c. jsget (c_streams c) i)) (\<lambda>v. expect v ''stream not found'')"

definition save_stream :: "contract_stream \<Rightarrow> ('l contract, unit) tx" where
  "save_stream s = tput (\<lambda>c. c\<lparr>c_streams := jsset (cs_id s) s (c_streams c)\<rparr>)"

definition next_id :: "('l contract, int) tx" where
  "next_id =
     tbind (tget c_count) (\<lambda>n.
     tbind (checked_u64 (n + 1) ''stream count overflow'') (\<lambda>i.
     tbind (tput (\<lambda>c. c\<lparr>c_count := i\<rparr>)) (\<lambda>_. tret i)))"

definition set_config :: "(contract_config \<Rightarrow> contract_config) \<Rightarrow> ('l contract, unit) tx" where
  "set_config f = tput (\<lambda>c. c\<lparr>c_config := f (c_config c)\<rparr>)"

definition consume_admin_nonce :: "int \<Rightarrow> ('l contract, unit) tx" where
  "consume_admin_nonce nonce =
     tbind (tget (\<lambda>c. cf_admin_nonce (c_config c))) (\<lambda>n.
     tbind (require (nonce = n) ''E009: invalid admin nonce'') (\<lambda>_.
     tbind (checked_u64 (n + 1) ''overflow'') (\<lambda>n'.
     set_config (\<lambda>f. f\<lparr>cf_admin_nonce := n'\<rparr>))))"

definition list_at :: "('k, 'v list) jsmap \<Rightarrow> 'k \<Rightarrow> 'v list" where
  "list_at m k = (case jsget m k of Some xs \<Rightarrow> xs | None \<Rightarrow> [])"

definition index_employer_streams :: "string \<Rightarrow> int list \<Rightarrow> ('l contract, unit) tx" where
  "index_employer_streams a is =
     tput (\<lambda>c. c\<lparr>c_employer_streams := jsset a (list_at (c_employer_streams c) a @ is) (c_employer_streams c)\<rparr>)"

definition index_employee_stream :: "string \<Rightarrow> int \<Rightarrow> ('l contract, unit) tx" where
  "index_employee_stream a i =
     tput (\<lambda>c. c\<lparr>c_employee_streams := jsset a (list_at (c_employee_streams c) a @ [i]) (c_employee_streams c)\<rparr>)"

definition add_pause_event :: "int \<Rightarrow> int \<Rightarrow> bool \<Rightarrow> ('l contract, unit) tx" where
  "add_pause_event i t b =
     tput (\<lambda>c. c\<lparr>c_pause_history :=
       jsset i (list_at (c_pause_history c) i @ [\<lparr>timestamp = t, is_pause = b\<rparr>]) (c_pause_history c)\<rparr>)"

definition get_fee_balance :: "string \<Rightarrow> 'l contract \<Rightarrow> int" where
  "get_fee_balance tok c = (case jsget (c_fee_balance c) tok of Some n \<Rightarrow> n | None \<Rightarrow> 0)"

definition set_fee_balance :: "string \<Rightarrow> int \<Rightarrow> ('l contract, unit) tx" where
  "set_fee_balance tok n = tput (\<lambda>c. c\<lparr>c_fee_balance := jsset tok n (c_fee_balance c)\<rparr>)"

text \<open>An overflow leaves the fee balance as it is.\<close>

definition add_fee_balance :: "string \<Rightarrow> int \<Rightarrow> ('l contract, unit) tx" where
  "add_fee_balance tok n =
     tbind (tget (get_fee_balance tok)) (\<lambda>b. set_fee_balance tok (if i128 (b + n) then b + n else b))"

definition is_token_allowed :: "string \<Rightarrow> 'l contract \<Rightarrow> bool" where
  "is_token_allowed tok c = (c_allowed c = [] \<or> tok \<in> set (c_allowed c))"

text \<open>A token call; the contract is authorized for its own account.\<close>

definition pay :: "'l env \<Rightarrow> string \<Rightarrow> string \<Rightarrow> string \<Rightarrow> int \<Rightarrow> ('l contract, unit) tx" where
  "pay E tok a b n =
     tbind (tget (\<lambda>c. tk_transfer (e_token E) (\<lambda>x. x = e_self E \<or> e_auth E x) tok a b n (c_ledger c))) (\<lambda>r.
     tbind (expect r ''token transfer failed'') (\<lambda>l. tput (\<lambda>c. c\<lparr>c_ledger := l\<rparr>)))"

section \<open>Checks\<close>

definition require_admin :: "string \<Rightarrow> ('l contract, unit) tx" where
  "require_admin a =
     tbind (tget c_admin) (\<lambda>v. tbind (expect v ''admin not set'') (\<lambda>b. require (a = b) ''not the admin''))"

definition require_employer_by_id :: "string \<Rightarrow> int \<Rightarrow> ('l contract, contract_stream) tx" where
  "require_employer_by_id a i =
     tbind (load_stream i) (\<lambda>s. tbind (require (a = cs_employer s) ''not the employer'') (\<lambda>_. tret s))"

definition require_employee_by_id :: "string \<Rightarrow> int \<Rightarrow> ('l contract, contract_stream) tx" where
  "require_employee_by_id a i =
     tbind (load_stream i) (\<lambda>s. tbind (require (a = cs_employee s) ''not the employee'') (\<lambda>_. tret s))"

definition is_delegate :: "string \<Rightarrow> contract_stream \<Rightarrow> bool" where
  "is_delegate a s = (case cs_delegate s of Some d \<Rightarrow> a = d | None \<Rightarrow> False)"

definition may_manage :: "string \<Rightarrow> contract_stream \<Rightarrow> bool" where
  "may_manage a s = (a = cs_employer s \<or> is_delegate a s)"

definition is_valid_transition :: "stream_status \<Rightarrow> stream_status \<Rightarrow> bool" where
  "is_valid_transition from to =
     ((from, to) \<in> {(Active, Paused), (Active, Cancelled), (Active, Exhausted), (Paused, Active), (Paused, Cancelled)})"

definition is_terminal :: "stream_status \<Rightarrow> bool" where
  "is_terminal st = (st = Cancelled \<or> st = Exhausted)"

definition require_transition :: "stream_status \<Rightarrow> stream_status \<Rightarrow> ('l contract, unit) tx" where
  "require_transition from to = require (is_valid_transition from to) ''E028: invalid state transition''"

definition require_not_terminal :: "stream_status \<Rightarrow> ('l contract, unit) tx" where
  "require_not_terminal st = require (\<not> is_terminal st) ''E029: stream is in a terminal state''"

definition MAX_RATE_PER_SECOND :: int where "MAX_RATE_PER_SECOND = 1000000000"

definition MAX_STREAM_DURATION :: int where "MAX_STREAM_DURATION = 315360000"

text \<open>A conversion \<^verbatim>\<open>as u64\<close> or \<^verbatim>\<open>as u32\<close> keeps the low bits.\<close>

definition as_u64 :: "int \<Rightarrow> int" where "as_u64 n = n mod 2 ^ 64"

definition as_u32 :: "int \<Rightarrow> int" where "as_u32 n = n mod 2 ^ 32"

definition sat_i128 :: "int \<Rightarrow> int" where "sat_i128 n = max (- (2 ^ 127)) (min (2 ^ 127 - 1) n)"

definition sat_u64 :: "int \<Rightarrow> int" where "sat_u64 n = max 0 (min (2 ^ 64 - 1) n)"

definition validate_create_stream ::
  "int \<Rightarrow> int \<Rightarrow> int \<Rightarrow> int \<Rightarrow> int \<Rightarrow> int \<Rightarrow> string \<Rightarrow> string \<Rightarrow> ('l contract, unit) tx" where
  "validate_create_stream dep min_dep rate stop cliff now er ee =
     tbind (require (dep > 0) ''E002: deposit must be positive'') (\<lambda>_.
     tbind (require (dep \<ge> min_dep) ''E007: deposit below minimum'') (\<lambda>_.
     tbind (require (rate > 0) ''E001: rate_per_second must be greater than zero'') (\<lambda>_.
     tbind (require (rate \<le> MAX_RATE_PER_SECOND) ''E008: rate_per_second exceeds maximum'') (\<lambda>_.
     tbind (require (dep \<ge> sat_i128 (rate * 60)) ''E020: deposit too low for given rate'') (\<lambda>_.
     tbind (require (as_u64 (dep div rate) \<le> MAX_STREAM_DURATION) ''E014: stream duration exceeds maximum allowed'') (\<lambda>_.
     tbind (require (stop > 0 \<longrightarrow> stop > now) ''E016: stop_time must be in the future'') (\<lambda>_.
     tbind (require (stop > 0 \<longrightarrow> sat_u64 (stop - now) \<le> MAX_STREAM_DURATION) ''E014: stream duration exceeds maximum allowed'') (\<lambda>_.
     tbind (require (cliff > 0 \<and> stop > 0 \<longrightarrow> cliff \<le> stop) ''E019: cliff time must be before or equal to stop time'') (\<lambda>_.
     require (er \<noteq> ee) ''E010: employer and employee must differ'')))))))))"

definition claimable_tx :: "contract_stream \<Rightarrow> int \<Rightarrow> ('l contract, int) tx" where
  "claimable_tx s t = expect (claimable_amount s t) ''E004: arithmetic overflow in claimable calculation''"

section \<open>Administration\<close>

definition op_initialize :: "'l env \<Rightarrow> string \<Rightarrow> ('l contract, unit) tx" where
  "op_initialize E admin = tbind (auth_of E admin) (\<lambda>_. tput (\<lambda>c. c\<lparr>c_admin := Some admin\<rparr>))"

definition as_admin :: "'l env \<Rightarrow> string \<Rightarrow> ('l contract, 'a) tx \<Rightarrow> ('l contract, 'a) tx" where
  "as_admin E admin m = tbind (auth_of E admin) (\<lambda>_. tbind (require_admin admin) (\<lambda>_. m))"

definition op_propose_admin :: "'l env \<Rightarrow> string \<Rightarrow> string \<Rightarrow> ('l contract, unit) tx" where
  "op_propose_admin E admin new_admin = as_admin E admin (tput (\<lambda>c. c\<lparr>c_pending_admin := Some new_admin\<rparr>))"

definition op_accept_admin :: "'l env \<Rightarrow> string \<Rightarrow> ('l contract, unit) tx" where
  "op_accept_admin E new_admin =
     tbind (auth_of E new_admin) (\<lambda>_.
     tbind (tget c_pending_admin) (\<lambda>v.
     tbind (expect v ''no pending admin'') (\<lambda>p.
     tbind (require (new_admin = p) ''not the pending admin'') (\<lambda>_.
     tput (\<lambda>c. c\<lparr>c_admin := Some new_admin, c_pending_admin := None\<rparr>)))))"

definition op_pause_contract :: "'l env \<Rightarrow> string \<Rightarrow> int \<Rightarrow> ('l contract, unit) tx" where
  "op_pause_contract E admin nonce =
     as_admin E admin (tbind (consume_admin_nonce nonce) (\<lambda>_. set_config (\<lambda>f. f\<lparr>cf_paused := True\<rparr>)))"

definition op_unpause_contract :: "'l env \<Rightarrow> string \<Rightarrow> int \<Rightarrow> ('l contract, unit) tx" where
  "op_unpause_contract E admin nonce =
     as_admin E admin (tbind (consume_admin_nonce nonce) (\<lambda>_. set_config (\<lambda>f. f\<lparr>cf_paused := False\<rparr>)))"

definition op_emergency_pause :: "'l env \<Rightarrow> string \<Rightarrow> ('l contract, unit) tx" where
  "op_emergency_pause E admin = as_admin E admin (set_config (\<lambda>f. f\<lparr>cf_paused := True\<rparr>))"

definition op_set_min_deposit :: "'l env \<Rightarrow> string \<Rightarrow> int \<Rightarrow> int \<Rightarrow> ('l contract, unit) tx" where
  "op_set_min_deposit E admin nonce n =
     as_admin E admin (tbind (consume_admin_nonce nonce) (\<lambda>_.
       tbind (require (n > 0) ''E002: deposit must be positive'') (\<lambda>_. set_config (\<lambda>f. f\<lparr>cf_min_deposit := n\<rparr>))))"

definition op_set_protocol_fee :: "'l env \<Rightarrow> string \<Rightarrow> int \<Rightarrow> int \<Rightarrow> string \<Rightarrow> ('l contract, unit) tx" where
  "op_set_protocol_fee E admin nonce bps recipient =
     as_admin E admin (tbind (consume_admin_nonce nonce) (\<lambda>_.
       tbind (require (bps \<le> 100) ''E011: fee_bps exceeds maximum of 100'') (\<lambda>_.
       tbind (set_config (\<lambda>f. f\<lparr>cf_fee_bps := bps\<rparr>)) (\<lambda>_.
       tput (\<lambda>c. c\<lparr>c_fee_recipient := Some recipient\<rparr>)))))"

definition op_set_max_streams :: "'l env \<Rightarrow> string \<Rightarrow> int \<Rightarrow> int \<Rightarrow> ('l contract, unit) tx" where
  "op_set_max_streams E admin nonce limit =
     as_admin E admin (tbind (consume_admin_nonce nonce) (\<lambda>_. set_config (\<lambda>f. f\<lparr>cf_max_streams := limit\<rparr>)))"

definition op_add_allowed_token :: "'l env \<Rightarrow> string \<Rightarrow> string \<Rightarrow> ('l contract, unit) tx" where
  "op_add_allowed_token E admin tok =
     as_admin E admin (tput (\<lambda>c. if tok \<in> set (c_allowed c) then c else c\<lparr>c_allowed := c_allowed c @ [tok]\<rparr>))"

definition op_remove_allowed_token :: "'l env \<Rightarrow> string \<Rightarrow> string \<Rightarrow> ('l contract, unit) tx" where
  "op_remove_allowed_token E admin tok =
     as_admin E admin (tput (\<lambda>c. c\<lparr>c_allowed := filter (\<lambda>t. t \<noteq> tok) (c_allowed c)\<rparr>))"

text \<open>An upgrade spends a nonce; the code then changes, so that the histories of calls considered here end with it.\<close>

definition op_upgrade :: "'l env \<Rightarrow> string \<Rightarrow> int \<Rightarrow> ('l contract, unit) tx" where
  "op_upgrade E admin nonce = as_admin E admin (consume_admin_nonce nonce)"

definition op_migrate :: "'l env \<Rightarrow> string \<Rightarrow> ('l contract, unit) tx" where
  "op_migrate E admin = as_admin E admin (tret ())"

section \<open>Creating streams\<close>

text \<open>The fee taken from a deposit, in basis points; division rounds towards zero.\<close>

definition fee_of :: "int \<Rightarrow> int \<Rightarrow> ('l contract, int) tx" where
  "fee_of n bps =
     tbind (checked_i128 (n * bps) ''E004: arithmetic overflow in claimable calculation'') (\<lambda>x. tret (x div 10000))"

text \<open>The deposit goes to the contract, less the fee when there is one and somebody to receive it.\<close>

definition take_deposit :: "'l env \<Rightarrow> string \<Rightarrow> string \<Rightarrow> int \<Rightarrow> int \<Rightarrow> string option \<Rightarrow> ('l contract, int) tx" where
  "take_deposit E er tok dep bps recipient =
     (case (if bps > 0 then recipient else None) of
        None \<Rightarrow> tbind (pay E tok er (e_self E) dep) (\<lambda>_. tret dep)
      | Some r \<Rightarrow>
          tbind (fee_of dep bps) (\<lambda>fee.
          tbind (checked_i128 (dep - fee) ''overflow'') (\<lambda>net.
          tbind (pay E tok er (e_self E) net) (\<lambda>_.
          tbind (pay E tok er r fee) (\<lambda>_. tret net)))))"

definition new_stream :: "int \<Rightarrow> string \<Rightarrow> string \<Rightarrow> string \<Rightarrow> int \<Rightarrow> int \<Rightarrow> int \<Rightarrow> int \<Rightarrow> int \<Rightarrow> int \<Rightarrow> contract_stream" where
  "new_stream i er ee tok net rate now stop cooldown cliff =
     \<lparr>cs_id = i, cs_employer = er, cs_employee = ee, cs_token = tok, cs_deposit = net, cs_withdrawn = 0,
      cs_rate_per_second = rate, cs_start_time = now, cs_stop_time = stop, cs_last_withdraw_time = now,
      cs_cooldown_period = cooldown, cs_status = Active, cs_locked = False, cs_cliff_time = cliff,
      cs_paused_at = 0, cs_delegate = None\<rparr>"

definition require_token :: "'l env \<Rightarrow> string \<Rightarrow> string \<Rightarrow> ('l contract, unit) tx" where
  "require_token E tok a =
     tbind (tget (\<lambda>c. tk_answers (e_token E) tok a (c_ledger c))) (\<lambda>b.
     require b ''E012: token address is not a valid SEP-41 contract'')"

definition op_create_stream ::
  "'l env \<Rightarrow> string \<Rightarrow> string \<Rightarrow> string \<Rightarrow> int \<Rightarrow> int \<Rightarrow> int \<Rightarrow> int \<Rightarrow> int \<Rightarrow> ('l contract, int) tx" where
  "op_create_stream E er ee tok dep rate stop cooldown cliff =
     tbind (auth_of E er) (\<lambda>_.
     tbind (tget c_config) (\<lambda>cf.
     tbind (require (\<not> cf_paused cf) ''contract is paused'') (\<lambda>_.
     tbind (tget (\<lambda>c. int (length (list_at (c_employer_streams c) er)))) (\<lambda>current.
     tbind (require (current < cf_max_streams cf) ''E015: maximum streams per employer reached'') (\<lambda>_.
     tbind (validate_create_stream dep (cf_min_deposit cf) rate stop cliff (e_now E) er ee) (\<lambda>_.
     tbind (require_token E tok er) (\<lambda>_.
     tbind (tget (is_token_allowed tok)) (\<lambda>ok.
     tbind (require ok ''E018: token is not on the allowlist'') (\<lambda>_.
     tbind (tget c_fee_recipient) (\<lambda>recipient.
     tbind (take_deposit E er tok dep (cf_fee_bps cf) recipient) (\<lambda>net.
     tbind next_id (\<lambda>i.
     tbind (save_stream (new_stream i er ee tok net rate (e_now E) stop cooldown cliff)) (\<lambda>_.
     tbind (index_employer_streams er [i]) (\<lambda>_.
     tbind (index_employee_stream ee i) (\<lambda>_. tret i)))))))))))))))"

text \<open>
  One entry of a batch. \<open>bump\<close> stands for \<^verbatim>\<open>check_and_bump_rate\<close>, which the source calls and does
  not define: it may stop the transaction.
\<close>

record batch_param =
  bp_employee :: string
  bp_token :: string
  bp_deposit :: int
  bp_rate :: int
  bp_stop :: int
  bp_cliff :: int

definition batch_one ::
  "'l env \<Rightarrow> (string \<Rightarrow> bool) \<Rightarrow> string \<Rightarrow> contract_config \<Rightarrow> string option \<Rightarrow> string list \<Rightarrow> batch_param \<Rightarrow>
    ('l contract, int) tx" where
  "batch_one E bump er cf recipient allowed p =
     tbind (validate_create_stream (bp_deposit p) (cf_min_deposit cf) (bp_rate p) (bp_stop p) (bp_cliff p) (e_now E) er
       (bp_employee p)) (\<lambda>_.
     tbind (require (allowed \<noteq> [] \<longrightarrow> bp_token p \<in> set allowed) ''E018: token is not on the allowlist'') (\<lambda>_.
     tbind (require (bump er) ''rate limit'') (\<lambda>_.
     tbind (require_token E (bp_token p) er) (\<lambda>_.
     tbind (take_deposit E er (bp_token p) (bp_deposit p) (cf_fee_bps cf) recipient) (\<lambda>net.
     tbind next_id (\<lambda>i.
     tbind (save_stream (new_stream i er (bp_employee p) (bp_token p) net (bp_rate p) (e_now E) (bp_stop p) 0 (bp_cliff p))) (\<lambda>_.
     tbind (index_employee_stream (bp_employee p) i) (\<lambda>_. tret i))))))))"

fun batch_all :: "('p \<Rightarrow> ('s, 'a) tx) \<Rightarrow> 'p list \<Rightarrow> ('s, 'a list) tx" where
  "batch_all f [] = tret []"
| "batch_all f (p # ps) = tbind (f p) (\<lambda>i. tbind (batch_all f ps) (\<lambda>is. tret (i # is)))"

definition op_create_streams_batch ::
  "'l env \<Rightarrow> (string \<Rightarrow> bool) \<Rightarrow> string \<Rightarrow> batch_param list \<Rightarrow> ('l contract, int list) tx" where
  "op_create_streams_batch E bump er ps =
     tbind (auth_of E er) (\<lambda>_.
     tbind (tget c_config) (\<lambda>cf.
     tbind (require (\<not> cf_paused cf) ''contract is paused'') (\<lambda>_.
     tbind (require (ps \<noteq> []) ''params must not be empty'') (\<lambda>_.
     tbind (tget (\<lambda>c. int (length (list_at (c_employer_streams c) er)))) (\<lambda>current.
     tbind (require (current + int (length ps) \<le> cf_max_streams cf) ''E015: maximum streams per employer reached'') (\<lambda>_.
     tbind (tget c_fee_recipient) (\<lambda>recipient.
     tbind (tget c_allowed) (\<lambda>allowed.
     tbind (batch_all (batch_one E bump er cf recipient allowed) ps) (\<lambda>is.
     tbind (index_employer_streams er is) (\<lambda>_. tret is))))))))))"

section \<open>Money out and in\<close>

text \<open>A positive fee goes to the recipient, if there is one, and is also added to the fee balance.\<close>

definition pay_fee :: "'l env \<Rightarrow> string \<Rightarrow> int \<Rightarrow> string option \<Rightarrow> ('l contract, unit) tx" where
  "pay_fee E tok fee recipient =
     (case (if fee > 0 then recipient else None) of
        None \<Rightarrow> tret ()
      | Some r \<Rightarrow> tbind (pay E tok (e_self E) r fee) (\<lambda>_. add_fee_balance tok fee))"

text \<open>\<^verbatim>\<open>withdraw\<close> pays what is claimable, less the fee; a claim of zero ends it early.\<close>

definition op_withdraw :: "'l env \<Rightarrow> string \<Rightarrow> int \<Rightarrow> ('l contract, int) tx" where
  "op_withdraw E ee i =
     tbind (auth_of E ee) (\<lambda>_.
     tbind (tget c_config) (\<lambda>cf.
     tbind (require (\<not> cf_paused cf) ''contract is paused'') (\<lambda>_.
     tbind (require_employee_by_id ee i) (\<lambda>s.
     tbind (require (cs_status s = Active \<or> cs_status s = Exhausted) ''stream not active'') (\<lambda>_.
     tbind (require (cs_status s = Active \<and> cs_cooldown_period s > 0 \<longrightarrow>
         e_now E \<ge> sat_u64 (cs_last_withdraw_time s + cs_cooldown_period s)) ''E010: withdraw cooldown not expired'') (\<lambda>_.
     tbind (claimable_tx s (e_now E)) (\<lambda>gross.
     if gross = 0 then tret 0
     else
       tbind (require (\<not> cs_locked s) ''E003: reentrant withdraw detected'') (\<lambda>_.
       tbind (save_stream (s\<lparr>cs_locked := True\<rparr>)) (\<lambda>_.
       tbind (if cf_fee_bps cf > 0 then fee_of gross (cf_fee_bps cf) else tret 0) (\<lambda>fee.
       tbind (checked_i128 (cs_withdrawn s + gross) ''withdrawn overflow'') (\<lambda>w.
       tbind (tget c_fee_recipient) (\<lambda>recipient.
       tbind (pay_fee E (cs_token s) fee recipient) (\<lambda>_.
       tbind (pay E (cs_token s) (e_self E) ee (max 0 (sat_i128 (gross - fee)))) (\<lambda>_.
       tbind (save_stream (s\<lparr>cs_withdrawn := w, cs_last_withdraw_time := e_now E,
           cs_status := (if w \<ge> cs_deposit s then Exhausted else cs_status s), cs_locked := False\<rparr>)) (\<lambda>_.
       tret (max 0 (sat_i128 (gross - fee))))))))))))))))))"

definition op_withdraw_protocol_fees :: "'l env \<Rightarrow> string \<Rightarrow> string \<Rightarrow> int \<Rightarrow> ('l contract, unit) tx" where
  "op_withdraw_protocol_fees E admin tok n =
     as_admin E admin (
       tbind (require (n > 0) ''amount must be positive'') (\<lambda>_.
       tbind (tget (get_fee_balance tok)) (\<lambda>b.
       tbind (require (b \<ge> n) ''insufficient fee balance'') (\<lambda>_.
       tbind (tget c_fee_recipient) (\<lambda>v.
       tbind (pay E tok (e_self E) (case v of Some r \<Rightarrow> r | None \<Rightarrow> admin) n) (\<lambda>_.
       set_fee_balance tok (b - n)))))))"

definition op_top_up :: "'l env \<Rightarrow> string \<Rightarrow> int \<Rightarrow> int \<Rightarrow> ('l contract, unit) tx" where
  "op_top_up E caller i n =
     tbind (auth_of E caller) (\<lambda>_.
     tbind (require (n > 0) ''amount must be positive'') (\<lambda>_.
     tbind (load_stream i) (\<lambda>s.
     tbind (require (may_manage caller s) ''not the employer'') (\<lambda>_.
     tbind (require (cs_status s \<noteq> Cancelled) ''E005: cannot top up a cancelled stream'') (\<lambda>_.
     tbind (require (cs_status s \<noteq> Exhausted) ''E006: cannot top up an exhausted stream'') (\<lambda>_.
     tbind (require_not_terminal (cs_status s)) (\<lambda>_.
     tbind (pay E (cs_token s) caller (e_self E) n) (\<lambda>_.
     tbind (checked_i128 (cs_deposit s + n) ''deposit overflow'') (\<lambda>d.
     save_stream (s\<lparr>cs_deposit := d\<rparr>))))))))))"

text \<open>What \<^verbatim>\<open>cancel_stream\<close> and \<^verbatim>\<open>reclaim_expired\<close> share: the employee gets what is claimable, the
  employer the rest of the deposit, and the stream ends.\<close>

definition settle_stream :: "'l env \<Rightarrow> string \<Rightarrow> stream_status \<Rightarrow> contract_stream \<Rightarrow> ('l contract, unit) tx" where
  "settle_stream E er final s =
     tbind (claimable_tx s (e_now E)) (\<lambda>n.
     tbind (if n > 0 then tbind (pay E (cs_token s) (e_self E) (cs_employee s) n) (\<lambda>_.
              checked_i128 (cs_withdrawn s + n) ''withdrawn overflow'')
            else tret (cs_withdrawn s)) (\<lambda>w.
     let refund = (if i128 (cs_deposit s - w) then max 0 (cs_deposit s - w) else 0) in
     tbind (if refund > 0 then pay E (cs_token s) (e_self E) er refund else tret ()) (\<lambda>_.
     save_stream (s\<lparr>cs_withdrawn := w, cs_status := final\<rparr>))))"

definition op_cancel_stream :: "'l env \<Rightarrow> string \<Rightarrow> int \<Rightarrow> ('l contract, unit) tx" where
  "op_cancel_stream E er i =
     tbind (auth_of E er) (\<lambda>_.
     tbind (require_employer_by_id er i) (\<lambda>s.
     tbind (require (cs_status s = Active \<or> cs_status s = Paused) ''stream already ended'') (\<lambda>_.
     tbind (require_transition (cs_status s) Cancelled) (\<lambda>_.
     settle_stream E er Cancelled s))))"

definition op_reclaim_expired :: "'l env \<Rightarrow> string \<Rightarrow> int \<Rightarrow> ('l contract, unit) tx" where
  "op_reclaim_expired E er i =
     tbind (auth_of E er) (\<lambda>_.
     tbind (require_employer_by_id er i) (\<lambda>s.
     tbind (require (cs_status s = Active \<or> cs_status s = Paused) ''stream already ended'') (\<lambda>_.
     tbind (require (cs_stop_time s > 0 \<and> e_now E \<ge> cs_stop_time s) ''stream has not expired'') (\<lambda>_.
     settle_stream E er Exhausted s))))"

section \<open>Managing a stream\<close>

definition op_transfer_stream :: "'l env \<Rightarrow> string \<Rightarrow> int \<Rightarrow> string \<Rightarrow> ('l contract, unit) tx" where
  "op_transfer_stream E ee i new_ee =
     tbind (auth_of E ee) (\<lambda>_.
     tbind (require_employee_by_id ee i) (\<lambda>s.
     tbind (require (cs_status s = Active \<or> cs_status s = Paused) ''stream not active'') (\<lambda>_.
     save_stream (s\<lparr>cs_employee := new_ee\<rparr>))))"

definition op_pause_stream :: "'l env \<Rightarrow> string \<Rightarrow> int \<Rightarrow> ('l contract, unit) tx" where
  "op_pause_stream E caller i =
     tbind (auth_of E caller) (\<lambda>_.
     tbind (load_stream i) (\<lambda>s.
     tbind (require (may_manage caller s) ''not the employer'') (\<lambda>_.
     tbind (require (cs_status s \<noteq> Paused) ''E016: stream is already paused'') (\<lambda>_.
     tbind (expect (pause_stream s (e_now E)) ''stream not active'') (\<lambda>s'.
     tbind (require_transition (cs_status s) Paused) (\<lambda>_.
     tbind (save_stream s') (\<lambda>_.
     add_pause_event i (e_now E) True)))))))"

definition op_resume_stream :: "'l env \<Rightarrow> string \<Rightarrow> int \<Rightarrow> ('l contract, unit) tx" where
  "op_resume_stream E caller i =
     tbind (auth_of E caller) (\<lambda>_.
     tbind (load_stream i) (\<lambda>s.
     tbind (require (may_manage caller s) ''not the employer'') (\<lambda>_.
     tbind (require (cs_status s \<noteq> Active) ''E017: stream is not paused'') (\<lambda>_.
     tbind (expect (resume_stream s (e_now E)) ''stream not paused'') (\<lambda>s'.
     tbind (require_transition (cs_status s) Active) (\<lambda>_.
     tbind (save_stream s') (\<lambda>_.
     add_pause_event i (e_now E) False)))))))"

definition op_set_delegate :: "'l env \<Rightarrow> string \<Rightarrow> int \<Rightarrow> string option \<Rightarrow> ('l contract, unit) tx" where
  "op_set_delegate E er i d =
     tbind (auth_of E er) (\<lambda>_.
     tbind (require_employer_by_id er i) (\<lambda>s. save_stream (s\<lparr>cs_delegate := d\<rparr>)))"

definition op_propose_employer_transfer :: "'l env \<Rightarrow> string \<Rightarrow> int \<Rightarrow> string \<Rightarrow> ('l contract, unit) tx" where
  "op_propose_employer_transfer E er i new_er =
     tbind (auth_of E er) (\<lambda>_.
     tbind (require_employer_by_id er i) (\<lambda>s.
     tput (\<lambda>c. c\<lparr>c_pending_employer := jsset i new_er (c_pending_employer c)\<rparr>)))"

definition op_accept_employer_transfer :: "'l env \<Rightarrow> string \<Rightarrow> int \<Rightarrow> ('l contract, unit) tx" where
  "op_accept_employer_transfer E new_er i =
     tbind (auth_of E new_er) (\<lambda>_.
     tbind (tget (\<lambda>c. jsget (c_pending_employer c) i)) (\<lambda>v.
     tbind (expect v ''no pending employer transfer'') (\<lambda>p.
     tbind (require (new_er = p) ''E013: not the pending employer for this stream'') (\<lambda>_.
     tbind (load_stream i) (\<lambda>s.
     tbind (save_stream (s\<lparr>cs_employer := new_er\<rparr>)) (\<lambda>_.
     tput (\<lambda>c. c\<lparr>c_pending_employer := jsdel i (c_pending_employer c)\<rparr>)))))))"

definition op_update_rate :: "'l env \<Rightarrow> string \<Rightarrow> int \<Rightarrow> int \<Rightarrow> ('l contract, unit) tx" where
  "op_update_rate E er i rate =
     tbind (auth_of E er) (\<lambda>_.
     tbind (require (rate > 0) ''E001: rate_per_second must be greater than zero'') (\<lambda>_.
     tbind (require (rate \<le> MAX_RATE_PER_SECOND) ''E008: rate_per_second exceeds maximum'') (\<lambda>_.
     tbind (require_employer_by_id er i) (\<lambda>s.
     tbind (require (cs_status s = Active) ''stream not active'') (\<lambda>_.
     tbind (claimable_tx s (e_now E)) (\<lambda>accrued.
     tbind (checked_i128 (cs_withdrawn s + accrued) ''withdrawn overflow'') (\<lambda>w.
     save_stream (s\<lparr>cs_withdrawn := w, cs_last_withdraw_time := e_now E, cs_rate_per_second := rate\<rparr>))))))))"

text \<open>Reading a stream past its stop time can end it.\<close>

definition op_get_stream :: "'l env \<Rightarrow> int \<Rightarrow> ('l contract, contract_stream) tx" where
  "op_get_stream E i =
     tbind (load_stream i) (\<lambda>s.
     if cs_status s = Active \<and> cs_stop_time s > 0 \<and> e_now E \<ge> cs_stop_time s then
       tbind (claimable_tx s (e_now E)) (\<lambda>n.
       let s' = s\<lparr>cs_status := Exhausted\<rparr> in
       if n = 0 \<and> cs_withdrawn s \<ge> cs_deposit s then tbind (save_stream s') (\<lambda>_. tret s')
       else
         tbind (claimable_tx s (cs_stop_time s)) (\<lambda>earned.
         if (if i128 (cs_withdrawn s + earned) then cs_withdrawn s + earned else cs_deposit s) \<ge> cs_deposit s
         then tbind (save_stream s') (\<lambda>_. tret s')
         else tret s))
     else tret s)"

definition op_claimable_at :: "int \<Rightarrow> int \<Rightarrow> ('l contract, int) tx" where
  "op_claimable_at i t = tbind (load_stream i) (\<lambda>s. claimable_tx s t)"

definition op_claimable :: "'l env \<Rightarrow> int \<Rightarrow> ('l contract, int) tx" where
  "op_claimable E i = op_claimable_at i (e_now E)"

section \<open>Governance\<close>

definition GOV_TIMELOCK :: int where "GOV_TIMELOCK = 172800"

definition op_propose_parameter :: "'l env \<Rightarrow> string \<Rightarrow> gov_param \<Rightarrow> int \<Rightarrow> ('l contract, int) tx" where
  "op_propose_parameter E a param v =
     tbind (auth_of E a) (\<lambda>_.
     tbind (tget c_proposal_count) (\<lambda>n.
     tbind (checked_u64 (n + 1) ''proposal count overflow'') (\<lambda>i.
     tbind (checked_u64 (e_now E + GOV_TIMELOCK) ''overflow'') (\<lambda>after.
     tbind (tput (\<lambda>c. c\<lparr>c_proposal_count := i, c_proposals := jsset i
       \<lparr>pr_id = i, pr_param = param, pr_new_value = v, pr_votes_for = 0, pr_votes_against = 0,
        pr_status = ProposalActive, pr_executable_after = after\<rparr> (c_proposals c)\<rparr>)) (\<lambda>_.
     tret i)))))"

definition load_proposal :: "int \<Rightarrow> ('l contract, proposal) tx" where
  "load_proposal i = tbind (tget (\<lambda>c. jsget (c_proposals c) i)) (\<lambda>v. expect v ''proposal not found'')"

definition save_proposal :: "proposal \<Rightarrow> ('l contract, unit) tx" where
  "save_proposal p = tput (\<lambda>c. c\<lparr>c_proposals := jsset (pr_id p) p (c_proposals c)\<rparr>)"

definition op_vote :: "'l env \<Rightarrow> string \<Rightarrow> int \<Rightarrow> bool \<Rightarrow> ('l contract, unit) tx" where
  "op_vote E a i support =
     tbind (auth_of E a) (\<lambda>_.
     tbind (load_proposal i) (\<lambda>p.
     tbind (require (pr_status p = ProposalActive) ''proposal not active'') (\<lambda>_.
     tbind (tget c_voted) (\<lambda>voted.
     tbind (require ((i, a) \<notin> set voted) ''already voted'') (\<lambda>_.
     tbind (tput (\<lambda>c. c\<lparr>c_voted := (i, a) # c_voted c\<rparr>)) (\<lambda>_.
     tbind (checked_u64 ((if support then pr_votes_for p else pr_votes_against p) + 1) ''overflow'') (\<lambda>n.
     save_proposal (if support then p\<lparr>pr_votes_for := n\<rparr> else p\<lparr>pr_votes_against := n\<rparr>))))))))"

definition op_tally :: "'l env \<Rightarrow> int \<Rightarrow> ('l contract, unit) tx" where
  "op_tally E i =
     tbind (load_proposal i) (\<lambda>p.
     tbind (require (pr_status p = ProposalActive) ''proposal not active'') (\<lambda>_.
     save_proposal (p\<lparr>pr_status := (if pr_votes_for p > pr_votes_against p then Passed else ProposalRejected)\<rparr>)))"

definition apply_proposal :: "proposal \<Rightarrow> ('l contract, unit) tx" where
  "apply_proposal p =
     set_config (\<lambda>f. case pr_param p of
       MinDeposit \<Rightarrow> f\<lparr>cf_min_deposit := pr_new_value p\<rparr>
     | MaxDuration \<Rightarrow> f\<lparr>cf_max_streams := as_u32 (pr_new_value p)\<rparr>
     | FeeBps \<Rightarrow> f\<lparr>cf_fee_bps := as_u32 (pr_new_value p)\<rparr>)"

definition op_execute_proposal :: "'l env \<Rightarrow> int \<Rightarrow> ('l contract, unit) tx" where
  "op_execute_proposal E i =
     tbind (load_proposal i) (\<lambda>p.
     tbind (require (pr_status p = Passed) ''proposal not passed'') (\<lambda>_.
     tbind (require (e_now E \<ge> pr_executable_after p) ''timelock not elapsed'') (\<lambda>_.
     tbind (apply_proposal p) (\<lambda>_.
     save_proposal (p\<lparr>pr_status := Executed\<rparr>)))))"

section \<open>Multi-signature administration\<close>

definition MULTISIG_OP_TTL :: int where "MULTISIG_OP_TTL = 604800"

definition op_configure_multisig :: "'l env \<Rightarrow> string \<Rightarrow> string list \<Rightarrow> int \<Rightarrow> ('l contract, unit) tx" where
  "op_configure_multisig E admin admins threshold =
     as_admin E admin (
       tbind (require (threshold > 0) ''threshold must be > 0'') (\<lambda>_.
       tbind (require (threshold \<le> int (length admins)) ''threshold cannot exceed number of admins'') (\<lambda>_.
       tput (\<lambda>c. c\<lparr>c_multisig := Some \<lparr>ms_admins = admins, ms_threshold = threshold\<rparr>\<rparr>))))"

definition multisig_of :: "string \<Rightarrow> ('l contract, multisig_config) tx" where
  "multisig_of a =
     tbind (tget c_multisig) (\<lambda>v.
     tbind (expect v ''E021: multisig admin not configured'') (\<lambda>cfg.
     tbind (require (a \<in> set (ms_admins cfg)) ''E022: caller is not a multisig admin'') (\<lambda>_. tret cfg)))"

definition save_pending_op :: "pending_op \<Rightarrow> ('l contract, unit) tx" where
  "save_pending_op p = tput (\<lambda>c. c\<lparr>c_pending_ops := jsset (po_id p) p (c_pending_ops c)\<rparr>)"

definition op_multisig_propose :: "'l env \<Rightarrow> string \<Rightarrow> admin_op \<Rightarrow> ('l contract, int) tx" where
  "op_multisig_propose E a op =
     tbind (auth_of E a) (\<lambda>_.
     tbind (multisig_of a) (\<lambda>cfg.
     tbind (tget c_op_count) (\<lambda>n.
     tbind (checked_u64 (n + 1) ''pending op count overflow'') (\<lambda>i.
     tbind (tput (\<lambda>c. c\<lparr>c_op_count := i\<rparr>)) (\<lambda>_.
     tbind (checked_u64 (e_now E + MULTISIG_OP_TTL) ''overflow'') (\<lambda>expires.
     tbind (save_pending_op \<lparr>po_id = i, po_op = op, po_approvals = [a], po_expires_at = expires, po_executed = False\<rparr>) (\<lambda>_.
     tret i)))))))"

definition op_multisig_approve :: "'l env \<Rightarrow> string \<Rightarrow> int \<Rightarrow> ('l contract, unit) tx" where
  "op_multisig_approve E a i =
     tbind (auth_of E a) (\<lambda>_.
     tbind (multisig_of a) (\<lambda>cfg.
     tbind (tget (\<lambda>c. jsget (c_pending_ops c) i)) (\<lambda>v.
     tbind (expect v ''E027: pending operation not found'') (\<lambda>p.
     tbind (require (\<not> po_executed p) ''E025: pending operation already executed'') (\<lambda>_.
     tbind (require (e_now E < po_expires_at p) ''E024: pending operation has expired'') (\<lambda>_.
     tbind (require (a \<notin> set (po_approvals p)) ''E023: caller already approved this operation'') (\<lambda>_.
     let p' = p\<lparr>po_approvals := po_approvals p @ [a]\<rparr> in
     if int (length (po_approvals p')) \<ge> ms_threshold cfg then
       tbind (case po_op p' of Upgrade h \<Rightarrow> tret () | EmergencyPause \<Rightarrow> set_config (\<lambda>f. f\<lparr>cf_paused := True\<rparr>)) (\<lambda>_.
       save_pending_op (p'\<lparr>po_executed := True\<rparr>))
     else save_pending_op p')))))))"

section \<open>Calls\<close>

text \<open>The calls that administer the contract, those about streams and those about votes and signatures.\<close>

datatype admin_call =
    Initialize string
  | ProposeAdmin string string
  | AcceptAdmin string
  | PauseContract string int
  | UnpauseContract string int
  | EmergencyPauseCall string
  | SetMinDeposit string int int
  | SetProtocolFee string int int string
  | SetMaxStreams string int int
  | AddAllowedToken string string
  | RemoveAllowedToken string string

datatype stream_call =
    CreateStream string string string int int int int int
  | CreateStreamsBatch string "batch_param list"
  | Withdraw string int
  | TopUp string int int
  | TransferStream string int string
  | PauseStream string int
  | ResumeStream string int
  | CancelStream string int
  | SetDelegate string int "string option"
  | ProposeEmployerTransfer string int string
  | AcceptEmployerTransfer string int
  | UpdateRate string int int
  | GetStream int
  | ReclaimExpired string int

datatype vote_call =
    ProposeParameter string gov_param int
  | Vote string int bool
  | Tally int
  | ExecuteProposal int
  | ConfigureMultisig string "string list" int
  | MultisigPropose string admin_op
  | MultisigApprove string int

datatype call =
    Admin admin_call
  | Streams stream_call
  | Votes vote_call
  | WithdrawProtocolFees string string int

definition void :: "('s, 'a) tx \<Rightarrow> ('s, unit) tx" where
  "void m = tbind m (\<lambda>_. tret ())"

primrec exec_admin :: "'l env \<Rightarrow> admin_call \<Rightarrow> ('l contract, unit) tx" where
  "exec_admin E (Initialize a) = op_initialize E a"
| "exec_admin E (ProposeAdmin a b) = op_propose_admin E a b"
| "exec_admin E (AcceptAdmin a) = op_accept_admin E a"
| "exec_admin E (PauseContract a n) = op_pause_contract E a n"
| "exec_admin E (UnpauseContract a n) = op_unpause_contract E a n"
| "exec_admin E (EmergencyPauseCall a) = op_emergency_pause E a"
| "exec_admin E (SetMinDeposit a n x) = op_set_min_deposit E a n x"
| "exec_admin E (SetProtocolFee a n x r) = op_set_protocol_fee E a n x r"
| "exec_admin E (SetMaxStreams a n x) = op_set_max_streams E a n x"
| "exec_admin E (AddAllowedToken a t) = op_add_allowed_token E a t"
| "exec_admin E (RemoveAllowedToken a t) = op_remove_allowed_token E a t"

primrec exec_stream :: "(string \<Rightarrow> bool) \<Rightarrow> 'l env \<Rightarrow> stream_call \<Rightarrow> ('l contract, unit) tx" where
  "exec_stream bump E (CreateStream er ee tok d r st cd cl) = void (op_create_stream E er ee tok d r st cd cl)"
| "exec_stream bump E (CreateStreamsBatch er ps) = void (op_create_streams_batch E bump er ps)"
| "exec_stream bump E (Withdraw ee i) = void (op_withdraw E ee i)"
| "exec_stream bump E (TopUp a i n) = op_top_up E a i n"
| "exec_stream bump E (TransferStream a i b) = op_transfer_stream E a i b"
| "exec_stream bump E (PauseStream a i) = op_pause_stream E a i"
| "exec_stream bump E (ResumeStream a i) = op_resume_stream E a i"
| "exec_stream bump E (CancelStream a i) = op_cancel_stream E a i"
| "exec_stream bump E (SetDelegate a i d) = op_set_delegate E a i d"
| "exec_stream bump E (ProposeEmployerTransfer a i b) = op_propose_employer_transfer E a i b"
| "exec_stream bump E (AcceptEmployerTransfer a i) = op_accept_employer_transfer E a i"
| "exec_stream bump E (UpdateRate a i r) = op_update_rate E a i r"
| "exec_stream bump E (GetStream i) = void (op_get_stream E i)"
| "exec_stream bump E (ReclaimExpired a i) = op_reclaim_expired E a i"

primrec exec_vote :: "'l env \<Rightarrow> vote_call \<Rightarrow> ('l contract, unit) tx" where
  "exec_vote E (ProposeParameter a p v) = void (op_propose_parameter E a p v)"
| "exec_vote E (Vote a i b) = op_vote E a i b"
| "exec_vote E (Tally i) = op_tally E i"
| "exec_vote E (ExecuteProposal i) = op_execute_proposal E i"
| "exec_vote E (ConfigureMultisig a as t) = op_configure_multisig E a as t"
| "exec_vote E (MultisigPropose a op) = void (op_multisig_propose E a op)"
| "exec_vote E (MultisigApprove a i) = op_multisig_approve E a i"

primrec exec :: "(string \<Rightarrow> bool) \<Rightarrow> 'l env \<Rightarrow> call \<Rightarrow> ('l contract, unit) tx" where
  "exec bump E (Admin c) = exec_admin E c"
| "exec bump E (Streams c) = exec_stream bump E c"
| "exec bump E (Votes c) = exec_vote E c"
| "exec bump E (WithdrawProtocolFees a t n) = op_withdraw_protocol_fees E a t n"

end
