(* ===== verification/Contract_Props.thy ===== *)
theory Contract_Props
  imports Contract
begin

text \<open>
  Properties of the stream contract over all histories of calls: the books stay in order, the contract
  holds what it owes, ended streams stay ended, and a cancellation settles a stream exactly.
\<close>

section \<open>Single transactions\<close>

lemma pay_Inr [tx]:
  "pay E tok a b n k = Inr (u, k') \<longleftrightarrow>
    (\<exists>l. tk_transfer (e_token E) (\<lambda>x. x = e_self E \<or> e_auth E x) tok a b n (c_ledger k) = Some l \<and> k' = k\<lparr>c_ledger := l\<rparr>)"
  by (auto simp: pay_def tx)

lemma load_stream_Inr [tx]: "load_stream i k = Inr (s, k') \<longleftrightarrow> jsget (c_streams k) i = Some s \<and> k' = k"
  by (auto simp: load_stream_def tx)

lemma save_stream_Inr [tx]: "save_stream s k = Inr (u, k') \<longleftrightarrow> k' = k\<lparr>c_streams := jsset (cs_id s) s (c_streams k)\<rparr>"
  by (auto simp: save_stream_def tx)

lemma auth_of_Inr [tx]: "auth_of E a k = Inr (u, k') \<longleftrightarrow> e_auth E a \<and> k' = k"
  by (auto simp: auth_of_def require_auth_def tx)

lemma claimable_tx_Inr [tx]: "claimable_tx s t k = Inr (n, k') \<longleftrightarrow> claimable_amount s t = Some n \<and> k' = k"
  by (auto simp: claimable_tx_def tx)

lemma void_Inr [tx]: "void m k = Inr (u, k') \<longleftrightarrow> (\<exists>a. m k = Inr (a, k'))"
  by (auto simp: void_def tx)

lemma require_by_id_Inr [tx]:
  "require_employer_by_id a i k = Inr (s, k') \<longleftrightarrow> jsget (c_streams k) i = Some s \<and> a = cs_employer s \<and> k' = k"
  "require_employee_by_id a i k = Inr (s, k') \<longleftrightarrow> jsget (c_streams k) i = Some s \<and> a = cs_employee s \<and> k' = k"
  by (auto simp: require_employer_by_id_def require_employee_by_id_def tx)

lemma require_transition_Inr [tx]:
  "require_transition f t k = Inr (u, k') \<longleftrightarrow> is_valid_transition f t \<and> k' = k"
  "require_not_terminal st k = Inr (u, k') \<longleftrightarrow> \<not> is_terminal st \<and> k' = k"
  by (simp_all add: require_transition_def require_not_terminal_def tx)

lemma fee_of_Inr [tx]: "fee_of n bps k = Inr (f, k') \<longleftrightarrow> i128 (n * bps) \<and> f = n * bps div 10000 \<and> k' = k"
  by (auto simp: fee_of_def tx)

text \<open>Administration, votes and signatures touch neither the streams nor the tokens.\<close>

definition same_money :: "'l contract \<Rightarrow> 'l contract \<Rightarrow> bool" where
  "same_money k k' \<longleftrightarrow> c_streams k' = c_streams k \<and> c_count k' = c_count k \<and> c_ledger k' = c_ledger k"

definition keeps :: "('l contract, 'a) tx \<Rightarrow> bool" where
  "keeps m \<longleftrightarrow> (\<forall>k a k'. m k = Inr (a, k') \<longrightarrow> same_money k k')"

lemma keepsD: "keeps m \<Longrightarrow> m k = Inr (a, k') \<Longrightarrow> same_money k k'"
  by (simp add: keeps_def)

lemma same_money_trans: "same_money k1 k2 \<Longrightarrow> same_money k2 k3 \<Longrightarrow> same_money k1 k3"
  by (simp add: same_money_def)

lemma keeps_basic [intro]:
  "keeps (tret a)" "keeps (panic msg)" "keeps (require b msg)" "keeps (expect v msg)" "keeps (tget g)"
  "keeps (checked_i128 n msg)" "keeps (checked_u64 n msg)"
  by (auto simp: keeps_def same_money_def tx)

lemma keeps_tput [intro]: "(\<And>k. same_money k (f k)) \<Longrightarrow> keeps (tput f)"
  by (simp add: keeps_def tx)

lemma keeps_tbind [intro]: "keeps m \<Longrightarrow> (\<And>a. keeps (f a)) \<Longrightarrow> keeps (tbind m f)"
  unfolding keeps_def tx using same_money_trans by blast

lemma keeps_if [intro]: "keeps m \<Longrightarrow> keeps m' \<Longrightarrow> keeps (if b then m else m')"
  by simp

lemma keeps_shared [intro]:
  "keeps (auth_of E a)" "keeps (require_admin a)" "keeps (set_config f)" "keeps (multisig_of a)"
  "keeps (load_proposal i)" "keeps (save_proposal p)" "keeps (save_pending_op q)" "keeps (load_stream i)"
  by (auto simp: auth_of_def require_auth_def require_admin_def set_config_def multisig_of_def load_proposal_def
    save_proposal_def save_pending_op_def load_stream_def same_money_def)

lemma keeps_as_admin [intro]: "keeps m \<Longrightarrow> keeps (as_admin E a m)"
  unfolding as_admin_def by blast

lemma keeps_nonce [intro]: "keeps (consume_admin_nonce n)"
  unfolding consume_admin_nonce_def by blast

lemma keeps_void [intro]: "keeps m \<Longrightarrow> keeps (void m)"
  unfolding void_def by blast

lemmas keeps_rules = keeps_basic keeps_tput keeps_tbind keeps_if keeps_shared keeps_as_admin keeps_nonce keeps_void

lemmas admin_ops = op_initialize_def op_propose_admin_def op_accept_admin_def op_pause_contract_def op_unpause_contract_def
  op_emergency_pause_def op_set_min_deposit_def op_set_protocol_fee_def op_set_max_streams_def op_add_allowed_token_def
  op_remove_allowed_token_def

lemmas vote_ops = op_propose_parameter_def op_vote_def op_tally_def op_execute_proposal_def apply_proposal_def
  op_configure_multisig_def op_multisig_propose_def

lemma exec_admin_keeps: "keeps (exec_admin E c)"
  by (cases c; simp only: exec_admin.simps admin_ops; intro keeps_rules) (simp_all add: same_money_def)

lemma multisig_approve_keeps [intro]: "keeps (op_multisig_approve E a i)"
  unfolding op_multisig_approve_def Let_def
  by (intro keeps_tbind keeps_shared keeps_basic keeps_if) (simp split: admin_op.split add: keeps_shared keeps_basic)

lemma exec_vote_keeps: "keeps (exec_vote E c)"
proof (cases c)
  case (MultisigApprove a i)
  then show ?thesis using multisig_approve_keeps by simp
qed (simp only: exec_vote.simps vote_ops; intro keeps_rules; simp add: same_money_def)+

section \<open>Books\<close>

definition stream_ok :: "contract_stream \<Rightarrow> bool" where
  "stream_ok s \<longleftrightarrow> 0 \<le> cs_withdrawn s \<and> cs_withdrawn s \<le> cs_deposit s \<and> i128 (cs_deposit s) \<and> \<not> cs_locked s"

definition books :: "'l contract \<Rightarrow> bool" where
  "books k \<longleftrightarrow> distinct (map fst (c_streams k)) \<and>
     (\<forall>i s. jsget (c_streams k) i = Some s \<longrightarrow> cs_id s = i \<and> 0 < i \<and> i \<le> c_count k \<and> stream_ok s) \<and> 0 \<le> c_count k"

text \<open>What a running stream still owes in a token, and the contract's total.\<close>

definition owed :: "string \<Rightarrow> contract_stream \<Rightarrow> int" where
  "owed tok s = (if cs_token s = tok \<and> \<not> is_terminal (cs_status s) then cs_deposit s - cs_withdrawn s else 0)"

definition liabilities :: "string \<Rightarrow> 'l contract \<Rightarrow> int" where
  "liabilities tok k = sum_list (map (\<lambda>(i, s). owed tok s) (c_streams k))"

lemma booksD:
  "books k \<Longrightarrow> jsget (c_streams k) i = Some s \<Longrightarrow> cs_id s = i \<and> 0 < i \<and> i \<le> c_count k \<and> stream_ok s"
  by (simp add: books_def)

lemma books_distinct: "books k \<Longrightarrow> distinct (map fst (c_streams k))"
  by (simp add: books_def)

lemma books_money: "same_money k k' \<Longrightarrow> books k' = books k"
  by (simp add: books_def same_money_def)

lemma liabilities_money: "same_money k k' \<Longrightarrow> liabilities tok k' = liabilities tok k"
  by (simp add: liabilities_def same_money_def)

lemma jsset_twice [simp]: "jsset i v (jsset i w m) = jsset i v m"
  by (induction m) auto

text \<open>Replacing a stream.\<close>

definition replaced :: "int \<Rightarrow> contract_stream \<Rightarrow> contract_stream \<Rightarrow> 'l contract \<Rightarrow> 'l contract \<Rightarrow> bool" where
  "replaced i s s' k k' \<longleftrightarrow> jsget (c_streams k) i = Some s \<and> c_streams k' = jsset (cs_id s) s' (c_streams k) \<and> c_count k' = c_count k"

lemma replaced_id: "replaced i s s' k k' \<Longrightarrow> books k \<Longrightarrow> cs_id s = i"
  using booksD by (auto simp: replaced_def)

lemma replaced_books:
  assumes "replaced i s s' k k'" "books k" "stream_ok s'" "cs_id s' = cs_id s"
  shows "books k'"
  using assms replaced_id [OF assms(1,2)] by (auto simp: replaced_def books_def jsset_distinct)

lemma replaced_liabilities:
  assumes "replaced i s s' k k'" "books k"
  shows "liabilities tok k' = liabilities tok k - owed tok s + owed tok s'"
  using sum_jsset [OF books_distinct [OF assms(2)], of "\<lambda>_. owed tok" i s'] assms(1) replaced_id [OF assms]
  by (simp add: replaced_def liabilities_def)

text \<open>Adding a stream under the next identifier.\<close>

definition added :: "contract_stream \<Rightarrow> 'l contract \<Rightarrow> 'l contract \<Rightarrow> bool" where
  "added s k k' \<longleftrightarrow> cs_id s = c_count k + 1 \<and> c_streams k' = jsset (cs_id s) s (c_streams k) \<and> c_count k' = cs_id s"

lemma books_fresh: "books k \<Longrightarrow> jsget (c_streams k) (c_count k + 1) = None"
  by (rule ccontr) (use booksD in fastforce)

lemma added_books: "added s k k' \<Longrightarrow> books k \<Longrightarrow> stream_ok s \<Longrightarrow> books k'"
  using booksD by (fastforce simp: added_def books_def jsset_distinct split: if_splits)

lemma added_liabilities: "added s k k' \<Longrightarrow> books k \<Longrightarrow> liabilities tok k' = liabilities tok k + owed tok s"
  using sum_jsset [OF books_distinct, of k "\<lambda>_. owed tok" "cs_id s" s] books_fresh [of k]
  by (simp add: added_def liabilities_def)

section \<open>Sound steps\<close>

text \<open>
  A sound change of the contract: books in order stay in order, ended streams keep their status and amounts, and
  (if \<open>paid\<close>) the balance of the contract in every token changes by at least what its liabilities change by.
\<close>

definition held :: "'l token_api \<Rightarrow> string \<Rightarrow> string \<Rightarrow> 'l contract \<Rightarrow> int" where
  "held T self tok k = tk_balance T tok self (c_ledger k)"

definition frozen :: "contract_stream \<Rightarrow> contract_stream \<Rightarrow> bool" where
  "frozen s s' \<longleftrightarrow> cs_status s' = cs_status s \<and> cs_deposit s' = cs_deposit s \<and> cs_withdrawn s' = cs_withdrawn s"

definition ends_kept :: "'l contract \<Rightarrow> 'l contract \<Rightarrow> bool" where
  "ends_kept k k' \<longleftrightarrow> (\<forall>i s. jsget (c_streams k) i = Some s \<and> is_terminal (cs_status s) \<longrightarrow>
     (\<exists>s'. jsget (c_streams k') i = Some s' \<and> frozen s s'))"

definition sound :: "bool \<Rightarrow> 'l token_api \<Rightarrow> string \<Rightarrow> 'l contract \<Rightarrow> 'l contract \<Rightarrow> bool" where
  "sound paid T self k k' \<longleftrightarrow> (books k \<longrightarrow> books k' \<and> ends_kept k k' \<and>
     (paid \<longrightarrow> (\<forall>tok. liabilities tok k' - liabilities tok k \<le> held T self tok k' - held T self tok k)))"

lemma ends_kept_refl: "ends_kept k k"
  by (auto simp: ends_kept_def frozen_def)

lemma ends_kept_trans: "ends_kept k1 k2 \<Longrightarrow> ends_kept k2 k3 \<Longrightarrow> ends_kept k1 k3"
  unfolding ends_kept_def frozen_def by metis

lemma sound_trans:
  assumes "sound paid T self k1 k2" "sound paid T self k2 k3"
  shows "sound paid T self k1 k3"
proof -
  have "liabilities tok k3 - liabilities tok k1 \<le> held T self tok k3 - held T self tok k1" if b: "books k1" paid for tok
  proof -
    have "liabilities tok k2 - liabilities tok k1 \<le> held T self tok k2 - held T self tok k1" "books k2"
      using assms(1) that by (simp_all add: sound_def)
    moreover have "liabilities tok k3 - liabilities tok k2 \<le> held T self tok k3 - held T self tok k2"
      using assms(2) \<open>books k2\<close> that by (simp add: sound_def)
    ultimately show ?thesis by simp
  qed
  then show ?thesis using assms ends_kept_trans unfolding sound_def by blast
qed

lemma sound_money:
  assumes "same_money k k'"
  shows "sound paid T self k k'"
proof -
  have "ends_kept k k'" using assms ends_kept_refl [of k] by (simp add: ends_kept_def same_money_def)
  moreover have "held T self tok k' = held T self tok k" for tok using assms by (simp add: held_def same_money_def)
  ultimately show ?thesis using books_money [OF assms] liabilities_money [OF assms] by (simp add: sound_def)
qed

lemma sound_ledger:
  assumes "k' = k\<lparr>c_ledger := l\<rparr>" "\<And>tok. paid \<Longrightarrow> held T self tok k \<le> held T self tok k'"
  shows "sound paid T self k k'"
  using assms by (auto simp: sound_def books_def liabilities_def ends_kept_def frozen_def)

lemma sound_replaced:
  assumes "replaced i s s' k k'" "cs_id s' = cs_id s"
    and "stream_ok s \<Longrightarrow> stream_ok s'" "is_terminal (cs_status s) \<Longrightarrow> frozen s s'"
    and "\<And>tok. paid \<Longrightarrow> stream_ok s \<Longrightarrow> owed tok s' - owed tok s \<le> held T self tok k' - held T self tok k"
  shows "sound paid T self k k'"
proof (unfold sound_def, intro impI conjI allI)
  assume b: "books k"
  then have s: "cs_id s = i" "stream_ok s" using assms(1) booksD by (auto simp: replaced_def)
  show "books k'" using replaced_books [OF assms(1) b] assms(2,3) s by simp
  show "ends_kept k k'" using assms(1,4) s by (auto simp: ends_kept_def replaced_def frozen_def)
  fix tok assume paid
  then show "liabilities tok k' - liabilities tok k \<le> held T self tok k' - held T self tok k"
    using assms(5) s(2) replaced_liabilities [OF assms(1) b, of tok] by simp
qed

lemma sound_added:
  assumes "added s k k'" "stream_ok s"
    and "\<And>tok. paid \<Longrightarrow> owed tok s \<le> held T self tok k' - held T self tok k"
  shows "sound paid T self k k'"
proof (unfold sound_def, intro impI conjI allI)
  assume b: "books k"
  show "books k'" using added_books assms(1,2) b by blast
  show "ends_kept k k'" using assms(1) books_fresh [OF b] by (auto simp: ends_kept_def added_def frozen_def)
  fix tok assume paid
  then show "liabilities tok k' - liabilities tok k \<le> held T self tok k' - held T self tok k"
    using assms(3) added_liabilities [OF assms(1) b, of tok] by simp
qed

section \<open>Calls about streams\<close>

lemma claimable_bounds:
  "claimable_amount s t = Some n \<Longrightarrow> 0 \<le> n \<and> n \<le> max 0 (cs_deposit s - cs_withdrawn s)"
  by (auto simp: claimable_amount_def contract_remaining_def Let_def split: if_splits)

lemma claimable_terminal: "claimable_amount s t = Some n \<Longrightarrow> is_terminal (cs_status s) \<Longrightarrow> n = 0"
  by (auto simp: claimable_amount_def is_terminal_def)

lemma claimable_ok: "stream_ok s \<Longrightarrow> claimable_amount s t = Some n \<Longrightarrow> 0 \<le> n \<and> n \<le> cs_deposit s - cs_withdrawn s"
  using claimable_bounds [of s t n] by (auto simp: stream_ok_def)

text \<open>Calls that only change who manages a stream or its times.\<close>

definition same_amounts :: "contract_stream \<Rightarrow> contract_stream \<Rightarrow> bool" where
  "same_amounts s s' \<longleftrightarrow> cs_id s' = cs_id s \<and> cs_token s' = cs_token s \<and> cs_deposit s' = cs_deposit s \<and>
     cs_withdrawn s' = cs_withdrawn s \<and> cs_locked s' = cs_locked s \<and> is_terminal (cs_status s') = is_terminal (cs_status s) \<and>
     (is_terminal (cs_status s) \<longrightarrow> cs_status s' = cs_status s)"

lemma sound_managed:
  assumes "jsget (c_streams k) i = Some s" "c_streams k' = jsset (cs_id s) s' (c_streams k)" "c_count k' = c_count k"
    "c_ledger k' = c_ledger k" "same_amounts s s'"
  shows "sound paid T self k k'"
  by (rule sound_replaced [of i s s'])
    (use assms in \<open>auto simp: replaced_def same_amounts_def stream_ok_def frozen_def owed_def held_def\<close>)

lemma manage_sound:
  "op_transfer_stream E a i b k = Inr (u, k') \<Longrightarrow> sound paid T self k k'"
  "op_pause_stream E a i k = Inr (u, k') \<Longrightarrow> sound paid T self k k'"
  "op_resume_stream E a i k = Inr (u, k') \<Longrightarrow> sound paid T self k k'"
  "op_set_delegate E a i d k = Inr (u, k') \<Longrightarrow> sound paid T self k k'"
  "op_accept_employer_transfer E a i k = Inr (u, k') \<Longrightarrow> sound paid T self k k'"
  by (auto simp: op_transfer_stream_def op_pause_stream_def op_resume_stream_def op_set_delegate_def
      op_accept_employer_transfer_def pause_stream_def resume_stream_def add_pause_event_def tx same_amounts_def
      is_terminal_def split: if_splits elim!: sound_managed)

lemma propose_employer_sound: "op_propose_employer_transfer E a i b k = Inr (u, k') \<Longrightarrow> sound paid T self k k'"
  by (rule sound_money) (auto simp: op_propose_employer_transfer_def tx same_money_def)

lemma update_rate_sound: "op_update_rate E a i r k = Inr (u, k') \<Longrightarrow> sound paid T self k k'"
  by (auto simp: op_update_rate_def tx replaced_def stream_ok_def is_terminal_def held_def owed_def
      intro!: sound_replaced [of i] dest: claimable_bounds)

lemma ended_sound:
  assumes "jsget (c_streams k) i = Some s" "k' = k\<lparr>c_streams := jsset (cs_id s) (s\<lparr>cs_status := Exhausted\<rparr>) (c_streams k)\<rparr>"
    "\<not> is_terminal (cs_status s)"
  shows "sound paid T self k k'"
  by (rule sound_replaced [of i s "s\<lparr>cs_status := Exhausted\<rparr>"])
    (use assms in \<open>auto simp: replaced_def stream_ok_def is_terminal_def held_def owed_def\<close>)

lemma get_stream_sound: "op_get_stream E i k = Inr (v, k') \<Longrightarrow> sound paid T self k k'"
proof -
  assume run: "op_get_stream E i k = Inr (v, k')"
  obtain s where s: "jsget (c_streams k) i = Some s" using run by (auto simp: op_get_stream_def tx)
  then have "k' = k \<or> cs_status s = Active \<and> k' = k\<lparr>c_streams := jsset (cs_id s) (s\<lparr>cs_status := Exhausted\<rparr>) (c_streams k)\<rparr>"
    using run by (simp add: op_get_stream_def tx Let_def split: if_splits) blast+
  then show ?thesis
    using ended_sound [OF s] sound_money [of k k] by (auto simp: same_money_def is_terminal_def)
qed

section \<open>Payments\<close>

definition same_streams :: "'l contract \<Rightarrow> 'l contract \<Rightarrow> bool" where
  "same_streams k k' \<longleftrightarrow> c_streams k' = c_streams k \<and> c_count k' = c_count k"

context token_contract
begin

text \<open>What a payment does to the contract's own account.\<close>

lemma pay_held:
  assumes "pay E tok a b n k = Inr (u, k')" "e_token E = T"
  shows "0 \<le> n \<and> same_streams k k' \<and> held T self t k' = held T self t k +
    (if t = tok \<and> self = b then n else 0) - (if t = tok \<and> self = a then n else 0)"
proof -
  obtain l where l: "tk_transfer T (\<lambda>x. x = e_self E \<or> e_auth E x) tok a b n (c_ledger k) = Some l" "k' = k\<lparr>c_ledger := l\<rparr>"
    using assms by (auto simp: tx)
  then show ?thesis using transfer_moves [OF l(1), of t self] by (simp add: held_def same_streams_def)
qed

lemma paid_out:
  assumes "pay E tok self b n k = Inr (u, k')" "e_token E = T"
  shows "0 \<le> n \<and> same_streams k k' \<and> held T self t k - (if t = tok then n else 0) \<le> held T self t k'"
  using pay_held [OF assms, of self t] by auto

lemma paid_in:
  assumes "pay E tok a self n k = Inr (u, k')" "e_token E = T" "a \<noteq> self"
  shows "0 \<le> n \<and> same_streams k k' \<and> held T self t k' = held T self t k + (if t = tok then n else 0)"
  using pay_held [OF assms(1,2), of self t] assms(3) by auto

lemma paid_elsewhere:
  assumes "pay E tok a b n k = Inr (u, k')" "e_token E = T" "a \<noteq> self"
  shows "0 \<le> n \<and> same_streams k k' \<and> held T self t k \<le> held T self t k'"
  using pay_held [OF assms(1,2), of self t] assms(3) by auto

text \<open>A top-up arrives before it is booked.\<close>

lemma top_up_sound:
  assumes run: "op_top_up E a i n k = Inr (u, k')" and E: "e_token E = T" "e_self E = self" "\<not> e_auth E self"
  shows "sound paid T self k k'"
proof -
  obtain s k1 u1 where s: "jsget (c_streams k) i = Some s" "\<not> is_terminal (cs_status s)" "e_auth E a"
    and p: "pay E (cs_token s) a self n k = Inr (u1, k1)" and d: "i128 (cs_deposit s + n)"
    and k': "k' = k1\<lparr>c_streams := jsset (cs_id s) (s\<lparr>cs_deposit := cs_deposit s + n\<rparr>) (c_streams k1)\<rparr>"
    using run E(2) by (auto simp: op_top_up_def tx simp del: pay_Inr)
  have a: "a \<noteq> self" using s(3) E(3) by auto
  have n: "0 \<le> n" "same_streams k k1"
    and h: "\<And>t. held T self t k1 = held T self t k + (if t = cs_token s then n else 0)"
    using paid_in [OF p E(1) a] by auto
  show ?thesis
    by (rule sound_replaced [of i s "s\<lparr>cs_deposit := cs_deposit s + n\<rparr>"])
      (use s n d h k' in \<open>auto simp: replaced_def stream_ok_def owed_def held_def same_streams_def\<close>)
qed

text \<open>A settlement pays out what the stream still owes, and no more.\<close>

lemma settle_pays:
  assumes run: "settle_stream E er fin s k = Inr (u, k')" and E: "e_token E = T" "e_self E = self" and ok: "stream_ok s"
  obtains n where "claimable_amount s (e_now E) = Some n"
    "c_streams k' = jsset (cs_id s) (s\<lparr>cs_withdrawn := cs_withdrawn s + n, cs_status := fin\<rparr>) (c_streams k)"
    "c_count k' = c_count k"
    "\<And>t c. held T c t k' = held T c t k + (if t = cs_token s then (if c = cs_employee s then n else 0) +
       (if c = er then cs_deposit s - cs_withdrawn s - n else 0) - (if c = self then cs_deposit s - cs_withdrawn s else 0) else 0)"
proof -
  obtain n where n: "claimable_amount s (e_now E) = Some n" using run by (auto simp: settle_stream_def tx)
  have b: "0 \<le> n" "n \<le> cs_deposit s - cs_withdrawn s" using claimable_ok [OF ok n] by auto
  let ?w = "cs_withdrawn s + n" and ?r = "cs_deposit s - (cs_withdrawn s + n)"
  have i: "i128 ?r" "0 \<le> ?r" using b ok by (auto simp: stream_ok_def i128_def)
  obtain k1 u1 where k1: "(if n > 0 then void (pay E (cs_token s) self (cs_employee s) n) else tret ()) k = Inr (u1, k1)"
    and rest: "tbind (if ?r > 0 then pay E (cs_token s) self er ?r else tret ()) (\<lambda>_.
      save_stream (s\<lparr>cs_withdrawn := ?w, cs_status := fin\<rparr>)) k1 = Inr (u, k')"
    using run n b i E(2) by (auto simp: settle_stream_def Let_def tx simp del: pay_Inr split: if_splits)
  obtain k2 u2 where k2: "(if ?r > 0 then pay E (cs_token s) self er ?r else tret ()) k1 = Inr (u2, k2)"
    and k': "k' = k2\<lparr>c_streams := jsset (cs_id s) (s\<lparr>cs_withdrawn := ?w, cs_status := fin\<rparr>) (c_streams k2)\<rparr>"
    using rest by (auto simp: tx simp del: pay_Inr)
  have h1: "same_streams k k1 \<and> held T c t k1 = held T c t k +
      (if t = cs_token s \<and> c = cs_employee s then n else 0) - (if t = cs_token s \<and> c = self then n else 0)" for c t
    using k1 b pay_held [OF _ E(1), of "cs_token s" self "cs_employee s" n k _ k1 c t]
    by (cases "n > 0") (auto simp: tx same_streams_def simp del: pay_Inr)
  have h2: "same_streams k1 k2 \<and> held T c t k2 = held T c t k1 +
      (if t = cs_token s \<and> c = er then ?r else 0) - (if t = cs_token s \<and> c = self then ?r else 0)" for c t
    using k2 i pay_held [OF _ E(1), of "cs_token s" self er ?r k1 u2 k2 c t]
    by (cases "?r > 0") (auto simp: tx same_streams_def simp del: pay_Inr)
  have "c_streams k2 = c_streams k" "c_count k2 = c_count k"
    using h1 h2 by (simp_all add: same_streams_def)
  moreover have "held T c t k' = held T c t k + (if t = cs_token s then (if c = cs_employee s then n else 0) +
       (if c = er then cs_deposit s - cs_withdrawn s - n else 0) - (if c = self then cs_deposit s - cs_withdrawn s else 0) else 0)" for c t
    using h1 [of c t] h2 [of c t] k' by (auto simp: held_def split: if_splits)
  ultimately show ?thesis using that [OF n] k' by simp
qed

lemma settle_sound:
  assumes "settle_stream E er fin s k = Inr (u, k')" "e_token E = T" "e_self E = self"
    and "jsget (c_streams k) i = Some s" "\<not> is_terminal (cs_status s)" "is_terminal fin"
  shows "sound paid T self k k'"
proof (cases "stream_ok s")
  case True
  obtain n where n: "claimable_amount s (e_now E) = Some n"
    and k': "c_streams k' = jsset (cs_id s) (s\<lparr>cs_withdrawn := cs_withdrawn s + n, cs_status := fin\<rparr>) (c_streams k)"
      "c_count k' = c_count k"
    and h: "\<And>t c. held T c t k' = held T c t k + (if t = cs_token s then (if c = cs_employee s then n else 0) +
       (if c = er then cs_deposit s - cs_withdrawn s - n else 0) - (if c = self then cs_deposit s - cs_withdrawn s else 0) else 0)"
    using settle_pays [OF assms(1-3) True] by blast
  show ?thesis
  proof (rule sound_replaced [of i s "s\<lparr>cs_withdrawn := cs_withdrawn s + n, cs_status := fin\<rparr>"])
    show "owed t (s\<lparr>cs_withdrawn := cs_withdrawn s + n, cs_status := fin\<rparr>) - owed t s \<le> held T self t k' - held T self t k" for t
      using h [of self t] assms(5,6) claimable_ok [OF True n] by (auto simp: owed_def split: if_splits)
  qed (use assms k' claimable_ok [OF True n] in \<open>auto simp: replaced_def stream_ok_def\<close>)
next
  case False
  then show ?thesis using assms(4) booksD by (auto simp: sound_def)
qed

lemma cancel_sound:
  assumes "op_cancel_stream E er i k = Inr (u, k')" "e_token E = T" "e_self E = self"
  shows "sound paid T self k k'"
  using assms settle_sound [OF _ assms(2,3)] by (auto simp: op_cancel_stream_def tx is_terminal_def)

lemma reclaim_sound:
  assumes "op_reclaim_expired E er i k = Inr (u, k')" "e_token E = T" "e_self E = self"
  shows "sound paid T self k k'"
  using assms settle_sound [OF _ assms(2,3)] by (auto simp: op_reclaim_expired_def tx is_terminal_def)

text \<open>A withdrawal: the fee, when there is a recipient, then the employee's share.\<close>

lemma pay_fee_held:
  assumes "pay_fee E tok fee v k = Inr (u, k')" "e_token E = T" "e_self E = self" "0 \<le> fee"
  shows "same_streams k k' \<and> held T c t k' = held T c t k +
    (if t = tok \<and> v \<noteq> None then (if v = Some c then fee else 0) - (if c = self then fee else 0) else 0)"
proof (cases "if fee > 0 then v else None")
  case None
  then show ?thesis using assms by (auto simp: pay_fee_def tx same_streams_def split: if_splits)
next
  case (Some r)
  then have v: "v = Some r" by (simp split: if_splits)
  from Some obtain k1 u1 where "pay E tok self r fee k = Inr (u1, k1)" "add_fee_balance tok fee k1 = Inr (u, k')"
    using assms(1,3) by (auto simp: pay_fee_def tx simp del: pay_Inr)
  then have "same_streams k k1" "held T c t k1 = held T c t k + (if t = tok \<and> c = r then fee else 0) - (if t = tok \<and> c = self then fee else 0)"
    "same_streams k1 k'" "c_ledger k' = c_ledger k1"
    using pay_held [OF _ assms(2), of tok self r fee k u1 k1 c t]
    by (auto simp: add_fee_balance_def set_fee_balance_def tx same_streams_def simp del: pay_Inr)
  then show ?thesis by (auto simp: same_streams_def held_def v)
qed

lemma bps_nonneg: "0 \<le> g \<Longrightarrow> 0 < b \<Longrightarrow> 0 \<le> g * b div (10000 :: int)"
  by (simp add: pos_imp_zdiv_nonneg_iff)

lemma withdraw_pays:
  assumes run: "op_withdraw E ee i k = Inr (v, k')" and E: "e_token E = T" "e_self E = self"
    and s: "jsget (c_streams k) i = Some s" and c: "claimable_amount s (e_now E) = Some g" "g \<noteq> 0"
  obtains fee k1 where "fee = (if cf_fee_bps (c_config k) > 0 then g * cf_fee_bps (c_config k) div 10000 else 0)"
    "same_streams k k1"
    "\<And>t c. held T c t k1 = held T c t k + (if t = cs_token s then (if c = ee then max 0 (sat_i128 (g - fee)) else 0) +
       (if c_fee_recipient k = Some c then fee else 0) -
       (if c = self then max 0 (sat_i128 (g - fee)) + (if c_fee_recipient k = None then 0 else fee) else 0) else 0)"
    "k' = k1\<lparr>c_streams := jsset (cs_id s) (s\<lparr>cs_withdrawn := cs_withdrawn s + g, cs_last_withdraw_time := e_now E,
       cs_status := (if cs_withdrawn s + g \<ge> cs_deposit s then Exhausted else cs_status s), cs_locked := False\<rparr>) (c_streams k)\<rparr>"
proof -
  let ?b = "cf_fee_bps (c_config k)"
  define fee where "fee = (if ?b > 0 then g * ?b div 10000 else 0)"
  let ?k1 = "k\<lparr>c_streams := jsset (cs_id s) (s\<lparr>cs_locked := True\<rparr>) (c_streams k)\<rparr>"
  let ?s = "s\<lparr>cs_withdrawn := cs_withdrawn s + g, cs_last_withdraw_time := e_now E,
       cs_status := (if cs_withdrawn s + g \<ge> cs_deposit s then Exhausted else cs_status s), cs_locked := False\<rparr>"
  have "0 \<le> g" using claimable_bounds [OF c(1)] by simp
  then have fee: "0 \<le> fee" using bps_nonneg by (simp add: fee_def)
  obtain k2 k3 u2 u3 where k2: "pay_fee E (cs_token s) fee (c_fee_recipient k) ?k1 = Inr (u2, k2)"
    and k3: "pay E (cs_token s) self ee (max 0 (sat_i128 (g - fee))) k2 = Inr (u3, k3)"
    and k': "k' = k3\<lparr>c_streams := jsset (cs_id s) ?s (c_streams k3)\<rparr>"
    using run s c E(2)
    by (auto simp: op_withdraw_def tx fee_def simp del: pay_Inr split: if_splits)
  have h2: "same_streams ?k1 k2 \<and> held T c t k2 = held T c t k + (if t = cs_token s \<and> c_fee_recipient k \<noteq> None
      then (if c_fee_recipient k = Some c then fee else 0) - (if c = self then fee else 0) else 0)" for c t
    using pay_fee_held [OF k2 E fee, of c t] by (simp add: held_def)
  have h3: "same_streams k2 k3 \<and> held T c t k3 = held T c t k2 + (if t = cs_token s \<and> c = ee then max 0 (sat_i128 (g - fee)) else 0)
      - (if t = cs_token s \<and> c = self then max 0 (sat_i128 (g - fee)) else 0)" for c t
    using pay_held [OF k3 E(1), of c t] by simp
  show ?thesis
  proof (rule that [of fee "k3\<lparr>c_streams := c_streams k\<rparr>"])
    show "held T c t (k3\<lparr>c_streams := c_streams k\<rparr>) = held T c t k + (if t = cs_token s then (if c = ee then max 0 (sat_i128 (g - fee)) else 0) +
       (if c_fee_recipient k = Some c then fee else 0) -
       (if c = self then max 0 (sat_i128 (g - fee)) + (if c_fee_recipient k = None then 0 else fee) else 0) else 0)" for c t
      using h2 [of c t] h3 [of c t] by (auto simp: held_def)
  qed (use h2 h3 k' in \<open>auto simp: fee_def same_streams_def\<close>)
qed

lemma withdraw_sound:
  assumes run: "op_withdraw E ee i k = Inr (v, k')" and E: "e_token E = T" "e_self E = self"
    and bps: "paid \<Longrightarrow> cf_fee_bps (c_config k) \<le> 10000"
  shows "sound paid T self k k'"
proof -
  obtain s g where s: "jsget (c_streams k) i = Some s" and g: "claimable_amount s (e_now E) = Some g"
    using run by (auto simp: op_withdraw_def tx)
  show ?thesis
  proof (cases "g = 0 \<or> \<not> stream_ok s")
    case True
    then consider "k' = k" | "\<not> stream_ok s" using run s g by (auto simp: op_withdraw_def tx)
    then show ?thesis using s booksD sound_money [of k k] by cases (auto simp: same_money_def sound_def)
  next
    case False
    obtain fee k1 where fee: "fee = (if cf_fee_bps (c_config k) > 0 then g * cf_fee_bps (c_config k) div 10000 else 0)"
      and k1: "same_streams k k1"
        "\<And>t c. held T c t k1 = held T c t k + (if t = cs_token s then (if c = ee then max 0 (sat_i128 (g - fee)) else 0) +
           (if c_fee_recipient k = Some c then fee else 0) -
           (if c = self then max 0 (sat_i128 (g - fee)) + (if c_fee_recipient k = None then 0 else fee) else 0) else 0)"
      and k': "k' = k1\<lparr>c_streams := jsset (cs_id s) (s\<lparr>cs_withdrawn := cs_withdrawn s + g, cs_last_withdraw_time := e_now E,
         cs_status := (if cs_withdrawn s + g \<ge> cs_deposit s then Exhausted else cs_status s), cs_locked := False\<rparr>) (c_streams k)\<rparr>"
      using withdraw_pays [OF run E s g] False by blast
    have g': "0 \<le> g" "g \<le> cs_deposit s - cs_withdrawn s" "\<not> is_terminal (cs_status s)"
      using claimable_ok [OF _ g] claimable_terminal [OF g] False by auto
    have exact: "0 \<le> fee \<and> fee + max 0 (sat_i128 (g - fee)) = g" if paid
    proof -
      have "g * cf_fee_bps (c_config k) \<le> g * 10000" using bps [OF that] g' by (simp add: mult_left_mono)
      then have "0 \<le> fee" "fee \<le> g" using g' bps_nonneg [of g "cf_fee_bps (c_config k)"] by (auto simp: fee)
      moreover have "g < 2 ^ 127" using g' False by (auto simp: stream_ok_def i128_def)
      ultimately show ?thesis by (simp add: sat_i128_def)
    qed
    show ?thesis
    proof (rule sound_replaced [of i s])
      show "replaced i s (s\<lparr>cs_withdrawn := cs_withdrawn s + g, cs_last_withdraw_time := e_now E,
         cs_status := (if cs_withdrawn s + g \<ge> cs_deposit s then Exhausted else cs_status s), cs_locked := False\<rparr>) k k'"
        using s k' k1(1) by (simp add: replaced_def same_streams_def)
      fix t assume paid
      then show "owed t (s\<lparr>cs_withdrawn := cs_withdrawn s + g, cs_last_withdraw_time := e_now E,
         cs_status := (if cs_withdrawn s + g \<ge> cs_deposit s then Exhausted else cs_status s), cs_locked := False\<rparr>) - owed t s
        \<le> held T self t k' - held T self t k"
        using k1(2) [of self t] g' exact by (auto simp: owed_def k' held_def is_terminal_def split: if_splits)
    qed (use g' in \<open>auto simp: stream_ok_def\<close>)
  qed
qed

text \<open>A deposit arrives before the stream is booked; a fee above the deposit makes the transfer fail.\<close>

lemma take_deposit_held:
  assumes run: "take_deposit E er tok dep bps v k = Inr (net, k')" and E: "e_token E = T" "e_self E = self"
    and er: "er \<noteq> self" and dep: "i128 dep"
  shows "0 \<le> net \<and> i128 net \<and> same_streams k k' \<and> held T self t k + (if t = tok then net else 0) \<le> held T self t k'"
proof (cases "if bps > 0 then v else None")
  case None
  then obtain u where "pay E tok er self dep k = Inr (u, k')" "net = dep"
    using run E(2) by (auto simp: take_deposit_def tx simp del: pay_Inr)
  then show ?thesis using paid_in [OF _ E(1) er, of tok dep k u k' t] dep by auto
next
  case (Some r)
  then obtain fee k1 u1 u2 where n: "i128 net" and p1: "pay E tok er self net k = Inr (u1, k1)"
    and p2: "pay E tok er r fee k1 = Inr (u2, k')"
    using run E(2) by (auto simp: take_deposit_def tx simp del: pay_Inr)
  have "held T self t k1 = held T self t k + (if t = tok then net else 0)" "0 \<le> net" "same_streams k k1"
    using paid_in [OF p1 E(1) er, of t] by simp_all
  moreover have "held T self t k1 \<le> held T self t k'" "same_streams k1 k'"
    using paid_elsewhere [OF p2 E(1) er, of t] by simp_all
  ultimately show ?thesis using n by (simp add: same_streams_def)
qed

text \<open>A new stream is booked under the next number with what arrived.\<close>

lemma booked_sound:
  assumes "take_deposit E er tok dep bps v k = Inr (net, k1)" "e_token E = T" "e_self E = self" "er \<noteq> self" "i128 dep"
    and "c_streams k' = jsset (c_count k1 + 1) s (c_streams k1)" "c_count k' = c_count k1 + 1" "c_ledger k' = c_ledger k1"
    and "s = new_stream (c_count k1 + 1) er ee tok net rate now stop cd cliff"
  shows "sound paid T self k k'"
proof (rule sound_added [of s])
  note t = take_deposit_held [OF assms(1-5)]
  show "added s k k'" using assms t by (simp add: added_def same_streams_def new_stream_def)
  show "stream_ok s" using assms t by (simp add: stream_ok_def new_stream_def)
  show "owed tok' s \<le> held T self tok' k' - held T self tok' k" for tok'
    using t [of tok'] assms(8,9) by (auto simp: owed_def new_stream_def is_terminal_def held_def split: if_splits)
qed

lemmas booking = next_id_def save_stream_def index_employer_streams_def index_employee_stream_def

lemma create_sound:
  assumes run: "op_create_stream E er ee tok dep rate stop cd cliff k = Inr (i, k')"
    and E: "e_token E = T" "e_self E = self" "\<not> e_auth E self" and dep: "i128 dep"
  shows "sound paid T self k k'"
proof -
  obtain net k1 where k1: "take_deposit E er tok dep (cf_fee_bps (c_config k)) (c_fee_recipient k) k = Inr (net, k1)"
    and er: "e_auth E er" and k': "c_count k' = c_count k1 + 1" "c_ledger k' = c_ledger k1"
      "c_streams k' = jsset (c_count k1 + 1) (new_stream (c_count k1 + 1) er ee tok net rate (e_now E) stop cd cliff) (c_streams k1)"
    using run unfolding op_create_stream_def validate_create_stream_def require_token_def
    by (auto simp: tx booking new_stream_def)
  from er have "er \<noteq> self" using E(3) by auto
  then show ?thesis using booked_sound [OF k1 E(1,2) _ dep k'(3) k'(1) k'(2) refl] by simp
qed

lemma batch_one_sound:
  assumes run: "batch_one E bump er cf v allowed p k = Inr (i, k')"
    and E: "e_token E = T" "e_self E = self" "er \<noteq> self" and dep: "i128 (bp_deposit p)"
  shows "sound paid T self k k'"
proof -
  obtain net k1 where k1: "take_deposit E er (bp_token p) (bp_deposit p) (cf_fee_bps cf) v k = Inr (net, k1)"
    and k': "c_count k' = c_count k1 + 1" "c_ledger k' = c_ledger k1"
      "c_streams k' = jsset (c_count k1 + 1)
        (new_stream (c_count k1 + 1) er (bp_employee p) (bp_token p) net (bp_rate p) (e_now E) (bp_stop p) 0 (bp_cliff p)) (c_streams k1)"
    using run unfolding batch_one_def validate_create_stream_def require_token_def
    by (auto simp: tx booking new_stream_def)
  then show ?thesis using booked_sound [OF k1 E(1-3) dep k'(3) k'(1) k'(2) refl] by simp
qed

lemma batch_all_sound:
  assumes "batch_all f ps k = Inr (is, k')" "\<And>p k i k'. p \<in> set ps \<Longrightarrow> f p k = Inr (i, k') \<Longrightarrow> sound paid T self k k'"
  shows "sound paid T self k k'"
  using assms
proof (induction ps arbitrary: k "is")
  case Nil
  then show ?case using sound_money [of k k] by (simp add: tx same_money_def)
next
  case (Cons p ps)
  then obtain i k1 js where "f p k = Inr (i, k1)" "batch_all f ps k1 = Inr (js, k')" by (auto simp: tx)
  then show ?case using Cons.IH [of k1 js] Cons.prems(2) sound_trans by (meson list.set_intros)
qed

lemma batch_sound:
  assumes run: "op_create_streams_batch E bump er ps k = Inr (is, k')"
    and E: "e_token E = T" "e_self E = self" "\<not> e_auth E self" and dep: "\<forall>p \<in> set ps. i128 (bp_deposit p)"
  shows "sound paid T self k k'"
proof -
  obtain k1 js where b: "batch_all (batch_one E bump er (c_config k) (c_fee_recipient k) (c_allowed k)) ps k = Inr (js, k1)"
    and er: "e_auth E er" and k': "same_money k1 k'"
    using run by (auto simp: op_create_streams_batch_def tx index_employer_streams_def same_money_def)
  from er have "er \<noteq> self" using E(3) by auto
  then have "sound paid T self k k1" using batch_all_sound [OF b] batch_one_sound [OF _ E(1,2)] dep by blast
  then show ?thesis using sound_trans sound_money [OF k'] by blast
qed

end

end
