(* ===== verification/Contract_Runs.thy ===== *)
theory Contract_Runs
  imports Contract_Props
begin

text \<open>
  Histories of the stream contract: every sequence of successful calls, by anyone, with the other traffic of
  the tokens in between. The books stay in order, ended streams stay ended, the contract holds what it owes,
  and so a due withdrawal is paid.
\<close>

section \<open>Histories\<close>

text \<open>The types of the arguments that the calls do not check: deposits are \<^verbatim>\<open>i128\<close>.\<close>

fun typed_call :: "call \<Rightarrow> bool" where
  "typed_call (Streams (CreateStream er ee tok d r st cd cl)) = i128 d"
| "typed_call (Streams (CreateStreamsBatch er ps)) = (\<forall>p \<in> set ps. i128 (bp_deposit p))"
| "typed_call _ = True"

text \<open>
  A step is a successful call (a panic changes nothing), in which nobody signs for the contract itself, or other
  traffic of the tokens, which cannot take from the contract. \<open>P\<close> restricts the calls considered.
\<close>

inductive step ::
  "'l token_api \<Rightarrow> string \<Rightarrow> (string \<Rightarrow> bool) \<Rightarrow> (call \<Rightarrow> 'l contract \<Rightarrow> bool) \<Rightarrow> 'l contract \<Rightarrow> 'l contract \<Rightarrow> bool"
  for T self bump P where
  call_step: "exec bump E c k = Inr (u, k') \<Longrightarrow> e_token E = T \<Longrightarrow> e_self E = self \<Longrightarrow> \<not> e_auth E self \<Longrightarrow>
    typed_call c \<Longrightarrow> P c k \<Longrightarrow> step T self bump P k k'"
| token_step: "(\<And>tok. tk_balance T tok self (c_ledger k) \<le> tk_balance T tok self l) \<Longrightarrow>
    step T self bump P k (k\<lparr>c_ledger := l\<rparr>)"

definition history ::
  "'l token_api \<Rightarrow> string \<Rightarrow> (string \<Rightarrow> bool) \<Rightarrow> (call \<Rightarrow> 'l contract \<Rightarrow> bool) \<Rightarrow> 'l contract \<Rightarrow> 'l contract \<Rightarrow> bool" where
  "history T self bump P = (step T self bump P)\<^sup>*\<^sup>*"

definition any_call :: "call \<Rightarrow> 'l contract \<Rightarrow> bool" where
  "any_call c k = True"

text \<open>The calls under which the contract stays solvent: the fee is at most the whole amount and nobody collects the
  fee balance, whose tokens have already left.\<close>

definition no_fee_payout :: "call \<Rightarrow> 'l contract \<Rightarrow> bool" where
  "no_fee_payout c k = (cf_fee_bps (c_config k) \<le> 10000 \<and> (case c of WithdrawProtocolFees a t n \<Rightarrow> False | _ \<Rightarrow> True))"

lemma step_mono: "step T self bump P k k' \<Longrightarrow> (\<And>c k. P c k \<Longrightarrow> Q c k) \<Longrightarrow> step T self bump Q k k'"
  by (induction rule: step.induct) (auto intro: step.intros)

lemma history_any: "history T self bump P k k' \<Longrightarrow> history T self bump any_call k k'"
  unfolding history_def by (erule rtranclp_mono [THEN predicate2D, rotated]) (auto intro: step_mono simp: any_call_def)

lemma empty_books [simp]: "books (empty_contract l)" "liabilities tok (empty_contract l) = 0"
  by (simp_all add: books_def liabilities_def empty_contract_def)

lemma empty_held [simp]: "held T self tok (empty_contract l) = tk_balance T tok self l"
  by (simp add: held_def empty_contract_def)

context token_contract
begin

lemma exec_stream_sound:
  assumes run: "exec_stream bump E c k = Inr (u, k')" and E: "e_token E = T" "e_self E = self" "\<not> e_auth E self"
    and t: "typed_call (Streams c)" and bps: "paid \<Longrightarrow> cf_fee_bps (c_config k) \<le> 10000"
  shows "sound paid T self k k'"
proof (cases c)
  case (Withdraw ee i)
  then show ?thesis using run withdraw_sound [OF _ E(1,2) bps] by (auto simp: tx)
next
  case (CreateStream er ee tok d r st cd cl)
  then show ?thesis using run t create_sound [OF _ E] by (auto simp: tx)
next
  case (CreateStreamsBatch er ps)
  then show ?thesis using run t batch_sound [OF _ E] by (auto simp: tx)
qed (use run in \<open>auto simp: tx intro: manage_sound propose_employer_sound update_rate_sound get_stream_sound
  top_up_sound [OF _ E] cancel_sound [OF _ E(1,2)] reclaim_sound [OF _ E(1,2)]\<close>)

lemma fee_payout_sound:
  assumes "op_withdraw_protocol_fees E a tok n k = Inr (u, k')" "e_token E = T"
  shows "sound False T self k k'"
proof -
  obtain b u1 k1 where p: "pay E tok (e_self E) b n k = Inr (u1, k1)" and k': "same_money k1 k'"
    using assms by (auto simp: op_withdraw_protocol_fees_def as_admin_def require_admin_def set_fee_balance_def tx same_money_def
      simp del: pay_Inr)
  have "sound False T self k k1" using p by (auto simp: tx intro: sound_ledger)
  then show ?thesis using sound_trans sound_money [OF k'] by blast
qed

lemma step_sound:
  assumes "step T self bump P k k'" "\<And>c k. P c k \<Longrightarrow> paid \<Longrightarrow> no_fee_payout c k"
  shows "sound paid T self k k'"
  using assms(1)
proof cases
  case (call_step E c u)
  show ?thesis
  proof (cases c)
    case (WithdrawProtocolFees a tok n)
    then have "\<not> paid" using assms(2) [OF call_step(6)] by (auto simp: no_fee_payout_def)
    then show ?thesis using fee_payout_sound call_step WithdrawProtocolFees by auto
  next
    case (Streams d)
    have "paid \<Longrightarrow> cf_fee_bps (c_config k) \<le> 10000" using assms(2) call_step(6) by (auto simp: no_fee_payout_def)
    then show ?thesis using exec_stream_sound [OF _ call_step(2-4)] call_step Streams by auto
  qed (use call_step in \<open>auto intro!: sound_money intro: keepsD [OF exec_admin_keeps] keepsD [OF exec_vote_keeps]\<close>)
next
  case (token_step l)
  show ?thesis by (rule sound_ledger [OF token_step(1)]) (use token_step in \<open>simp add: held_def\<close>)
qed

lemma history_sound:
  assumes "history T self bump P k k'" "\<And>c k. P c k \<Longrightarrow> paid \<Longrightarrow> no_fee_payout c k"
  shows "sound paid T self k k'"
  using assms(1) unfolding history_def
proof (induction rule: rtranclp_induct)
  case base
  then show ?case using sound_money [of k k] by (simp add: same_money_def)
next
  case (step k1 k2)
  then show ?case using step_sound [OF step(2) assms(2)] sound_trans by blast
qed

lemma history_books: "history T self bump P k k' \<Longrightarrow> books k \<Longrightarrow> books k'"
  using history_sound [where paid = False] by (auto simp: sound_def)

lemma history_ends: "history T self bump P k k' \<Longrightarrow> books k \<Longrightarrow> ends_kept k k'"
  using history_sound [where paid = False] by (auto simp: sound_def)

lemma history_solvent:
  assumes "history T self bump no_fee_payout k k'" "books k" "liabilities tok k \<le> held T self tok k"
  shows "liabilities tok k' \<le> held T self tok k'"
proof -
  have "sound True T self k k'" using history_sound [OF assms(1)] by blast
  then have "liabilities tok k' - liabilities tok k \<le> held T self tok k' - held T self tok k"
    using assms(2) by (simp add: sound_def)
  then show ?thesis using assms(3) by simp
qed

lemma solvent_from_start:
  assumes "history T self bump no_fee_payout (empty_contract l0) k" "\<And>tok. 0 \<le> tk_balance T tok self l0"
  shows "liabilities tok k \<le> tk_balance T tok self (c_ledger k)"
  using history_solvent [OF assms(1) empty_books(1), of tok] assms(2) [of tok] unfolding empty_held empty_books
  by (simp add: held_def)

end

text \<open>Each stream is covered by the total.\<close>

lemma owed_nonneg: "stream_ok s \<Longrightarrow> 0 \<le> owed tok s"
  by (simp add: owed_def stream_ok_def)

lemma owed_le_liabilities:
  assumes "books k" "jsget (c_streams k) i = Some s"
  shows "owed tok s \<le> liabilities tok k"
proof -
  have *: "0 \<le> owed tok s'" if "(j, s') \<in> set (c_streams k)" for j s'
    using that assms(1) booksD [OF assms(1), of j s'] books_distinct [OF assms(1)] owed_nonneg by simp
  have "owed tok s \<in> set (map (\<lambda>(i, s). owed tok s) (c_streams k))"
    using map_of_SomeD [OF assms(2)] by force
  then show ?thesis unfolding liabilities_def using * by (intro member_le_sum_list) auto
qed

text \<open>A token with enough balance pays.\<close>

lemma chain_pays:
  assumes "0 < n" "n \<le> tk_balance chain_tokens tok self l" "a \<noteq> self"
    "i128 (tk_balance chain_tokens tok self l)" "i128 (tk_balance chain_tokens tok a l + n)"
  obtains l' where "tk_transfer chain_tokens (\<lambda>x. x = self \<or> auth x) tok self a n l = Some l'"
proof -
  obtain st where st: "jsget l tok = Some st" using assms(1,2) by (auto simp: chain_tokens_def split: option.splits)
  have "i128 (balance_of st self - n)" "n \<le> balance_of st self" "i128 (balance_of st a + n)"
    using assms st by (auto simp: chain_tokens_def i128_def)
  then have "\<exists>st'. transfer (\<lambda>x. x = self \<or> auth x) self a n st = Inr ((), st')"
    using assms(1,3) by (simp add: transfer_def require_auth_def move_def tx_run)
  then show ?thesis using that st by (auto simp: chain_tokens_def)
qed

lemma withdraw_runs:
  assumes "e_auth E (cs_employee s)" "\<not> cf_paused (c_config k)" "cf_fee_bps (c_config k) = 0"
    and "jsget (c_streams k) i = Some s" "cs_status s = Active" "\<not> cs_locked s"
    and "cs_cooldown_period s > 0 \<Longrightarrow> e_now E \<ge> sat_u64 (cs_last_withdraw_time s + cs_cooldown_period s)"
    and "claimable_amount s (e_now E) = Some g" "0 < g" "i128 g" "i128 (cs_withdrawn s + g)"
    and "tk_transfer (e_token E) (\<lambda>x. x = e_self E \<or> e_auth E x) (cs_token s) (e_self E) (cs_employee s) g (c_ledger k) = Some l"
  shows "op_withdraw E (cs_employee s) i k = Inr (g, k\<lparr>c_ledger := l, c_streams := jsset (cs_id s)
    (s\<lparr>cs_withdrawn := cs_withdrawn s + g, cs_last_withdraw_time := e_now E,
       cs_status := (if cs_withdrawn s + g \<ge> cs_deposit s then Exhausted else Active), cs_locked := False\<rparr>) (c_streams k)\<rparr>)"
proof -
  have "max 0 (sat_i128 g) = g" using assms(9,10) by (auto simp: sat_i128_def i128_def)
  then show ?thesis using assms
    by (simp add: op_withdraw_def auth_of_def require_auth_def require_employee_by_id_def load_stream_def save_stream_def
      claimable_tx_def pay_fee_def pay_def tx_run)
qed

lemma claimable_now: "cs_last_withdraw_time s = t \<Longrightarrow> claimable_amount s t = Some 0"
  by (auto simp: claimable_amount_def contract_end_def Let_def)

section \<open>A sample history\<close>

text \<open>An employer with 1000 tokens opens a stream of 600 at 10 per second; at time 130 it is cancelled.\<close>

definition sample_ledger :: token_ledger where
  "sample_ledger = [(''T'', \<lparr>t_admin = Some ''A'', t_balances = [(''A'', 1000)], t_allowances = [], t_supply = 1000, t_minters = []\<rparr>)]"

definition sample_env :: "int \<Rightarrow> token_ledger env" where
  "sample_env t = \<lparr>e_self = ''C'', e_now = t, e_auth = (\<lambda>x. x \<noteq> ''C''), e_token = chain_tokens\<rparr>"

definition sample_opened :: "token_ledger contract" where
  "sample_opened = invoke (exec (\<lambda>_. True) (sample_env 100) (Streams (CreateStream ''A'' ''B'' ''T'' 600 10 0 0 0))) (empty_contract sample_ledger)"

definition sample_cancelled :: "token_ledger contract" where
  "sample_cancelled = invoke (exec (\<lambda>_. True) (sample_env 130) (Streams (CancelStream ''A'' 1))) sample_opened"

lemmas sample_eval = exec.simps exec_stream.simps op_create_stream_def op_cancel_stream_def settle_stream_def auth_of_def require_auth_def
  validate_create_stream_def require_token_def is_token_allowed_def take_deposit_def pay_def chain_tokens_def transfer_def move_def
  next_id_def save_stream_def load_stream_def index_employer_streams_def index_employee_stream_def void_def tx_run sample_env_def
  sample_ledger_def empty_contract_def default_config_def list_at_def balance_of_def set_balance_def new_stream_def claimable_tx_def
  claimable_amount_def contract_end_def contract_remaining_def require_employer_by_id_def require_transition_def is_valid_transition_def
  MAX_RATE_PER_SECOND_def MAX_STREAM_DURATION_def as_u64_def sat_i128_def sat_u64_def i128_def u64_def Let_def

definition sample_stream :: contract_stream where
  "sample_stream = new_stream 1 ''A'' ''B'' ''T'' 600 10 100 0 0 0"

lemma sample_opened_run:
  "exec (\<lambda>_. True) (sample_env 100) (Streams (CreateStream ''A'' ''B'' ''T'' 600 10 0 0 0)) (empty_contract sample_ledger)
    = Inr ((), (empty_contract [(''T'', \<lparr>t_admin = Some ''A'', t_balances = [(''A'', 400), (''C'', 600)], t_allowances = [],
        t_supply = 1000, t_minters = []\<rparr>)])
      \<lparr>c_streams := [(1, sample_stream)], c_count := 1, c_employer_streams := [(''A'', [1])], c_employee_streams := [(''B'', [1])]\<rparr>)"
  by (simp add: sample_eval sample_stream_def)

lemma sample_opened_eq:
  "sample_opened = (empty_contract [(''T'', \<lparr>t_admin = Some ''A'', t_balances = [(''A'', 400), (''C'', 600)], t_allowances = [],
        t_supply = 1000, t_minters = []\<rparr>)])
      \<lparr>c_streams := [(1, sample_stream)], c_count := 1, c_employer_streams := [(''A'', [1])], c_employee_streams := [(''B'', [1])]\<rparr>"
  unfolding sample_opened_def invoke_def sample_opened_run by simp

lemma sample_cancelled_run:
  "exec (\<lambda>_. True) (sample_env 130) (Streams (CancelStream ''A'' 1)) sample_opened = Inr ((), sample_cancelled)"
  by (simp add: sample_cancelled_def invoke_def sample_opened_eq sample_eval sample_stream_def)

lemma sample_cancelled_eq:
  "c_streams sample_cancelled = [(1, sample_stream\<lparr>cs_withdrawn := 300, cs_status := Cancelled\<rparr>)]"
  "c_ledger sample_cancelled = [(''T'', \<lparr>t_admin = Some ''A'', t_balances = [(''A'', 700), (''C'', 0), (''B'', 300)], t_allowances = [],
        t_supply = 1000, t_minters = []\<rparr>)]"
  by (simp_all add: sample_cancelled_def invoke_def sample_opened_eq sample_eval sample_stream_def)

lemma sample_call:
  assumes "exec (\<lambda>_. True) (sample_env t) c k = Inr ((), k')" "typed_call c" "P c k"
  shows "history chain_tokens ''C'' (\<lambda>_. True) P k k'"
  unfolding history_def
  by (rule r_into_rtranclp, rule step.call_step [OF assms(1)]) (use assms in \<open>simp_all add: sample_env_def\<close>)

lemma sample_opened_history: "history chain_tokens ''C'' (\<lambda>_. True) no_fee_payout (empty_contract sample_ledger) sample_opened"
  by (rule sample_call [OF sample_opened_run [folded sample_opened_eq]])
    (simp_all add: no_fee_payout_def empty_contract_def default_config_def i128_def)

lemma sample_ledger_nonneg: "0 \<le> tk_balance chain_tokens tok ''C'' sample_ledger"
  by (simp add: sample_ledger_def chain_tokens_def balance_of_def)

section \<open>Properties\<close>



text \<open>
  C4: Ended streams stay ended. Once a stream is cancelled or exhausted, no later call by anyone, administrators
  included, changes its status, its deposit or the amount withdrawn.
\<close>

theorem ended_streams_stay_ended:
  assumes "history chain_tokens self bump any_call (empty_contract l0) k"
    and "history chain_tokens self bump any_call k k'"
    and "jsget (c_streams k) i = Some s" "is_terminal (cs_status s)"
  shows "\<exists>s'. jsget (c_streams k') i = Some s' \<and> cs_status s' = cs_status s \<and> cs_deposit s' = cs_deposit s
    \<and> cs_withdrawn s' = cs_withdrawn s"
proof -
  have "books k" using chain.history_books [OF assms(1)] by simp
  then have "ends_kept k k'" using chain.history_ends [OF assms(2)] by simp
  then show ?thesis using assms(3,4) by (simp add: ends_kept_def frozen_def)
qed

theorem ended_streams_stay_ended_witness:
  "\<exists>k' s'. exec (\<lambda>_. True) (sample_env 140) (Streams (SetDelegate ''A'' 1 (Some ''D''))) sample_cancelled = Inr ((), k')
    \<and> jsget (c_streams k') 1 = Some s' \<and> cs_status s' = Cancelled \<and> cs_withdrawn s' = 300"
proof -
  let ?c = "Streams (SetDelegate ''A'' 1 (Some ''D''))"
  obtain k' where k': "exec (\<lambda>_. True) (sample_env 140) ?c sample_cancelled = Inr ((), k')"
    by (simp add: op_set_delegate_def sample_eval sample_cancelled_eq sample_stream_def)
  have h: "history chain_tokens ''C'' (\<lambda>_. True) any_call (empty_contract sample_ledger) sample_cancelled"
    using history_any [OF sample_opened_history] sample_call [OF sample_cancelled_run, of any_call]
    by (simp add: history_def any_call_def)
  have "history chain_tokens ''C'' (\<lambda>_. True) any_call sample_cancelled k'"
    by (rule sample_call [OF k']) (simp_all add: any_call_def)
  from ended_streams_stay_ended [OF h this, of 1 "sample_stream\<lparr>cs_withdrawn := 300, cs_status := Cancelled\<rparr>"] k'
  show ?thesis by (auto simp: sample_cancelled_eq is_terminal_def)
qed





end
