(* ===== verification/Contract_Findings.thy ===== *)
theory Contract_Findings
  imports Contract_Runs
begin

text \<open>
  Behaviours of the stream contract that its comments and its state machine do not intend: fees that are paid out
  and booked, earnings lost by a rate change or by reading a stream, an open initialization, and an uncapped fee.
\<close>

text \<open>A withdrawal sends the fee to the recipient and adds the same amount to the fee balance of the contract.\<close>

lemma fee_sent_and_booked:
  assumes "pay_fee E tok fee (Some r) k = Inr (u, k')" "e_token E = chain_tokens" "e_self E = self"
    "0 < fee" "r \<noteq> self" "i128 (get_fee_balance tok k + fee)"
  shows "tk_balance chain_tokens tok self (c_ledger k') = tk_balance chain_tokens tok self (c_ledger k) - fee
    \<and> get_fee_balance tok k' = get_fee_balance tok k + fee"
proof -
  have "get_fee_balance tok k' = get_fee_balance tok k + fee"
    using assms by (auto simp: pay_fee_def tx add_fee_balance_def set_fee_balance_def get_fee_balance_def)
  then show ?thesis using chain.pay_fee_held [OF assms(1-3), of self tok] assms(4,5) by (simp add: held_def)
qed

text \<open>So a payout of the fee balance takes the same amount again, from the deposits.\<close>

lemma fee_payout_takes_deposits:
  assumes "op_withdraw_protocol_fees E a tok n k = Inr (u, k')" "e_token E = chain_tokens" "e_self E = self"
    "c_fee_recipient k = Some r" "r \<noteq> self"
  shows "0 < n \<and> liabilities tok k' = liabilities tok k
    \<and> tk_balance chain_tokens tok self (c_ledger k') = tk_balance chain_tokens tok self (c_ledger k) - n"
proof -
  obtain k1 u1 where n: "0 < n" and p: "pay E tok self r n k = Inr (u1, k1)" and k': "same_money k1 k'"
    using assms by (auto simp: op_withdraw_protocol_fees_def as_admin_def require_admin_def set_fee_balance_def tx same_money_def
      simp del: pay_Inr)
  have "liabilities tok k1 = liabilities tok k" using p by (auto simp: tx liabilities_def)
  then show ?thesis using n chain.pay_held [OF p assms(2), of self tok] assms(5) liabilities_money [OF k'] k'
    by (simp add: held_def same_money_def)
qed

text \<open>A rate change books what the employee has earned as withdrawn and pays nothing.\<close>

lemma rate_change_forfeits:
  assumes "op_update_rate E er i rate k = Inr (u, k')" "jsget (c_streams k) i = Some s" "cs_id s = i"
    "claimable_amount s (e_now E) = Some n"
  shows "\<exists>s'. jsget (c_streams k') i = Some s' \<and> cs_withdrawn s' = cs_withdrawn s + n \<and>
    claimable_amount s' (e_now E) = Some 0 \<and> c_ledger k' = c_ledger k"
  using assms by (auto simp: op_update_rate_def tx intro!: claimable_now)

text \<open>Reading an active stream after its stop time ends it although its earnings are unclaimed; nothing can be
  claimed from it afterwards.\<close>

lemma reading_forfeits:
  assumes "jsget (c_streams k) i = Some s" "cs_id s = i" "cs_status s = Active" "0 < cs_stop_time s" "cs_stop_time s \<le> e_now E"
    and "claimable_amount s (e_now E) = Some n" "claimable_amount s (cs_stop_time s) = Some n" "0 < n"
    and "cs_withdrawn s + n = cs_deposit s" "i128 (cs_deposit s)"
  shows "\<exists>k' s'. op_get_stream E i k = Inr (s', k') \<and> jsget (c_streams k') i = Some s' \<and> c_ledger k' = c_ledger k \<and>
    claimable_amount s' t = Some 0"
  using assms by (simp add: op_get_stream_def load_stream_def save_stream_def claimable_tx_def tx_run Let_def claimable_amount_def)

text \<open>The state machine has no step from paused to exhausted; \<^verbatim>\<open>reclaim_expired\<close> takes it.\<close>

lemma settle_final:
  "settle_stream E er fin s k = Inr (u, k') \<Longrightarrow> \<exists>w. jsget (c_streams k') (cs_id s) = Some (s\<lparr>cs_withdrawn := w, cs_status := fin\<rparr>)"
  unfolding settle_stream_def Let_def tbind_Inr save_stream_Inr by force

lemma reclaim_skips_state_machine:
  assumes "op_reclaim_expired E er i k = Inr (u, k')" "jsget (c_streams k) i = Some s" "cs_status s = Paused" "cs_id s = i"
  shows "\<exists>s'. jsget (c_streams k') i = Some s' \<and> cs_status s' = Exhausted \<and> \<not> is_valid_transition (cs_status s) (cs_status s')"
proof -
  have "settle_stream E er Exhausted s k = Inr (u, k')" using assms by (auto simp: op_reclaim_expired_def tx)
  then show ?thesis using settle_final assms(3,4) by (fastforce simp: is_valid_transition_def)
qed

text \<open>Anyone can initialize the contract again and becomes its admin.\<close>

lemma anyone_initializes: "e_auth E a \<Longrightarrow> op_initialize E a k = Inr ((), k\<lparr>c_admin := Some a\<rparr>)"
  by (simp add: op_initialize_def auth_of_def require_auth_def tx_run)

text \<open>A passed proposal sets any fee, past the limit of \<^verbatim>\<open>set_protocol_fee\<close>; one for the longest duration sets the
  number of streams.\<close>

lemma proposal_effects:
  "pr_param p = FeeBps \<Longrightarrow> apply_proposal p k = Inr (u, k') \<Longrightarrow> cf_fee_bps (c_config k') = as_u32 (pr_new_value p)"
  "pr_param p = MaxDuration \<Longrightarrow> apply_proposal p k = Inr (u, k') \<Longrightarrow> cf_max_streams (c_config k') = as_u32 (pr_new_value p)"
  by (auto simp: apply_proposal_def set_config_def tx)

text \<open>The limit on the duration is checked on the low 64 bits.\<close>

lemma duration_check_wraps:
  "validate_create_stream (2 ^ 64 + 60) 0 1 0 0 0 ''A'' ''B'' k = Inr ((), k)"
  by (simp add: validate_create_stream_def tx_run sat_i128_def as_u64_def MAX_RATE_PER_SECOND_def MAX_STREAM_DURATION_def)

end
