(* ===== verification/Migration.thy ===== *)
theory Migration
  imports Js_Value "HOL-Library.List_Lexorder" "HOL-Library.Char_ord"
begin

text \<open>
  The migration runner (\<^verbatim>\<open>services/migration/migrationRunner.js\<close>): registration, the history table with its
  constraints, the audit log, migrations and rollbacks. A database is present or not; a query can fail, an insert or
  an append to the log can fail by entry. The steps of a migration are parameters: functions of the stream data that
  may throw.
\<close>

section \<open>The runner\<close>

record 's migration =
  m_description :: string
  m_up :: "'s list \<Rightarrow> js_error + 's list"
  m_down :: "('s list \<Rightarrow> js_error + 's list) option"
  m_validate :: "('s list \<Rightarrow> js_error + string option) option"

text \<open>A validation gives \<open>None\<close> if the data is fine and \<open>Some reason\<close> if not.\<close>

datatype direction = Up | Down | Validation

datatype run_status = Started | Success | Failed | Rolled_back

record audit_row =
  a_version :: string
  a_description :: "string option"
  a_direction :: direction
  a_status :: run_status
  a_error :: "string option"

record 's runner =
  r_migrations :: "(string, 's migration) jsmap"
  r_db :: bool
  r_notifier :: bool
  r_query :: "js_error + unit"
  r_insert_ok :: "audit_row \<Rightarrow> bool"
  r_append_ok :: "audit_row \<Rightarrow> bool"

datatype notice_data = NoData | Describes string | Reports string | Counts string nat

record mig_world =
  w_history :: "audit_row list"
  w_log :: "audit_row list"
  w_notices :: "(string \<times> string \<times> notice_data) list"

definition mig_register :: "string \<Rightarrow> 's migration \<Rightarrow> 's runner \<Rightarrow> js_error + 's runner" where
  "mig_register v m R =
     (if jsget (r_migrations R) v \<noteq> None then Inl (Error (''Migration version '' @ v @ '' already registered''))
      else Inr (R\<lparr>r_migrations := jsset v m (r_migrations R)\<rparr>))"

definition sortedVersions :: "'s runner \<Rightarrow> string list" where
  "sortedVersions R = sort (map fst (r_migrations R))"

text \<open>\<^verbatim>\<open>CREATE TABLE IF NOT EXISTS\<close> keeps the rows there are.\<close>

definition ensureTable :: "'s runner \<Rightarrow> (mig_world, unit) io" where
  "ensureTable R = (if r_db R then of_result (r_query R) else ret ())"

definition has_row :: "direction \<Rightarrow> string \<Rightarrow> audit_row list \<Rightarrow> bool" where
  "has_row d v h = list_ex (\<lambda>e. a_version e = v \<and> a_direction e = d \<and> a_status e = Success) h"

definition is_applied :: "audit_row list \<Rightarrow> string \<Rightarrow> bool" where
  "is_applied h v = (has_row Up v h \<and> \<not> has_row Down v h)"

definition appliedVersions :: "'s runner \<Rightarrow> (mig_world, string \<Rightarrow> bool) io" where
  "appliedVersions R =
     (if r_db R then bind (of_result (r_query R)) (\<lambda>_. gets (\<lambda>w. is_applied (w_history w))) else ret (\<lambda>_. False))"

text \<open>\<^verbatim>\<open>entry.description || null\<close>: an empty text is stored as \<^verbatim>\<open>NULL\<close>.\<close>

definition or_null :: "string option \<Rightarrow> string option" where
  "or_null t = (if t = Some '''' then None else t)"

definition stored :: "audit_row \<Rightarrow> audit_row" where
  "stored e = e\<lparr>a_description := or_null (a_description e), a_error := or_null (a_error e)\<rparr>"

text \<open>The table only takes the directions up and down; a failed insert or append is ignored.\<close>

definition mig_audit :: "'s runner \<Rightarrow> audit_row \<Rightarrow> (mig_world, unit) io" where
  "mig_audit R e =
     modify (\<lambda>w. w\<lparr>w_log := (if r_append_ok R e then w_log w @ [e] else w_log w),
       w_history := (if r_db R \<and> r_insert_ok R e \<and> a_direction e \<noteq> Validation then w_history w @ [stored e] else w_history w)\<rparr>)"

definition mig_notify :: "'s runner \<Rightarrow> string \<Rightarrow> string \<Rightarrow> notice_data \<Rightarrow> (mig_world, unit) io" where
  "mig_notify R ev v d = modify (\<lambda>w. if r_notifier R then w\<lparr>w_notices := w_notices w @ [(ev, v, d)]\<rparr> else w)"

definition runValidate :: "'s runner \<Rightarrow> string \<Rightarrow> 's migration \<Rightarrow> 's list \<Rightarrow> string \<Rightarrow> (mig_world, unit) io" where
  "runValidate R v m streams label =
     (case m_validate m of
        None \<Rightarrow> ret ()
      | Some check \<Rightarrow>
          bind (of_result (check streams)) (\<lambda>r.
          case r of
            None \<Rightarrow> ret ()
          | Some reason \<Rightarrow>
              (let msg = ''Validation '' @ label @ '' failed for v'' @ v @ '': '' @ reason in
               bind (mig_audit R \<lparr>a_version = v, a_description = None, a_direction = Validation, a_status = Failed, a_error = Some msg\<rparr>)
                 (\<lambda>_. throw (Error msg)))))"

definition row :: "string \<Rightarrow> 's migration \<Rightarrow> direction \<Rightarrow> run_status \<Rightarrow> string option \<Rightarrow> audit_row" where
  "row v m d st err = \<lparr>a_version = v, a_description = Some (m_description m), a_direction = d, a_status = st, a_error = err\<rparr>"

text \<open>One version up: validation, start, the step itself, validation, success.\<close>

definition migrate_one :: "'s runner \<Rightarrow> string \<Rightarrow> 's migration \<Rightarrow> 's list \<Rightarrow> (mig_world, 's list) io" where
  "migrate_one R v m current =
     bind (runValidate R v m current ''before'') (\<lambda>_.
     bind (mig_audit R (row v m Up Started None)) (\<lambda>_.
     bind (mig_notify R ''migration_started'' v (Describes (m_description m))) (\<lambda>_.
     bind (try_catch (of_result (m_up m current)) (\<lambda>err.
       bind (mig_audit R (row v m Up Failed (Some (errMsg err)))) (\<lambda>_.
       bind (mig_notify R ''migration_failed'' v (Reports (errMsg err))) (\<lambda>_. throw err)))) (\<lambda>migrated.
     bind (runValidate R v m migrated ''after'') (\<lambda>_.
     bind (mig_audit R (row v m Up Success None)) (\<lambda>_.
     bind (mig_notify R ''migration_success'' v (Counts (m_description m) (length migrated))) (\<lambda>_.
     ret migrated)))))))"

definition missing_migration :: js_error where
  "missing_migration = TypeError ''Cannot read properties of undefined''"

fun migrate_all :: "'s runner \<Rightarrow> string list \<Rightarrow> 's list \<Rightarrow> (mig_world, 's list) io" where
  "migrate_all R [] current = ret current"
| "migrate_all R (v # vs) current =
     (case jsget (r_migrations R) v of
        None \<Rightarrow> throw missing_migration
      | Some m \<Rightarrow> bind (migrate_one R v m current) (migrate_all R vs))"

definition mig_migrate :: "'s runner \<Rightarrow> 's list \<Rightarrow> (mig_world, 's list) io" where
  "mig_migrate R streams =
     bind (ensureTable R) (\<lambda>_.
     bind (appliedVersions R) (\<lambda>applied.
     migrate_all R (filter (\<lambda>v. \<not> applied v) (sortedVersions R)) streams))"

definition rollback_one :: "'s runner \<Rightarrow> string \<Rightarrow> 's migration \<Rightarrow> 's list \<Rightarrow> (mig_world, 's list) io" where
  "rollback_one R v m current =
     (case m_down m of
        None \<Rightarrow> throw (Error (''Migration v'' @ v @ '' has no rollback (down) function''))
      | Some down \<Rightarrow>
          bind (mig_audit R (row v m Down Started None)) (\<lambda>_.
          bind (mig_notify R ''rollback_started'' v NoData) (\<lambda>_.
          bind (try_catch (of_result (down current)) (\<lambda>err.
            bind (mig_audit R (row v m Down Failed (Some (errMsg err)))) (\<lambda>_.
            bind (mig_notify R ''rollback_failed'' v (Reports (errMsg err))) (\<lambda>_. throw err)))) (\<lambda>back.
          bind (mig_audit R (row v m Down Rolled_back None)) (\<lambda>_.
          bind (mig_notify R ''rollback_success'' v NoData) (\<lambda>_.
          ret back))))))"

fun rollback_all :: "'s runner \<Rightarrow> string list \<Rightarrow> 's list \<Rightarrow> (mig_world, 's list) io" where
  "rollback_all R [] current = ret current"
| "rollback_all R (v # vs) current =
     (case jsget (r_migrations R) v of
        None \<Rightarrow> throw missing_migration
      | Some m \<Rightarrow> bind (rollback_one R v m current) (rollback_all R vs))"

definition mig_rollback :: "'s runner \<Rightarrow> 's list \<Rightarrow> string \<Rightarrow> (mig_world, 's list) io" where
  "mig_rollback R streams target =
     bind (ensureTable R) (\<lambda>_.
     bind (appliedVersions R) (\<lambda>applied.
     rollback_all R (rev (filter (\<lambda>v. applied v \<and> v > target) (sortedVersions R))) streams))"

section \<open>What a run does\<close>

text \<open>The reference: the steps of the versions with their validations, one after the other, without any bookkeeping.\<close>

definition valid_data :: "string \<Rightarrow> 's migration \<Rightarrow> string \<Rightarrow> 's list \<Rightarrow> js_error + unit" where
  "valid_data v m label xs =
     (case m_validate m of
        None \<Rightarrow> Inr ()
      | Some check \<Rightarrow> rbind (check xs) (\<lambda>r. case r of
          None \<Rightarrow> Inr ()
        | Some reason \<Rightarrow> Inl (Error (''Validation '' @ label @ '' failed for v'' @ v @ '': '' @ reason))))"

definition run_step :: "string \<Rightarrow> 's migration \<Rightarrow> 's list \<Rightarrow> js_error + 's list" where
  "run_step v m xs =
     rbind (valid_data v m ''before'' xs) (\<lambda>_. rbind (m_up m xs) (\<lambda>ys. rbind (valid_data v m ''after'' ys) (\<lambda>_. Inr ys)))"

fun run_steps :: "(string \<times> 's migration) list \<Rightarrow> 's list \<Rightarrow> js_error + 's list" where
  "run_steps [] xs = Inr xs"
| "run_steps ((v, m) # ms) xs = rbind (run_step v m xs) (run_steps ms)"

definition pending :: "'s runner \<Rightarrow> audit_row list \<Rightarrow> string list" where
  "pending R h = filter (\<lambda>v. \<not> is_applied h v) (sortedVersions R)"

definition steps_of :: "'s runner \<Rightarrow> string list \<Rightarrow> (string \<times> 's migration) list" where
  "steps_of R vs = map (\<lambda>v. (v, the (jsget (r_migrations R) v))) vs"

definition reliable :: "'s runner \<Rightarrow> bool" where
  "reliable R \<longleftrightarrow> r_db R \<and> r_query R = Inr () \<and> (\<forall>e. r_insert_ok R e)"

lemmas mig_steps = mig_audit_def mig_notify_def bind_def ret_def throw_def modify_def of_result_def try_catch_def

lemma runValidate_ok: "runValidate R v m xs label w = (Inr u, w') \<Longrightarrow> w' = w"
  by (auto simp: runValidate_def mig_steps Let_def split: option.splits sum.splits)

lemma runValidate_result: "fst (runValidate R v m xs label w) = valid_data v m label xs"
  by (auto simp: runValidate_def valid_data_def mig_steps rbind_def Let_def split: option.splits sum.splits)

lemma runValidate_cases:
  obtains (bad) e w' where "valid_data v m label xs = Inl e" "runValidate R v m xs label w = (Inl e, w')"
  | (good) "valid_data v m label xs = Inr ()" "runValidate R v m xs label w = (Inr (), w)"
  using runValidate_result [of R v m xs label w] runValidate_ok [of R v m xs label w]
  by (cases "runValidate R v m xs label w"; cases "valid_data v m label xs") auto

lemma migrate_one_result: "fst (migrate_one R v m xs w) = run_step v m xs"
proof (cases rule: runValidate_cases [of v m "''before''" xs R w])
  case good
  show ?thesis
  proof (cases "m_up m xs")
    case (Inr ys)
    let ?w = "snd (bind (mig_audit R (row v m Up Started None)) (\<lambda>_. mig_notify R ''migration_started'' v (Describes (m_description m))) w)"
    show ?thesis
      by (cases rule: runValidate_cases [of v m "''after''" ys R ?w])
        (use good Inr in \<open>auto simp: migrate_one_def run_step_def mig_steps rbind_def\<close>)
  qed (use good in \<open>auto simp: migrate_one_def run_step_def mig_steps rbind_def\<close>)
qed (auto simp: migrate_one_def run_step_def bind_def rbind_def)

lemma migrate_all_result:
  "set vs \<subseteq> fst ` set (r_migrations R) \<Longrightarrow> fst (migrate_all R vs xs w) = run_steps (steps_of R vs) xs"
proof (induction vs arbitrary: xs w)
  case (Cons v vs)
  then obtain m where m: "jsget (r_migrations R) v = Some m" by (cases "jsget (r_migrations R) v") (auto simp: map_of_eq_None_iff)
  then show ?case using Cons migrate_one_result [of R v m xs w]
    by (cases "migrate_one R v m xs w"; cases "run_step v m xs") (auto simp: steps_of_def bind_def rbind_def)
qed (simp add: steps_of_def ret_def)

lemma migrate_one_ok:
  assumes "migrate_one R v m xs w = (Inr ys, w')" "reliable R"
  shows "w_history w' = w_history w @ [stored (row v m Up Started None), stored (row v m Up Success None)]"
proof -
  obtain w1 u1 where v1: "runValidate R v m xs ''before'' w = (Inr u1, w1)"
    using assms(1) by (auto simp: migrate_one_def bind_def split: prod.splits sum.splits)
  then have [simp]: "w1 = w" by (rule runValidate_ok)
  obtain zs where up: "m_up m xs = Inr zs"
    using assms(1) v1 by (cases "m_up m xs") (auto simp: migrate_one_def mig_steps split: prod.splits)
  let ?w = "snd (bind (mig_audit R (row v m Up Started None)) (\<lambda>_. mig_notify R ''migration_started'' v (Describes (m_description m))) w)"
  obtain u2 w2 where v2: "runValidate R v m zs ''after'' ?w = (Inr u2, w2)"
    using assms(1) v1 up by (auto simp: migrate_one_def mig_steps split: prod.splits sum.splits)
  then have "w2 = ?w" by (rule runValidate_ok)
  then show ?thesis using assms v1 v2 up
    by (auto simp: migrate_one_def mig_steps reliable_def row_def split: if_splits)
qed

lemma migrate_all_ok:
  assumes "migrate_all R vs xs w = (Inr ys, w')" "reliable R" "set vs \<subseteq> fst ` set (r_migrations R)"
  shows "(\<exists>h. w_history w' = w_history w @ h \<and> (\<forall>v. has_row Up v h = (v \<in> set vs)) \<and> (\<forall>v. \<not> has_row Down v h))"
  using assms
proof (induction vs arbitrary: xs w)
  case Nil
  then show ?case by (auto simp: ret_def has_row_def intro!: exI [of _ "[]"])
next
  case (Cons v vs)
  obtain m where m: "jsget (r_migrations R) v = Some m" using Cons.prems(3) by (cases "jsget (r_migrations R) v") (auto simp: map_of_eq_None_iff)
  with Cons.prems obtain zs w1 where one: "migrate_one R v m xs w = (Inr zs, w1)"
    and rest: "migrate_all R vs zs w1 = (Inr ys, w')"
    by (auto simp: bind_def split: prod.splits sum.splits)
  note o = migrate_one_ok [OF one Cons.prems(2)]
  obtain h where h: "w_history w' = w_history w1 @ h"
    "\<forall>v. has_row Up v h = (v \<in> set vs)" "\<forall>v. \<not> has_row Down v h"
    using Cons.IH [OF rest Cons.prems(2)] Cons.prems(3) by auto
  show ?case using o m h
    by (auto simp: has_row_def row_def stored_def intro!: exI [of _ "stored (row v m Up Started None) # stored (row v m Up Success None) # h"])
qed

lemma has_row_append: "has_row d v (h @ h') = (has_row d v h \<or> has_row d v h')"
  by (simp add: has_row_def)

text \<open>Nothing writes a successful row in the direction down: a rollback is recorded as rolled back, and so the
  query for the applied versions does not see it.\<close>

lemma rollback_one_history:
  "rollback_one R v m xs w = (r, w') \<Longrightarrow> \<exists>h. w_history w' = w_history w @ h \<and> (\<forall>d u. \<not> has_row d u h)"
  by (auto simp: rollback_one_def mig_steps has_row_def row_def stored_def split: option.splits sum.splits if_splits)

lemma rollback_all_history:
  "rollback_all R vs xs w = (r, w') \<Longrightarrow> \<exists>h. w_history w' = w_history w @ h \<and> (\<forall>d u. \<not> has_row d u h)"
proof (induction vs arbitrary: xs w)
  case Nil
  then show ?case by (auto simp: ret_def has_row_def)
next
  case (Cons v vs)
  show ?case
  proof (cases "jsget (r_migrations R) v")
    case None
    then show ?thesis using Cons.prems by (auto simp: throw_def has_row_def)
  next
    case (Some m)
    then have "bind (rollback_one R v m xs) (rollback_all R vs) w = (r, w')" using Cons.prems by simp
    then show ?thesis
    proof (cases rule: bind_cases)
      case fail
      then show ?thesis using rollback_one_history by blast
    next
      case (ok a w1)
      then show ?thesis using rollback_one_history [OF ok(1)] Cons.IH [OF ok(2)] by (metis append.assoc has_row_append)
    qed
  qed
qed

lemma rollback_keeps_applied:
  assumes "mig_rollback R xs target w = (r, w')"
  shows "is_applied (w_history w') = is_applied (w_history w)"
proof -
  have "\<exists>h. w_history w' = w_history w @ h \<and> (\<forall>d u. \<not> has_row d u h)"
  proof (cases "r_query R")
    case (Inl e)
    then show ?thesis using assms rollback_all_history
      by (cases "r_db R") (auto simp: mig_rollback_def ensureTable_def appliedVersions_def bind_def of_result_def ret_def has_row_def)
  next
    case (Inr u)
    then show ?thesis using assms rollback_all_history
      by (cases "r_db R") (auto simp: mig_rollback_def ensureTable_def appliedVersions_def bind_def of_result_def ret_def gets_def has_row_def)
  qed
  then show ?thesis by (auto simp: is_applied_def has_row_append fun_eq_iff)
qed

text \<open>A second rollback to the same target runs the same steps down again.\<close>

lemma rollback_repeats:
  assumes "r_db R" "r_query R = Inr ()" "mig_rollback R xs target w = (Inr ys, w')"
  shows "mig_rollback R ys target w' =
    rollback_all R (rev (filter (\<lambda>v. is_applied (w_history w) v \<and> v > target) (sortedVersions R))) ys w'"
  using assms rollback_keeps_applied [OF assms(3)]
  by (simp add: mig_rollback_def ensureTable_def appliedVersions_def bind_def of_result_def gets_def)

text \<open>Versions are ordered as texts.\<close>

lemma version_ten_before_two: "sort [''1.2.0'', ''1.10.0''] = [''1.10.0'', ''1.2.0'']"
  by (simp add: less_char_def less_eq_char_def)

section \<open>Property\<close>


definition sample_migration :: "nat \<Rightarrow> nat migration" where
  "sample_migration n = \<lparr>m_description = ''add'', m_up = (\<lambda>xs. Inr (map (\<lambda>x. x + n) xs)), m_down = None,
     m_validate = Some (\<lambda>xs. Inr (if xs = [] then Some ''empty'' else None))\<rparr>"

definition sample_runner :: "nat runner" where
  "sample_runner = \<lparr>r_migrations = [(''2'', sample_migration 5), (''1'', sample_migration 1)], r_db = True, r_notifier = False,
     r_query = Inr (), r_insert_ok = (\<lambda>_. True), r_append_ok = (\<lambda>_. True)\<rparr>"


end
