(* ===== verification/Snapshots.thy ===== *)
theory Snapshots
  imports Js_Value
begin

text \<open>
  The snapshot store (\<^verbatim>\<open>services/snapshot/snapshotStore.js\<close>): periodic and forced checkpoints of a stream,
  queries by time and cleanup, over a storage backend. The backend is an interface (the locale
  \<open>snapshot_storage\<close>); the in-memory backend of the source provides it. Times are whole seconds; each call runs
  to its end before the next.
\<close>

section \<open>Store\<close>

record snapshot =
  sn_ts :: int
  sn_id :: jsval
  sn_status :: jsval
  sn_deposit :: jsval
  sn_withdrawn :: jsval
  sn_rate_per_second :: jsval
  sn_last_withdraw_time :: jsval

record 'm storage =
  st_save :: "string \<Rightarrow> snapshot list \<Rightarrow> 'm \<Rightarrow> 'm"
  st_load :: "string \<Rightarrow> 'm \<Rightarrow> snapshot list option"

record 'm snapshot_store =
  ss_storage :: "'m storage"
  ss_intervalSecs :: int
  ss_retentionLimit :: int

text \<open>The constructor and its defaults.\<close>

definition new_store :: "'m storage option \<Rightarrow> int option \<Rightarrow> int option \<Rightarrow> js_error + 'm snapshot_store" where
  "new_store st interval limit =
     (case st of
        None \<Rightarrow> Inl (Error ''storage backend is required'')
      | Some b \<Rightarrow> Inr \<lparr>ss_storage = b, ss_intervalSecs = (case interval of Some n \<Rightarrow> n | None \<Rightarrow> 3600),
          ss_retentionLimit = (case limit of Some n \<Rightarrow> n | None \<Rightarrow> 720)\<rparr>)"

text \<open>A stream object: its fields. A missing field is \<^verbatim>\<open>undefined\<close>.\<close>

type_synonym stream_object = "(string, jsval) jsmap"

definition field_of :: "stream_object \<Rightarrow> string \<Rightarrow> jsval" where
  "field_of s k = (case jsget s k of Some v \<Rightarrow> v | None \<Rightarrow> JUndef)"

definition snap_compact :: "stream_object \<Rightarrow> int \<Rightarrow> snapshot" where
  "snap_compact s ts =
     \<lparr>sn_ts = ts, sn_id = field_of s ''id'', sn_status = field_of s ''status'', sn_deposit = field_of s ''deposit'',
      sn_withdrawn = field_of s ''withdrawn'', sn_rate_per_second = field_of s ''rate_per_second'',
      sn_last_withdraw_time = field_of s ''last_withdraw_time''\<rparr>"

definition snap_key :: "jsval \<Rightarrow> string" where
  "snap_key i = ''stream:'' @ js_string i"

text \<open>\<^verbatim>\<open>slice(k)\<close>: a negative start counts from the end.\<close>

definition js_slice_from :: "int \<Rightarrow> 'a list \<Rightarrow> 'a list" where
  "js_slice_from k xs = (if k \<ge> 0 then drop (nat k) xs else drop (nat (int (length xs) + k)) xs)"

definition now_secs :: "int \<Rightarrow> int option \<Rightarrow> int" where
  "now_secs clock given = (case given of Some t \<Rightarrow> t | None \<Rightarrow> clock)"

definition loaded :: "'m snapshot_store \<Rightarrow> string \<Rightarrow> 'm \<Rightarrow> snapshot list" where
  "loaded S key m = (case st_load (ss_storage S) key m of Some xs \<Rightarrow> xs | None \<Rightarrow> [])"

definition forceCheckpoint :: "'m snapshot_store \<Rightarrow> int \<Rightarrow> stream_object \<Rightarrow> int option \<Rightarrow> 'm \<Rightarrow> snapshot \<times> 'm" where
  "forceCheckpoint S clock s nowSecs m =
     (let now = now_secs clock nowSecs;
          key = snap_key (field_of s ''id'');
          snap = snap_compact s now;
          snapshots = loaded S key m @ [snap]
      in (snap, st_save (ss_storage S) key (js_slice_from (- ss_retentionLimit S) snapshots) m))"

definition checkpoint :: "'m snapshot_store \<Rightarrow> int \<Rightarrow> stream_object \<Rightarrow> int option \<Rightarrow> 'm \<Rightarrow> snapshot option \<times> 'm" where
  "checkpoint S clock s nowSecs m =
     (let now = now_secs clock nowSecs;
          key = snap_key (field_of s ''id'');
          snapshots = loaded S key m
      in if snapshots \<noteq> [] \<and> now - sn_ts (last snapshots) < ss_intervalSecs S then (None, m)
         else
           (let snap = snap_compact s now in
            (Some snap, st_save (ss_storage S) key (js_slice_from (- ss_retentionLimit S) (snapshots @ [snap])) m)))"

definition snap_query :: "'m snapshot_store \<Rightarrow> jsval \<Rightarrow> int option \<Rightarrow> int option \<Rightarrow> 'm \<Rightarrow> snapshot list" where
  "snap_query S i fromTs toTs m =
     filter (\<lambda>s. \<not> (case fromTs of Some a \<Rightarrow> sn_ts s < a | None \<Rightarrow> False) \<and>
       \<not> (case toTs of Some b \<Rightarrow> sn_ts s > b | None \<Rightarrow> False)) (loaded S (snap_key i) m)"

definition snap_queryAt :: "'m snapshot_store \<Rightarrow> jsval \<Rightarrow> int \<Rightarrow> 'm \<Rightarrow> snapshot option" where
  "snap_queryAt S i atTs m =
     (let snapshots = snap_query S i None (Some atTs) m in if snapshots = [] then None else Some (last snapshots))"

definition snap_cleanup :: "'m snapshot_store \<Rightarrow> jsval \<Rightarrow> int \<Rightarrow> 'm \<Rightarrow> int \<times> 'm" where
  "snap_cleanup S i olderThanTs m =
     (let key = snap_key i;
          snapshots = loaded S key m;
          kept = filter (\<lambda>s. sn_ts s \<ge> olderThanTs) snapshots
      in (int (length snapshots) - int (length kept), st_save (ss_storage S) key kept m))"

text \<open>\<^verbatim>\<open>MemoryStorage\<close>.\<close>

definition memory_storage :: "(string, snapshot list) jsmap storage" where
  "memory_storage = \<lparr>st_save = jsset, st_load = (\<lambda>k m. jsget m k)\<rparr>"

section \<open>Calls in sequence\<close>

datatype snap_call = Checkpoint stream_object | Force stream_object | Cleanup jsval int

primrec snap_exec :: "'m snapshot_store \<Rightarrow> int \<Rightarrow> snap_call \<Rightarrow> 'm \<Rightarrow> 'm" where
  "snap_exec S t (Checkpoint s) m = snd (checkpoint S t s None m)"
| "snap_exec S t (Force s) m = snd (forceCheckpoint S t s None m)"
| "snap_exec S t (Cleanup i old) m = snd (snap_cleanup S i old m)"

definition snap_run :: "'m snapshot_store \<Rightarrow> (int \<times> snap_call) list \<Rightarrow> 'm \<Rightarrow> 'm" where
  "snap_run S cs m = fold (\<lambda>(t, c). snap_exec S t c) cs m"

text \<open>The history of a stream is in order of time, not after \<open>t\<close>, and within the limit.\<close>

definition snaps_ok :: "int \<Rightarrow> int \<Rightarrow> snapshot list \<Rightarrow> bool" where
  "snaps_ok limit t xs \<longleftrightarrow> sorted (map sn_ts xs) \<and> (\<forall>x \<in> set xs. sn_ts x \<le> t) \<and> int (length xs) \<le> limit"

lemma snaps_ok_drop: "snaps_ok limit t xs \<Longrightarrow> snaps_ok limit t (drop n xs)"
  by (auto simp: snaps_ok_def drop_map [symmetric] sorted_wrt_drop dest: in_set_dropD)

lemma snaps_ok_filter: "snaps_ok limit t xs \<Longrightarrow> snaps_ok limit t (filter P xs)"
  using order_trans [OF of_nat_mono [OF length_filter_le [of P xs]], of limit] by (auto simp: snaps_ok_def sorted_filter)

lemma snaps_ok_later: "snaps_ok limit t xs \<Longrightarrow> t \<le> t' \<Longrightarrow> snaps_ok limit t' xs"
  by (auto simp: snaps_ok_def)

lemma snaps_ok_push:
  assumes "snaps_ok limit t xs" "1 \<le> limit"
  shows "snaps_ok limit t (js_slice_from (- limit) (xs @ [snap_compact s t]))"
proof -
  have "sorted (map sn_ts (xs @ [snap_compact s t]))" "\<forall>x \<in> set (xs @ [snap_compact s t]). sn_ts x \<le> t"
    using assms by (auto simp: snaps_ok_def sorted_append snap_compact_def)
  then have "sorted (map sn_ts (drop n (xs @ [snap_compact s t])))" "\<forall>x \<in> set (drop n (xs @ [snap_compact s t])). sn_ts x \<le> t" for n
    by (metis drop_map sorted_wrt_drop, meson in_set_dropD)
  then show ?thesis using assms(2) by (simp add: snaps_ok_def js_slice_from_def del: drop_append)
qed

text \<open>In a history in order of time the last entry up to a time is the latest.\<close>

lemma last_filter_latest:
  assumes "sorted (map sn_ts xs)" "filter (\<lambda>s. sn_ts s \<le> t) xs \<noteq> []"
  shows "last (filter (\<lambda>s. sn_ts s \<le> t) xs) \<in> set xs \<and> sn_ts (last (filter (\<lambda>s. sn_ts s \<le> t) xs)) \<le> t
    \<and> (\<forall>x \<in> set xs. sn_ts x \<le> t \<longrightarrow> sn_ts x \<le> sn_ts (last (filter (\<lambda>s. sn_ts s \<le> t) xs)))"
proof -
  let ?ys = "filter (\<lambda>s. sn_ts s \<le> t) xs"
  have "sorted (map sn_ts ?ys)" using assms(1) by (rule sorted_filter)
  moreover obtain zs z where ys: "?ys = zs @ [z]" using assms(2) by (metis append_butlast_last_id)
  ultimately have "\<forall>x \<in> set ?ys. sn_ts x \<le> sn_ts (last ?ys)" by (simp add: sorted_append)
  then show ?thesis using last_in_set [OF assms(2)] by auto
qed

section \<open>What a storage backend promises\<close>

locale snapshot_storage =
  fixes B :: "'m storage"
  assumes load_save: "st_load B k (st_save B k' xs m) = (if k = k' then Some xs else st_load B k m)"
begin

lemma loaded_save: "ss_storage S = B \<Longrightarrow> loaded S k (st_save B k' xs m) = (if k = k' then xs else loaded S k m)"
  by (simp add: loaded_def load_save)

lemma exec_ok:
  assumes "ss_storage S = B" "1 \<le> ss_retentionLimit S" "\<And>k. snaps_ok (ss_retentionLimit S) t (loaded S k m)"
  shows "snaps_ok (ss_retentionLimit S) t (loaded S k (snap_exec S t c m))"
proof (cases c)
  case (Checkpoint s)
  then show ?thesis using assms(1,3) snaps_ok_push [OF assms(3,2), of "snap_key (field_of s ''id'')" s]
    by (auto simp: checkpoint_def Let_def now_secs_def loaded_save split: if_splits)
qed (use assms snaps_ok_push [OF assms(3,2)] snaps_ok_filter [OF assms(3)] in
  \<open>simp_all add: forceCheckpoint_def snap_cleanup_def Let_def now_secs_def loaded_save\<close>)

lemma run_ok:
  assumes "ss_storage S = B" "1 \<le> ss_retentionLimit S" "sorted (map fst cs)" "\<forall>c \<in> set cs. fst c \<le> t"
    "\<And>k. loaded S k m = []"
  shows "snaps_ok (ss_retentionLimit S) t (loaded S k (snap_run S cs m))"
  using assms(3,4)
proof (induction cs arbitrary: t k rule: rev_induct)
  case Nil
  then show ?case using assms by (simp add: snap_run_def snaps_ok_def)
next
  case (snoc x cs)
  obtain t' c where x: "x = (t', c)" by force
  have "snaps_ok (ss_retentionLimit S) t' (loaded S k (snap_run S cs m))" for k
    using snoc.IH snoc.prems by (auto simp: sorted_append x)
  then have "snaps_ok (ss_retentionLimit S) t' (loaded S k (snap_exec S t' c (snap_run S cs m)))"
    using exec_ok [OF assms(1,2)] by blast
  then show ?case using snoc.prems snaps_ok_later by (auto simp: snap_run_def x)
qed

end

interpretation memory: snapshot_storage memory_storage
  by unfold_locales (simp add: memory_storage_def)

text \<open>A limit of zero keeps everything: \<^verbatim>\<open>slice(-0)\<close> is the whole list.\<close>

lemma retention_zero_keeps_all: "js_slice_from (- 0) xs = xs"
  by (simp add: js_slice_from_def)

text \<open>A periodic checkpoint is taken only when the interval is over.\<close>

lemma checkpoint_spaced:
  "fst (checkpoint S t s given m) = Some snap \<Longrightarrow> loaded S (snap_key (field_of s ''id'')) m \<noteq> [] \<Longrightarrow>
    sn_ts snap - sn_ts (last (loaded S (snap_key (field_of s ''id'')) m)) \<ge> ss_intervalSecs S"
  by (auto simp: checkpoint_def Let_def snap_compact_def split: if_splits)

section \<open>Property\<close>

text \<open>
  Snapshots can be queried by time. After any sequence of checkpoints, forced checkpoints and cleanups at
  times that do not go back, every stream's history is in order of time and within the retention limit, and a query
  at a time gives the latest kept snapshot not after it, or none if there is none.
\<close>

theorem snapshots_queryable:
  assumes "new_store (Some memory_storage) interval (Some limit) = Inr S" "1 \<le> limit" "sorted (map fst cs)"
  shows "let m = snap_run S cs []; xs = snap_query S i None None m in
    sorted (map sn_ts xs) \<and> int (length xs) \<le> limit \<and>
    (case snap_queryAt S i t m of
       None \<Rightarrow> \<forall>x \<in> set xs. t < sn_ts x
     | Some y \<Rightarrow> y \<in> set xs \<and> sn_ts y \<le> t \<and> (\<forall>x \<in> set xs. sn_ts x \<le> t \<longrightarrow> sn_ts x \<le> sn_ts y))"
proof -
  have S: "ss_storage S = memory_storage" "ss_retentionLimit S = limit" using assms(1) by (auto simp: new_store_def)
  let ?m = "snap_run S cs []" and ?xs = "loaded S (snap_key i) (snap_run S cs [])"
  obtain u where u: "\<forall>c \<in> set cs. fst c \<le> u" by (metis List.finite_set finite_imageI Max_ge imageI)
  have "snaps_ok limit u ?xs"
    using memory.run_ok [OF S(1), of cs u "[]" "snap_key i"] S assms(2,3) u by (simp add: loaded_def memory_storage_def)
  then have ok: "sorted (map sn_ts ?xs)" "int (length ?xs) \<le> limit" by (simp_all add: snaps_ok_def)
  have q: "snap_query S i None None ?m = ?xs" "snap_query S i None (Some t) ?m = filter (\<lambda>s. sn_ts s \<le> t) ?xs"
    by (simp_all add: snap_query_def not_less)
  show ?thesis
  proof (cases "filter (\<lambda>s. sn_ts s \<le> t) ?xs = []")
    case True
    then show ?thesis using ok by (auto simp: Let_def q snap_queryAt_def filter_empty_conv not_le)
  next
    case False
    then show ?thesis using ok last_filter_latest [OF ok(1) False] by (simp add: Let_def q snap_queryAt_def)
  qed
qed

theorem snapshots_queryable_witness:
  "let S = \<lparr>ss_storage = memory_storage, ss_intervalSecs = 10, ss_retentionLimit = 2\<rparr>;
       s = [(''id'', JStr ''7'')];
       m = snap_run S [(100, Checkpoint s), (105, Checkpoint s), (106, Force s), (120, Checkpoint s)] []
   in map sn_ts (snap_query S (JStr ''7'') None None m) = [106, 120] \<and>
      map_option sn_ts (snap_queryAt S (JStr ''7'') 110 m) = Some 106 \<and> sorted (map sn_ts (snap_query S (JStr ''7'') None None m))"
proof -
  let ?S = "\<lparr>ss_storage = memory_storage, ss_intervalSecs = 10, ss_retentionLimit = 2\<rparr>" and ?s = "[(''id'', JStr ''7'')]"
  let ?cs = "[(100 :: int, Checkpoint ?s), (105, Checkpoint ?s), (106, Force ?s), (120, Checkpoint ?s)]"
  have S: "new_store (Some memory_storage) (Some 10) (Some 2) = Inr ?S" by (simp add: new_store_def)
  have "sorted (map fst ?cs)" by simp
  note q = snapshots_queryable [OF S _ this, of "JStr ''7''" 110]
  have run: "snap_run ?S ?cs [] = [(''stream:7'', [snap_compact ?s 106, snap_compact ?s 120])]"
    by (simp add: snap_run_def checkpoint_def forceCheckpoint_def loaded_def memory_storage_def Let_def
      snap_key_def field_of_def now_secs_def js_slice_from_def) (simp add: snap_compact_def)
  have xs: "snap_query ?S (JStr ''7'') None None (snap_run ?S ?cs []) = [snap_compact ?s 106, snap_compact ?s 120]"
    unfolding run by (simp add: snap_query_def loaded_def memory_storage_def snap_key_def)
  have "snap_queryAt ?S (JStr ''7'') 110 (snap_run ?S ?cs []) = Some (snap_compact ?s 106)"
    unfolding run by (simp add: snap_queryAt_def snap_query_def loaded_def memory_storage_def snap_key_def Let_def)
      (simp add: snap_compact_def)
  then show ?thesis using q xs by (simp add: Let_def) (simp add: snap_compact_def)
qed

end
