(* ===== verification/Api_Stellar.thy ===== *)
theory Api_Stellar
  imports Js_Value
begin

text \<open>
  The API's Stellar service (\<^verbatim>\<open>api/services/stellarService.js\<close>) and its error handler
  (\<^verbatim>\<open>api/middleware/errorHandler.js\<close>). The Stellar libraries are the record \<open>soroban\<close> of parameters;
  a transaction value is of the type \<open>'t\<close>, an account of the type \<open>'a\<close>.
\<close>

section \<open>Texts\<close>

definition key_in_range :: "char \<Rightarrow> char \<Rightarrow> char \<Rightarrow> bool" where
  "key_in_range a b c = ((of_char a :: int) \<le> of_char c \<and> (of_char c :: int) \<le> of_char b)"

text \<open>The characters of \<^verbatim>\<open>[A-Za-z2-7]\<close>.\<close>

definition is_key_char :: "char \<Rightarrow> bool" where
  "is_key_char c = (key_in_range CHR ''A'' CHR ''Z'' c \<or> key_in_range CHR ''a'' CHR ''z'' c \<or> key_in_range CHR ''2'' CHR ''7'' c)"

fun validateAddress :: "jsval \<Rightarrow> bool" where
  "validateAddress (JStr s) = (starts_with ''G'' s \<and> length s = 56 \<and> list_all is_key_char s)"
| "validateAddress _ = False"

fun validateContractId :: "jsval \<Rightarrow> bool" where
  "validateContractId (JStr s) = (starts_with ''C'' s \<and> length s = 63)"
| "validateContractId _ = False"

section \<open>Contract calls\<close>

text \<open>An argument as a route writes it: \<^verbatim>\<open>new Address(v)\<close>, \<^verbatim>\<open>BigInt(v)\<close> or \<open>v\<close> itself.\<close>

datatype api_arg = AsAddress jsval | AsBigInt jsval | AsIs jsval

datatype api_sim = SimFailed string | SimDone jsval

record ('w, 'a, 't) soroban =
  so_mainnet :: bool
  so_streamContractId :: string
  so_tokenContractId :: string
  so_loadAccount :: "jsval \<Rightarrow> ('w, 'a) io"
  so_newAccount :: "string \<Rightarrow> string \<Rightarrow> js_error + 'a"
  so_address :: "jsval \<Rightarrow> js_error + jsval"
  so_build :: "'a \<Rightarrow> string \<Rightarrow> string \<Rightarrow> string \<Rightarrow> jsval list \<Rightarrow> js_error + 't"
  so_simulate :: "'t \<Rightarrow> ('w, api_sim) io"
  so_assemble :: "'t \<Rightarrow> jsval \<Rightarrow> js_error + 't"
  so_send :: "'t \<Rightarrow> ('w, string \<times> string) io"
  so_getTransaction :: "string \<Rightarrow> ('w, string \<times> jsval) io"
  so_passphrases :: "string \<times> string"

definition api_passphrase :: "('w, 'a, 't) soroban \<Rightarrow> string" where
  "api_passphrase S = (if so_mainnet S then fst (so_passphrases S) else snd (so_passphrases S))"

fun arg_value :: "('w, 'a, 't) soroban \<Rightarrow> api_arg \<Rightarrow> js_error + jsval" where
  "arg_value S (AsAddress v) = so_address S v"
| "arg_value S (AsBigInt v) = rbind (js_bigint v) (\<lambda>n. Inr (JBig n))"
| "arg_value S (AsIs v) = Inr v"

definition wrap_error :: "string \<Rightarrow> ('w, 'r) io \<Rightarrow> ('w, 'r) io" where
  "wrap_error prefix m = try_catch m (\<lambda>e. throw (Error (prefix @ errMsg e)))"

definition submitContractTransaction ::
  "('w, 'a, 't) soroban \<Rightarrow> jsval \<Rightarrow> string \<Rightarrow> string \<Rightarrow> jsval list \<Rightarrow> ('w, string \<times> jsval) io" where
  "submitContractTransaction S sourceKey contract fn args =
     wrap_error ''Contract execution failed: '' (
       bind (so_loadAccount S sourceKey) (\<lambda>account.
       bind (of_result (so_build S account (api_passphrase S) contract fn args)) (\<lambda>tx.
       bind (so_simulate S tx) (\<lambda>sim.
       case sim of
         SimFailed e \<Rightarrow> throw (Error (''Simulation failed: '' @ e))
       | SimDone r \<Rightarrow>
           bind (of_result (so_assemble S tx r)) (\<lambda>prepared.
           bind (so_send S prepared) (\<lambda>(status, hash).
           if status \<noteq> ''PENDING'' then throw (Error (''Transaction failed: '' @ status))
           else
             bind (so_getTransaction S hash) (\<lambda>(status, value).
             if status \<noteq> ''SUCCESS'' then throw (Error (''Transaction not successful: '' @ status))
             else ret (hash, value))))))))"

definition READ_SOURCE :: string where
  "READ_SOURCE = ''GAAAAAAAAAAAAAAAAAAAAAAAAAAAAAAAAAAAAAAAAAAAAAAAAAAAAWHF''"

definition callContractMethod :: "('w, 'a, 't) soroban \<Rightarrow> string \<Rightarrow> string \<Rightarrow> jsval list \<Rightarrow> ('w, jsval) io" where
  "callContractMethod S contract fn args =
     wrap_error ''Contract method call failed: '' (
       bind (of_result (rbind (so_newAccount S READ_SOURCE ''1'') (\<lambda>account.
         so_build S account (api_passphrase S) contract fn args))) (\<lambda>tx.
       bind (so_simulate S tx) (\<lambda>sim.
       case sim of SimFailed e \<Rightarrow> throw (Error (''Simulation failed: '' @ e)) | SimDone r \<Rightarrow> ret r)))"

definition api_getTokenBalance :: "('w, 'a, 't) soroban \<Rightarrow> string \<Rightarrow> jsval \<Rightarrow> ('w, jsval) io" where
  "api_getTokenBalance S contract account =
     wrap_error ''Failed to get token balance: '' (
       bind (of_result (so_address S account)) (\<lambda>a. callContractMethod S contract ''balance'' [a]))"

text \<open>Token metadata is kept for an hour; the three reads run over the same world, one after the other here.\<close>

type_synonym metadata_cache = "(string, (jsval \<times> jsval \<times> jsval) \<times> int) jsmap"

definition METADATA_TTL_MS :: int where "METADATA_TTL_MS = 3600000"

definition getTokenMetadata ::
  "('w, 'a, 't) soroban \<Rightarrow> ('w \<Rightarrow> int) \<Rightarrow> string \<Rightarrow> (metadata_cache \<times> 'w, jsval \<times> jsval \<times> jsval) io" where
  "getTokenMetadata S clock contract =
     bind (gets (\<lambda>(cache, w). (jsget cache contract, clock w))) (\<lambda>(cached, now).
     case (case cached of Some (d, ts) \<Rightarrow> if now - ts < METADATA_TTL_MS then Some d else None | None \<Rightarrow> None) of
       Some d \<Rightarrow> ret d
     | None \<Rightarrow>
         bind (outside (callContractMethod S contract ''name'' [])) (\<lambda>nm.
         bind (outside (callContractMethod S contract ''symbol'' [])) (\<lambda>sym.
         bind (outside (callContractMethod S contract ''decimals'' [])) (\<lambda>dec.
         bind (gets (\<lambda>(cache, w). clock w)) (\<lambda>ts.
         bind (set_state (jsset contract ((nm, sym, dec), ts))) (\<lambda>_. ret (nm, sym, dec)))))))"

section \<open>Errors\<close>

definition error_reply :: "js_error \<Rightarrow> int \<times> string \<times> string" where
  "error_reply e =
     (if js_includes (errMsg e) ''contract'' then (400, ''CONTRACT_ERROR'', ''Contract execution failed'')
      else if errName e = ''ValidationError'' then (400, ''VALIDATION_ERROR'', ''Validation failed'')
      else if errName e = ''UnauthorizedError'' then (401, ''UNAUTHORIZED'', ''Unauthorized access'')
      else if errName e = ''ForbiddenError'' then (403, ''FORBIDDEN'', ''Access forbidden'')
      else if errName e = ''NotFoundError'' then (404, ''NOT_FOUND'', ''Resource not found'')
      else if errName e = ''ConflictError'' then (409, ''CONFLICT'', ''Resource conflict'')
      else if errName e = ''RateLimitError'' then (429, ''RATE_LIMIT_EXCEEDED'', ''Rate limit exceeded'')
      else (500, ''INTERNAL_SERVER_ERROR'', ''Internal server error''))"

text \<open>\<open>stamp\<close> is the time of the answer; \<open>stack\<close> is the stack trace, shown in development only.\<close>

definition errorHandler :: "bool \<Rightarrow> string \<Rightarrow> string \<Rightarrow> js_error \<Rightarrow> int \<times> jsval" where
  "errorHandler development stamp stack e =
     (case error_reply e of (st, code, msg) \<Rightarrow>
        (st, JObj ([(''error'', JStr msg), (''code'', JStr code), (''timestamp'', JStr stamp)] @
          (if development then [(''stack'', JStr stack), (''details'', JStr (errMsg e))] else []))))"

section \<open>What the service does\<close>

lemma wrap_error_Inr [simp]: "wrap_error p m w = (Inr a, w') \<longleftrightarrow> m w = (Inr a, w')"
  by (auto simp: wrap_error_def try_catch_def throw_def split: prod.split sum.split)

text \<open>A transaction is reported as done exactly when the network has already confirmed it: the status is asked
  for once, right after it was sent.\<close>

lemma submit_confirmed:
  "submitContractTransaction S k c f args w = (Inr (h, v), w') \<Longrightarrow>
    \<exists>w1. so_getTransaction S h w1 = (Inr (''SUCCESS'', v), w')"
  by (auto simp: submitContractTransaction_def bind_def of_result_def throw_def ret_def
    split: prod.splits sum.splits api_sim.splits if_splits)

text \<open>While the network has not processed the transaction the service reports a failure, although it was sent.\<close>

lemma pending_reported_as_failure:
  assumes "so_loadAccount S k w = (Inr acc, w1)" "so_build S acc (api_passphrase S) c f args = Inr tx"
    "so_simulate S tx w1 = (Inr (SimDone r), w2)" "so_assemble S tx r = Inr tx'"
    "so_send S tx' w2 = (Inr (''PENDING'', h), w3)" "so_getTransaction S h w3 = (Inr (''NOT_FOUND'', v), w4)"
  shows "submitContractTransaction S k c f args w =
    (Inl (Error ''Contract execution failed: Transaction not successful: NOT_FOUND''), w4)"
  using assms by (simp add: submitContractTransaction_def wrap_error_def io_simps try_catch_def bind_def of_result_def throw_def)

text \<open>The message of such a failure does not have the text the error handler looks for, in lower case.\<close>

lemma contract_failure_is_500:
  "fst (errorHandler False t s (Error ''Contract execution failed: Transaction not successful: NOT_FOUND'')) = 500"
  by (simp add: errorHandler_def error_reply_def js_includes_def upt_rec)

text \<open>A contract address of the network has 56 characters and is refused.\<close>

lemma real_contract_ids_refused: "length s = 56 \<Longrightarrow> \<not> validateContractId (JStr s)"
  by simp

lemma error_status: "fst (errorHandler d t s e) \<in> {400, 401, 403, 404, 409, 429, 500}"
  by (simp add: errorHandler_def error_reply_def)

end
