(* ===== verification/Api_Program.thy ===== *)
theory Api_Program
  imports Api_Stellar Api_Auth
begin

text \<open>
  Route handlers as programs: a handler ends with an answer or an error, or performs an effect and goes on with what
  comes back. The effects are those of the services the routes call; what they give back is arbitrary, so that a
  statement about all runs of a program holds for every state of network, cache and database.

  The request validation of express-validator is a parameter: which checks a value passes, and the list of errors
  it reports.
\<close>

section \<open>Requests and validation\<close>

record api_request =
  ar_params :: "(string, string) jsmap"
  ar_query :: "(string, jsval) jsmap"
  ar_body :: "(string, jsval) jsmap"
  ar_stellarAddress :: "string option"
  ar_apiKey :: "string option"

definition body_of :: "api_request \<Rightarrow> string \<Rightarrow> jsval" where
  "body_of rq k = (case jsget (ar_body rq) k of Some v \<Rightarrow> v | None \<Rightarrow> JUndef)"

definition param_of :: "api_request \<Rightarrow> string \<Rightarrow> jsval" where
  "param_of rq k = (case jsget (ar_params rq) k of Some s \<Rightarrow> JStr s | None \<Rightarrow> JUndef)"

datatype value_check =
    IsString
  | Matches "string \<Rightarrow> bool"
  | IsInt int
  | IsRange int int
  | IsBoolean
  | NotEmpty
  | IsIn "string list"
  | IsUUID
  | IsObject
  | IsArray nat
  | IsEmail
  | IsURL
  | EventList "string list"

text \<open>A chain of checks on one value of the request; \<open>optional\<close> skips an absent value.\<close>

record check_chain =
  ch_value :: "api_request \<Rightarrow> jsval"
  ch_optional :: bool
  ch_checks :: "value_check list"

record validator =
  v_passes :: "value_check \<Rightarrow> jsval \<Rightarrow> bool"
  v_details :: "check_chain list \<Rightarrow> api_request \<Rightarrow> jsval"

definition chain_ok :: "validator \<Rightarrow> api_request \<Rightarrow> check_chain \<Rightarrow> bool" where
  "chain_ok V rq c =
     ((ch_optional c \<and> ch_value c rq = JUndef) \<or> list_all (\<lambda>k. v_passes V k (ch_value c rq)) (ch_checks c))"

definition body_check :: "string \<Rightarrow> value_check list \<Rightarrow> check_chain" where
  "body_check k cs = \<lparr>ch_value = (\<lambda>rq. body_of rq k), ch_optional = False, ch_checks = cs\<rparr>"

definition body_optional :: "string \<Rightarrow> value_check list \<Rightarrow> check_chain" where
  "body_optional k cs = \<lparr>ch_value = (\<lambda>rq. body_of rq k), ch_optional = True, ch_checks = cs\<rparr>"

definition param_check :: "string \<Rightarrow> value_check list \<Rightarrow> check_chain" where
  "param_check k cs = \<lparr>ch_value = (\<lambda>rq. param_of rq k), ch_optional = False, ch_checks = cs\<rparr>"

text \<open>What the routes rely on: a text check only passes texts, a pattern only matching texts, an integer check only
  values that read as integers from the bound on.\<close>

definition validator_ok :: "validator \<Rightarrow> bool" where
  "validator_ok V \<longleftrightarrow>
     (\<forall>v. v_passes V IsString v \<longrightarrow> (\<exists>s. v = JStr s)) \<and>
     (\<forall>p s. v_passes V (Matches p) (JStr s) \<longrightarrow> p s) \<and>
     (\<forall>m v. v_passes V (IsInt m) v \<longrightarrow> (\<exists>n. js_bigint v = Inr n \<and> m \<le> n))"

section \<open>Programs\<close>

datatype stored_contract = StreamContract | TokenContract

datatype api_effect =
    Submit jsval stored_contract string "api_arg list"
  | ReadContract stored_contract string "api_arg list"
  | ReadMetadata string
  | CacheGet string
  | CacheSet string jsval
  | CacheDrop string
  | LogAdmin jsval string "(string \<times> jsval) list" jsval
  | LogAudit jsval string jsval jsval

datatype 'r prog = Done 'r | Raise js_error | Perform api_effect "js_error + jsval \<Rightarrow> 'r prog"

primrec pbind :: "'r prog \<Rightarrow> ('r \<Rightarrow> 's prog) \<Rightarrow> 's prog" where
  "pbind (Done a) f = f a"
| "pbind (Raise e) f = Raise e"
| "pbind (Perform x k) f = Perform x (\<lambda>v. pbind (k v) f)"

primrec pcatch :: "'r prog \<Rightarrow> (js_error \<Rightarrow> 'r prog) \<Rightarrow> 'r prog" where
  "pcatch (Done a) h = Done a"
| "pcatch (Raise e) h = h e"
| "pcatch (Perform x k) h = Perform x (\<lambda>v. pcatch (k v) h)"

definition perform :: "api_effect \<Rightarrow> jsval prog" where
  "perform x = Perform x (\<lambda>r. case r of Inl e \<Rightarrow> Raise e | Inr v \<Rightarrow> Done v)"

text \<open>Answers: a status and a JSON body; \<^verbatim>\<open>next(error)\<close> leaves the answer to the error handler.\<close>

type_synonym api_reply = "int \<times> jsval"

definition reply :: "int \<Rightarrow> (string \<times> jsval) list \<Rightarrow> api_reply prog" where
  "reply st fs = Done (st, JObj fs)"

definition success :: "(string \<times> jsval) list \<Rightarrow> api_reply prog" where
  "success fs = reply 200 ((''success'', JBool True) # fs)"

definition refuse :: "int \<Rightarrow> string \<Rightarrow> api_reply prog" where
  "refuse st msg = reply st [(''error'', JStr msg)]"

definition validated :: "validator \<Rightarrow> check_chain list \<Rightarrow> api_request \<Rightarrow> api_reply prog \<Rightarrow> api_reply prog" where
  "validated V cs rq p =
     (if list_all (chain_ok V rq) cs then p
      else reply 400 [(''error'', JStr ''Validation failed''), (''details'', v_details V cs rq)])"

text \<open>The fields of what a submitted transaction gives back.\<close>

definition tx_field :: "jsval \<Rightarrow> string \<Rightarrow> jsval" where
  "tx_field r k = (case js_field r k of Inr v \<Rightarrow> v | Inl _ \<Rightarrow> JUndef)"

section \<open>Runs\<close>

text \<open>A run of a program: the effects with what came back, and how it ended.\<close>

inductive runs :: "'r prog \<Rightarrow> (api_effect \<times> (js_error + jsval)) list \<Rightarrow> js_error + 'r \<Rightarrow> bool" where
  runs_done: "runs (Done a) [] (Inr a)"
| runs_raise: "runs (Raise e) [] (Inl e)"
| runs_perform: "runs (k v) tr out \<Longrightarrow> runs (Perform x k) ((x, v) # tr) out"

inductive_simps runs_simps [simp]: "runs (Done a) tr out" "runs (Raise e) tr out" "runs (Perform x k) tr out"

lemma runs_pbind:
  "runs (pbind p f) tr out \<longleftrightarrow>
    (\<exists>e. runs p tr (Inl e) \<and> out = Inl e) \<or> (\<exists>tr1 a tr2. runs p tr1 (Inr a) \<and> runs (f a) tr2 out \<and> tr = tr1 @ tr2)"
proof (induction p arbitrary: tr)
  case (Perform x k)
  show ?case (is "?l = ?r")
  proof
    assume ?l
    then obtain v tr' where t: "tr = (x, v) # tr'" "runs (pbind (k v) f) tr' out" by auto
    from t(2) consider (err) e where "runs (k v) tr' (Inl e)" "out = Inl e"
      | (ok) tr1 a tr2 where "runs (k v) tr1 (Inr a)" "runs (f a) tr2 out" "tr' = tr1 @ tr2"
      using Perform.IH [OF rangeI [of k v]] by blast
    then show ?r
    proof cases
      case ok
      then have "runs (Perform x k) ((x, v) # tr1) (Inr a)" "tr = ((x, v) # tr1) @ tr2" using t by auto
      then show ?thesis using ok(2) by blast
    qed (use t in auto)
  next
    assume ?r
    then consider (err) v tr' e where "tr = (x, v) # tr'" "runs (k v) tr' (Inl e)" "out = Inl e"
      | (ok) v tr1 a tr2 where "runs (k v) tr1 (Inr a)" "runs (f a) tr2 out" "tr = (x, v) # tr1 @ tr2"
      by auto
    then show ?l
    proof cases
      case err
      then show ?thesis using Perform.IH [OF rangeI [of k v], of tr'] by auto
    next
      case ok
      then have "runs (pbind (k v) f) (tr1 @ tr2) out" using Perform.IH [OF rangeI [of k v], of "tr1 @ tr2"] by blast
      then show ?thesis using ok(3) by auto
    qed
  qed
qed auto

lemma runs_if: "runs (if b then p else q) tr out \<longleftrightarrow> (if b then runs p tr out else runs q tr out)"
  by simp

lemma runs_perform_iff:
  "runs (perform x) tr out \<longleftrightarrow> (\<exists>v. tr = [(x, v)] \<and> out = v)"
proof
  assume "runs (perform x) tr out"
  then obtain v tr' where "tr = (x, v) # tr'" "runs (case v of Inl e \<Rightarrow> Raise e | Inr v \<Rightarrow> Done v) tr' out"
    by (auto simp: perform_def)
  then show "\<exists>v. tr = [(x, v)] \<and> out = v" by (cases v) auto
next
  assume "\<exists>v. tr = [(x, v)] \<and> out = v"
  then show "runs (perform x) tr out" by (cases out) (auto simp: perform_def)
qed

lemma runs_reply [simp]: "runs (reply st fs) tr out \<longleftrightarrow> tr = [] \<and> out = Inr (st, JObj fs)"
  by (auto simp: reply_def)

lemma runs_short [simp]:
  "runs (success fs) tr out \<longleftrightarrow> tr = [] \<and> out = Inr (200, JObj ((''success'', JBool True) # fs))"
  "runs (refuse st msg) tr out \<longleftrightarrow> tr = [] \<and> out = Inr (st, JObj [(''error'', JStr msg)])"
  by (simp_all add: success_def refuse_def)

lemma runs_validated:
  "runs (validated V cs rq p) tr out \<longleftrightarrow>
    (if list_all (chain_ok V rq) cs then runs p tr out
     else tr = [] \<and> out = Inr (400, JObj [(''error'', JStr ''Validation failed''), (''details'', v_details V cs rq)]))"
  by (simp add: validated_def)

text \<open>Effects of a run, without what came back.\<close>

definition done_effects :: "(api_effect \<times> (js_error + jsval)) list \<Rightarrow> api_effect list" where
  "done_effects tr = map fst tr"

end
