(* ===== verification/Api_Templates.thy ===== *)
theory Api_Templates
  imports Api_Program Api_Services
begin

text \<open>
  Services of the API that keep their data in memory, with their routes: stream templates
  (\<^verbatim>\<open>api/services/templateService.js\<close>, \<^verbatim>\<open>api/routes/streamTemplates.js\<close>), the preview of the stream wizard
  and the approval routes (\<^verbatim>\<open>api/services/streamWorkflowService.js\<close>, \<^verbatim>\<open>api/routes/streams.js\<close>). Identifiers
  and time stamps are parameters.
\<close>

section \<open>Templates\<close>

record template =
  tm_id :: string
  tm_ownerId :: string
  tm_name :: jsval
  tm_params :: jsval
  tm_shared :: jsval
  tm_isDefault :: bool
  tm_createdAt :: string
  tm_updatedAt :: string

type_synonym templates = "(string, template) jsmap"

definition USDC_ISSUER :: string where
  "USDC_ISSUER = ''GBBD47IF6LWK7P7MDEVSCWR7DPUWV3NY3DTQEVFL4NAT4AQH3ZLLFLA5''"

definition default_params :: "string \<Rightarrow> int \<Rightarrow> jsval" where
  "default_params dep cooldown = JObj
     [(''token_address'', JStr USDC_ISSUER), (''deposit'', JStr dep), (''rate_per_second'', JStr ''1000000''),
      (''stop_time'', JNum (jsint 0)), (''cooldown_period'', JNum (jsint cooldown)), (''cliff_time'', JNum (jsint 0))]"

definition DEFAULT_TEMPLATES :: "(string \<times> jsval) list" where
  "DEFAULT_TEMPLATES =
     [(''Monthly Salary (USDC)'', default_params ''2592000000000'' 0),
      (''Weekly Contractor (USDC)'', default_params ''604800000000'' 86400)]"

text \<open>The templates at the start, with the identifiers drawn for them.\<close>

definition seed_templates :: "string \<Rightarrow> string list \<Rightarrow> templates" where
  "seed_templates stamp ids = fold (\<lambda>(i, n, p). jsset i
     \<lparr>tm_id = i, tm_ownerId = ''system'', tm_name = JStr n, tm_params = p, tm_shared = JBool True, tm_isDefault = True,
      tm_createdAt = stamp, tm_updatedAt = stamp\<rparr>) (zip ids DEFAULT_TEMPLATES) []"

definition tmpl_create ::
  "string \<Rightarrow> string \<Rightarrow> string \<Rightarrow> jsval \<Rightarrow> jsval \<Rightarrow> jsval \<Rightarrow> templates \<Rightarrow> template \<times> templates" where
  "tmpl_create stamp i owner nm params shared T =
     (let t = \<lparr>tm_id = i, tm_ownerId = owner, tm_name = nm, tm_params = params,
         tm_shared = (if shared = JUndef then JBool False else shared), tm_isDefault = False,
         tm_createdAt = stamp, tm_updatedAt = stamp\<rparr>
      in (t, jsset i t T))"

text \<open>The rest of an object after taking out \<^verbatim>\<open>employer\<close> and \<^verbatim>\<open>employee\<close>.\<close>

fun without_parties :: "jsval \<Rightarrow> jsval" where
  "without_parties (JObj fs) = JObj (filter (\<lambda>(k, v). k \<noteq> ''employer'' \<and> k \<noteq> ''employee'') fs)"
| "without_parties v = JObj []"

definition tmpl_createFromStream :: "string \<Rightarrow> string \<Rightarrow> string \<Rightarrow> jsval \<Rightarrow> jsval \<Rightarrow> templates \<Rightarrow> template \<times> templates" where
  "tmpl_createFromStream stamp i owner nm streamParams T =
     tmpl_create stamp i owner nm (without_parties streamParams) JUndef T"

definition tmpl_visible :: "string \<Rightarrow> template \<Rightarrow> bool" where
  "tmpl_visible u t = (tm_ownerId t = u \<or> truthy (tm_shared t))"

definition tmpl_list :: "string \<Rightarrow> templates \<Rightarrow> template list" where
  "tmpl_list u T = filter (tmpl_visible u) (map snd T)"

definition tmpl_get :: "string \<Rightarrow> string \<Rightarrow> templates \<Rightarrow> template option" where
  "tmpl_get i u T = (case jsget T i of Some t \<Rightarrow> if tmpl_visible u t then Some t else None | None \<Rightarrow> None)"

definition tmpl_editable :: "string \<Rightarrow> template \<Rightarrow> bool" where
  "tmpl_editable u t = (tm_ownerId t = u \<and> \<not> tm_isDefault t)"

definition or_old :: "jsval \<Rightarrow> jsval \<Rightarrow> jsval" where
  "or_old new old = (if new = JUndef then old else new)"

text \<open>An edit of a template that the caller may change; the patch is given by its three fields.\<close>

definition tmpl_update ::
  "string \<Rightarrow> string \<Rightarrow> string \<Rightarrow> jsval \<Rightarrow> jsval \<Rightarrow> jsval \<Rightarrow> templates \<Rightarrow> template option \<times> templates" where
  "tmpl_update stamp i u nm params shared T =
     (case jsget T i of
        None \<Rightarrow> (None, T)
      | Some t \<Rightarrow>
          if \<not> tmpl_editable u t then (None, T)
          else
            (let t' = t\<lparr>tm_name := or_old nm (tm_name t), tm_params := or_old params (tm_params t),
                        tm_shared := or_old shared (tm_shared t), tm_updatedAt := stamp\<rparr>
             in (Some t', jsset i t' T)))"

definition tmpl_remove :: "string \<Rightarrow> string \<Rightarrow> templates \<Rightarrow> bool \<times> templates" where
  "tmpl_remove i u T =
     (case jsget T i of
        None \<Rightarrow> (False, T)
      | Some t \<Rightarrow> if tmpl_editable u t then (True, jsdel i T) else (False, T))"

definition tmpl_share :: "string \<Rightarrow> string \<Rightarrow> string \<Rightarrow> jsval \<Rightarrow> templates \<Rightarrow> template option \<times> templates" where
  "tmpl_share stamp i u shared T =
     (case jsget T i of
        None \<Rightarrow> (None, T)
      | Some t \<Rightarrow>
          if tmpl_editable u t then
            (let t' = t\<lparr>tm_shared := shared, tm_updatedAt := stamp\<rparr> in (Some t', jsset i t' T))
          else (None, T))"

section \<open>Template routes\<close>

definition request_owner :: "api_request \<Rightarrow> string" where
  "request_owner rq =
     (case ar_stellarAddress rq of
        Some a \<Rightarrow> if a \<noteq> '''' then a else (case ar_apiKey rq of Some k \<Rightarrow> if k \<noteq> '''' then k else ''unknown'' | None \<Rightarrow> ''unknown'')
      | None \<Rightarrow> (case ar_apiKey rq of Some k \<Rightarrow> if k \<noteq> '''' then k else ''unknown'' | None \<Rightarrow> ''unknown''))"

definition nested :: "string \<Rightarrow> string \<Rightarrow> api_request \<Rightarrow> jsval" where
  "nested a b rq = (case js_field (body_of rq a) b of Inr v \<Rightarrow> v | Inl _ \<Rightarrow> JUndef)"

definition nested_check :: "string \<Rightarrow> string \<Rightarrow> value_check list \<Rightarrow> check_chain" where
  "nested_check a b cs = \<lparr>ch_value = nested a b, ch_optional = False, ch_checks = cs\<rparr>"

definition is_key56 :: "string \<Rightarrow> bool" where
  "is_key56 s = (length s = 56 \<and> list_all is_upper_alnum s)"

definition STREAM_PARAMS :: "check_chain list" where
  "STREAM_PARAMS =
     [nested_check ''params'' ''token_address'' [IsString, Matches is_key56],
      nested_check ''params'' ''deposit'' [IsString, Matches all_digits],
      nested_check ''params'' ''rate_per_second'' [IsString, Matches all_digits],
      nested_check ''params'' ''stop_time'' [IsInt 0], nested_check ''params'' ''cooldown_period'' [IsInt 0],
      nested_check ''params'' ''cliff_time'' [IsInt 0]]"

text \<open>The sanitizer of the name leaves the trimmed text in the body.\<close>

fun trimmed :: "jsval \<Rightarrow> jsval" where
  "trimmed (JStr s) = JStr (trim s)"
| "trimmed v = v"

definition template_json :: "template \<Rightarrow> jsval" where
  "template_json t = JObj
     [(''id'', JStr (tm_id t)), (''ownerId'', JStr (tm_ownerId t)), (''name'', tm_name t), (''params'', tm_params t),
      (''shared'', tm_shared t), (''isDefault'', JBool (tm_isDefault t)), (''createdAt'', JStr (tm_createdAt t)),
      (''updatedAt'', JStr (tm_updatedAt t))]"

text \<open>A route over data kept in memory: the answer and the new data.\<close>

definition checked :: "validator \<Rightarrow> check_chain list \<Rightarrow> api_request \<Rightarrow> (api_reply \<times> 's) \<Rightarrow> 's \<Rightarrow> api_reply \<times> 's" where
  "checked V cs rq done s =
     (if list_all (chain_ok V rq) cs then done
      else ((400, JObj [(''error'', JStr ''Validation failed''), (''details'', v_details V cs rq)]), s))"

definition json_ok :: "int \<Rightarrow> (string \<times> jsval) list \<Rightarrow> api_reply" where
  "json_ok st fs = (st, JObj ((''success'', JBool True) # fs))"

definition json_error :: "int \<Rightarrow> string \<Rightarrow> api_reply" where
  "json_error st msg = (st, JObj [(''error'', JStr msg)])"

definition uuid_check :: check_chain where
  "uuid_check = param_check ''id'' [IsUUID]"

definition id_of :: "api_request \<Rightarrow> string" where
  "id_of rq = js_string (param_of rq ''id'')"

definition template_answer :: "string \<Rightarrow> template option \<times> templates \<Rightarrow> api_reply \<times> templates" where
  "template_answer msg r =
     (case r of
        (Some t, T) \<Rightarrow> (json_ok 200 [(''template'', template_json t)], T)
      | (None, T) \<Rightarrow> (json_error 404 msg, T))"

definition template_create_route :: "validator \<Rightarrow> string \<Rightarrow> string \<Rightarrow> api_request \<Rightarrow> templates \<Rightarrow> api_reply \<times> templates" where
  "template_create_route V stamp i rq T =
     checked V ([body_check ''name'' [IsString, NotEmpty], body_optional ''shared'' [IsBoolean]] @ STREAM_PARAMS) rq
       (case tmpl_create stamp i (request_owner rq) (trimmed (body_of rq ''name'')) (body_of rq ''params'') (body_of rq ''shared'') T of
          (t, T') \<Rightarrow> (json_ok 201 [(''template'', template_json t)], T')) T"

definition template_from_stream_route :: "validator \<Rightarrow> string \<Rightarrow> string \<Rightarrow> api_request \<Rightarrow> templates \<Rightarrow> api_reply \<times> templates" where
  "template_from_stream_route V stamp i rq T =
     checked V [body_check ''name'' [IsString, NotEmpty], body_check ''streamParams'' [IsObject],
       nested_check ''streamParams'' ''token_address'' [IsString],
       nested_check ''streamParams'' ''deposit'' [IsString, Matches all_digits],
       nested_check ''streamParams'' ''rate_per_second'' [IsString, Matches all_digits]] rq
       (case tmpl_createFromStream stamp i (request_owner rq) (trimmed (body_of rq ''name'')) (body_of rq ''streamParams'') T of
          (t, T') \<Rightarrow> (json_ok 201 [(''template'', template_json t)], T')) T"

definition template_list_route :: "api_request \<Rightarrow> templates \<Rightarrow> api_reply \<times> templates" where
  "template_list_route rq T = (json_ok 200 [(''templates'', JArr (map template_json (tmpl_list (request_owner rq) T)))], T)"

definition template_get_route :: "validator \<Rightarrow> api_request \<Rightarrow> templates \<Rightarrow> api_reply \<times> templates" where
  "template_get_route V rq T =
     checked V [uuid_check] rq (template_answer ''Template not found'' (tmpl_get (id_of rq) (request_owner rq) T, T)) T"

definition template_patch_route :: "validator \<Rightarrow> string \<Rightarrow> api_request \<Rightarrow> templates \<Rightarrow> api_reply \<times> templates" where
  "template_patch_route V stamp rq T =
     checked V [uuid_check, body_optional ''name'' [IsString, NotEmpty], body_optional ''shared'' [IsBoolean]] rq
       (template_answer ''Template not found or not editable''
         (tmpl_update stamp (id_of rq) (request_owner rq) (trimmed (body_of rq ''name'')) (body_of rq ''params'') (body_of rq ''shared'') T)) T"

definition template_delete_route :: "validator \<Rightarrow> api_request \<Rightarrow> templates \<Rightarrow> api_reply \<times> templates" where
  "template_delete_route V rq T =
     checked V [uuid_check] rq
       (case tmpl_remove (id_of rq) (request_owner rq) T of
          (True, T') \<Rightarrow> (json_ok 200 [(''message'', JStr ''Template deleted'')], T')
        | (False, T') \<Rightarrow> (json_error 404 ''Template not found or not deletable'', T')) T"

definition template_share_route :: "validator \<Rightarrow> string \<Rightarrow> api_request \<Rightarrow> templates \<Rightarrow> api_reply \<times> templates" where
  "template_share_route V stamp rq T =
     checked V [uuid_check, body_check ''shared'' [IsBoolean]] rq
       (template_answer ''Template not found or not shareable''
         (tmpl_share stamp (id_of rq) (request_owner rq) (body_of rq ''shared'') T)) T"

text \<open>\<^verbatim>\<open>{ ...a, ...b }\<close>.\<close>

fun spread_fields :: "jsval \<Rightarrow> (string, jsval) jsmap" where
  "spread_fields (JObj fs) = fs"
| "spread_fields v = []"

definition merged :: "jsval \<Rightarrow> jsval \<Rightarrow> (string, jsval) jsmap" where
  "merged a b = fold (\<lambda>(k, v). jsset k v) (spread_fields b) (spread_fields a)"

definition template_stream_route :: "validator \<Rightarrow> api_request \<Rightarrow> templates \<Rightarrow> api_reply prog" where
  "template_stream_route V rq T =
     validated V [uuid_check, body_check ''employer'' [IsString, Matches is_G_address],
       body_check ''employee'' [IsString, Matches is_G_address], body_optional ''overrides'' [IsObject]] rq
     (case tmpl_get (id_of rq) (request_owner rq) T of
        None \<Rightarrow> refuse 404 ''Template not found''
      | Some t \<Rightarrow>
          (let params = merged (tm_params t) (body_of rq ''overrides'');
               p = (\<lambda>k. case jsget params k of Some v \<Rightarrow> v | None \<Rightarrow> JUndef);
               employer = body_of rq ''employer''; employee = body_of rq ''employee''
           in
           pbind (perform (Submit employer StreamContract ''create_stream''
             [AsAddress employer, AsAddress employee, AsAddress (p ''token_address''), AsBigInt (p ''deposit''),
              AsBigInt (p ''rate_per_second''), AsIs (p ''stop_time''), AsIs (p ''cooldown_period''), AsIs (p ''cliff_time'')])) (\<lambda>r.
           reply 201 [(''success'', JBool True), (''stream_id'', tx_field r ''result''), (''transaction_hash'', tx_field r ''hash'')])))"

section \<open>The wizard preview\<close>

definition number_or_zero :: "jsval \<Rightarrow> jsnum" where
  "number_or_zero v = (if truthy v then js_number v else Fin 0)"

record wizard_preview =
  wp_valid :: bool
  wp_errors :: "string list"
  wp_estimatedFee :: jsnum
  wp_simulation :: string
  wp_durationDays :: jsnum
  wp_hardStopEnabled :: bool

definition duration_days :: "api_request \<Rightarrow> jsnum" where
  "duration_days rq =
     (let preset = body_of rq ''durationPreset'' in
      if preset = JStr ''custom'' then number_or_zero (body_of rq ''customDurationDays'')
      else if preset = JStr ''weekly'' then Fin 7
      else if preset = JStr ''monthly'' then Fin 30
      else Fin 0)"

definition wizard_errors :: "api_request \<Rightarrow> string list" where
  "wizard_errors rq =
     (let amount = number_or_zero (body_of rq ''amount''); balance = number_or_zero (body_of rq ''balance'') in
      (if \<not> truthy (body_of rq ''recipient'') \<or> \<not> is_G_address (js_string (body_of rq ''recipient''))
       then [''A valid recipient address is required.''] else []) @
      (if \<not> truthy (body_of rq ''token'') then [''Select a token before continuing.''] else []) @
      (if \<not> isFinite amount \<or> js_le amount (Fin 0) then [''Enter a positive stream amount.'']
       else if js_less balance amount then [''Amount exceeds your available balance.''] else []) @
      (if \<not> num_truthy (duration_days rq) \<or> js_le (duration_days rq) (Fin 0) then [''Choose a stream duration.''] else []))"

definition buildStreamWizardPreview :: "api_request \<Rightarrow> wizard_preview" where
  "buildStreamWizardPreview rq =
     \<lparr>wp_valid = (wizard_errors rq = []), wp_errors = wizard_errors rq,
      wp_estimatedFee = math_max (Fin 15000) (math_round (js_mul (number_or_zero (body_of rq ''amount'')) (num_of_rat (1 / 1000)))),
      wp_simulation = (if wizard_errors rq = [] then (''Ready to simulate '' @ [CHR 0xE2, CHR 0x80, CHR 0x94] @ '' no blockers detected.'')
        else ''Simulation blocked: '' @ join '' '' (wizard_errors rq)),
      wp_durationDays = duration_days rq, wp_hardStopEnabled = truthy (body_of rq ''hardStopEnabled'')\<rparr>"

definition preview_json :: "wizard_preview \<Rightarrow> jsval" where
  "preview_json p = JObj
     [(''valid'', JBool (wp_valid p)), (''errors'', JArr (map JStr (wp_errors p))),
      (''estimation'', JObj [(''estimatedFee'', JNum (wp_estimatedFee p)), (''simulation'', JStr (wp_simulation p)),
        (''durationDays'', JNum (wp_durationDays p)), (''hardStopEnabled'', JBool (wp_hardStopEnabled p))])]"

definition wizard_preview_route :: "validator \<Rightarrow> api_request \<Rightarrow> api_reply prog" where
  "wizard_preview_route V rq =
     validated V [body_check ''recipient'' [IsString, Matches is_G_address], body_check ''token'' [IsString, NotEmpty],
       body_check ''amount'' [IsString, Matches all_digits], body_check ''balance'' [IsString, Matches all_digits]] rq
     (success [(''preview'', preview_json (buildStreamWizardPreview rq))])"

end
