(* ===== verification/Api_Routes.thy ===== *)
theory Api_Routes
  imports Api_Program
begin

text \<open>
  The routes of the API that call the contracts (\<^verbatim>\<open>api/routes/streams.js\<close>, \<^verbatim>\<open>admin.js\<close>,
  \<^verbatim>\<open>tokens.js\<close>, \<^verbatim>\<open>governance.js\<close>) as programs. \<open>V\<close> is the request validation, \<open>H\<close> the error
  handler, which the audit log of two routes sees.
\<close>

section \<open>Shared checks and steps\<close>

definition is_C_address :: "string \<Rightarrow> bool" where
  "is_C_address s = (length s = 63 \<and> hd s = CHR ''C'' \<and> list_all is_upper_alnum (tl s))"

definition positive_digits :: "string \<Rightarrow> bool" where
  "positive_digits s = (all_digits s \<and> hd s \<noteq> CHR ''0'')"

definition address_check :: "string \<Rightarrow> check_chain" where
  "address_check k = body_check k [IsString, Matches is_G_address]"

definition amount_check :: "string \<Rightarrow> check_chain" where
  "amount_check k = body_check k [IsString, Matches all_digits]"

definition stream_id_check :: check_chain where
  "stream_id_check = param_check ''stream_id'' [IsInt 1]"

definition submit_stream :: "jsval \<Rightarrow> string \<Rightarrow> api_arg list \<Rightarrow> jsval prog" where
  "submit_stream source fn args = perform (Submit source StreamContract fn args)"

definition submit_token :: "jsval \<Rightarrow> string \<Rightarrow> api_arg list \<Rightarrow> jsval prog" where
  "submit_token source fn args = perform (Submit source TokenContract fn args)"

text \<open>\<^verbatim>\<open>v.toString()\<close>.\<close>

definition to_text :: "jsval \<Rightarrow> jsval prog" where
  "to_text v =
     (if v = JUndef then Raise (TypeError ''Cannot read properties of undefined'')
      else if v = JNull then Raise (TypeError ''Cannot read properties of null'')
      else Done (JStr (js_string v)))"

definition id_text :: "api_request \<Rightarrow> string" where
  "id_text rq = js_string (param_of rq ''stream_id'')"

definition or_value :: "jsval \<Rightarrow> jsval \<Rightarrow> jsval" where
  "or_value a b = (if truthy a then a else b)"

text \<open>The middleware \<^verbatim>\<open>auditLog\<close>: whatever is answered is logged, without waiting for the result.\<close>

definition audited :: "(js_error \<Rightarrow> api_reply) \<Rightarrow> string \<Rightarrow> api_request \<Rightarrow> api_reply prog \<Rightarrow> api_reply prog" where
  "audited H action rq p =
     pbind (pcatch p (\<lambda>e. Done (H e))) (\<lambda>r.
       Perform (LogAudit
         (or_value (case ar_stellarAddress rq of Some a \<Rightarrow> JStr a | None \<Rightarrow> JUndef)
           (or_value (body_of rq ''employer'') (or_value (body_of rq ''employee'') (JStr ''unknown''))))
         action (param_of rq ''stream_id'') (snd r)) (\<lambda>_. Done r))"

section \<open>Streams\<close>

definition create_stream_route :: "validator \<Rightarrow> (js_error \<Rightarrow> api_reply) \<Rightarrow> api_request \<Rightarrow> api_reply prog" where
  "create_stream_route V H rq =
     audited H ''create_stream'' rq (
     validated V [address_check ''employer'', address_check ''employee'',
       body_check ''token_address'' [IsString, Matches is_C_address], amount_check ''deposit'', amount_check ''rate_per_second'',
       body_check ''stop_time'' [IsInt 0], body_check ''cooldown_period'' [IsInt 0], body_check ''cliff_time'' [IsInt 0]] rq (
     let employer = body_of rq ''employer''; employee = body_of rq ''employee''; tok = body_of rq ''token_address'' in
     if \<not> validateAddress employer \<or> \<not> validateAddress employee then refuse 400 ''Invalid Stellar addresses''
     else if \<not> validateContractId tok then refuse 400 ''Invalid token contract address''
     else
       pbind (submit_stream employer ''create_stream''
         [AsAddress employer, AsAddress employee, AsAddress tok, AsBigInt (body_of rq ''deposit''),
          AsBigInt (body_of rq ''rate_per_second''), AsIs (body_of rq ''stop_time''), AsIs (body_of rq ''cooldown_period''),
          AsIs (body_of rq ''cliff_time'')]) (\<lambda>r.
       success [(''stream_id'', tx_field r ''result''), (''transaction_hash'', tx_field r ''hash'')])))"

definition get_stream_route :: "validator \<Rightarrow> api_request \<Rightarrow> api_reply prog" where
  "get_stream_route V rq =
     validated V [stream_id_check] rq (
     pbind (perform (CacheGet (id_text rq))) (\<lambda>cached.
     if truthy cached then success [(''stream'', cached)]
     else
       pbind (perform (ReadContract StreamContract ''get_stream'' [AsBigInt (param_of rq ''stream_id'')])) (\<lambda>r.
       pbind (perform (CacheSet (id_text rq) r)) (\<lambda>_.
       success [(''stream'', r)]))))"

definition stream_count_route :: "api_request \<Rightarrow> api_reply prog" where
  "stream_count_route rq =
     pbind (perform (ReadContract StreamContract ''stream_count'' [])) (\<lambda>r. success [(''count'', r)])"

definition claimable_route :: "validator \<Rightarrow> api_request \<Rightarrow> api_reply prog" where
  "claimable_route V rq =
     validated V [stream_id_check] rq (
     pbind (perform (ReadContract StreamContract ''claimable'' [AsBigInt (param_of rq ''stream_id'')])) (\<lambda>r.
     pbind (to_text r) (\<lambda>t. success [(''claimable_amount'', t)])))"

definition withdraw_route :: "validator \<Rightarrow> (js_error \<Rightarrow> api_reply) \<Rightarrow> api_request \<Rightarrow> api_reply prog" where
  "withdraw_route V H rq =
     audited H ''withdraw'' rq (
     validated V [stream_id_check, address_check ''employee''] rq (
     let employee = body_of rq ''employee'' in
     if \<not> validateAddress employee then refuse 400 ''Invalid employee address''
     else
       pbind (submit_stream employee ''withdraw'' [AsAddress employee, AsBigInt (param_of rq ''stream_id'')]) (\<lambda>r.
       pbind (perform (CacheDrop (id_text rq))) (\<lambda>_.
       pbind (to_text (tx_field r ''result'')) (\<lambda>t.
       success [(''amount_withdrawn'', t), (''transaction_hash'', tx_field r ''hash'')])))))"

text \<open>A stream that the network has no result for is \<^verbatim>\<open>undefined\<close>.\<close>

definition top_up_route :: "validator \<Rightarrow> api_request \<Rightarrow> api_reply prog" where
  "top_up_route V rq =
     validated V [stream_id_check, address_check ''employer'', body_check ''amount'' [IsString, Matches positive_digits]] rq (
     let employer = body_of rq ''employer''; amount = body_of rq ''amount'' in
     if \<not> validateAddress employer then refuse 400 ''Invalid employer address''
     else
       pbind (perform (ReadContract StreamContract ''get_stream'' [AsBigInt (param_of rq ''stream_id'')])) (\<lambda>s.
       if \<not> truthy s then reply 404 [(''error'', JStr ''Stream not found''), (''code'', JStr ''STREAM_NOT_FOUND'')]
       else if truthy (tx_field s ''status'') \<and> tx_field s ''status'' \<noteq> JStr ''Active'' then
         reply 400 [(''error'', JStr (''Cannot top up a stream with status: '' @ js_string (tx_field s ''status''))),
           (''code'', JStr ''INVALID_STREAM_STATUS'')]
       else
         pbind (submit_stream employer ''top_up''
           [AsAddress employer, AsBigInt (param_of rq ''stream_id''), AsBigInt amount]) (\<lambda>r.
         pbind (perform (CacheDrop (id_text rq))) (\<lambda>_.
         success [(''stream_id'', JNum (parseInt (id_text rq))), (''amount_added'', amount),
           (''transaction_hash'', tx_field r ''hash'')]))))"

section \<open>Administration\<close>

definition admin_call_route ::
  "validator \<Rightarrow> check_chain list \<Rightarrow> string \<Rightarrow> (api_request \<Rightarrow> api_arg list) \<Rightarrow> (string list) \<Rightarrow> api_request \<Rightarrow> api_reply prog" where
  "admin_call_route V checks fn args logged rq =
     validated V (address_check ''admin'' # checks) rq (
     let admin = body_of rq ''admin'' in
     if \<not> validateAddress admin then refuse 400 ''Invalid admin address''
     else
       pbind (submit_stream admin fn (AsAddress admin # args rq)) (\<lambda>r.
       pbind (perform (LogAdmin admin fn (map (\<lambda>k. (k, body_of rq k)) logged) (tx_field r ''hash''))) (\<lambda>_.
       success [(''transaction_hash'', tx_field r ''hash'')])))"

definition initialize_route :: "validator \<Rightarrow> api_request \<Rightarrow> api_reply prog" where
  "initialize_route V = admin_call_route V [] ''initialize'' (\<lambda>_. []) [''admin'']"

definition pause_contract_route :: "validator \<Rightarrow> api_request \<Rightarrow> api_reply prog" where
  "pause_contract_route V =
     admin_call_route V [body_check ''nonce'' [IsInt 0]] ''pause_contract'' (\<lambda>rq. [AsBigInt (body_of rq ''nonce'')])
       [''admin'', ''nonce'']"

definition set_min_deposit_route :: "validator \<Rightarrow> api_request \<Rightarrow> api_reply prog" where
  "set_min_deposit_route V =
     admin_call_route V [body_check ''nonce'' [IsInt 0], amount_check ''amount''] ''set_min_deposit''
       (\<lambda>rq. [AsBigInt (body_of rq ''nonce''), AsBigInt (body_of rq ''amount'')]) [''admin'', ''nonce'', ''amount'']"

text \<open>A failed cancellation is ignored: the answer says cancelled, with no transaction.\<close>

definition force_cancel_route :: "validator \<Rightarrow> api_request \<Rightarrow> api_reply prog" where
  "force_cancel_route V rq =
     validated V [param_check ''id'' [IsString, NotEmpty], address_check ''admin'', body_optional ''reason'' [IsString]] rq (
     let admin = body_of rq ''admin''; i = param_of rq ''id'' in
     pbind (pcatch (pbind (submit_stream admin ''cancel_stream'' [AsAddress admin, AsBigInt i]) (\<lambda>r. Done (tx_field r ''hash'')))
       (\<lambda>_. Done JNull)) (\<lambda>hash.
     pbind (perform (LogAdmin admin ''force_cancel_stream'' [(''stream_id'', i), (''reason'', body_of rq ''reason'')] hash)) (\<lambda>_.
     success [(''data'', JObj [(''stream_id'', i), (''cancelled'', JBool True), (''transaction_hash'', hash)])])))"

section \<open>Tokens\<close>

definition total_supply_route :: "api_request \<Rightarrow> api_reply prog" where
  "total_supply_route rq =
     pbind (perform (ReadContract TokenContract ''total_supply'' [])) (\<lambda>r.
     pbind (to_text r) (\<lambda>t. success [(''total_supply'', t)]))"

definition token_balance_route :: "validator \<Rightarrow> api_request \<Rightarrow> api_reply prog" where
  "token_balance_route V rq =
     validated V [param_check ''address'' [IsString, Matches is_G_address]] rq (
     let a = param_of rq ''address'' in
     if \<not> validateAddress a then refuse 400 ''Invalid address''
     else
       pbind (perform (ReadContract TokenContract ''balance'' [AsAddress a])) (\<lambda>r.
       pbind (to_text r) (\<lambda>t. success [(''balance'', t)])))"

definition token_move_route :: "validator \<Rightarrow> string \<Rightarrow> string \<Rightarrow> api_request \<Rightarrow> api_reply prog" where
  "token_move_route V source fn rq =
     validated V [address_check source, address_check ''to'', amount_check ''amount''] rq (
     let a = body_of rq source; b = body_of rq ''to'' in
     if \<not> validateAddress a \<or> \<not> validateAddress b then refuse 400 ''Invalid addresses''
     else
       pbind (submit_token a fn [AsAddress a, AsAddress b, AsBigInt (body_of rq ''amount'')]) (\<lambda>r.
       success [(''transaction_hash'', tx_field r ''hash'')]))"

definition token_transfer_route :: "validator \<Rightarrow> api_request \<Rightarrow> api_reply prog" where
  "token_transfer_route V = token_move_route V ''from'' ''transfer''"

definition token_mint_route :: "validator \<Rightarrow> api_request \<Rightarrow> api_reply prog" where
  "token_mint_route V = token_move_route V ''admin'' ''mint''"

definition token_metadata_route :: "validator \<Rightarrow> api_request \<Rightarrow> api_reply prog" where
  "token_metadata_route V rq =
     (let a = param_of rq ''address'' in
      if \<not> list_all (chain_ok V rq) [param_check ''address'' [IsString, Matches is_C_address]] \<or> \<not> validateContractId a
      then refuse 404 ''Invalid token address''
      else
        pcatch (pbind (perform (ReadMetadata (js_string a))) (\<lambda>m.
          success ((''address'', a) # (case m of JObj fs \<Rightarrow> fs | _ \<Rightarrow> []))))
        (\<lambda>e. if js_includes (errMsg e) ''not found'' \<or> js_includes (errMsg e) ''does not exist''
          then refuse 404 ''Token not found'' else Raise e))"

section \<open>Governance\<close>

definition paramMap :: "(string \<times> int) list" where
  "paramMap = [(''MinDeposit'', 0), (''MaxStreamsPerEmployer'', 1), (''ProtocolFeeBps'', 2), (''ProtocolFeeRecipient'', 3)]"

definition param_value :: "jsval \<Rightarrow> jsval" where
  "param_value v = (case map_of paramMap (js_string v) of Some n \<Rightarrow> JNum (jsint n) | None \<Rightarrow> JUndef)"

definition propose_route :: "validator \<Rightarrow> api_request \<Rightarrow> api_reply prog" where
  "propose_route V rq =
     validated V [address_check ''proposer'', body_check ''param'' [IsIn (map fst paramMap)], body_check ''new_value'' [IsInt 0]] rq (
     let a = body_of rq ''proposer'' in
     if \<not> validateAddress a then refuse 400 ''Invalid proposer address''
     else
       pbind (submit_stream a ''propose_parameter''
         [AsAddress a, AsIs (param_value (body_of rq ''param'')), AsBigInt (body_of rq ''new_value'')]) (\<lambda>r.
       success [(''proposal_id'', tx_field r ''result''), (''transaction_hash'', tx_field r ''hash'')]))"

definition vote_route :: "validator \<Rightarrow> api_request \<Rightarrow> api_reply prog" where
  "vote_route V rq =
     validated V [address_check ''voter'', body_check ''proposal_id'' [IsInt 1], body_check ''support'' [IsBoolean]] rq (
     let a = body_of rq ''voter'' in
     if \<not> validateAddress a then refuse 400 ''Invalid voter address''
     else
       pbind (submit_stream a ''vote'' [AsAddress a, AsBigInt (body_of rq ''proposal_id''), AsIs (body_of rq ''support'')]) (\<lambda>r.
       success [(''transaction_hash'', tx_field r ''hash'')]))"

definition proposal_route :: "validator \<Rightarrow> api_request \<Rightarrow> api_reply prog" where
  "proposal_route V rq =
     validated V [param_check ''proposal_id'' [IsInt 1]] rq (
     pbind (perform (ReadContract StreamContract ''get_proposal'' [AsBigInt (param_of rq ''proposal_id'')])) (\<lambda>r.
     success [(''proposal'', r)]))"

end
