(* ===== verification/Api_Routes_Props.thy ===== *)
theory Api_Routes_Props
  imports Api_Routes
begin

text \<open>
  What the contract routes of the API do in every run: which transactions they submit, with which arguments, and that
  an answer of success comes after the cache and the log were brought up to date.
\<close>

section \<open>All routes\<close>

datatype contract_route =
    RCreate | RGetStream | RCount | RClaimable | RWithdraw | RTopUp
  | RInitialize | RPause | RSetMinDeposit | RForceCancel
  | RSupply | RBalance | RTransfer | RMint | RMetadata
  | RPropose | RVote | RProposal

fun route :: "validator \<Rightarrow> (js_error \<Rightarrow> api_reply) \<Rightarrow> contract_route \<Rightarrow> api_request \<Rightarrow> api_reply prog" where
  "route V H RCreate = create_stream_route V H"
| "route V H RGetStream = get_stream_route V"
| "route V H RCount = stream_count_route"
| "route V H RClaimable = claimable_route V"
| "route V H RWithdraw = withdraw_route V H"
| "route V H RTopUp = top_up_route V"
| "route V H RInitialize = initialize_route V"
| "route V H RPause = pause_contract_route V"
| "route V H RSetMinDeposit = set_min_deposit_route V"
| "route V H RForceCancel = force_cancel_route V"
| "route V H RSupply = total_supply_route"
| "route V H RBalance = token_balance_route V"
| "route V H RTransfer = token_transfer_route V"
| "route V H RMint = token_mint_route V"
| "route V H RMetadata = token_metadata_route V"
| "route V H RPropose = propose_route V"
| "route V H RVote = vote_route V"
| "route V H RProposal = proposal_route V"

text \<open>The arguments of the entry points that the routes call.\<close>

datatype arg_kind = KAddress | KInteger | KBool | KEnum

definition entry_args :: "stored_contract \<Rightarrow> string \<Rightarrow> arg_kind list option" where
  "entry_args c fn =
     (case c of
        StreamContract \<Rightarrow> map_of
          [(''initialize'', [KAddress]), (''pause_contract'', [KAddress, KInteger]),
           (''set_min_deposit'', [KAddress, KInteger, KInteger]),
           (''create_stream'', [KAddress, KAddress, KAddress, KInteger, KInteger, KInteger, KInteger, KInteger]),
           (''withdraw'', [KAddress, KInteger]), (''top_up'', [KAddress, KInteger, KInteger]),
           (''cancel_stream'', [KAddress, KInteger]), (''propose_parameter'', [KAddress, KEnum, KInteger]),
           (''vote'', [KAddress, KInteger, KBool])] fn
      | TokenContract \<Rightarrow> map_of
          [(''transfer'', [KAddress, KAddress, KInteger]), (''mint'', [KAddress, KAddress, KInteger])] fn)"

fun fits :: "arg_kind \<Rightarrow> api_arg \<Rightarrow> bool" where
  "fits KAddress (AsAddress v) = True"
| "fits KInteger (AsBigInt v) = True"
| "fits KInteger (AsIs v) = True"
| "fits KBool (AsIs v) = True"
| "fits KEnum (AsIs v) = True"
| "fits _ _ = False"

definition well_called :: "stored_contract \<Rightarrow> string \<Rightarrow> api_arg list \<Rightarrow> bool" where
  "well_called c fn args = (case entry_args c fn of Some ks \<Rightarrow> list_all2 fits ks args | None \<Rightarrow> False)"

text \<open>The submitted transactions of a run.\<close>

definition submits :: "(api_effect \<times> (js_error + jsval)) list \<Rightarrow> (jsval \<times> stored_contract \<times> string \<times> api_arg list) list" where
  "submits tr = List.map_filter (\<lambda>(x, v). case x of Submit s c f as \<Rightarrow> Some (s, c, f, as) | _ \<Rightarrow> None) tr"

lemma submits_simps [simp]:
  "submits [] = []"
  "submits ((x, v) # tr) = (case x of Submit s c f as \<Rightarrow> (s, c, f, as) # submits tr | _ \<Rightarrow> submits tr)"
  "submits (tr1 @ tr2) = submits tr1 @ submits tr2"
  by (auto simp: submits_def map_filter_simps List.map_filter_def split: api_effect.split)

lemmas run_rules = runs_pbind runs_perform_iff runs_validated Let_def

text \<open>Catching an error.\<close>

lemma runs_pcatch:
  "runs (pcatch p h) tr out \<Longrightarrow>
    (\<exists>a. runs p tr (Inr a) \<and> out = Inr a) \<or> (\<exists>tr1 e tr2. runs p tr1 (Inl e) \<and> runs (h e) tr2 out \<and> tr = tr1 @ tr2)"
proof (induction p arbitrary: tr)
  case (Perform x k)
  then obtain v tr' where t: "tr = (x, v) # tr'" "runs (pcatch (k v) h) tr' out" by auto
  then consider (ok) a where "runs (k v) tr' (Inr a)" "out = Inr a"
    | (err) tr1 e tr2 where "runs (k v) tr1 (Inl e)" "runs (h e) tr2 out" "tr' = tr1 @ tr2"
    using Perform.IH [OF rangeI [of k v]] by blast
  then show ?case
  proof cases
    case err
    then have "runs (Perform x k) ((x, v) # tr1) (Inl e)" "tr = ((x, v) # tr1) @ tr2" using t by auto
    then show ?thesis using err(2) by blast
  qed (use t in auto)
qed auto

text \<open>The audit log adds no transaction.\<close>

lemma audited_submits:
  assumes "runs (audited H act rq p) tr out"
  obtains tr' out' where "runs p tr' out'" "submits tr = submits tr'"
proof -
  consider (ok) tr1 r tr2 where "runs (pcatch p (\<lambda>e. Done (H e))) tr1 (Inr r)" "submits tr2 = []" "tr = tr1 @ tr2"
    | (err) e where "runs (pcatch p (\<lambda>e. Done (H e))) tr (Inl e)"
    using assms unfolding audited_def runs_pbind by fastforce
  then show ?thesis
  proof cases
    case ok
    then show ?thesis using runs_pcatch [OF ok(1)] that by fastforce
  next
    case err
    then show ?thesis using runs_pcatch [OF err] that by fastforce
  qed
qed

section \<open>Submitted transactions\<close>

lemma chain_text:
  assumes "validator_ok V" "chain_ok V rq (body_check k [IsString, Matches p])"
  shows "\<exists>s. body_of rq k = JStr s \<and> p s"
proof -
  have "v_passes V IsString (body_of rq k)" "v_passes V (Matches p) (body_of rq k)"
    using assms(2) by (auto simp: chain_ok_def body_check_def)
  then show ?thesis using assms(1) unfolding validator_ok_def by metis
qed

lemma chain_address:
  "validator_ok V \<Longrightarrow> chain_ok V rq (address_check k) \<Longrightarrow> \<exists>a. body_of rq k = JStr a \<and> is_G_address a"
  unfolding address_check_def by (rule chain_text)

lemma chain_amount:
  "validator_ok V \<Longrightarrow> chain_ok V rq (amount_check k) \<Longrightarrow> \<exists>n. js_bigint (body_of rq k) = Inr n \<and> 0 \<le> n"
  using chain_text [of V rq k all_digits] bigint_of_digits by (auto simp: amount_check_def)

lemma chain_positive:
  "validator_ok V \<Longrightarrow> chain_ok V rq (body_check k [IsString, Matches positive_digits]) \<Longrightarrow> \<exists>n. js_bigint (body_of rq k) = Inr n \<and> 0 \<le> n"
  using chain_text [of V rq k positive_digits] bigint_of_digits by (auto simp: positive_digits_def)

lemma chain_int:
  "validator_ok V \<Longrightarrow> chain_ok V rq (body_check k [IsInt m]) \<Longrightarrow> \<exists>n. js_bigint (body_of rq k) = Inr n \<and> m \<le> n"
  "validator_ok V \<Longrightarrow> chain_ok V rq (param_check k [IsInt m]) \<Longrightarrow> \<exists>n. js_bigint (param_of rq k) = Inr n \<and> m \<le> n"
  by (auto simp: chain_ok_def body_check_def param_check_def validator_ok_def)

text \<open>A good call: from a well-formed address, which is also the first argument; the arguments in the order of the
  entry point; the integers readable and not negative.\<close>

definition good_integers :: "api_arg list \<Rightarrow> bool" where
  "good_integers args \<longleftrightarrow> (\<forall>v. AsBigInt v \<in> set args \<longrightarrow> (\<exists>n. js_bigint v = Inr n \<and> 0 \<le> n))"

definition good_call :: "contract_route \<Rightarrow> jsval \<times> stored_contract \<times> string \<times> api_arg list \<Rightarrow> bool" where
  "good_call r = (\<lambda>(source, c, fn, args). (\<exists>a. source = JStr a \<and> is_G_address a) \<and>
     (\<exists>rest. args = AsAddress source # rest) \<and> well_called c fn args \<and> (r \<noteq> RForceCancel \<longrightarrow> good_integers args))"

lemmas good_defs = good_call_def good_integers_def well_called_def entry_args_def

definition good_run :: "contract_route \<Rightarrow> (api_effect \<times> (js_error + jsval)) list \<Rightarrow> bool" where
  "good_run r tr \<longleftrightarrow> submits tr = [] \<or> (\<exists>call. submits tr = [call] \<and> good_call r call)"

text \<open>Programs that submit nothing, and programs that submit at most one good call.\<close>

definition silent :: "'r prog \<Rightarrow> bool" where
  "silent p \<longleftrightarrow> (\<forall>tr out. runs p tr out \<longrightarrow> submits tr = [])"

definition good_prog :: "contract_route \<Rightarrow> api_reply prog \<Rightarrow> bool" where
  "good_prog r p \<longleftrightarrow> (\<forall>tr out. runs p tr out \<longrightarrow> good_run r tr)"

definition quiet_effect :: "api_effect \<Rightarrow> bool" where
  "quiet_effect x = (case x of Submit s c f as \<Rightarrow> False | _ \<Rightarrow> True)"

lemma silentD: "silent p \<Longrightarrow> runs p tr out \<Longrightarrow> submits tr = []"
  by (auto simp: silent_def)

lemma good_progD: "good_prog r p \<Longrightarrow> runs p tr out \<Longrightarrow> good_run r tr"
  by (auto simp: good_prog_def)

lemma good_run_cong: "submits tr = submits tr' \<Longrightarrow> good_run r tr = good_run r tr'"
  by (simp add: good_run_def)

lemma silent_basic [intro]:
  "silent (reply st fs)" "silent (refuse st m)" "silent (success fs)" "silent (Raise e)" "silent (Done a)" "silent (to_text v)"
  by (auto simp: silent_def to_text_def)

lemma silent_if [intro]: "silent p \<Longrightarrow> silent q \<Longrightarrow> silent (if b then p else q)"
  by simp

lemma silent_perform [intro]: "quiet_effect x \<Longrightarrow> silent (perform x)"
  by (auto simp: silent_def runs_perform_iff quiet_effect_def split: api_effect.splits)

lemma silent_pbind [intro]: "silent p \<Longrightarrow> (\<And>a. silent (f a)) \<Longrightarrow> silent (pbind p f)"
  unfolding silent_def runs_pbind by fastforce

lemma silent_pcatch [intro]: "silent p \<Longrightarrow> (\<And>e. silent (h e)) \<Longrightarrow> silent (pcatch p h)"
proof (unfold silent_def [of "pcatch p h"], intro allI impI)
  fix tr out
  assume s: "silent p" "\<And>e. silent (h e)" and "runs (pcatch p h) tr out"
  from runs_pcatch [OF this(3)] show "submits tr = []"
  proof (elim disjE exE conjE)
    fix tr1 e tr2
    assume "runs p tr1 (Inl e)" "runs (h e) tr2 out" "tr = tr1 @ tr2"
    then show ?thesis using silentD [OF s(1)] silentD [OF s(2)] by (metis append_Nil submits_simps(3))
  qed (use silentD [OF s(1)] in blast)
qed

lemma silent_good [intro]: "silent p \<Longrightarrow> good_prog r p"
  by (auto simp: silent_def good_prog_def good_run_def)

lemma good_if: "(b \<Longrightarrow> good_prog r p) \<Longrightarrow> (\<not> b \<Longrightarrow> good_prog r q) \<Longrightarrow> good_prog r (if b then p else q)"
  by simp

lemma good_validated: "(list_all (chain_ok V rq) cs \<Longrightarrow> good_prog r p) \<Longrightarrow> good_prog r (validated V cs rq p)"
  by (auto simp: validated_def)

lemma good_submit:
  "good_call r (s, c, fn, args) \<Longrightarrow> (\<And>a. silent (f a)) \<Longrightarrow> good_prog r (pbind (perform (Submit s c fn args)) f)"
proof (unfold good_prog_def runs_pbind runs_perform_iff, intro allI impI, elim disjE exE conjE)
  fix tr out tr1 a tr2 v
  assume "good_call r (s, c, fn, args)" "\<And>a. silent (f a)" "runs (f a) tr2 out" "tr = tr1 @ tr2" "tr1 = [(Submit s c fn args, v)]"
  then show "good_run r tr" by (auto simp: good_run_def silent_def)
qed (simp add: good_run_def)

lemma good_after: "silent p \<Longrightarrow> (\<And>a. good_prog r (f a)) \<Longrightarrow> good_prog r (pbind p f)"
proof (unfold good_prog_def [of r "pbind p f"] runs_pbind, intro allI impI, elim disjE exE conjE)
  fix tr out tr1 a tr2
  assume "silent p" "\<And>a. good_prog r (f a)" "runs p tr1 (Inr a)" "runs (f a) tr2 out" "tr = tr1 @ tr2"
  then have "good_run r tr2" "submits tr = submits tr2" using good_progD silentD by (blast, fastforce)
  then show "good_run r tr" using good_run_cong by blast
qed (auto simp: good_run_def dest: silentD)

lemma good_audited: "good_prog r p \<Longrightarrow> good_prog r (audited H act rq p)"
  unfolding good_prog_def good_run_def by (metis audited_submits)

lemma quiet_effects [simp]:
  "quiet_effect (ReadContract c f as)" "quiet_effect (ReadMetadata k)" "quiet_effect (CacheGet k)" "quiet_effect (CacheSet k v)"
  "quiet_effect (CacheDrop k)" "quiet_effect (LogAdmin a b l h)" "quiet_effect (LogAudit a b i v)"
  by (simp_all add: quiet_effect_def)

lemmas silent_rules = silent_basic silent_if silent_pbind silent_pcatch silent_perform quiet_effects

lemmas good_rules = good_if good_validated good_submit good_audited silent_good silent_rules

lemma admin_call_good:
  assumes "\<And>a. list_all (chain_ok V rq) cs \<Longrightarrow> is_G_address a \<Longrightarrow> good_call r (JStr a, StreamContract, fn, AsAddress (JStr a) # args rq)"
    and "validator_ok V"
  shows "good_prog r (admin_call_route V cs fn args lg rq)"
  unfolding admin_call_route_def Let_def submit_stream_def
proof (intro good_rules)
  assume "list_all (chain_ok V rq) (address_check ''admin'' # cs)"
  then show "good_call r (body_of rq ''admin'', StreamContract, fn, AsAddress (body_of rq ''admin'') # args rq)"
    using assms(1) chain_address [OF assms(2), of rq "''admin''"] by auto
qed

lemma admin_routes_good:
  assumes "validator_ok V"
  shows "good_prog RInitialize (initialize_route V rq)"
    and "good_prog RPause (pause_contract_route V rq)"
    and "good_prog RSetMinDeposit (set_min_deposit_route V rq)"
  unfolding initialize_route_def pause_contract_route_def set_min_deposit_route_def
  by (rule admin_call_good [OF _ assms], use chain_int(1) [OF assms] chain_amount [OF assms] in \<open>auto simp: good_defs\<close>)+

lemma token_move_good:
  assumes "validator_ok V" "entry_args TokenContract fn = Some [KAddress, KAddress, KInteger]"
  shows "good_prog r (token_move_route V src fn rq)"
  unfolding token_move_route_def Let_def submit_token_def
proof (intro good_rules)
  assume "list_all (chain_ok V rq) [address_check src, address_check ''to'', amount_check ''amount'']"
  then show "good_call r (body_of rq src, TokenContract, fn,
      [AsAddress (body_of rq src), AsAddress (body_of rq ''to''), AsBigInt (body_of rq ''amount'')])"
    using assms chain_address [OF assms(1), of rq src] chain_amount [OF assms(1), of rq "''amount''"]
    by (auto simp: good_call_def good_integers_def well_called_def)
qed

lemma create_good:
  assumes "validator_ok V"
  shows "good_prog RCreate (create_stream_route V H rq)"
  unfolding create_stream_route_def Let_def submit_stream_def
proof (intro good_rules)
  let ?cs = "[address_check ''employer'', address_check ''employee'', body_check ''token_address'' [IsString, Matches is_C_address],
    amount_check ''deposit'', amount_check ''rate_per_second'', body_check ''stop_time'' [IsInt 0],
    body_check ''cooldown_period'' [IsInt 0], body_check ''cliff_time'' [IsInt 0]]"
  assume "list_all (chain_ok V rq) ?cs"
  then show "good_call RCreate (body_of rq ''employer'', StreamContract, ''create_stream'',
      [AsAddress (body_of rq ''employer''), AsAddress (body_of rq ''employee''), AsAddress (body_of rq ''token_address''),
       AsBigInt (body_of rq ''deposit''), AsBigInt (body_of rq ''rate_per_second''), AsIs (body_of rq ''stop_time''),
       AsIs (body_of rq ''cooldown_period''), AsIs (body_of rq ''cliff_time'')])"
    using chain_address [OF assms, of rq "''employer''"] chain_amount [OF assms, of rq "''deposit''"]
      chain_amount [OF assms, of rq "''rate_per_second''"]
    by (auto simp: good_defs)
qed

lemma withdraw_good:
  assumes "validator_ok V"
  shows "good_prog RWithdraw (withdraw_route V H rq)"
  unfolding withdraw_route_def Let_def submit_stream_def
proof (intro good_rules)
  assume "list_all (chain_ok V rq) [stream_id_check, address_check ''employee'']"
  then show "good_call RWithdraw (body_of rq ''employee'', StreamContract, ''withdraw'',
      [AsAddress (body_of rq ''employee''), AsBigInt (param_of rq ''stream_id'')])"
    using chain_address [OF assms, of rq "''employee''"] chain_int(2) [OF assms, of rq "''stream_id''" 1]
    by (auto simp: good_defs stream_id_check_def)
qed

lemma top_up_good:
  assumes "validator_ok V"
  shows "good_prog RTopUp (top_up_route V rq)"
  unfolding top_up_route_def Let_def submit_stream_def
proof (rule good_validated, rule good_if, rule silent_good, rule silent_basic, rule good_after, rule silent_perform,
    rule quiet_effects, intro good_rules)
  assume "list_all (chain_ok V rq) [stream_id_check, address_check ''employer'', body_check ''amount'' [IsString, Matches positive_digits]]"
  then show "good_call RTopUp (body_of rq ''employer'', StreamContract, ''top_up'',
      [AsAddress (body_of rq ''employer''), AsBigInt (param_of rq ''stream_id''), AsBigInt (body_of rq ''amount'')])"
    using chain_address [OF assms, of rq "''employer''"] chain_int(2) [OF assms, of rq "''stream_id''" 1]
      chain_positive [OF assms, of rq "''amount''"]
    by (auto simp: good_defs stream_id_check_def)
qed

lemma propose_good:
  assumes "validator_ok V"
  shows "good_prog RPropose (propose_route V rq)"
  unfolding propose_route_def Let_def submit_stream_def
proof (intro good_rules)
  assume "list_all (chain_ok V rq) [address_check ''proposer'', body_check ''param'' [IsIn (map fst paramMap)], body_check ''new_value'' [IsInt 0]]"
  then show "good_call RPropose (body_of rq ''proposer'', StreamContract, ''propose_parameter'',
      [AsAddress (body_of rq ''proposer''), AsIs (param_value (body_of rq ''param'')), AsBigInt (body_of rq ''new_value'')])"
    using chain_address [OF assms, of rq "''proposer''"] chain_int(1) [OF assms, of rq "''new_value''" 0]
    by (auto simp: good_defs)
qed

lemma vote_good:
  assumes "validator_ok V"
  shows "good_prog RVote (vote_route V rq)"
  unfolding vote_route_def Let_def submit_stream_def
proof (intro good_rules)
  assume "list_all (chain_ok V rq) [address_check ''voter'', body_check ''proposal_id'' [IsInt 1], body_check ''support'' [IsBoolean]]"
  then show "good_call RVote (body_of rq ''voter'', StreamContract, ''vote'',
      [AsAddress (body_of rq ''voter''), AsBigInt (body_of rq ''proposal_id''), AsIs (body_of rq ''support'')])"
    using chain_address [OF assms, of rq "''voter''"] chain_int(1) [OF assms, of rq "''proposal_id''" 1]
    by (auto simp: good_defs)
qed

lemma force_cancel_good:
  assumes "validator_ok V"
  shows "good_prog RForceCancel (force_cancel_route V rq)"
  unfolding force_cancel_route_def Let_def
proof (intro good_validated)
  let ?p = "pbind (submit_stream (body_of rq ''admin'') ''cancel_stream'' [AsAddress (body_of rq ''admin''), AsBigInt (param_of rq ''id'')])
    (\<lambda>r. Done (tx_field r ''hash''))"
  let ?f = "\<lambda>hash. pbind (perform (LogAdmin (body_of rq ''admin'') ''force_cancel_stream''
    [(''stream_id'', param_of rq ''id''), (''reason'', body_of rq ''reason'')] hash))
    (\<lambda>_. success [(''data'', JObj [(''stream_id'', param_of rq ''id''), (''cancelled'', JBool True), (''transaction_hash'', hash)])])"
  assume "list_all (chain_ok V rq) [param_check ''id'' [IsString, NotEmpty], address_check ''admin'', body_optional ''reason'' [IsString]]"
  then have c: "good_call RForceCancel (body_of rq ''admin'', StreamContract, ''cancel_stream'',
      [AsAddress (body_of rq ''admin''), AsBigInt (param_of rq ''id'')])"
    using chain_address [OF assms, of rq "''admin''"] by (auto simp: good_defs)
  have one: "submits tr = [(body_of rq ''admin'', StreamContract, ''cancel_stream'', [AsAddress (body_of rq ''admin''), AsBigInt (param_of rq ''id'')])]"
    if "runs (pcatch ?p (\<lambda>_. Done JNull)) tr out" for tr out
    using runs_pcatch [OF that] by (auto simp: submit_stream_def runs_pbind runs_perform_iff)
  have f: "silent (?f h)" for h by (intro silent_rules)
  show "good_prog RForceCancel (pbind (pcatch ?p (\<lambda>_. Done JNull)) ?f)"
  proof (unfold good_prog_def, intro allI impI)
    fix tr out
    assume "runs (pbind (pcatch ?p (\<lambda>_. Done JNull)) ?f) tr out"
    from this [unfolded runs_pbind [of "pcatch ?p (\<lambda>_. Done JNull)" ?f]]
    consider e where "runs (pcatch ?p (\<lambda>_. Done JNull)) tr (Inl e)"
      | tr1 h tr2 where "runs (pcatch ?p (\<lambda>_. Done JNull)) tr1 (Inr h)" "runs (?f h) tr2 out" "tr = tr1 @ tr2"
      by blast
    then show "good_run RForceCancel tr"
    proof cases
      case 1
      then show ?thesis using one c by (auto simp: good_run_def)
    next
      case 2
      then show ?thesis using one [OF 2(1)] c silentD [OF f 2(2)] by (simp add: good_run_def)
    qed
  qed
qed

lemma read_routes_silent:
  "silent (get_stream_route V rq)" "silent (stream_count_route rq)" "silent (claimable_route V rq)" "silent (total_supply_route rq)"
  "silent (token_balance_route V rq)" "silent (token_metadata_route V rq)" "silent (proposal_route V rq)"
  unfolding get_stream_route_def stream_count_route_def claimable_route_def total_supply_route_def token_balance_route_def
    token_metadata_route_def proposal_route_def validated_def Let_def
  by (intro silent_rules)+

section \<open>Properties\<close>


text \<open>A validator with the documented behaviour of the checks that are used, and a withdrawal that runs through it.\<close>

definition sample_validator :: validator where
  "sample_validator = \<lparr>v_passes = (\<lambda>k v. case k of
       IsString \<Rightarrow> (case v of JStr _ \<Rightarrow> True | _ \<Rightarrow> False)
     | Matches p \<Rightarrow> (case v of JStr s \<Rightarrow> p s | _ \<Rightarrow> False)
     | IsInt m \<Rightarrow> (case js_bigint v of Inr n \<Rightarrow> m \<le> n | Inl _ \<Rightarrow> False)
     | IsBoolean \<Rightarrow> (case v of JBool _ \<Rightarrow> True | _ \<Rightarrow> False)
     | NotEmpty \<Rightarrow> v \<noteq> JStr ''''
     | IsIn xs \<Rightarrow> (case v of JStr s \<Rightarrow> s \<in> set xs | _ \<Rightarrow> False)
     | IsObject \<Rightarrow> (case v of JObj _ \<Rightarrow> True | _ \<Rightarrow> False)
     | _ \<Rightarrow> False), v_details = (\<lambda>cs rq. JArr [])\<rparr>"

lemma sample_validator_ok: "validator_ok sample_validator"
  by (auto simp: validator_ok_def sample_validator_def split: jsval.splits sum.splits)

definition sample_account :: string where
  "sample_account = CHR ''G'' # replicate 55 (CHR ''A'')"

definition sample_request :: api_request where
  "sample_request = \<lparr>ar_params = [(''stream_id'', ''7'')], ar_query = [], ar_body = [(''employee'', JStr sample_account)],
     ar_stellarAddress = None, ar_apiKey = None\<rparr>"

lemma sample_withdraw_runs:
  "runs (route sample_validator H RWithdraw sample_request)
    [(Submit (JStr sample_account) StreamContract ''withdraw'' [AsAddress (JStr sample_account), AsBigInt (JStr ''7'')],
       Inr (JObj [(''hash'', JStr ''h''), (''result'', JBig 5)])),
     (CacheDrop ''7'', Inr JNull),
     (LogAudit (JStr sample_account) ''withdraw'' (JStr ''7'')
       (JObj [(''success'', JBool True), (''amount_withdrawn'', JStr ''5''), (''transaction_hash'', JStr ''h'')]), Inr JNull)]
    (Inr (200, JObj [(''success'', JBool True), (''amount_withdrawn'', JStr ''5''), (''transaction_hash'', JStr ''h'')]))"
proof -
  let ?A = "JStr sample_account"
  have a: "is_G_address sample_account" "validateAddress ?A" "sample_account \<noteq> []"
    by (simp_all add: is_G_address_def sample_account_def is_upper_alnum_def starts_with_def is_key_char_def key_in_range_def list_all_iff Let_def)
  have b: "body_of sample_request ''employee'' = ?A" "param_of sample_request ''stream_id'' = JStr ''7''" "body_of sample_request ''employer'' = JUndef"
    "ar_stellarAddress sample_request = None" "id_text sample_request = ''7''"
    by (simp_all add: sample_request_def body_of_def param_of_def id_text_def)
  have seven: "js_bigint (JStr ''7'') = Inr 7"
    by (simp add: bigint_of_string_def trim_def is_space_def all_digits_def is_digit_def digit_val_def)
  have v: "chain_ok sample_validator sample_request stream_id_check" "chain_ok sample_validator sample_request (address_check ''employee'')"
    using a b seven by (simp_all add: chain_ok_def stream_id_check_def address_check_def body_check_def param_check_def sample_validator_def)
  have five: "show_dec 5 = ''5''" by (subst show_dec.simps) (simp add: digit_char_def char_of_def)
  show ?thesis
    using a b v five by (simp add: withdraw_route_def audited_def validated_def submit_stream_def perform_def to_text_def success_def reply_def
      tx_field_def or_value_def show_int_def digit_char_def Let_def)
qed


section \<open>What the routes do not do\<close>

text \<open>A token contract of the network, of 56 characters, is refused: no stream can be created for it.\<close>

lemma create_refuses_real_tokens:
  assumes "validator_ok V" "body_of rq ''token_address'' = JStr t" "length t = 56" "runs (create_stream_route V H rq) tr out"
  shows "submits tr = []"
proof -
  have "silent (create_stream_route V H rq)"
  proof -
    have "\<not> list_all (chain_ok V rq) [body_check ''token_address'' [IsString, Matches is_C_address]]"
      using chain_text [OF assms(1), of rq "''token_address''" is_C_address] assms(2,3) by (auto simp: is_C_address_def)
    then show ?thesis
      unfolding create_stream_route_def audited_def validated_def
      by (auto intro!: silent_rules simp: silent_def [of "Perform x f" for x f])
  qed
  then show ?thesis using silentD assms(4) by blast
qed

text \<open>A forced cancellation whose transaction fails is logged and answered as done.\<close>

lemma failed_cancel_reported_as_done:
  assumes "list_all (chain_ok V rq) [param_check ''id'' [IsString, NotEmpty], address_check ''admin'', body_optional ''reason'' [IsString]]"
  shows "runs (force_cancel_route V rq)
    [(Submit (body_of rq ''admin'') StreamContract ''cancel_stream'' [AsAddress (body_of rq ''admin''), AsBigInt (param_of rq ''id'')], Inl e),
     (LogAdmin (body_of rq ''admin'') ''force_cancel_stream'' [(''stream_id'', param_of rq ''id''), (''reason'', body_of rq ''reason'')] JNull, Inr v)]
    (Inr (200, JObj [(''success'', JBool True),
      (''data'', JObj [(''stream_id'', param_of rq ''id''), (''cancelled'', JBool True), (''transaction_hash'', JNull)])]))"
  using assms by (simp add: force_cancel_route_def validated_def submit_stream_def perform_def success_def reply_def Let_def)

text \<open>A withdrawal or a top-up is answered as done only after the stream was taken out of the cache.\<close>

lemma top_up_drops_cache:
  assumes "runs (top_up_route V rq) tr (Inr (200, b))"
  shows "\<exists>tr1 s as res v. tr = tr1 @ [(Submit s StreamContract ''top_up'' as, Inr res), (CacheDrop (id_text rq), Inr v)]"
  using assms by (auto simp: top_up_route_def submit_stream_def run_rules split: if_splits)

section \<open>Which route answers\<close>

text \<open>Express takes the first route whose method and path match; a parameter matches any segment. These are the paths
  of \<^verbatim>\<open>api/routes/streams.js\<close>, in order.\<close>

datatype segment = Lit string | Par string

fun path_matches :: "segment list \<Rightarrow> string list \<Rightarrow> bool" where
  "path_matches [] [] = True"
| "path_matches (Lit s # ps) (x # xs) = (s = x \<and> path_matches ps xs)"
| "path_matches (Par n # ps) (x # xs) = path_matches ps xs"
| "path_matches _ _ = False"

definition stream_routes :: "(string \<times> segment list) list" where
  "stream_routes =
     [(''POST'', [Lit ''wizard'', Lit ''preview'']), (''POST'', [Lit ''approvals'']),
      (''POST'', [Lit ''approvals'', Par ''id'', Lit ''approve'']), (''POST'', [Lit ''approvals'', Par ''id'', Lit ''reject'']),
      (''POST'', [Lit ''approvals'', Par ''id'', Lit ''override'']), (''POST'', [Lit ''create'']),
      (''GET'', [Par ''stream_id'']), (''GET'', [Lit ''count'']), (''GET'', [Par ''stream_id'', Lit ''claimable'']),
      (''POST'', [Par ''stream_id'', Lit ''withdraw'']), (''GET'', [Lit ''cache-metrics'']), (''POST'', [Par ''stream_id'', Lit ''top-up''])]"

definition dispatch :: "(string \<times> segment list) list \<Rightarrow> string \<Rightarrow> string list \<Rightarrow> (string \<times> segment list) option" where
  "dispatch rs m path = find (\<lambda>(m', ps). m' = m \<and> path_matches ps path) rs"

lemma count_route_shadowed:
  "dispatch stream_routes ''GET'' [''count''] = Some (''GET'', [Par ''stream_id''])"
  "dispatch stream_routes ''GET'' [''cache-metrics''] = Some (''GET'', [Par ''stream_id''])"
  by (simp_all add: dispatch_def stream_routes_def)

text \<open>That route reads the text as an identifier and refuses it.\<close>

lemma count_answered_400:
  assumes "validator_ok V" "jsget (ar_params rq) ''stream_id'' = Some ''count''" "runs (get_stream_route V rq) tr out"
  shows "tr = [] \<and> (\<exists>b. out = Inr (400, b))"
proof -
  have "js_bigint (param_of rq ''stream_id'') = Inl (SyntaxError ''Cannot convert count to a BigInt'')"
    using assms(2) by (simp add: param_of_def bigint_of_string_def trim_def is_space_def all_digits_def is_digit_def digit_val_def
      radix_literal_def Let_def)
  then have "\<not> chain_ok V rq stream_id_check" using chain_int(2) [OF assms(1), of rq "''stream_id''" 1] by (auto simp: stream_id_check_def)
  then show ?thesis using assms(3) by (simp add: get_stream_route_def runs_validated)
qed

end
