(* ===== verification/Api_Templates_Props.thy ===== *)
theory Api_Templates_Props
  imports Api_Templates Api_Routes_Props
begin

text \<open>
  Who may see and change a stream template: calls of the routes in any order, by any callers.
\<close>

section \<open>Calls\<close>

datatype template_call =
    TCreate string string api_request
  | TFromStream string string api_request
  | TList api_request
  | TGet api_request
  | TPatch string api_request
  | TDelete api_request
  | TShare string api_request

primrec call_request :: "template_call \<Rightarrow> api_request" where
  "call_request (TCreate stamp i rq) = rq"
| "call_request (TFromStream stamp i rq) = rq"
| "call_request (TList rq) = rq"
| "call_request (TGet rq) = rq"
| "call_request (TPatch stamp rq) = rq"
| "call_request (TDelete rq) = rq"
| "call_request (TShare stamp rq) = rq"

text \<open>The identifier a call draws.\<close>

primrec call_draws :: "template_call \<Rightarrow> string option" where
  "call_draws (TCreate stamp i rq) = Some i"
| "call_draws (TFromStream stamp i rq) = Some i"
| "call_draws (TList rq) = None"
| "call_draws (TGet rq) = None"
| "call_draws (TPatch stamp rq) = None"
| "call_draws (TDelete rq) = None"
| "call_draws (TShare stamp rq) = None"

primrec template_exec :: "validator \<Rightarrow> template_call \<Rightarrow> templates \<Rightarrow> api_reply \<times> templates" where
  "template_exec V (TCreate stamp i rq) T = template_create_route V stamp i rq T"
| "template_exec V (TFromStream stamp i rq) T = template_from_stream_route V stamp i rq T"
| "template_exec V (TList rq) T = template_list_route rq T"
| "template_exec V (TGet rq) T = template_get_route V rq T"
| "template_exec V (TPatch stamp rq) T = template_patch_route V stamp rq T"
| "template_exec V (TDelete rq) T = template_delete_route V rq T"
| "template_exec V (TShare stamp rq) T = template_share_route V stamp rq T"

definition template_calls :: "validator \<Rightarrow> template_call list \<Rightarrow> templates \<Rightarrow> templates" where
  "template_calls V cs T = fold (\<lambda>c T. snd (template_exec V c T)) cs T"

lemmas template_route_defs = template_create_route_def template_from_stream_route_def template_list_route_def
  template_get_route_def template_patch_route_def template_delete_route_def template_share_route_def

lemmas template_service_defs = tmpl_create_def tmpl_createFromStream_def tmpl_update_def tmpl_remove_def tmpl_share_def
  tmpl_get_def Let_def

text \<open>What a caller may do to a stored template: nothing, unless it is his and not a default one.\<close>

lemma checked_snd: "snd (checked V cs rq r T) = (if list_all (chain_ok V rq) cs then snd r else T)"
  by (simp add: checked_def)

lemma template_answer_snd [simp]: "snd (template_answer msg r) = snd r"
  by (simp add: template_answer_def split: prod.splits option.splits)

lemma service_keeps:
  assumes "jsget T i = Some t" "\<not> tmpl_editable u t"
  shows "jsget (snd (tmpl_update stamp k u a b c T)) i = Some t"
    and "jsget (snd (tmpl_remove k u T)) i = Some t"
    and "jsget (snd (tmpl_share stamp k u s T)) i = Some t"
  using assms by (auto simp: template_service_defs split: option.splits)

lemma call_keeps:
  assumes t: "jsget T i = Some t" and d: "call_draws c \<noteq> Some i" and u: "\<not> tmpl_editable (request_owner (call_request c)) t"
  shows "jsget (snd (template_exec V c T)) i = Some t"
proof (cases c)
  case (TCreate stamp k rq)
  then show ?thesis using t d by (auto simp: template_route_defs checked_snd template_service_defs)
next
  case (TFromStream stamp k rq)
  then show ?thesis using t d by (auto simp: template_route_defs checked_snd template_service_defs)
next
  case (TDelete rq)
  have "snd (template_exec V c T) = (if list_all (chain_ok V rq) [uuid_check] then snd (tmpl_remove (id_of rq) (request_owner rq) T) else T)"
    unfolding TDelete by (simp add: template_route_defs checked_snd split: prod.splits bool.splits)
  then show ?thesis using t u service_keeps(2) TDelete by simp
qed (use t u in \<open>simp_all add: template_route_defs checked_snd service_keeps\<close>)

lemma calls_keep:
  assumes "jsget T i = Some t"
    and "\<And>c. c \<in> set cs \<Longrightarrow> call_draws c \<noteq> Some i \<and> \<not> tmpl_editable (request_owner (call_request c)) t"
  shows "jsget (template_calls V cs T) i = Some t"
  using assms
proof (induction cs arbitrary: T)
  case (Cons c cs)
  then have "jsget (snd (template_exec V c T)) i = Some t" using call_keeps by simp
  then show ?case using Cons by (simp add: template_calls_def)
qed (simp add: template_calls_def)

text \<open>A template the caller cannot see is answered like one that does not exist.\<close>

lemma hidden_get:
  assumes "jsget T (id_of rq) = Some t" "\<not> tmpl_visible (request_owner rq) t"
  shows "fst (fst (template_get_route V rq T)) \<in> {400, 404}"
    and "t \<notin> set (tmpl_list (request_owner rq) T)"
    and "runs (template_stream_route V rq T) tr out \<Longrightarrow> tr = []"
proof -
  have n: "tmpl_get (id_of rq) (request_owner rq) T = None" using assms by (simp add: tmpl_get_def)
  then show "fst (fst (template_get_route V rq T)) \<in> {400, 404}"
    by (simp add: template_get_route_def checked_def template_answer_def json_error_def)
  show "t \<notin> set (tmpl_list (request_owner rq) T)" using assms by (simp add: tmpl_list_def)
  show "runs (template_stream_route V rq T) tr out \<Longrightarrow> tr = []"
    using n by (auto simp: template_stream_route_def runs_validated split: if_splits)
qed

section \<open>Ownership\<close>

text \<open>C36: Only its owner changes a stream template: calls of the template routes by other callers, in any number and
  order, leave it as it is, and a default template is left by all calls (identifiers of new templates being fresh).
  While it is not shared, another caller who asks for it is answered 400 or 404, does not find it in his list, and
  gets no stream created from it.\<close>

theorem templates_owner_controlled:
  assumes "jsget T i = Some t"
    and "list_all (\<lambda>c. call_draws c \<noteq> Some i) cs"
    and "tm_isDefault t \<or> list_all (\<lambda>c. request_owner (call_request c) \<noteq> tm_ownerId t) cs"
  shows "jsget (template_calls V cs T) i = Some t \<and>
    (id_of rq = i \<and> request_owner rq \<noteq> tm_ownerId t \<and> \<not> truthy (tm_shared t) \<longrightarrow>
      fst (fst (template_get_route V rq (template_calls V cs T))) \<in> {400, 404} \<and>
      t \<notin> set (tmpl_list (request_owner rq) (template_calls V cs T)) \<and>
      (\<forall>tr out. runs (template_stream_route V rq (template_calls V cs T)) tr out \<longrightarrow> tr = []))"
proof (intro conjI impI)
  show k: "jsget (template_calls V cs T) i = Some t"
    using assms by (intro calls_keep) (auto simp: list_all_iff tmpl_editable_def)
  assume "id_of rq = i \<and> request_owner rq \<noteq> tm_ownerId t \<and> \<not> truthy (tm_shared t)"
  then have h: "jsget (template_calls V cs T) (id_of rq) = Some t" "\<not> tmpl_visible (request_owner rq) t"
    using k by (auto simp: tmpl_visible_def)
  show "fst (fst (template_get_route V rq (template_calls V cs T))) \<in> {400, 404}"
    and "t \<notin> set (tmpl_list (request_owner rq) (template_calls V cs T))"
    and "\<forall>tr out. runs (template_stream_route V rq (template_calls V cs T)) tr out \<longrightarrow> tr = []"
    by (intro allI impI hidden_get [OF h])+
qed

definition sample_template :: template where
  "sample_template = \<lparr>tm_id = ''t1'', tm_ownerId = ''alice'', tm_name = JStr ''Mine'', tm_params = JObj [], tm_shared = JBool False,
     tm_isDefault = False, tm_createdAt = ''d'', tm_updatedAt = ''d''\<rparr>"

definition request_by :: "string \<Rightarrow> api_request" where
  "request_by who = \<lparr>ar_params = [(''id'', ''t1'')], ar_query = [], ar_body = [(''shared'', JBool True)],
     ar_stellarAddress = Some who, ar_apiKey = None\<rparr>"

theorem templates_owner_controlled_witness:
  "jsget (template_calls sample_validator [TShare ''d2'' (request_by ''bob''), TDelete (request_by ''bob'')] [(''t1'', sample_template)]) ''t1''
     = Some sample_template \<and>
   fst (fst (template_get_route sample_validator (request_by ''bob'')
     (template_calls sample_validator [TShare ''d2'' (request_by ''bob''), TDelete (request_by ''bob'')] [(''t1'', sample_template)]))) \<in> {400, 404}"
proof -
  let ?T = "[(''t1'', sample_template)]" and ?cs = "[TShare ''d2'' (request_by ''bob''), TDelete (request_by ''bob'')]"
  have h: "jsget ?T ''t1'' = Some sample_template" "list_all (\<lambda>c. call_draws c \<noteq> Some ''t1'') ?cs"
    "tm_isDefault sample_template \<or> list_all (\<lambda>c. request_owner (call_request c) \<noteq> tm_ownerId sample_template) ?cs"
    by (simp_all add: sample_template_def request_by_def request_owner_def)
  have r: "id_of (request_by ''bob'') = ''t1'' \<and> request_owner (request_by ''bob'') \<noteq> tm_ownerId sample_template \<and> \<not> truthy (tm_shared sample_template)"
    by (simp add: sample_template_def request_by_def request_owner_def id_of_def param_of_def)
  show ?thesis
    using templates_owner_controlled [OF h, where V = sample_validator] r by blast
qed

section \<open>What templates do not protect\<close>

text \<open>The owner of a template created with an API key is the key itself; when the template is shared, everybody who
  reads it is given the key.\<close>

lemma shared_template_shows_key:
  assumes "ar_stellarAddress rq = None" "ar_apiKey rq = Some k" "k \<noteq> ''''"
    and "template_create_route V stamp i rq T = ((201, b), T')" "body_of rq ''shared'' = JBool True"
    and "id_of rq' = i" "chain_ok V rq' uuid_check"
  shows "\<exists>fs. template_get_route V rq' T' = ((200, JObj [(''success'', JBool True), (''template'', JObj fs)]), T') \<and> (''ownerId'', JStr k) \<in> set fs"
  using assms
  by (auto simp: template_create_route_def template_get_route_def checked_def tmpl_create_def tmpl_get_def tmpl_visible_def
      request_owner_def template_answer_def json_ok_def template_json_def Let_def split: if_splits)

text \<open>The boolean check also passes the text \<^verbatim>\<open>"false"\<close>, which is stored as it is and counts as true: taking back
  the sharing with it shares the template.\<close>

lemma text_false_shares:
  assumes "jsget T i = Some t" "tmpl_editable u t"
  shows "tmpl_visible other (the (fst (tmpl_share stamp i u (JStr ''false'') T)))"
  using assms by (simp add: tmpl_share_def tmpl_visible_def Let_def)

section \<open>The wizard preview\<close>

text \<open>A valid preview has a well-formed recipient, a token, and a positive amount within the balance.\<close>

lemma preview_valid:
  assumes "wp_valid (buildStreamWizardPreview rq)"
  shows "is_G_address (js_string (body_of rq ''recipient''))" "truthy (body_of rq ''token'')"
    and "\<not> js_le (number_or_zero (body_of rq ''amount'')) (Fin 0)"
    and "\<not> js_less (number_or_zero (body_of rq ''balance'')) (number_or_zero (body_of rq ''amount''))"
    and "\<not> js_le (duration_days rq) (Fin 0)"
  using assms by (auto simp: buildStreamWizardPreview_def wizard_errors_def Let_def split: if_splits)

end
