(* ===== verification/Api_Access.thy ===== *)
theory Api_Access
  imports Api_Templates
begin

text \<open>
  Access to the API: the authentication middleware (\<^verbatim>\<open>api/middleware/auth.js\<close>) and the routes over API keys
  (\<^verbatim>\<open>api/routes/apiKeys.js\<close>). The check of a JSON web token is a parameter that gives the subject of its
  payload; the hash of a key is one too.
\<close>

section \<open>Authentication\<close>

record access_request =
  ac_authorization :: "string option"
  ac_apiKey :: "string option"

datatype access =
    Admitted "string option" "(string \<times> key_meta) option"
  | Denied int string string

definition bearer :: "access_request \<Rightarrow> string option" where
  "bearer rq =
     (case ac_authorization rq of
        Some h \<Rightarrow> if starts_with ''Bearer '' h then Some (drop 7 h) else None
      | None \<Rightarrow> None)"

definition raw_key :: "access_request \<Rightarrow> string option" where
  "raw_key rq = (case ac_apiKey rq of Some k \<Rightarrow> if k = '''' then None else Some k | None \<Rightarrow> None)"

definition key_access :: "(string \<Rightarrow> string) \<Rightarrow> string \<Rightarrow> int \<Rightarrow> string \<Rightarrow> key_store \<Rightarrow> access \<times> key_store" where
  "key_access hashKey stamp now raw K =
     (case validateKey hashKey stamp raw K of
        (None, K1) \<Rightarrow> (Denied 401 ''Invalid or revoked API key'' ''INVALID_API_KEY'', K1)
      | (Some m, K1) \<Rightarrow>
          (case checkRateLimit now (hashKey raw) K1 of
             (ok, K2) \<Rightarrow>
               (if ok then Admitted None (Some (raw, m))
                else Denied 429 ''API key rate limit exceeded'' ''RATE_LIMIT_EXCEEDED'', K2)))"

definition authMiddleware ::
  "(string \<Rightarrow> js_error + string option) \<Rightarrow> (string \<Rightarrow> string) \<Rightarrow> string \<Rightarrow> int \<Rightarrow> access_request \<Rightarrow> key_store \<Rightarrow> access \<times> key_store" where
  "authMiddleware verify hashKey stamp now rq K =
     (case bearer rq of
        Some t \<Rightarrow>
          (case verify t of
             Inr sub \<Rightarrow> (Admitted sub None, K)
           | Inl _ \<Rightarrow> (Denied 401 ''Invalid or expired JWT'' ''INVALID_JWT'', K))
      | None \<Rightarrow>
          (case raw_key rq of
             Some raw \<Rightarrow> key_access hashKey stamp now raw K
           | None \<Rightarrow> (Denied 401 ''Authentication required. Use Bearer <jwt> or X-API-Key header.'' ''MISSING_AUTH'', K)))"

section \<open>Routes over API keys\<close>

definition optional_json :: "string \<Rightarrow> string option \<Rightarrow> (string \<times> jsval) list" where
  "optional_json k v = (case v of Some s \<Rightarrow> [(k, JStr s)] | None \<Rightarrow> [])"

definition limit_json :: "rate_limit \<Rightarrow> jsval" where
  "limit_json l = JObj [(''windowMs'', JNum (jsint (windowMs l))), (''max'', JNum (jsint (rl_max l)))]"

definition key_json :: "key_info \<Rightarrow> jsval" where
  "key_json k = JObj
     ([(''id'', JStr (k_id k)), (''name'', JStr (k_name k)), (''ownerId'', JStr (k_ownerId k)), (''rateLimit'', limit_json (k_rateLimit k)),
       (''revoked'', JBool (k_revoked k)), (''createdAt'', JStr (k_createdAt k)),
       (''lastUsedAt'', case k_lastUsedAt k of Some s \<Rightarrow> JStr s | None \<Rightarrow> JNull)] @
      optional_json ''rotatedFrom'' (k_rotatedFrom k) @ optional_json ''revokedAt'' (k_revokedAt k))"

definition KEY_WARNING :: string where
  "KEY_WARNING = ''Store this key securely '' @ [CHR 0xE2, CHR 0x80, CHR 0x94] @ '' it will not be shown again.''"

definition key_list_route :: "api_request \<Rightarrow> key_store \<Rightarrow> api_reply \<times> key_store" where
  "key_list_route rq K = (json_ok 200 [(''keys'', JArr (map key_json (listKeys (request_owner rq) K)))], K)"

definition key_rotate_route ::
  "validator \<Rightarrow> (string \<Rightarrow> string) \<Rightarrow> string \<Rightarrow> string \<Rightarrow> string \<Rightarrow> api_request \<Rightarrow> key_store \<Rightarrow> api_reply \<times> key_store" where
  "key_rotate_route V hashKey random_hex uuid stamp rq K =
     checked V [uuid_check, body_check ''currentKey'' [IsString, NotEmpty]] rq
       (case rotateKey hashKey random_hex uuid stamp (js_string (body_of rq ''currentKey'')) K of
          (Inr (raw, i), K') \<Rightarrow> (json_ok 200 [(''key'', JStr raw), (''id'', JStr i), (''warning'', JStr KEY_WARNING)], K')
        | (Inl e, K') \<Rightarrow> (json_error 400 (errMsg e), K')) K"

definition key_revoke_route :: "validator \<Rightarrow> string \<Rightarrow> api_request \<Rightarrow> key_store \<Rightarrow> api_reply \<times> key_store" where
  "key_revoke_route V stamp rq K =
     checked V [uuid_check] rq
       (case revokeById (id_of rq) stamp K of
          (False, K') \<Rightarrow> (json_error 404 ''Key not found'', K')
        | (True, K') \<Rightarrow> (json_ok 200 [(''message'', JStr ''Key revoked'')], K')) K"

definition key_usage_route :: "validator \<Rightarrow> api_request \<Rightarrow> key_store \<Rightarrow> api_reply \<times> key_store" where
  "key_usage_route V rq K =
     checked V [uuid_check] rq
       (case getUsage (id_of rq) K of
          None \<Rightarrow> (json_error 404 ''Key not found'', K)
        | Some (i, n, start, used) \<Rightarrow>
            (json_ok 200 [(''usage'', JObj
               [(''id'', JStr i), (''count'', JNum (jsint n)), (''windowStart'', case start of Some t \<Rightarrow> JNum (jsint t) | None \<Rightarrow> JNull),
                (''lastUsedAt'', case used of Some s \<Rightarrow> JStr s | None \<Rightarrow> JNull)])], K)) K"

section \<open>Admission\<close>

text \<open>Requests one after the other, each with its time: what every request is answered.\<close>

primrec auth_run ::
  "(string \<Rightarrow> js_error + string option) \<Rightarrow> (string \<Rightarrow> string) \<Rightarrow> (int \<Rightarrow> string) \<Rightarrow> (int \<times> access_request) list \<Rightarrow> key_store \<Rightarrow> access list" where
  "auth_run verify hashKey iso8601 [] K = []"
| "auth_run verify hashKey iso8601 (x # xs) K =
     (case authMiddleware verify hashKey (iso8601 (fst x)) (fst x) (snd x) K of (a, K') \<Rightarrow> a # auth_run verify hashKey iso8601 xs K')"

definition uses_key :: "string \<Rightarrow> access_request \<Rightarrow> bool" where
  "uses_key raw rq = (bearer rq = None \<and> raw_key rq = Some raw)"

fun admitted :: "access \<Rightarrow> bool" where
  "admitted (Admitted a m) = True"
| "admitted (Denied c e d) = False"

text \<open>How requests change the entry of a key: its own requests count, others leave it alone.\<close>

definition key_state :: "(string \<Rightarrow> string) \<Rightarrow> string \<Rightarrow> rate_limit \<Rightarrow> key_usage \<Rightarrow> key_store \<Rightarrow> bool" where
  "key_state hashKey raw l u K \<longleftrightarrow>
     (\<exists>m. jsget (keys K) (hashKey raw) = Some m \<and> \<not> k_revoked m \<and> k_rateLimit m = l) \<and> jsget (usage K) (hashKey raw) = Some u"

lemma other_keeps:
  assumes "\<not> uses_key raw rq" "\<And>raw'. hashKey raw' = hashKey raw \<Longrightarrow> raw' = raw" "key_state hashKey raw l u K"
  shows "key_state hashKey raw l u (snd (authMiddleware verify hashKey stamp now rq K))"
proof (cases "bearer rq")
  case None
  then have "raw_key rq \<noteq> Some raw" using assms(1) by (simp add: uses_key_def)
  then have "\<And>raw'. raw_key rq = Some raw' \<Longrightarrow> hashKey raw \<noteq> hashKey raw'" using assms(2) by metis
  then show ?thesis
    using None assms(3)
    by (auto simp: authMiddleware_def key_access_def validateKey_def checkRateLimit_def key_state_def Let_def
        split: option.splits if_splits)
qed (use assms(3) in \<open>simp add: authMiddleware_def split: sum.splits\<close>)

lemma own_step:
  assumes "uses_key raw rq" "starts_with KEY_PREFIX raw" "key_state hashKey raw l u K" "now - us_windowStart u \<le> windowMs l"
  shows "admitted (fst (authMiddleware verify hashKey stamp now rq K)) = (us_count u + 1 \<le> rl_max l)"
    and "key_state hashKey raw l (u\<lparr>us_count := us_count u + 1\<rparr>) (snd (authMiddleware verify hashKey stamp now rq K))"
  using assms
  by (auto simp: authMiddleware_def key_access_def validateKey_def checkRateLimit_def key_state_def uses_key_def KEY_PREFIX_def
      starts_with_def Let_def split: option.splits if_splits)

lemma counted_run:
  assumes "\<And>raw'. hashKey raw' = hashKey raw \<Longrightarrow> raw' = raw" "starts_with KEY_PREFIX raw" "key_state hashKey raw l u K"
    and "list_all (\<lambda>x. fst x - us_windowStart u \<le> windowMs l) xs"
  shows "map (admitted \<circ> snd) (filter (uses_key raw \<circ> snd \<circ> fst) (zip xs (auth_run verify hashKey iso8601 xs K))) =
    map (\<lambda>j. us_count u + int j + 1 \<le> rl_max l) [0..<length (filter (uses_key raw \<circ> snd) xs)]"
  using assms(3, 4)
proof (induction xs arbitrary: K u)
  case (Cons x xs)
  obtain t rq where x: "x = (t, rq)" by (cases x)
  obtain a K' where s: "authMiddleware verify hashKey (iso8601 t) t rq K = (a, K')" by force
  show ?case
  proof (cases "uses_key raw rq")
    case False
    then have "key_state hashKey raw l u K'" using other_keeps [OF False assms(1) Cons.prems(1), of verify "iso8601 t" t] s by simp
    then show ?thesis using Cons.IH [of u K'] Cons.prems(2) False x s by simp
  next
    case True
    let ?u = "u\<lparr>us_count := us_count u + 1\<rparr>"
    have o: "admitted a = (us_count u + 1 \<le> rl_max l)" "key_state hashKey raw l ?u K'"
      using own_step [OF True assms(2) Cons.prems(1), of t verify "iso8601 t"] Cons.prems(2) x s by auto
    show ?thesis using Cons.IH [OF o(2)] Cons.prems(2) True x s o(1)
      by (simp add: upt_Suc_map comp_def algebra_simps del: upt_Suc)
  qed
qed simp

text \<open>A revoked key stays refused.\<close>

definition key_revoked :: "string \<Rightarrow> key_store \<Rightarrow> bool" where
  "key_revoked h K \<longleftrightarrow> (case jsget (keys K) h of Some m \<Rightarrow> k_revoked m | None \<Rightarrow> True)"

lemma revoked_kept: "key_revoked h K \<Longrightarrow> key_revoked h (snd (authMiddleware verify hashKey stamp now rq K))"
  by (auto simp: authMiddleware_def key_access_def validateKey_def checkRateLimit_def key_revoked_def Let_def
      split: option.splits if_splits sum.splits)

lemma revoked_denied:
  "key_revoked (hashKey raw) K \<Longrightarrow> uses_key raw rq \<Longrightarrow>
    fst (authMiddleware verify hashKey stamp now rq K) = Denied 401 ''Invalid or revoked API key'' ''INVALID_API_KEY''"
  by (auto simp: authMiddleware_def key_access_def validateKey_def key_revoked_def uses_key_def Let_def split: option.splits if_splits)

lemma revoked_run:
  "key_revoked (hashKey raw) K \<Longrightarrow> (x, a) \<in> set (zip xs (auth_run verify hashKey iso8601 xs K)) \<Longrightarrow> uses_key raw (snd x) \<Longrightarrow>
    a = Denied 401 ''Invalid or revoked API key'' ''INVALID_API_KEY''"
proof (induction xs arbitrary: K)
  case (Cons y ys)
  then show ?case
    using revoked_denied [of hashKey raw K "snd y" verify "iso8601 (fst y)" "fst y"]
      revoked_kept [OF Cons.prems(1), of verify hashKey "iso8601 (fst y)" "fst y" "snd y"]
    by (auto split: prod.splits)
qed simp

text \<open>Revoking by identifier reaches the key with that identifier.\<close>

lemma revoke_first_reaches:
  assumes "distinct (map fst ks)" "jsget ks h = Some m" "\<forall>h' m'. jsget ks h' = Some m' \<and> k_id m' = k_id m \<longrightarrow> h' = h"
  shows "jsget (snd (revoke_first (k_id m) stamp ks)) h = Some (m\<lparr>k_revoked := True, k_revokedAt := Some stamp\<rparr>)"
  using assms
proof (induction ks)
  case (Cons x ks)
  obtain h1 m1 where x: "x = (h1, m1)" by (cases x)
  show ?case
  proof (cases "h1 = h")
    case False
    then have i: "k_id m1 \<noteq> k_id m" using Cons.prems(3) x by (metis map_of_Cons_code(2))
    have u: "\<forall>h' m'. jsget ks h' = Some m' \<and> k_id m' = k_id m \<longrightarrow> h' = h"
    proof (intro allI impI, elim conjE)
      fix h' m' assume g: "jsget ks h' = Some m'" "k_id m' = k_id m"
      then have "h' \<in> fst ` set ks" by (force dest: map_of_SomeD)
      then have "h' \<noteq> h1" using Cons.prems(1) x by auto
      then show "h' = h" using g Cons.prems(3) x by simp
    qed
    have "distinct (map fst ks)" "jsget ks h = Some m" using Cons.prems(1, 2) False x by simp_all
    from Cons.IH [OF this u] show ?thesis using i False x by (auto split: prod.split)
  qed (use Cons.prems(2) x in simp)
qed simp


definition sample_key :: key_meta where
  "sample_key = new_meta ''id1'' ''ci'' ''alice'' ''psk_1'' \<lparr>windowMs = 1000, rl_max = 2\<rparr> ''d'' None"

definition key_request :: access_request where
  "key_request = \<lparr>ac_authorization = None, ac_apiKey = Some ''psk_1''\<rparr>"


text \<open>Any caller may revoke any key, and read its usage: the routes do not look at the owner.\<close>

lemma stranger_revokes:
  assumes "chain_ok V rq uuid_check" "jsget (keys K) h = Some m" "k_id m = id_of rq" "distinct (map fst (keys K))"
    and "\<forall>h' m'. jsget (keys K) h' = Some m' \<and> k_id m' = k_id m \<longrightarrow> h' = h"
  shows "key_revoked h (snd (key_revoke_route V stamp rq K))"
  using revoke_first_reaches [OF assms(4, 2, 5), where stamp = stamp] assms(1, 3)
  by (auto simp: key_revoke_route_def checked_def revokeById_def key_revoked_def split: prod.splits bool.splits)

end
