(* ===== verification/Api_Data.thy ===== *)
theory Api_Data
  imports Api_Templates
begin

text \<open>
  Off-chain data of the API: the stores of \<^verbatim>\<open>api/services/dbService.js\<close> (preferences, notifications, webhooks and
  the audit log, in memory or in the database), the registration of webhooks (\<^verbatim>\<open>api/routes/webhooks.js\<close>),
  the deletion of a user's data (\<^verbatim>\<open>api/routes/users.js\<close>) and the data routes of \<^verbatim>\<open>api/routes/admin.js\<close>.
  The database is a parameter: whether it can be reached, the columns of its audit table, and what a transaction or a
  query gives. The mail server is a parameter too.
\<close>

section \<open>The audit log\<close>

record audit_log =
  al_id :: int
  al_actor :: jsval
  al_action :: string
  al_fields :: "(string \<times> jsval) list"
  al_time :: string

text \<open>The table: its columns, and its rows with the latest first.\<close>

record audit_table =
  at_columns :: "string list"
  at_reached :: bool
  at_rows :: "audit_log list"

record data_store =
  ds_prefs :: "(string, (string, jsval) jsmap) jsmap"
  ds_notifications :: "(string, jsval) jsmap"
  ds_webhooks :: "(string, jsval list) jsmap"
  ds_logs :: "audit_log list"
  ds_counter :: int

definition OWN_COLUMNS :: "string list" where
  "OWN_COLUMNS = [''id'', ''actor'', ''action'', ''timestamp'', ''params'', ''transaction_hash'']"

definition push_log :: "jsval \<Rightarrow> string \<Rightarrow> (string \<times> jsval) list \<Rightarrow> string \<Rightarrow> data_store \<Rightarrow> data_store" where
  "push_log actor action fs stamp D =
     D\<lparr>ds_logs := ds_logs D @ [\<lparr>al_id = ds_counter D, al_actor = actor, al_action = action, al_fields = fs, al_time = stamp\<rparr>],
       ds_counter := ds_counter D + 1\<rparr>"

text \<open>An insert needs the columns it names.\<close>

definition insert_log :: "string list \<Rightarrow> jsval \<Rightarrow> string \<Rightarrow> (string \<times> jsval) list \<Rightarrow> string \<Rightarrow> audit_table \<Rightarrow> audit_table option" where
  "insert_log cols actor action fs stamp A =
     (if at_reached A \<and> set cols \<subseteq> set (at_columns A)
      then Some (A\<lparr>at_rows := \<lparr>al_id = int (length (at_rows A)) + 1, al_actor = actor, al_action = action, al_fields = fs, al_time = stamp\<rparr> # at_rows A\<rparr>)
      else None)"

definition store_log ::
  "string list \<Rightarrow> jsval \<Rightarrow> string \<Rightarrow> (string \<times> jsval) list \<Rightarrow> string \<Rightarrow> audit_table option \<times> data_store \<Rightarrow> audit_table option \<times> data_store" where
  "store_log cols actor action fs stamp S =
     (case S of
        (None, D) \<Rightarrow> (None, push_log actor action fs stamp D)
      | (Some A, D) \<Rightarrow>
          (case insert_log cols actor action fs stamp A of
             Some A' \<Rightarrow> (Some A', D)
           | None \<Rightarrow> (Some A, push_log actor action fs stamp D)))"

definition logAdminAction ::
  "string \<Rightarrow> jsval \<Rightarrow> string \<Rightarrow> jsval \<Rightarrow> jsval \<Rightarrow> audit_table option \<times> data_store \<Rightarrow> audit_table option \<times> data_store" where
  "logAdminAction stamp actor action params hash =
     store_log [''actor'', ''action'', ''timestamp'', ''params'', ''transaction_hash''] actor action
       [(''params'', params), (''transaction_hash'', hash)] stamp"

definition createAuditLog ::
  "string \<Rightarrow> jsval \<Rightarrow> string \<Rightarrow> jsval \<Rightarrow> jsval \<Rightarrow> jsval \<Rightarrow> jsval \<Rightarrow> jsval \<Rightarrow> audit_table option \<times> data_store \<Rightarrow> audit_table option \<times> data_store" where
  "createAuditLog stamp actor action ety eid before after meta =
     store_log [''actor'', ''action'', ''entity_type'', ''entity_id'', ''before_state'', ''after_state'', ''metadata''] actor action
       [(''entity_type'', ety), (''entity_id'', eid), (''before_state'', before), (''after_state'', after), (''metadata'', meta)] stamp"

text \<open>\<^verbatim>\<open>slice(offset, offset + limit)\<close> of a list, for the bounds that the routes let pass.\<close>

definition log_slice :: "nat \<Rightarrow> nat \<Rightarrow> 'a list \<Rightarrow> 'a list" where
  "log_slice limit offset xs = take limit (drop offset xs)"

text \<open>The query of the table sorts by \<^verbatim>\<open>created_at\<close>.\<close>

definition getAuditLogs :: "nat \<Rightarrow> nat \<Rightarrow> audit_table option \<times> data_store \<Rightarrow> audit_log list" where
  "getAuditLogs limit offset S =
     (case S of
        (Some A, D) \<Rightarrow>
          if at_reached A \<and> ''created_at'' \<in> set (at_columns A) then log_slice limit offset (at_rows A)
          else log_slice limit offset (rev (ds_logs D))
      | (None, D) \<Rightarrow> log_slice limit offset (rev (ds_logs D)))"

section \<open>The export\<close>

definition log_field :: "string \<Rightarrow> audit_log \<Rightarrow> jsval" where
  "log_field k l = (case map_of (al_fields l) k of Some v \<Rightarrow> v | None \<Rightarrow> JUndef)"

definition log_double_quotes :: "string \<Rightarrow> string" where
  "log_double_quotes s = concat (map (\<lambda>c. if c = CHR 0x22 then [c, c] else [c]) s)"

definition CSV_HEADERS :: "string list" where
  "CSV_HEADERS = [''id'', ''actor'', ''action'', ''entity_type'', ''entity_id'', ''before_state'', ''after_state'', ''metadata'', ''created_at'']"

definition csv_values :: "(jsval \<Rightarrow> string) \<Rightarrow> audit_log \<Rightarrow> string list" where
  "csv_values stringify l =
     (let plain = (\<lambda>k. if truthy (log_field k l) then js_string (log_field k l) else '''');
          json = (\<lambda>k. if truthy (log_field k l) then log_double_quotes (stringify (log_field k l)) else '''') in
      [show_int (al_id l), js_string (al_actor l), al_action l, plain ''entity_type'', plain ''entity_id'',
       json ''before_state'', json ''after_state'', json ''metadata'', al_time l])"

definition log_csv_line :: "string list \<Rightarrow> string" where
  "log_csv_line vs = join '','' (map (\<lambda>v. CHR 0x22 # v @ [CHR 0x22]) vs)"

definition exportAuditLogsCSV :: "(jsval \<Rightarrow> string) \<Rightarrow> audit_table option \<times> data_store \<Rightarrow> string" where
  "exportAuditLogsCSV stringify S =
     join [CHR 0x0A] (join '','' CSV_HEADERS # map (\<lambda>l. log_csv_line (csv_values stringify l)) (getAuditLogs 100000 0 S))"

section \<open>Deletion of a user's data\<close>

text \<open>The transaction deletes the user's rows of three tables or none; here the addresses that have rows.\<close>

record user_tables =
  ut_reached :: bool
  ut_commits :: bool
  ut_preferences :: "string set"
  ut_user_notifications :: "string set"
  ut_notifications :: "string set"

definition delete_rows :: "string \<Rightarrow> user_tables \<Rightarrow> bool \<times> user_tables" where
  "delete_rows a U =
     (if ut_reached U \<and> ut_commits U
      then (True, U\<lparr>ut_preferences := ut_preferences U - {a}, ut_user_notifications := ut_user_notifications U - {a},
        ut_notifications := ut_notifications U - {a}\<rparr>)
      else (False, U))"

record deletion =
  de_fromMemory :: bool
  de_fromDb :: bool

definition deleteOffChainUserData ::
  "string \<Rightarrow> user_tables option \<times> data_store \<Rightarrow> deletion \<times> user_tables option \<times> data_store" where
  "deleteOffChainUserData a S =
     (case S of (U, D) \<Rightarrow>
       (let mem = (jsget (ds_prefs D) a \<noteq> None \<or> jsget (ds_notifications D) a \<noteq> None \<or> jsget (ds_webhooks D) a \<noteq> None);
            D' = D\<lparr>ds_prefs := jsdel a (ds_prefs D), ds_notifications := jsdel a (ds_notifications D), ds_webhooks := jsdel a (ds_webhooks D)\<rparr>
        in (case U of
              None \<Rightarrow> (\<lparr>de_fromMemory = mem, de_fromDb = False\<rparr>, None, D')
            | Some T \<Rightarrow> (case delete_rows a T of (ok, T') \<Rightarrow> (\<lparr>de_fromMemory = mem, de_fromDb = ok\<rparr>, Some T', D')))))"

definition pref_email :: "string \<Rightarrow> data_store \<Rightarrow> jsval" where
  "pref_email a D = (case jsget (ds_prefs D) a of
     Some p \<Rightarrow> (case jsget p ''email'' of Some v \<Rightarrow> v | None \<Rightarrow> JUndef) | None \<Rightarrow> JUndef)"

text \<open>\<open>stored_email\<close> is the e-mail the database has for the address, if it can be read.\<close>

definition user_email :: "jsval \<Rightarrow> jsval option \<Rightarrow> string \<Rightarrow> data_store \<Rightarrow> jsval" where
  "user_email requested stored_email a D =
     (let e1 = (if truthy requested then requested else if truthy (pref_email a D) then pref_email a D else requested) in
      if truthy e1 then e1
      else (case stored_email of Some v \<Rightarrow> if truthy v then v else e1 | None \<Rightarrow> e1))"

definition code_error :: "int \<Rightarrow> string \<Rightarrow> string \<Rightarrow> api_reply" where
  "code_error st msg code = (st, JObj [(''error'', JStr msg), (''code'', JStr code)])"

text \<open>\<open>sent\<close> is whether the confirmation could be mailed.\<close>

definition delete_user_route ::
  "validator \<Rightarrow> jsval option \<Rightarrow> bool \<Rightarrow> api_request \<Rightarrow> user_tables option \<times> data_store \<Rightarrow> api_reply \<times> user_tables option \<times> data_store" where
  "delete_user_route V stored_email sent rq S =
     checked V [param_check ''address'' [IsString, Matches is_G_address], body_optional ''email'' [IsEmail]] rq
       (let a = js_string (param_of rq ''address''); e = user_email (body_of rq ''email'') (case fst S of Some _ \<Rightarrow> stored_email | None \<Rightarrow> None) a (snd S) in
        if (case ar_stellarAddress rq of Some me \<Rightarrow> me \<noteq> '''' \<and> me \<noteq> a | None \<Rightarrow> False) then
          (code_error 403 ''Forbidden: You can only delete your own off-chain data.'' ''FORBIDDEN_USER'', S)
        else if \<not> validateAddress (param_of rq ''address'') then (json_error 400 ''Invalid Stellar address'', S)
        else if \<not> truthy e then (code_error 400 ''Email address is required to send confirmation email'' ''EMAIL_REQUIRED'', S)
        else
          (case deleteOffChainUserData a S of (_, S') \<Rightarrow>
             (json_ok 200 [(''message'', JStr ''All off-chain user data has been successfully deleted.''),
                (''onChainWarning'', JStr ''On-chain transaction history and stream data cannot be deleted as they are permanently recorded on the Stellar blockchain.''),
                (''emailSent'', JBool sent), (''recipient'', e)], S'))) S"

section \<open>Webhooks\<close>

definition WEBHOOK_EVENTS :: "string list" where
  "WEBHOOK_EVENTS = [''stream_created'', ''withdrawn'', ''paused'', ''cancelled'']"

text \<open>Registration; \<open>db\<close> is the outcome of the insert, if there is a database. A caller with an API key has no
  address, so that his webhooks are kept under \<^verbatim>\<open>undefined\<close>.\<close>

definition webhook_route ::
  "validator \<Rightarrow> string \<Rightarrow> string \<Rightarrow> string \<Rightarrow> (js_error + unit) option \<Rightarrow> (js_error \<Rightarrow> api_reply) \<Rightarrow> api_request \<Rightarrow> data_store \<Rightarrow> api_reply \<times> data_store" where
  "webhook_route V uuid random_hex stamp db H rq D =
     checked V [body_check ''url'' [IsURL], body_optional ''events'' [IsArray 0, EventList WEBHOOK_EVENTS]] rq
       (let evs = (if body_of rq ''events'' = JUndef then JArr (map JStr WEBHOOK_EVENTS) else body_of rq ''events'');
            a = (case ar_stellarAddress rq of Some me \<Rightarrow> me | None \<Rightarrow> ''undefined'');
            hook = JObj [(''id'', JStr uuid), (''url'', body_of rq ''url''), (''secret'', JStr random_hex), (''events'', evs), (''created_at'', JStr stamp)];
            answer = json_ok 201 [(''webhook_id'', JStr uuid), (''secret'', JStr random_hex),
              (''message'', JStr ''Webhook registered successfully. Save the secret to verify HMAC signatures.'')]
        in (case db of
              Some (Inl e) \<Rightarrow> (H e, D)
            | Some (Inr _) \<Rightarrow> (answer, D)
            | None \<Rightarrow> (answer, D\<lparr>ds_webhooks := jsset a (case jsget (ds_webhooks D) a of Some hs \<Rightarrow> hs @ [hook] | None \<Rightarrow> [hook]) (ds_webhooks D)\<rparr>))) D"

section \<open>Administration\<close>

text \<open>The routes over users and webhooks. \<open>db\<close> is what the database gives for the query of the route, if there is one;
  an error goes to the error handler \<open>H\<close>.\<close>

definition query_of :: "api_request \<Rightarrow> string \<Rightarrow> jsval" where
  "query_of rq k = (case jsget (ar_query rq) k of Some v \<Rightarrow> v | None \<Rightarrow> JUndef)"

definition query_optional :: "string \<Rightarrow> value_check list \<Rightarrow> check_chain" where
  "query_optional k cs = \<lparr>ch_value = (\<lambda>rq. query_of rq k), ch_optional = True, ch_checks = cs\<rparr>"

text \<open>\<^verbatim>\<open>parseInt(v) || d\<close>, for a bound of a slice.\<close>

definition int_or :: "jsval \<Rightarrow> nat \<Rightarrow> nat" where
  "int_or v d = (case parseInt (js_string v) of Fin q \<Rightarrow> if q = 0 then d else nat \<lfloor>q\<rfloor> | _ \<Rightarrow> d)"

definition audit_logs_route :: "validator \<Rightarrow> (audit_log \<Rightarrow> jsval) \<Rightarrow> api_request \<Rightarrow> audit_table option \<times> data_store \<Rightarrow> api_reply" where
  "audit_logs_route V to_json rq S =
     fst (checked V [query_optional ''limit'' [IsRange 1 1000], query_optional ''offset'' [IsInt 0]] rq
       ((200, JArr (map to_json (getAuditLogs (int_or (query_of rq ''limit'') 100) (int_or (query_of rq ''offset'') 0) S))), S) S)"

definition spread_prefs :: "string \<times> (string, jsval) jsmap \<Rightarrow> jsval" where
  "spread_prefs e = JObj (fold (\<lambda>(k, v). jsset k v) (snd e) [(''address'', JStr (fst e))])"

definition with_db :: "(js_error + jsval) option \<Rightarrow> (js_error \<Rightarrow> api_reply) \<Rightarrow> api_reply \<Rightarrow> api_reply" where
  "with_db db H local =
     (case db of Some (Inr v) \<Rightarrow> json_ok 200 [(''data'', v)] | Some (Inl e) \<Rightarrow> H e | None \<Rightarrow> local)"

definition admin_users_route :: "validator \<Rightarrow> (js_error + jsval) option \<Rightarrow> (js_error \<Rightarrow> api_reply) \<Rightarrow> api_request \<Rightarrow> data_store \<Rightarrow> api_reply" where
  "admin_users_route V db H rq D =
     fst (checked V [query_optional ''limit'' [IsRange 1 1000], query_optional ''offset'' [IsInt 0], query_optional ''search'' [IsString]] rq
       (with_db db H
         (let s = query_of rq ''search'';
              us = filter (\<lambda>e. truthy s \<longrightarrow> js_includes (fst e) (js_string s)) (ds_prefs D)
          in json_ok 200 [(''data'', JArr (map spread_prefs (log_slice (int_or (query_of rq ''limit'') 50) (int_or (query_of rq ''offset'') 0) us)))]), D) D)"

definition not_found_reply :: api_reply where
  "not_found_reply = (404, JObj [(''success'', JBool False), (''error'', JStr ''User not found'')])"

definition address_param :: check_chain where
  "address_param = param_check ''address'' [IsString, Matches is_G_address]"

definition admin_user_route ::
  "validator \<Rightarrow> (js_error + jsval list) option \<Rightarrow> (js_error \<Rightarrow> api_reply) \<Rightarrow> api_request \<Rightarrow> data_store \<Rightarrow> api_reply" where
  "admin_user_route V db H rq D =
     fst (checked V [address_param] rq
       (let a = js_string (param_of rq ''address'') in
        (case db of
           Some (Inl e) \<Rightarrow> H e
         | Some (Inr []) \<Rightarrow> not_found_reply
         | Some (Inr (v # _)) \<Rightarrow> json_ok 200 [(''data'', v)]
         | None \<Rightarrow> (case jsget (ds_prefs D) a of
             None \<Rightarrow> not_found_reply | Some p \<Rightarrow> json_ok 200 [(''data'', spread_prefs (a, p))]), D)) D)"

type_synonym admin_state = "audit_table option \<times> data_store"

definition user_status_route ::
  "validator \<Rightarrow> (js_error + unit) option \<Rightarrow> (js_error \<Rightarrow> api_reply) \<Rightarrow> string \<Rightarrow> api_request \<Rightarrow> admin_state \<Rightarrow> api_reply \<times> admin_state" where
  "user_status_route V db H stamp rq S =
     checked V [address_param, body_check ''status'' [IsIn [''active'', ''suspended'']]] rq
       (let a = js_string (param_of rq ''address''); st = body_of rq ''status'';
            params = JObj [(''address'', JStr a), (''status'', st)];
            done = (\<lambda>S. (json_ok 200 [(''data'', params)], logAdminAction stamp (JStr ''admin'') ''set_user_status'' params JNull S))
        in (case (db, S) of
              (Some (Inl e), _) \<Rightarrow> (H e, S)
            | (Some (Inr _), _) \<Rightarrow> done S
            | (None, A, D) \<Rightarrow> done (A, D\<lparr>ds_prefs := jsset a
                (jsset ''status'' st (case jsget (ds_prefs D) a of Some p \<Rightarrow> p | None \<Rightarrow> [])) (ds_prefs D)\<rparr>))) S"

definition admin_stats_route :: "(js_error + jsval) option \<Rightarrow> (js_error \<Rightarrow> api_reply) \<Rightarrow> data_store \<Rightarrow> api_reply" where
  "admin_stats_route db H D =
     with_db db H (json_ok 200 [(''data'', JObj [(''total_streams'', JNum (jsint 0)), (''active_streams'', JNum (jsint 0)),
       (''total_volume'', JStr ''0''), (''user_count'', JNum (jsint (int (length (ds_prefs D)))))])])"

text \<open>\<^verbatim>\<open>{ id, ...w }\<close> of a list of webhooks has the positions as its keys.\<close>

definition indexed :: "jsval list \<Rightarrow> (string \<times> jsval) list" where
  "indexed ws = map (\<lambda>n. (show_int (int n), ws ! n)) [0..<length ws]"

definition admin_webhooks_route :: "(js_error + jsval) option \<Rightarrow> (js_error \<Rightarrow> api_reply) \<Rightarrow> data_store \<Rightarrow> api_reply" where
  "admin_webhooks_route db H D =
     with_db db H (json_ok 200 [(''data'', JArr (map (\<lambda>(i, ws). JObj ((''id'', JStr i) # indexed ws)) (ds_webhooks D)))])"

definition delete_webhook_route ::
  "validator \<Rightarrow> (js_error + unit) option \<Rightarrow> (js_error \<Rightarrow> api_reply) \<Rightarrow> string \<Rightarrow> api_request \<Rightarrow> admin_state \<Rightarrow> api_reply \<times> admin_state" where
  "delete_webhook_route V db H stamp rq S =
     checked V [param_check ''id'' [IsString, NotEmpty]] rq
       (let params = JObj [(''id'', param_of rq ''id'')];
            done = (\<lambda>S. (json_ok 200 [(''data'', params)], logAdminAction stamp (JStr ''admin'') ''delete_webhook'' params JNull S))
        in (case (db, S) of
              (Some (Inl e), _) \<Rightarrow> (H e, S)
            | (Some (Inr _), _) \<Rightarrow> done S
            | (None, A, D) \<Rightarrow> done (A, D\<lparr>ds_webhooks := jsdel (id_of rq) (ds_webhooks D)\<rparr>))) S"

definition reset_limit_route ::
  "validator \<Rightarrow> (js_error + unit) option \<Rightarrow> (js_error \<Rightarrow> api_reply) \<Rightarrow> string \<Rightarrow> api_request \<Rightarrow> admin_state \<Rightarrow> api_reply \<times> admin_state" where
  "reset_limit_route V db H stamp rq S =
     checked V [body_check ''address'' [IsString, Matches is_G_address]] rq
       (let a = body_of rq ''address'';
            done = (json_ok 200 [(''data'', JObj [(''address'', a), (''reset'', JBool True)])],
              logAdminAction stamp (JStr ''admin'') ''reset_rate_limit'' (JObj [(''address'', a)]) JNull S)
        in (case db of Some (Inl e) \<Rightarrow> (H e, S) | _ \<Rightarrow> done)) S"

end
