(* ===== verification/Api_Data_Props.thy ===== *)
theory Api_Data_Props
  imports Api_Data Api_Routes_Props
begin

text \<open>
  Deletion of a user's data, the audit log, and webhooks: what they promise and where they fail.
\<close>

section \<open>Deletion\<close>

lemma checked_cases: "checked V cs rq r s = (if list_all (chain_ok V rq) cs then r
    else ((400, JObj [(''error'', JStr ''Validation failed''), (''details'', v_details V cs rq)]), s))"
  by (simp add: checked_def)

lemma jsget_del_fun: "jsget (jsdel a m) = (jsget m)(a := None)"
  by auto


definition delete_request :: api_request where
  "delete_request = \<lparr>ar_params = [(''address'', sample_account)], ar_query = [], ar_body = [(''email'', JStr ''a@b'')],
     ar_stellarAddress = Some sample_account, ar_apiKey = None\<rparr>"

definition easy_validator :: validator where
  "easy_validator = \<lparr>v_passes = (\<lambda>k v. True), v_details = (\<lambda>cs rq. JArr [])\<rparr>"

definition some_data :: data_store where
  "some_data = \<lparr>ds_prefs = [(sample_account, [(''theme'', JStr ''dark'')]), (''other'', [])], ds_notifications = [], ds_webhooks = [], ds_logs = [], ds_counter = 1\<rparr>"


text \<open>The outcome of the database is not looked at: when its transaction fails, the answer still says that all data has
  been deleted, while the rows are kept.\<close>

lemma failed_deletion_reported_as_done:
  assumes "delete_user_route V e sent rq (Some T, D) = ((200, b), U', D')" "\<not> ut_commits T"
  shows "U' = Some T \<and> (\<exists>fs. b = JObj ((''success'', JBool True) # (''message'', JStr ''All off-chain user data has been successfully deleted.'') # fs))"
  using assms
  by (auto simp: delete_user_route_def checked_cases Let_def json_ok_def json_error_def code_error_def deleteOffChainUserData_def
      delete_rows_def split: if_splits option.splits prod.splits)

section \<open>The audit log\<close>

datatype log_call =
    AdminCall string jsval string jsval jsval
  | AuditCall string jsval string jsval jsval jsval jsval jsval

primrec log_exec :: "log_call \<Rightarrow> admin_state \<Rightarrow> admin_state" where
  "log_exec (AdminCall stamp actor action params hash) S = logAdminAction stamp actor action params hash S"
| "log_exec (AuditCall stamp actor action ety eid before after meta) S = createAuditLog stamp actor action ety eid before after meta S"

primrec logged_entry :: "log_call \<Rightarrow> jsval \<times> string" where
  "logged_entry (AdminCall stamp actor action params hash) = (actor, action)"
| "logged_entry (AuditCall stamp actor action ety eid before after meta) = (actor, action)"

definition log_calls :: "log_call list \<Rightarrow> admin_state \<Rightarrow> admin_state" where
  "log_calls cs S = fold log_exec cs S"

lemma memory_log:
  "\<exists>D'. log_calls cs (None, D) = (None, D') \<and> ds_counter D' = ds_counter D + int (length cs) \<and>
    map (\<lambda>l. (al_id l, al_actor l, al_action l)) (ds_logs D') = map (\<lambda>l. (al_id l, al_actor l, al_action l)) (ds_logs D) @
      map (\<lambda>n. (ds_counter D + int n, logged_entry (cs ! n))) [0..<length cs]"
proof (induction cs arbitrary: D)
  case (Cons c cs)
  obtain fs stamp where c: "log_exec c (None, D) = (None, push_log (fst (logged_entry c)) (snd (logged_entry c)) fs stamp D)"
    by (cases c) (auto simp: logAdminAction_def createAuditLog_def store_log_def)
  let ?D = "push_log (fst (logged_entry c)) (snd (logged_entry c)) fs stamp D"
  obtain D' where d: "log_calls cs (None, ?D) = (None, D')" "ds_counter D' = ds_counter ?D + int (length cs)"
    "map (\<lambda>l. (al_id l, al_actor l, al_action l)) (ds_logs D') = map (\<lambda>l. (al_id l, al_actor l, al_action l)) (ds_logs ?D) @
      map (\<lambda>n. (ds_counter ?D + int n, logged_entry (cs ! n))) [0..<length cs]" using Cons.IH by blast
  show ?case using c d by (intro exI [of _ D']) (simp add: log_calls_def push_log_def upt_Suc_map comp_def algebra_simps del: upt_Suc)
qed (simp add: log_calls_def)

text \<open>Without a database the audit log is complete: after any calls it lists every entry, the latest first, numbered
  from one, and its pages are the parts of that list.\<close>

theorem audit_log_complete:
  fixes cs :: "log_call list"
  defines "S \<equiv> log_calls cs (None, \<lparr>ds_prefs = [], ds_notifications = [], ds_webhooks = [], ds_logs = [], ds_counter = 1\<rparr>)"
  shows "map (\<lambda>l. (al_id l, al_actor l, al_action l)) (getAuditLogs limit offset S) =
    take limit (drop offset (rev (map (\<lambda>n. (1 + int n, logged_entry (cs ! n))) [0..<length cs])))"
proof -
  obtain D' where "S = (None, D')" "map (\<lambda>l. (al_id l, al_actor l, al_action l)) (ds_logs D') = map (\<lambda>n. (1 + int n, logged_entry (cs ! n))) [0..<length cs]"
    using memory_log [of cs "\<lparr>ds_prefs = [], ds_notifications = [], ds_webhooks = [], ds_logs = [], ds_counter = 1\<rparr>"] by (auto simp: S_def)
  then show ?thesis by (simp add: getAuditLogs_def log_slice_def rev_map [symmetric] take_map [symmetric] drop_map [symmetric])
qed

text \<open>With a database it is not. The table that the service makes has no column \<^verbatim>\<open>created_at\<close>, so that the list is
  read from memory, where actions of administrators are not kept; the table of the migrations has no column
  \<^verbatim>\<open>params\<close>, so that these actions are kept in memory, while the list is read from the table. Either way no
  action of an administrator is ever listed.\<close>

definition MIGRATION_COLUMNS :: "string list" where
  "MIGRATION_COLUMNS = [''id'', ''actor'', ''action'', ''entity_type'', ''entity_id'', ''before_state'', ''after_state'', ''metadata'', ''created_at'']"

definition listed_kind :: "bool \<Rightarrow> admin_state \<Rightarrow> bool" where
  "listed_kind own S \<longleftrightarrow> (\<exists>A D. S = (Some A, D) \<and> at_reached A \<and> at_columns A = (if own then OWN_COLUMNS else MIGRATION_COLUMNS) \<and>
     (\<forall>l \<in> set (if own then ds_logs D else at_rows A). map_of (al_fields l) ''params'' = None))"

lemma log_exec_kind: "listed_kind own S \<Longrightarrow> listed_kind own (log_exec c S)"
  by (cases c; cases own) (auto simp: listed_kind_def logAdminAction_def createAuditLog_def store_log_def insert_log_def push_log_def
      OWN_COLUMNS_def MIGRATION_COLUMNS_def)

lemma admin_actions_never_listed:
  assumes "at_reached A" "at_columns A = OWN_COLUMNS \<or> at_columns A = MIGRATION_COLUMNS" "at_rows A = []" "ds_logs D = []"
    and "l \<in> set (getAuditLogs limit offset (log_calls cs (Some A, D)))"
  shows "map_of (al_fields l) ''params'' = None"
proof -
  obtain own where "listed_kind own (Some A, D)" using assms(1-4) by (fastforce simp: listed_kind_def)
  then have "listed_kind own (log_calls cs (Some A, D))"
    by (induction cs arbitrary: A D rule: rev_induct) (simp_all add: log_calls_def log_exec_kind)
  then show ?thesis using assms(5)
    by (cases own) (auto simp: listed_kind_def getAuditLogs_def log_slice_def OWN_COLUMNS_def MIGRATION_COLUMNS_def dest!: in_set_takeD in_set_dropD)
qed

section \<open>Webhooks\<close>

text \<open>In memory webhooks are kept under the address of their owner, but deleted by their identifier: no webhook is ever
  deleted by an administrator.\<close>

lemma admin_delete_keeps_webhooks:
  assumes "delete_webhook_route V None H stamp rq (A, D) = (r, A', D')" "jsget (ds_webhooks D) (id_of rq) = None"
  shows "jsget (ds_webhooks D') = jsget (ds_webhooks D)"
  using assms
  by (auto simp: delete_webhook_route_def checked_cases Let_def logAdminAction_def store_log_def insert_log_def push_log_def
      split: if_splits option.splits)

end
