(* ===== verification/Indexer.thy ===== *)
theory Indexer
  imports Js_Value "HOL-Library.Word"
begin

text \<open>
  The event indexer (\<^verbatim>\<open>services/indexer/src/index.js\<close>, with the table of
  \<^verbatim>\<open>services/indexer/src/migrate.js\<close>): decoding of contract values, the polling loop with its cursor,
  the worker that stores events, and the query interface. The RPC node, the XDR reader, the queue and the reachability
  of the database are parameters. A row's place in the list stands for its serial number.
\<close>

unbundle bit_operations_syntax

section \<open>Decoding\<close>

text \<open>Contract values by their tag; an address carries the text the SDK prints for it, other values their XDR in
  base 64. The upper half of an \<^verbatim>\<open>i128\<close> is signed.\<close>

datatype scval =
    ScvSymbol string
  | ScvU64 "64 word"
  | ScvI128 "64 word" "64 word"
  | ScvAddress string
  | ScvBool bool
  | ScvVec "scval list"
  | ScvOther string

definition join_i128 :: "64 word \<Rightarrow> 64 word \<Rightarrow> int" where
  "join_i128 hi lo = push_bit 64 (sint hi) OR uint lo"

fun decodeScVal :: "scval \<Rightarrow> jsval" where
  "decodeScVal (ScvSymbol s) = JStr s"
| "decodeScVal (ScvU64 n) = JStr (show_int (uint n))"
| "decodeScVal (ScvI128 hi lo) = JStr (show_int (join_i128 hi lo))"
| "decodeScVal (ScvAddress a) = JStr a"
| "decodeScVal (ScvBool b) = JBool b"
| "decodeScVal (ScvVec vs) = JArr (map decodeScVal vs)"
| "decodeScVal (ScvOther x) = JStr x"

record raw_event =
  re_ledger :: int
  re_txHash :: "string option"
  re_transaction_hash :: "string option"
  re_topic :: "string list"
  re_value :: string

record index_job =
  ij_ledger :: int
  ij_txHash :: string
  ij_eventType :: string
  ij_streamId :: "jsnum option"
  ij_topics :: "jsval list"
  ij_data :: jsval

definition or_hash :: "raw_event \<Rightarrow> string" where
  "or_hash raw =
     (case re_txHash raw of
        Some h \<Rightarrow> if h \<noteq> '''' then h else (case re_transaction_hash raw of Some g \<Rightarrow> g | None \<Rightarrow> '''')
      | None \<Rightarrow> (case re_transaction_hash raw of Some g \<Rightarrow> g | None \<Rightarrow> ''''))"

definition event_type :: "jsval list \<Rightarrow> string" where
  "event_type topics = (case topics of [] \<Rightarrow> ''unknown'' | t # _ \<Rightarrow> js_string t)"

definition stream_id_of :: "jsval list \<Rightarrow> jsnum option" where
  "stream_id_of topics =
     (case topics of
        _ # t # _ \<Rightarrow> if js_number t \<noteq> NaN then Some (js_number t) else None
      | _ \<Rightarrow> None)"

definition index_parseEvent :: "(string \<Rightarrow> js_error + scval) \<Rightarrow> raw_event \<Rightarrow> js_error + index_job" where
  "index_parseEvent fromXDR raw =
     rbind (seq_results (map (\<lambda>t. rbind (fromXDR t) (\<lambda>v. Inr (decodeScVal v))) (re_topic raw))) (\<lambda>topics.
     rbind (fromXDR (re_value raw)) (\<lambda>v.
     Inr \<lparr>ij_ledger = re_ledger raw, ij_txHash = or_hash raw, ij_eventType = event_type topics,
       ij_streamId = stream_id_of topics, ij_topics = topics, ij_data = decodeScVal v\<rparr>))"

section \<open>The polling loop\<close>

record index_state =
  ix_cursor :: int
  ix_queue :: "index_job list"

text \<open>What the outside answers during one poll: the events from a ledger on with the latest ledger, the latest ledger
  alone, whether the database can be reached, and whether a job can be queued.\<close>

record poll_env =
  pe_events :: "int \<Rightarrow> js_error + raw_event list \<times> int option"
  pe_latest :: "js_error + int"
  pe_db :: "js_error + unit"
  pe_add :: "index_job \<Rightarrow> js_error + unit"

definition getLastLedger :: "poll_env \<Rightarrow> (index_state, int) io" where
  "getLastLedger E = bind (of_result (pe_db E)) (\<lambda>_. gets ix_cursor)"

definition setLastLedger :: "poll_env \<Rightarrow> int \<Rightarrow> (index_state, unit) io" where
  "setLastLedger E l = bind (of_result (pe_db E)) (\<lambda>_. modify (\<lambda>s. s\<lparr>ix_cursor := l\<rparr>))"

definition add_job :: "poll_env \<Rightarrow> index_job \<Rightarrow> (index_state, unit) io" where
  "add_job E j = bind (of_result (pe_add E j)) (\<lambda>_. modify (\<lambda>s. s\<lparr>ix_queue := ix_queue s @ [j]\<rparr>))"

fun index_loop :: "(string \<Rightarrow> js_error + scval) \<Rightarrow> poll_env \<Rightarrow> raw_event list \<Rightarrow> int \<Rightarrow> (index_state, int) io" where
  "index_loop fromXDR E [] maxLedger = ret maxLedger"
| "index_loop fromXDR E (raw # raws) maxLedger =
     bind (of_result (index_parseEvent fromXDR raw)) (\<lambda>j.
     bind (add_job E j) (\<lambda>_.
     index_loop fromXDR E raws (if maxLedger < re_ledger raw then re_ledger raw else maxLedger)))"

definition start_ledger :: "int \<Rightarrow> int" where
  "start_ledger lastLedger = (if 0 < lastLedger then lastLedger + 1 else 1)"

definition indexEvents :: "(string \<Rightarrow> js_error + scval) \<Rightarrow> poll_env \<Rightarrow> (index_state, unit) io" where
  "indexEvents fromXDR E =
     bind (getLastLedger E) (\<lambda>lastLedger.
     case pe_events E (start_ledger lastLedger) of
       Inl err \<Rightarrow>
         if js_includes (errMsg err) ''startLedger'' then bind (of_result (pe_latest E)) (setLastLedger E) else ret ()
     | Inr (raws, tip) \<Rightarrow>
         bind (index_loop fromXDR E raws lastLedger) (\<lambda>maxLedger.
         let latestLedger = (case tip of Some l \<Rightarrow> l | None \<Rightarrow> maxLedger) in
         if lastLedger < latestLedger then setLastLedger E latestLedger else ret ()))"

text \<open>Polls one after the other; a rejected poll is only logged.\<close>

primrec index_polls :: "(string \<Rightarrow> js_error + scval) \<Rightarrow> poll_env list \<Rightarrow> index_state \<Rightarrow> index_state" where
  "index_polls fromXDR [] s = s"
| "index_polls fromXDR (E # Es) s = index_polls fromXDR Es (snd (indexEvents fromXDR E s))"

section \<open>The worker\<close>

record index_row =
  ir_ledger :: int
  ir_txHash :: string
  ir_eventType :: string
  ir_streamId :: "int option"
  ir_topics :: "jsval list"
  ir_data :: jsval

text \<open>What the database makes of a number for a \<^verbatim>\<open>BIGINT\<close> column.\<close>

definition sql_int :: "jsnum \<Rightarrow> js_error + int" where
  "sql_int x = (case x of
     Fin q \<Rightarrow> if q = of_int \<lfloor>q\<rfloor> \<and> - (2 ^ 63) \<le> \<lfloor>q\<rfloor> \<and> \<lfloor>q\<rfloor> < 2 ^ 63 then Inr \<lfloor>q\<rfloor>
       else Inl (Error ''invalid input syntax for type bigint'')
   | _ \<Rightarrow> Inl (Error ''invalid input syntax for type bigint''))"

definition sql_stream_id :: "jsnum option \<Rightarrow> js_error + int option" where
  "sql_stream_id x = (case x of None \<Rightarrow> Inr None | Some q \<Rightarrow> rbind (sql_int q) (\<lambda>n. Inr (Some n)))"

text \<open>The unique constraint: rows without a stream never conflict, since \<^verbatim>\<open>NULL\<close> is distinct from \<^verbatim>\<open>NULL\<close>.\<close>

definition same_key :: "index_row \<Rightarrow> index_row \<Rightarrow> bool" where
  "same_key a b = (ir_txHash a = ir_txHash b \<and> ir_eventType a = ir_eventType b \<and> ir_streamId a = ir_streamId b \<and> ir_streamId a \<noteq> None)"

definition insert_row :: "index_row \<Rightarrow> index_row list \<Rightarrow> index_row list" where
  "insert_row r rows = (if list_ex (same_key r) rows then rows else rows @ [r])"

definition row_of :: "index_job \<Rightarrow> js_error + index_row" where
  "row_of j = rbind (sql_stream_id (ij_streamId j)) (\<lambda>sid. Inr
     \<lparr>ir_ledger = ij_ledger j, ir_txHash = ij_txHash j, ir_eventType = ij_eventType j, ir_streamId = sid,
      ir_topics = ij_topics j, ir_data = ij_data j\<rparr>)"

text \<open>A job is run again when it throws; \<open>db\<close> is the outcome of reaching the database.\<close>

definition index_worker :: "js_error + unit \<Rightarrow> index_job \<Rightarrow> (index_row list, unit) io" where
  "index_worker db j =
     bind (of_result db) (\<lambda>_. bind (of_result (row_of j)) (\<lambda>r. modify (insert_row r)))"

section \<open>The query interface\<close>

definition given :: "string option \<Rightarrow> bool" where
  "given t = (case t of Some s \<Rightarrow> s \<noteq> '''' | None \<Rightarrow> False)"

definition int_param :: "string option \<Rightarrow> string \<Rightarrow> jsnum" where
  "int_param t d = parseInt (case t of Some s \<Rightarrow> if s \<noteq> '''' then s else d | None \<Rightarrow> d)"

definition sql_count :: "jsnum \<Rightarrow> js_error + nat" where
  "sql_count x = rbind (sql_int x) (\<lambda>n. if n < 0 then Inl (Error ''must not be negative'') else Inr (nat n))"

definition events_query ::
  "js_error + unit \<Rightarrow> string option \<Rightarrow> string option \<Rightarrow> string option \<Rightarrow> string option \<Rightarrow> index_row list \<Rightarrow> js_error + index_row list" where
  "events_query db streamId eventType limit offset rows =
     (let lim = math_min (int_param limit ''50'') (jsint 200); off = int_param offset ''0'' in
      rbind db (\<lambda>_.
      rbind (if given streamId then rbind (sql_int (number_of_string (the streamId))) (\<lambda>n. Inr (Some n)) else Inr None) (\<lambda>sid.
      rbind (sql_count lim) (\<lambda>l.
      rbind (sql_count off) (\<lambda>k.
      Inr (take l (drop k (sort_key ir_ledger (filter (\<lambda>r.
        (sid = None \<or> ir_streamId r = sid) \<and> (given eventType \<longrightarrow> ir_eventType r = the eventType)) rows)))))))))"

datatype index_reply = Events "index_row list" nat | Status int nat | QueryFailed string | NotFound

definition index_server ::
  "js_error + unit \<Rightarrow> string \<Rightarrow> string \<Rightarrow> (string \<Rightarrow> string option) \<Rightarrow> index_state \<Rightarrow> index_row list \<Rightarrow> int \<times> index_reply" where
  "index_server db meth path param s rows =
     (if meth = ''GET'' \<and> path = ''/events'' then
        (case events_query db (param ''stream_id'') (param ''event_type'') (param ''limit'') (param ''offset'') rows of
           Inr rs \<Rightarrow> (200, Events rs (length rs))
         | Inl e \<Rightarrow> (500, QueryFailed (errMsg e)))
      else if meth = ''GET'' \<and> path = ''/status'' then
        (case db of Inr _ \<Rightarrow> (200, Status (ix_cursor s) (length rows)) | Inl e \<Rightarrow> (500, QueryFailed (errMsg e)))
      else (404, NotFound))"

end
