(* ===== verification/Indexer_Props.thy ===== *)
theory Indexer_Props
  imports Indexer
begin

text \<open>
  The indexer: amounts are decoded exactly; with a node that answers completely every event of the contract is queued
  once, in order, and stored once per transaction, type and stream; what it loses otherwise.
\<close>

section \<open>Decoding\<close>

lemma join_i128_value: "join_i128 hi lo = sint hi * 2 ^ 64 + uint lo"
proof -
  have "uint lo < 2 ^ 64" using uint_lt2p [of lo] by simp
  then have "uint lo = take_bit 64 (uint lo)" by (simp add: take_bit_int_eq_self)
  then have "\<not> bit (uint lo) n" if "64 \<le> n" for n using that by (metis bit_take_bit_iff not_le)
  then have "push_bit 64 (sint hi) + uint lo = push_bit 64 (sint hi) OR uint lo"
    by (intro disjunctive_add) (metis bit_push_bit_iff_int not_le)
  then show ?thesis by (simp add: join_i128_def push_bit_eq_mult)
qed

definition scv_i128 :: "int \<Rightarrow> scval" where
  "scv_i128 n = ScvI128 (word_of_int (n div 2 ^ 64)) (word_of_int n)"

lemma join_split_i128:
  assumes "- (2 ^ 127) \<le> n" "n < 2 ^ 127"
  shows "join_i128 (word_of_int (n div 2 ^ 64)) (word_of_int n) = n"
proof -
  have "- (2 ^ 63) \<le> n div 2 ^ 64" "n div 2 ^ 64 < 2 ^ 63" using assms by simp_all
  then have "sint (word_of_int (n div 2 ^ 64) :: 64 word) = n div 2 ^ 64"
    by (simp add: signed_take_bit_int_eq_self signed_of_int)
  moreover have "uint (word_of_int n :: 64 word) = n mod 2 ^ 64" by (simp add: take_bit_eq_mod unsigned_of_int)
  ultimately show ?thesis by (simp add: join_i128_value)
qed

section \<open>Polling\<close>

definition raw_job :: "(string \<Rightarrow> js_error + scval) \<Rightarrow> raw_event \<Rightarrow> index_job" where
  "raw_job fromXDR raw = (case index_parseEvent fromXDR raw of Inr j \<Rightarrow> j)"

definition in_ledgers :: "int \<Rightarrow> int \<Rightarrow> raw_event list \<Rightarrow> raw_event list" where
  "in_ledgers a b chain = filter (\<lambda>r. a \<le> re_ledger r \<and> re_ledger r \<le> b) chain"

text \<open>A poll that reaches a node at the ledger \<open>L\<close> and gets all events from the ledger it asked for; a poll that
  gets no answer.\<close>

definition answers :: "raw_event list \<Rightarrow> int \<Rightarrow> poll_env \<Rightarrow> bool" where
  "answers chain L E \<longleftrightarrow> pe_db E = Inr () \<and> (\<forall>j. pe_add E j = Inr ()) \<and>
     (\<forall>start. pe_events E start = Inr (in_ledgers start L chain, Some L))"

definition refuses :: "poll_env \<Rightarrow> bool" where
  "refuses E \<longleftrightarrow> (\<exists>e. pe_db E = Inl e) \<or> (\<forall>start. \<exists>e. pe_events E start = Inl e \<and> \<not> js_includes (errMsg e) ''startLedger'')"

definition poll_ok :: "raw_event list \<Rightarrow> poll_env \<Rightarrow> bool" where
  "poll_ok chain E \<longleftrightarrow> (\<exists>L. answers chain L E) \<or> refuses E"

lemma index_loop_all:
  assumes "\<And>r. r \<in> set raws \<Longrightarrow> index_parseEvent fromXDR r = Inr (raw_job fromXDR r)" "\<And>j. pe_add E j = Inr ()"
  shows "\<exists>m. index_loop fromXDR E raws mx s = (Inr m, s\<lparr>ix_queue := ix_queue s @ map (raw_job fromXDR) raws\<rparr>)"
  using assms(1)
proof (induction raws arbitrary: mx s)
  case (Cons r raws)
  have "index_loop fromXDR E (r # raws) mx s =
      index_loop fromXDR E raws (if mx < re_ledger r then re_ledger r else mx) (s\<lparr>ix_queue := ix_queue s @ [raw_job fromXDR r]\<rparr>)"
    using Cons.prems [of r] assms(2) by (simp add: bind_def of_result_def add_job_def modify_def)
  then show ?case using Cons.IH [of _ "s\<lparr>ix_queue := ix_queue s @ [raw_job fromXDR r]\<rparr>"] Cons.prems by auto
qed (simp add: ret_def)

lemma poll_answered:
  assumes "answers chain L E" "\<And>r. r \<in> set chain \<Longrightarrow> index_parseEvent fromXDR r = Inr (raw_job fromXDR r)"
  shows "snd (indexEvents fromXDR E s) =
    \<lparr>ix_cursor = max (ix_cursor s) L,
     ix_queue = ix_queue s @ map (raw_job fromXDR) (in_ledgers (start_ledger (ix_cursor s)) L chain)\<rparr>"
proof -
  let ?raws = "in_ledgers (start_ledger (ix_cursor s)) L chain"
  have "\<And>r. r \<in> set ?raws \<Longrightarrow> index_parseEvent fromXDR r = Inr (raw_job fromXDR r)"
    using assms(2) by (simp add: in_ledgers_def)
  then obtain m where "index_loop fromXDR E ?raws (ix_cursor s) s = (Inr m, s\<lparr>ix_queue := ix_queue s @ map (raw_job fromXDR) ?raws\<rparr>)"
    using index_loop_all [of ?raws fromXDR E "ix_cursor s" s] assms(1) by (auto simp: answers_def)
  then show ?thesis using assms(1)
    by (auto simp: indexEvents_def getLastLedger_def setLastLedger_def answers_def bind_def of_result_def gets_def modify_def ret_def Let_def max_def)
qed

lemma poll_refused: "refuses E \<Longrightarrow> snd (indexEvents fromXDR E s) = s"
  by (auto simp: refuses_def indexEvents_def getLastLedger_def bind_def of_result_def gets_def ret_def split: sum.splits)
    (metis (no_types, lifting) Inl_Inr_False sum.inject(1))+

text \<open>The queue holds exactly the events up to the cursor.\<close>

definition queue_ok :: "(string \<Rightarrow> js_error + scval) \<Rightarrow> raw_event list \<Rightarrow> index_state \<Rightarrow> bool" where
  "queue_ok fromXDR chain s \<longleftrightarrow> 0 \<le> ix_cursor s \<and> ix_queue s = map (raw_job fromXDR) (in_ledgers 1 (ix_cursor s) chain)"

lemma in_ledgers_append:
  "sorted (map re_ledger chain) \<Longrightarrow> a \<le> b + 1 \<Longrightarrow> in_ledgers a b chain @ in_ledgers (b + 1) c chain = in_ledgers a (max b c) chain"
proof (induction chain)
  case (Cons r chain)
  have "in_ledgers a b chain = []" if "b < re_ledger r"
    using that Cons.prems(1) by (auto simp: in_ledgers_def filter_empty_conv)
  then show ?case using Cons by (auto simp: in_ledgers_def)
qed (simp add: in_ledgers_def)

lemma poll_queue_ok:
  assumes "sorted (map re_ledger chain)" "\<And>r. r \<in> set chain \<Longrightarrow> index_parseEvent fromXDR r = Inr (raw_job fromXDR r)"
    and "poll_ok chain E" "queue_ok fromXDR chain s"
  shows "queue_ok fromXDR chain (snd (indexEvents fromXDR E s))" "ix_cursor s \<le> ix_cursor (snd (indexEvents fromXDR E s))"
    and "answers chain L E \<Longrightarrow> L \<le> ix_cursor (snd (indexEvents fromXDR E s))"
proof -
  have st: "start_ledger (ix_cursor s) = ix_cursor s + 1" using assms(4) by (auto simp: start_ledger_def queue_ok_def)
  have step: "queue_ok fromXDR chain (snd (indexEvents fromXDR E s)) \<and> ix_cursor (snd (indexEvents fromXDR E s)) = max (ix_cursor s) K"
    if "answers chain K E" for K
    using poll_answered [OF that assms(2)] assms(4) in_ledgers_append [OF assms(1), of 1 "ix_cursor s" K]
    by (auto simp: st queue_ok_def map_append [symmetric] simp del: map_append)
  from assms(3) show "queue_ok fromXDR chain (snd (indexEvents fromXDR E s))" "ix_cursor s \<le> ix_cursor (snd (indexEvents fromXDR E s))"
    unfolding poll_ok_def using step assms(4) poll_refused [of E fromXDR s] by fastforce+
  show "L \<le> ix_cursor (snd (indexEvents fromXDR E s))" if "answers chain L E" using step [OF that] by simp
qed

lemma polls_queue_ok:
  assumes "sorted (map re_ledger chain)" "\<And>r. r \<in> set chain \<Longrightarrow> index_parseEvent fromXDR r = Inr (raw_job fromXDR r)"
    and "list_all (poll_ok chain) Es" "queue_ok fromXDR chain s"
  shows "queue_ok fromXDR chain (index_polls fromXDR Es s) \<and> ix_cursor s \<le> ix_cursor (index_polls fromXDR Es s) \<and>
    (\<forall>E \<in> set Es. \<forall>L. answers chain L E \<longrightarrow> L \<le> ix_cursor (index_polls fromXDR Es s))"
  using assms(3,4)
proof (induction Es arbitrary: s)
  case (Cons E Es)
  note p = poll_queue_ok [OF assms(1,2) _ Cons.prems(2), of E]
  have ok: "poll_ok chain E" using Cons.prems(1) by simp
  from Cons.IH [OF _ p(1) [OF _ ok]] Cons.prems(1) assms(2) p(2,3) [OF _ ok] show ?case by (auto intro: order_trans)
qed simp

section \<open>Storing\<close>

primrec worker_runs :: "((js_error + unit) \<times> index_job) list \<Rightarrow> index_row list \<Rightarrow> index_row list" where
  "worker_runs [] rows = rows"
| "worker_runs (x # xs) rows = worker_runs xs (snd (index_worker (fst x) (snd x) rows))"

lemma same_key_sym: "same_key a b = same_key b a"
  unfolding same_key_def by metis

lemma same_key_trans: "same_key a b \<Longrightarrow> same_key b c \<Longrightarrow> same_key a c"
  unfolding same_key_def by metis

lemma worker_step:
  "snd (index_worker db j rows) = (case (db, row_of j) of (Inr _, Inr r) \<Rightarrow> insert_row r rows | _ \<Rightarrow> rows)"
  by (simp add: index_worker_def bind_def of_result_def modify_def split: sum.splits)

definition stored_keys :: "index_row \<Rightarrow> index_row list \<Rightarrow> nat" where
  "stored_keys x rows = length (filter (same_key x) rows)"

lemma insert_row_keys:
  assumes "stored_keys x rows \<le> 1"
  shows "stored_keys x (insert_row r rows) \<le> 1" "stored_keys x rows \<le> stored_keys x (insert_row r rows)"
    and "ir_streamId r \<noteq> None \<Longrightarrow> 1 \<le> stored_keys r (insert_row r rows)"
proof -
  have "stored_keys x rows = 0" if "same_key x r" "\<not> list_ex (same_key r) rows"
    using that same_key_trans [of r x] same_key_sym by (auto simp: stored_keys_def list_ex_iff filter_empty_conv)
  then show "stored_keys x (insert_row r rows) \<le> 1" using assms by (auto simp: insert_row_def stored_keys_def)
  show "stored_keys x rows \<le> stored_keys x (insert_row r rows)" by (simp add: insert_row_def stored_keys_def)
  show "1 \<le> stored_keys r (insert_row r rows)" if "ir_streamId r \<noteq> None"
  proof (cases "list_ex (same_key r) rows")
    case True
    then have "filter (same_key r) rows \<noteq> []" by (auto simp: list_ex_iff filter_empty_conv)
    then show ?thesis using True by (simp add: insert_row_def stored_keys_def Suc_le_eq)
  next
    case False
    moreover have "same_key r r" using that by (simp add: same_key_def)
    ultimately show ?thesis by (simp add: insert_row_def stored_keys_def)
  qed
qed

lemma worker_runs_keys:
  assumes "stored_keys x rows \<le> 1"
  shows "stored_keys x (worker_runs ws rows) \<le> 1 \<and> stored_keys x rows \<le> stored_keys x (worker_runs ws rows)"
  using assms
proof (induction ws arbitrary: rows)
  case (Cons w ws)
  have "stored_keys x (snd (index_worker (fst w) (snd w) rows)) \<le> 1"
    "stored_keys x rows \<le> stored_keys x (snd (index_worker (fst w) (snd w) rows))"
    using insert_row_keys(1,2) [OF Cons.prems] Cons.prems by (auto simp: worker_step split: sum.splits)
  then show ?case using Cons.IH by fastforce
qed simp

lemma worker_stores:
  assumes "(Inr (), j) \<in> set ws" "row_of j = Inr x" "ir_streamId x \<noteq> None" "stored_keys x rows \<le> 1"
  shows "stored_keys x (worker_runs ws rows) = 1"
  using assms(1,4)
proof (induction ws arbitrary: rows)
  case (Cons w ws)
  have le: "stored_keys x (snd (index_worker (fst w) (snd w) rows)) \<le> 1"
    using insert_row_keys(1) [OF Cons.prems(2)] Cons.prems(2) by (auto simp: worker_step split: sum.splits)
  show ?case
  proof (cases "w = (Inr (), j)")
    case True
    then have "1 \<le> stored_keys x (snd (index_worker (fst w) (snd w) rows))"
      using insert_row_keys(3) [of x rows x] Cons.prems(2) assms(2,3) by (simp add: worker_step)
    then show ?thesis using worker_runs_keys [OF le, of ws] by simp
  next
    case False
    then show ?thesis using Cons.IH [OF _ le] Cons.prems(1) by simp
  qed
qed simp

section \<open>Every event once\<close>


definition sample_raw :: raw_event where
  "sample_raw = \<lparr>re_ledger = 5, re_txHash = Some ''h'', re_transaction_hash = None, re_topic = [''w'', ''i''], re_value = ''v''\<rparr>"

definition sample_xdr :: "string \<Rightarrow> js_error + scval" where
  "sample_xdr t = Inr (if t = ''w'' then ScvSymbol ''withdraw'' else if t = ''i'' then ScvU64 7 else ScvBool True)"

definition index_env :: poll_env where
  "index_env = \<lparr>pe_events = (\<lambda>start. Inr (in_ledgers start 9 [sample_raw], Some 9)), pe_latest = Inr 9, pe_db = Inr (), pe_add = (\<lambda>j. Inr ())\<rparr>"


text \<open>Amounts of events are decoded exactly: every \<^verbatim>\<open>i128\<close> is printed as the integer it is, the negative ones
  included, although its halves are joined by a shift and a bitwise or.\<close>

theorem i128_decoded_exactly:
  assumes "- (2 ^ 127) \<le> n" "n < 2 ^ 127"
  shows "decodeScVal (ScvI128 (word_of_int (n div 2 ^ 64)) (word_of_int n)) = JStr (show_int n)"
  using join_split_i128 [OF assms] by simp

theorem i128_decoded_exactly_witness:
  "decodeScVal (ScvI128 (word_of_int (- 5 div 2 ^ 64)) (word_of_int (- 5))) = JStr (show_int (- 5))"
  using i128_decoded_exactly [of "- 5"] by simp

section \<open>What the indexer loses\<close>

text \<open>The cursor moves to the latest ledger of the node, not to the last event it was given: the rest of a page that is
  cut off is never asked for.\<close>

lemma cut_page_loses_events:
  assumes "pe_db E = Inr ()" "\<And>j. pe_add E j = Inr ()" "pe_events E (start_ledger (ix_cursor s)) = Inr (raws, Some L)"
    and "\<And>r. r \<in> set raws \<Longrightarrow> index_parseEvent fromXDR r = Inr (raw_job fromXDR r)" "ix_cursor s < L"
  shows "snd (indexEvents fromXDR E s) = \<lparr>ix_cursor = L, ix_queue = ix_queue s @ map (raw_job fromXDR) raws\<rparr>"
  using index_loop_all [of raws fromXDR E "ix_cursor s" s] assms
  by (auto simp: indexEvents_def getLastLedger_def setLastLedger_def bind_def of_result_def gets_def modify_def Let_def)

text \<open>One event that cannot be read stops the indexer for good: the cursor stays before it, at every poll.\<close>

lemma unreadable_event_blocks:
  assumes "pe_db E = Inr ()" "pe_events E (start_ledger (ix_cursor s)) = Inr (raw # raws, tip)" "index_parseEvent fromXDR raw = Inl e"
  shows "indexEvents fromXDR E s = (Inl e, s)"
  using assms by (simp add: indexEvents_def getLastLedger_def bind_def of_result_def gets_def)

text \<open>Two withdrawals from one stream in one transaction are stored as one.\<close>

lemma second_event_lost:
  assumes "ir_txHash a = ir_txHash b" "ir_eventType a = ir_eventType b" "ir_streamId a = ir_streamId b" "ir_streamId a \<noteq> None"
  shows "insert_row b (insert_row a rows) = insert_row a rows"
  using assms by (auto simp: insert_row_def same_key_def list_ex_iff)

text \<open>A job for an event of the contract itself, run again, is stored again.\<close>

lemma contract_event_stored_twice:
  "row_of j = Inr x \<Longrightarrow> ir_streamId x = None \<Longrightarrow> worker_runs [(Inr (), j), (Inr (), j)] [] = [x, x]"
  by (simp add: worker_step insert_row_def same_key_def)

end
