(* ===== verification/Notify.thy ===== *)
theory Notify
  imports Js_Value
begin

text \<open>
  The notification service (\<^verbatim>\<open>services/notification/src/index.js\<close>): reading of contract events, the messages,
  webhooks with retries, e-mail, and the polling loop with its cursor. The event server, the mail server, the webhook
  table and the hosts that webhooks go to are parameters; \<open>stamp\<close> is the time a payload is made at.
\<close>

section \<open>Events\<close>

record notify_record =
  nr_token :: string
  nr_topic :: "jsval list"
  nr_value :: jsval

record notify_event =
  ne_type :: string
  ne_streamId :: jsval
  ne_data :: jsval

text \<open>\<^verbatim>\<open>a ?? b\<close> and \<^verbatim>\<open>v?.value\<close>.\<close>

definition or_else :: "jsval \<Rightarrow> jsval \<Rightarrow> jsval" where
  "or_else a b = (if a = JUndef \<or> a = JNull then b else a)"

definition value_field :: "jsval \<Rightarrow> jsval" where
  "value_field v = (case v of JObj fs \<Rightarrow> (case map_of fs ''value'' of Some x \<Rightarrow> x | None \<Rightarrow> JUndef) | _ \<Rightarrow> JUndef)"

definition topic_at :: "nat \<Rightarrow> jsval list \<Rightarrow> jsval" where
  "topic_at n ts = (if n < length ts then ts ! n else JUndef)"

definition notify_parseEvent :: "notify_record \<Rightarrow> notify_event" where
  "notify_parseEvent r =
     (let t0 = topic_at 0 (nr_topic r); t1 = topic_at 1 (nr_topic r) in
      \<lparr>ne_type = js_string (or_else (value_field t0) t0), ne_streamId = or_else (value_field t1) (or_else t1 JNull),
       ne_data = or_else (value_field (nr_value r)) (or_else (nr_value r) JNull)\<rparr>)"

section \<open>Messages\<close>

record notice =
  nc_fields :: "(string \<times> jsval) list"
  nc_subject :: "string option"
  nc_text :: "string option"
  nc_addresses :: "jsval list"

text \<open>\<^verbatim>\<open>const [a, b, c] = v\<close>: the first values of an iterable, \<^verbatim>\<open>undefined\<close> for missing ones.\<close>

definition destructure :: "nat \<Rightarrow> jsval \<Rightarrow> js_error + jsval list" where
  "destructure n v =
     (case v of
        JArr xs \<Rightarrow> Inr (take n (xs @ replicate n JUndef))
      | JStr s \<Rightarrow> Inr (take n (map (\<lambda>c. JStr [c]) s @ replicate n JUndef))
      | _ \<Rightarrow> Inl (TypeError ''object is not iterable''))"

definition ARROW :: string where
  "ARROW = [CHR 0xE2, CHR 0x86, CHR 0x92]"

definition buildNotification :: "notify_event \<Rightarrow> js_error + notice" where
  "buildNotification ev =
     (let sid = js_string (ne_streamId ev); base = [(''streamId'', ne_streamId ev), (''type'', JStr (ne_type ev))]; nl = [CHR 0x0A] in
      if ne_type ev = ''created'' then
        rbind (destructure 3 (ne_data ev)) (\<lambda>xs. Inr
          \<lparr>nc_fields = base @ [(''employer'', xs ! 0), (''employee'', xs ! 1)],
           nc_subject = Some (''PayStream: New stream #'' @ sid @ '' created''),
           nc_text = Some (''Stream #'' @ sid @ '' created.'' @ nl @ ''Employer: '' @ js_string (xs ! 0) @ nl @ ''Employee: '' @
             js_string (xs ! 1) @ nl @ ''Rate: '' @ js_string (xs ! 2) @ '' tokens/s''),
           nc_addresses = [xs ! 0, xs ! 1]\<rparr>)
      else if ne_type ev = ''withdraw'' then
        rbind (destructure 2 (ne_data ev)) (\<lambda>xs. Inr
          \<lparr>nc_fields = base @ [(''employee'', xs ! 0), (''amount'', xs ! 1)],
           nc_subject = Some (''PayStream: Withdrawal from stream #'' @ sid),
           nc_text = Some (''Employee '' @ js_string (xs ! 0) @ '' withdrew '' @ js_string (xs ! 1) @ '' tokens from stream #'' @ sid @ ''.''),
           nc_addresses = [xs ! 0]\<rparr>)
      else if ne_type ev = ''paused'' then
        rbind (destructure 3 (ne_data ev)) (\<lambda>xs. Inr
          \<lparr>nc_fields = base @ [(''employer'', xs ! 0), (''employee'', xs ! 1), (''paused_at'', xs ! 2)],
           nc_subject = Some (''PayStream: Stream #'' @ sid @ '' paused''),
           nc_text = Some (''Stream #'' @ sid @ '' was paused by '' @ js_string (xs ! 0) @ '' at '' @ js_string (xs ! 2) @ ''.''),
           nc_addresses = [xs ! 0, xs ! 1]\<rparr>)
      else if ne_type ev = ''cancelled'' then
        rbind (destructure 4 (ne_data ev)) (\<lambda>xs. Inr
          \<lparr>nc_fields = base @ [(''employer'', xs ! 0), (''employee'', xs ! 1), (''refund'', xs ! 2), (''employee_payout'', xs ! 3)],
           nc_subject = Some (''PayStream: Stream #'' @ sid @ '' cancelled''),
           nc_text = Some (''Stream #'' @ sid @ '' was cancelled by '' @ js_string (xs ! 0) @ ''. Refund: '' @ js_string (xs ! 2) @
             '', Employee Payout: '' @ js_string (xs ! 3) @ ''.''),
           nc_addresses = [xs ! 0, xs ! 1]\<rparr>)
      else if ne_type ev = ''status'' then
        Inr \<lparr>nc_fields = base @ [(''status'', ne_data ev)],
          nc_subject = Some (''PayStream: Stream #'' @ sid @ '' status '' @ ARROW @ '' '' @ js_string (ne_data ev)),
          nc_text = Some (''Stream #'' @ sid @ '' status changed to '' @ js_string (ne_data ev) @ ''.''), nc_addresses = []\<rparr>
      else Inr \<lparr>nc_fields = base, nc_subject = None, nc_text = None, nc_addresses = []\<rparr>)"

section \<open>Webhooks\<close>

definition MAX_ATTEMPTS :: nat where "MAX_ATTEMPTS = 5"

text \<open>\<open>reached n\<close> says whether the host takes the \<open>n\<close>-th attempt. The result: whether it was delivered, and the
  delays that were waited between the attempts.\<close>

function dispatchWebhook :: "(nat \<Rightarrow> bool) \<Rightarrow> nat \<Rightarrow> bool \<times> int list" where
  "dispatchWebhook reached attempt =
     (if reached attempt then (True, [])
      else if attempt < MAX_ATTEMPTS then
        (case dispatchWebhook reached (attempt + 1) of (ok, ds) \<Rightarrow> (ok, 2 ^ attempt * 1000 # ds))
      else (False, []))"
  by pat_completeness auto
termination by (relation "measure (\<lambda>(_, n). MAX_ATTEMPTS - n)") auto

declare dispatchWebhook.simps [simp del]

record notify_config =
  cf_watch :: "string list"
  cf_webhook :: "(string \<times> string) option"
  cf_pool :: bool
  cf_mailer :: bool

record webhook =
  wh_url :: string
  wh_address :: string
  wh_secret :: string
  wh_events :: "string list"

definition eventMapping :: "(string \<times> string) list" where
  "eventMapping = [(''created'', ''stream_created''), (''withdraw'', ''withdrawn''), (''paused'', ''paused''), (''cancelled'', ''cancelled'')]"

text \<open>What the service hands over: a payload to a webhook, signed with its secret, or a mail.\<close>

datatype outgoing = Hook string "(string \<times> jsval) list" string | Mail string string string

definition registered :: "webhook list \<Rightarrow> jsval list \<Rightarrow> string \<Rightarrow> webhook list" where
  "registered W addresses mapped = filter (\<lambda>w. JStr (wh_address w) \<in> set addresses \<and> mapped \<in> set (wh_events w)) W"

text \<open>The table of webhooks may be out of reach, which is logged.\<close>

definition notifyWebhooks :: "notify_config \<Rightarrow> js_error + webhook list \<Rightarrow> string \<Rightarrow> (string \<times> jsval) list \<Rightarrow> jsval list \<Rightarrow> outgoing list" where
  "notifyWebhooks cf W eventType payload addresses =
     (case cf_webhook cf of Some (url, secret) \<Rightarrow> [Hook url payload secret] | None \<Rightarrow> []) @
     (if \<not> cf_pool cf then []
      else (case map_of eventMapping eventType of
        None \<Rightarrow> []
      | Some mapped \<Rightarrow>
          (case W of
             Inl _ \<Rightarrow> []
           | Inr ws \<Rightarrow> map (\<lambda>w. Hook (wh_url w) payload (wh_secret w)) (registered ws addresses mapped))))"

definition notice_payload :: "string \<Rightarrow> notice \<Rightarrow> (string \<times> jsval) list" where
  "notice_payload stamp n =
     nc_fields n @ (case nc_subject n of Some s \<Rightarrow> [(''subject'', JStr s)] | None \<Rightarrow> []) @
     (case nc_text n of Some s \<Rightarrow> [(''text'', JStr s)] | None \<Rightarrow> []) @
     [(''notifyAddresses'', JArr (nc_addresses n)), (''timestamp'', JStr stamp)]"

text \<open>The world of a poll: the cursor and what has been handed over.\<close>

record notify_state =
  ns_cursor :: string
  ns_out :: "outgoing list"

definition hand_over :: "outgoing list \<Rightarrow> (notify_state, unit) io" where
  "hand_over os = modify (\<lambda>s. s\<lparr>ns_out := ns_out s @ os\<rparr>)"

text \<open>A mail that the server refuses is an error; \<open>mail\<close> decides by the mail.\<close>

definition notify_sendEmail :: "notify_config \<Rightarrow> (outgoing \<Rightarrow> js_error + unit) \<Rightarrow> string \<Rightarrow> string option \<Rightarrow> string option \<Rightarrow> (notify_state, unit) io" where
  "notify_sendEmail cf mail to subject txt =
     (if \<not> cf_mailer cf \<or> to = '''' then ret ()
      else (let m = Mail to (case subject of Some s \<Rightarrow> s | None \<Rightarrow> '''') (case txt of Some s \<Rightarrow> s | None \<Rightarrow> '''') in
        bind (of_result (mail m)) (\<lambda>_. hand_over [m])))"

section \<open>The polling loop\<close>

record notify_env =
  en_records :: "string \<Rightarrow> js_error + notify_record list"
  en_hooks :: "js_error + webhook list"
  en_mail :: "outgoing \<Rightarrow> js_error + unit"
  en_stamp :: string

definition notify_one :: "notify_config \<Rightarrow> notify_env \<Rightarrow> notify_record \<Rightarrow> (notify_state, unit) io" where
  "notify_one cf E r =
     (let ev = notify_parseEvent r in
      if ne_type ev \<notin> set (cf_watch cf) then ret ()
      else
        bind (of_result (buildNotification ev)) (\<lambda>n.
        bind (hand_over (notifyWebhooks cf (en_hooks E) (ne_type ev) (notice_payload (en_stamp E) n) (nc_addresses n))) (\<lambda>_.
        notify_sendEmail cf (en_mail E) (js_string (JArr (nc_addresses n))) (nc_subject n) (nc_text n))))"

fun notify_loop :: "notify_config \<Rightarrow> notify_env \<Rightarrow> notify_record list \<Rightarrow> (notify_state, unit) io" where
  "notify_loop cf E [] = ret ()"
| "notify_loop cf E (r # rs) =
     bind (modify (\<lambda>s. s\<lparr>ns_cursor := nr_token r\<rparr>)) (\<lambda>_. bind (notify_one cf E r) (\<lambda>_. notify_loop cf E rs))"

definition notify_poll :: "notify_config \<Rightarrow> notify_env \<Rightarrow> (notify_state, unit) io" where
  "notify_poll cf E =
     try_catch (bind (gets ns_cursor) (\<lambda>c. bind (of_result (en_records E c)) (notify_loop cf E))) (\<lambda>_. ret ())"

end
