(* ===== verification/Notify_Props.thy ===== *)
theory Notify_Props
  imports Notify
begin

text \<open>
  The notification service: retries of webhooks are bounded, and over any polls each event of the contract is handed over
  at most once, in order; where events and mails get lost.
\<close>

section \<open>Retries\<close>

lemma dispatch_delivered: "fst (dispatchWebhook reached n) \<longleftrightarrow> reached n \<or> (\<exists>m. n < m \<and> m \<le> MAX_ATTEMPTS \<and> reached m)"
proof (induction reached n rule: dispatchWebhook.induct)
  case (1 reached n)
  show ?case
  proof (cases "reached n \<or> \<not> n < MAX_ATTEMPTS")
    case False
    then have "fst (dispatchWebhook reached n) = fst (dispatchWebhook reached (n + 1))"
      by (subst dispatchWebhook.simps) (simp split: prod.split)
    moreover have "(\<exists>m. n < m \<and> m \<le> MAX_ATTEMPTS \<and> reached m) \<longleftrightarrow>
        reached (n + 1) \<or> (\<exists>m. n + 1 < m \<and> m \<le> MAX_ATTEMPTS \<and> reached m)"
      using False by (metis Suc_eq_plus1 Suc_leI less_Suc_eq less_SucI lessI not_less_eq)
    ultimately show ?thesis using 1 False by simp
  qed (subst dispatchWebhook.simps, auto)
qed

lemma dispatch_delays:
  "\<exists>d. snd (dispatchWebhook reached n) = map (\<lambda>m. 2 ^ m * 1000) [n..<n + d] \<and> n + d \<le> max n MAX_ATTEMPTS"
proof (induction reached n rule: dispatchWebhook.induct)
  case (1 reached n)
  show ?case
  proof (cases "reached n \<or> \<not> n < MAX_ATTEMPTS")
    case True
    then have "snd (dispatchWebhook reached n) = []" by (subst dispatchWebhook.simps) auto
    then show ?thesis by (intro exI [of _ 0]) simp
  next
    case False
    then obtain d where d: "snd (dispatchWebhook reached (n + 1)) = map (\<lambda>m. 2 ^ m * 1000) [n + 1..<n + 1 + d]"
      "n + 1 + d \<le> max (n + 1) MAX_ATTEMPTS" using 1 by auto
    have "snd (dispatchWebhook reached n) = 2 ^ n * 1000 # snd (dispatchWebhook reached (n + 1))"
      using False by (subst dispatchWebhook.simps) (simp split: prod.split)
    moreover have "[n..<n + Suc d] = n # [n + 1..<n + 1 + d]" by (simp add: upt_conv_Cons)
    ultimately show ?thesis using d False by (intro exI [of _ "Suc d"]) (auto simp del: upt_Suc)
  qed
qed

section \<open>One poll\<close>

text \<open>What an event hands over.\<close>

definition record_out :: "notify_config \<Rightarrow> notify_env \<Rightarrow> notify_record \<Rightarrow> outgoing list" where
  "record_out cf E r = ns_out (snd (notify_one cf E r \<lparr>ns_cursor = '''', ns_out = []\<rparr>))"

lemma notify_one_out: "snd (notify_one cf E r s) = s\<lparr>ns_out := ns_out s @ record_out cf E r\<rparr>"
  by (auto simp: record_out_def notify_one_def notify_sendEmail_def hand_over_def bind_def of_result_def modify_def ret_def Let_def
      split: sum.splits)

definition handled :: "notify_config \<Rightarrow> notify_env \<Rightarrow> notify_record list \<Rightarrow> notify_state \<Rightarrow> notify_state" where
  "handled cf E rs s =
     \<lparr>ns_cursor = (if rs = [] then ns_cursor s else nr_token (last rs)), ns_out = ns_out s @ concat (map (record_out cf E) rs)\<rparr>"

lemma notify_loop_prefix:
  "\<exists>k \<le> length rs. (rs \<noteq> [] \<longrightarrow> 1 \<le> k) \<and> snd (notify_loop cf E rs s) = handled cf E (take k rs) s"
proof (induction rs arbitrary: s)
  case (Cons r rs)
  let ?s = "s\<lparr>ns_cursor := nr_token r\<rparr>"
  obtain o1 s1 where one: "notify_one cf E r ?s = (o1, s1)" by force
  then have s1: "s1 = ?s\<lparr>ns_out := ns_out s @ record_out cf E r\<rparr>" using notify_one_out [of cf E r ?s] by simp
  show ?case
  proof (cases o1)
    case (Inl e)
    then have "snd (notify_loop cf E (r # rs) s) = handled cf E (take 1 (r # rs)) s"
      using one s1 by (simp add: bind_def modify_def handled_def)
    then show ?thesis by (intro exI [of _ 1]) simp
  next
    case (Inr u)
    obtain k where k: "k \<le> length rs" "snd (notify_loop cf E rs s1) = handled cf E (take k rs) s1" using Cons.IH by blast
    have "snd (notify_loop cf E (r # rs) s) = handled cf E (take (Suc k) (r # rs)) s"
      using one s1 Inr k by (auto simp: bind_def modify_def handled_def)
    then show ?thesis using k(1) by (intro exI [of _ "Suc k"]) simp
  qed
qed (auto simp: ret_def handled_def)

section \<open>Polls\<close>

text \<open>The events after a cursor, and a server that gives at most fifty of them.\<close>

definition after_token :: "string \<Rightarrow> notify_record list \<Rightarrow> notify_record list" where
  "after_token c chain = tl (dropWhile (\<lambda>r. nr_token r \<noteq> c) chain)"

definition serves_events :: "notify_record list \<Rightarrow> notify_env \<Rightarrow> bool" where
  "serves_events chain E \<longleftrightarrow> (\<forall>c. en_records E c = Inr (take 50 (after_token c chain)))"

definition serves_nothing :: "notify_env \<Rightarrow> bool" where
  "serves_nothing E \<longleftrightarrow> (\<forall>c. \<exists>e. en_records E c = Inl e)"

primrec notify_polls :: "notify_config \<Rightarrow> notify_env list \<Rightarrow> notify_state \<Rightarrow> notify_state" where
  "notify_polls cf [] s = s"
| "notify_polls cf (E # Es) s = notify_polls cf Es (snd (notify_poll cf E s))"

lemma after_token_nth:
  "distinct (map nr_token chain) \<Longrightarrow> i < length chain \<Longrightarrow> after_token (nr_token (chain ! i)) chain = drop (Suc i) chain"
proof (induction chain arbitrary: i)
  case (Cons r chain)
  show ?case
  proof (cases i)
    case (Suc j)
    then have "nr_token (chain ! j) \<in> nr_token ` set chain" using Cons.prems(2) by simp
    then have "nr_token r \<noteq> nr_token (chain ! j)" using Cons.prems(1) by auto
    then show ?thesis using Suc Cons by (simp add: after_token_def)
  qed (simp add: after_token_def)
qed simp

lemma poll_served:
  assumes "serves_events chain E" "distinct (map nr_token chain)" "ns_cursor s \<in> nr_token ` set chain"
  shows "\<exists>k \<le> length (after_token (ns_cursor s) chain). (after_token (ns_cursor s) chain \<noteq> [] \<longrightarrow> 1 \<le> k) \<and>
    snd (notify_poll cf E s) = handled cf E (take k (after_token (ns_cursor s) chain)) s \<and>
    ns_cursor (snd (notify_poll cf E s)) \<in> nr_token ` set chain \<and>
    after_token (ns_cursor (snd (notify_poll cf E s))) chain = drop k (after_token (ns_cursor s) chain)"
proof -
  let ?rest = "after_token (ns_cursor s) chain"
  obtain i where i: "i < length chain" "ns_cursor s = nr_token (chain ! i)" using assms(3) by (metis imageE in_set_conv_nth)
  then have rest: "?rest = drop (Suc i) chain" using after_token_nth [OF assms(2)] by simp
  obtain k where k: "k \<le> length (take 50 ?rest)" "take 50 ?rest \<noteq> [] \<longrightarrow> 1 \<le> k"
    "snd (notify_loop cf E (take 50 ?rest) s) = handled cf E (take k (take 50 ?rest)) s"
    using notify_loop_prefix by blast
  then have "k \<le> 50" by simp
  then have k50: "take k (take 50 ?rest) = take k ?rest" by (simp add: min_absorb1)
  have p: "snd (notify_poll cf E s) = handled cf E (take k ?rest) s"
    using k(3) assms(1) k50 by (auto simp: notify_poll_def serves_events_def try_catch_def bind_def gets_def of_result_def ret_def split: prod.splits sum.splits)
  have "ns_cursor (snd (notify_poll cf E s)) = nr_token (chain ! (i + k))"
  proof (cases "k = 0")
    case False
    then have "take k ?rest \<noteq> []" "length (take k ?rest) = k" using k(1) by auto
    then have "last (take k ?rest) = ?rest ! (k - 1)" by (simp add: last_conv_nth)
    then show ?thesis using False p rest k(1) \<open>take k ?rest \<noteq> []\<close> by (simp add: handled_def)
  qed (use p i in \<open>simp add: handled_def\<close>)
  moreover have "i + k < length chain" using k(1) rest i(1) by (auto simp: min_def split: if_splits)
  ultimately show ?thesis using p k(1,2) after_token_nth [OF assms(2), of "i + k"] rest
    by (intro exI [of _ k]) (auto simp: add.commute)
qed

lemma poll_unserved: "serves_nothing E \<Longrightarrow> snd (notify_poll cf E s) = s"
proof -
  assume "serves_nothing E"
  then obtain e where "en_records E (ns_cursor s) = Inl e" unfolding serves_nothing_def by blast
  then show ?thesis by (simp add: notify_poll_def try_catch_def bind_def gets_def of_result_def ret_def)
qed


definition sample_chain :: "notify_record list" where
  "sample_chain = [\<lparr>nr_token = ''1'', nr_topic = [], nr_value = JNull\<rparr>,
     \<lparr>nr_token = ''2'', nr_topic = [JStr ''withdraw'', JStr ''7''], nr_value = JArr [JStr ''GA'', JStr ''5'']\<rparr>]"

definition sample_notify_env :: notify_env where
  "sample_notify_env = \<lparr>en_records = (\<lambda>c. Inr (take 50 (after_token c sample_chain))), en_hooks = Inr [], en_mail = (\<lambda>m. Inl (Error ''down'')), en_stamp = ''t''\<rparr>"

definition sample_config :: notify_config where
  "sample_config = \<lparr>cf_watch = [''withdraw''], cf_webhook = Some (''https://h'', ''s''), cf_pool = False, cf_mailer = True\<rparr>"


text \<open>Every registered webhook of a party of the stream is given a watched event that can be read.\<close>

lemma registered_hooks_reached:
  assumes "ne_type (notify_parseEvent r) \<in> set (cf_watch cf)" "buildNotification (notify_parseEvent r) = Inr n"
    and "cf_pool cf" "map_of eventMapping (ne_type (notify_parseEvent r)) = Some mapped" "en_hooks E = Inr ws" "w \<in> set ws"
    and "JStr (wh_address w) \<in> set (nc_addresses n)" "mapped \<in> set (wh_events w)"
  shows "Hook (wh_url w) (notice_payload (en_stamp E) n) (wh_secret w) \<in> set (record_out cf E r)"
proof -
  have "Hook (wh_url w) (notice_payload (en_stamp E) n) (wh_secret w) \<in>
      set (notifyWebhooks cf (en_hooks E) (ne_type (notify_parseEvent r)) (notice_payload (en_stamp E) n) (nc_addresses n))"
    using assms(3-8) by (auto simp: notifyWebhooks_def registered_def)
  then show ?thesis using assms(1,2)
    by (auto simp: record_out_def notify_one_def notify_sendEmail_def hand_over_def bind_def of_result_def modify_def ret_def Let_def
        split: sum.splits)
qed

section \<open>What gets lost\<close>

text \<open>When the whole contract is paused, the event \<^verbatim>\<open>paused\<close> carries a truth value instead of a list. Reading it
  throws, and the rest of the page waits for the next poll.\<close>

lemma contract_pause_not_readable:
  "ne_type ev = ''paused'' \<Longrightarrow> ne_data ev = JBool b \<Longrightarrow> \<exists>e. buildNotification ev = Inl e"
  by (simp add: buildNotification_def destructure_def Let_def)

text \<open>A mail that the server refuses is not sent again: the cursor is already behind its event.\<close>

lemma refused_mail_lost:
  assumes "ne_type (notify_parseEvent r) \<in> set (cf_watch cf)" "buildNotification (notify_parseEvent r) = Inr n" "\<And>m. en_mail E m = Inl e"
  shows "Mail a b c \<notin> set (record_out cf E r)"
  using assms
  by (auto simp: record_out_def notify_one_def notify_sendEmail_def hand_over_def notifyWebhooks_def bind_def of_result_def modify_def ret_def Let_def
      split: sum.splits option.splits)

text \<open>The cursor starts at \<^verbatim>\<open>now\<close>, and nothing comes after now: as long as the server answers such a request with no
  events, the service stays there and hands over nothing.\<close>

lemma now_never_advances:
  assumes "list_all (\<lambda>E. en_records E ''now'' = Inr []) Es" "ns_cursor s = ''now''"
  shows "notify_polls cf Es s = s"
  using assms(1)
proof (induction Es)
  case (Cons E Es)
  have "snd (notify_poll cf E s) = s"
    using Cons.prems assms(2) by (simp add: notify_poll_def try_catch_def bind_def gets_def of_result_def ret_def)
  then show ?case using Cons by simp
qed simp

end
