(* ===== verification/Analytics.thy ===== *)
theory Analytics
  imports Notify
begin

text \<open>
  The analytics service (\<^verbatim>\<open>services/analytics/src/index.js\<close>): totals over all pages of contract events, and their
  cache. The event server is a parameter: the \<open>n\<close>-th page, in ascending order. The loop over the pages ends only
  with a short page, so it is a partial function.
\<close>

section \<open>Totals\<close>

record stream_sum =
  sm_deposit :: int
  sm_withdrawn :: int
  sm_status :: string

record totals =
  tt_streams :: int
  tt_withdrawn :: int
  tt_map :: "(string, stream_sum) jsmap"

text \<open>\<^verbatim>\<open>v?.[n]\<close>.\<close>

definition js_at :: "jsval \<Rightarrow> nat \<Rightarrow> jsval" where
  "js_at v n =
     (case v of
        JArr xs \<Rightarrow> if n < length xs then xs ! n else JUndef
      | JStr s \<Rightarrow> if n < length s then JStr [s ! n] else JUndef
      | _ \<Rightarrow> JUndef)"

definition amount_at :: "jsval \<Rightarrow> nat \<Rightarrow> js_error + int" where
  "amount_at v n = js_bigint (or_else (js_at v n) (JNum (jsint 0)))"

definition upd_stream :: "string \<Rightarrow> (stream_sum \<Rightarrow> stream_sum) \<Rightarrow> totals \<Rightarrow> totals" where
  "upd_stream sid f T = (case jsget (tt_map T) sid of Some x \<Rightarrow> T\<lparr>tt_map := jsset sid (f x) (tt_map T)\<rparr> | None \<Rightarrow> T)"

definition stats_record :: "notify_record \<Rightarrow> totals \<Rightarrow> js_error + totals" where
  "stats_record r T =
     (let t0 = topic_at 0 (nr_topic r); t1 = topic_at 1 (nr_topic r);
          ty = js_string (or_else (value_field t0) (or_else t0 (JStr '''')));
          sid = js_string (or_else (value_field t1) (or_else t1 (JStr '''')));
          dat = or_else (value_field (nr_value r)) (nr_value r)
      in
      if ty = ''created'' then
        rbind (amount_at dat 2) (\<lambda>d. Inr (T\<lparr>tt_streams := tt_streams T + 1,
          tt_map := jsset sid \<lparr>sm_deposit = d, sm_withdrawn = 0, sm_status = ''Active''\<rparr> (tt_map T)\<rparr>))
      else if ty = ''withdraw'' then
        rbind (amount_at dat 1) (\<lambda>a. Inr (upd_stream sid (\<lambda>x. x\<lparr>sm_withdrawn := sm_withdrawn x + a\<rparr>) (T\<lparr>tt_withdrawn := tt_withdrawn T + a\<rparr>)))
      else if ty = ''topup'' then
        rbind (amount_at dat 1) (\<lambda>a. Inr (upd_stream sid (\<lambda>x. x\<lparr>sm_deposit := sm_deposit x + a\<rparr>) T))
      else if ty = ''status'' then
        Inr (upd_stream sid (\<lambda>x. x\<lparr>sm_status := js_string (or_else dat (JStr ''''))\<rparr>) T)
      else Inr T)"

fun stats_page :: "notify_record list \<Rightarrow> totals \<Rightarrow> js_error + totals" where
  "stats_page [] T = Inr T"
| "stats_page (r # rs) T = rbind (stats_record r T) (stats_page rs)"

partial_function (option) stats_loop ::
  "(nat \<Rightarrow> js_error + notify_record list) \<Rightarrow> nat \<Rightarrow> totals \<Rightarrow> (js_error + totals) option" where
  "stats_loop fetch n T =
     (case fetch n of
        Inl e \<Rightarrow> Some (Inl e)
      | Inr page \<Rightarrow>
          (case stats_page page T of
             Inl e \<Rightarrow> Some (Inl e)
           | Inr T' \<Rightarrow> if length page < 200 then Some (Inr T') else stats_loop fetch (n + 1) T'))"

record stats =
  st_totalStreams :: int
  st_totalValueLocked :: string
  st_totalWithdrawn :: string
  st_activeStreamCount :: int

definition active_sums :: "totals \<Rightarrow> stream_sum list" where
  "active_sums T = filter (\<lambda>x. sm_status x = ''Active'') (map snd (tt_map T))"

definition stats_of :: "totals \<Rightarrow> stats" where
  "stats_of T =
     \<lparr>st_totalStreams = tt_streams T,
      st_totalValueLocked = show_int (sum_list (map (\<lambda>x. max 0 (sm_deposit x - sm_withdrawn x)) (active_sums T))),
      st_totalWithdrawn = show_int (tt_withdrawn T), st_activeStreamCount = int (length (active_sums T))\<rparr>"

definition no_totals :: totals where
  "no_totals = \<lparr>tt_streams = 0, tt_withdrawn = 0, tt_map = []\<rparr>"

definition computeStats :: "(nat \<Rightarrow> js_error + notify_record list) \<Rightarrow> (js_error + stats) option" where
  "computeStats fetch =
     (case stats_loop fetch 0 no_totals of
        None \<Rightarrow> None
      | Some (Inl e) \<Rightarrow> Some (Inl e)
      | Some (Inr T) \<Rightarrow> Some (Inr (stats_of T)))"

text \<open>The cached answer and when it ends. \<open>None\<close> means that the computation does not return.\<close>

definition getStats :: "int \<Rightarrow> (nat \<Rightarrow> js_error + notify_record list) \<Rightarrow> int \<Rightarrow> stats option \<times> int \<Rightarrow> ((js_error + stats) \<times> stats option \<times> int) option" where
  "getStats ttl fetch now C =
     (case C of
        (Some st, expiry) \<Rightarrow> if now < expiry then Some (Inr st, C) else
          (case computeStats fetch of
             None \<Rightarrow> None
           | Some (Inl e) \<Rightarrow> Some (Inl e, C)
           | Some (Inr st') \<Rightarrow> Some (Inr st', Some st', now + ttl))
      | (None, expiry) \<Rightarrow>
          (case computeStats fetch of
             None \<Rightarrow> None
           | Some (Inl e) \<Rightarrow> Some (Inl e, C)
           | Some (Inr st') \<Rightarrow> Some (Inr st', Some st', now + ttl)))"

section \<open>Pages\<close>

definition pages :: "notify_record list \<Rightarrow> nat \<Rightarrow> js_error + notify_record list" where
  "pages chain n = Inr (take 200 (drop (200 * n) chain))"

lemma stats_page_append: "stats_page (xs @ ys) T = rbind (stats_page xs T) (stats_page ys)"
  by (induction xs arbitrary: T) (auto simp: rbind_def split: sum.split)

lemma loop_pages: "length chain < 200 * (n + k) \<Longrightarrow>
  stats_loop (pages chain) n T = Some (stats_page (drop (200 * n) chain) T)"
proof (induction k arbitrary: n T)
  case 0
  then show ?case by (subst stats_loop.simps) (auto simp: pages_def split: sum.split)
next
  case (Suc k)
  let ?p = "take 200 (drop (200 * n) chain)"
  show ?case
  proof (cases "length ?p < 200")
    case True
    then have "?p = drop (200 * n) chain" by simp
    then show ?thesis using True by (subst stats_loop.simps) (auto simp: pages_def split: sum.split)
  next
    case False
    have "?p @ drop (200 * (n + 1)) chain = drop (200 * n) chain"
      using append_take_drop_id [of 200 "drop (200 * n) chain"] by (simp add: add.commute)
    then have d: "stats_page (drop (200 * n) chain) T = rbind (stats_page ?p T) (stats_page (drop (200 * (n + 1)) chain))"
      using stats_page_append [of ?p] by metis
    have IH: "stats_loop (pages chain) (n + 1) T' = Some (stats_page (drop (200 * (n + 1)) chain) T')" for T'
      using Suc.prems by (intro Suc.IH) auto
    show ?thesis
      unfolding d by (subst stats_loop.simps) (use False IH in \<open>cases "stats_page ?p T"; simp add: pages_def\<close>)
  qed
qed

lemma stats_loop_pages: "stats_loop (pages chain) 0 T = Some (stats_page chain T)"
  using loop_pages [where n = 0 and k = "Suc (length chain)" and chain = chain and T = T] by simp

section \<open>Events of the contract\<close>

text \<open>The contract's events that the service counts, as the server gives them.\<close>

datatype stream_event =
    Created string string string int
  | Withdrawn string string int
  | ToppedUp string string int
  | StatusSet string string

definition event_record :: "string \<Rightarrow> string \<Rightarrow> jsval \<Rightarrow> notify_record" where
  "event_record ty sid v = \<lparr>nr_token = '''', nr_topic = [JStr ty, JStr sid], nr_value = v\<rparr>"

primrec record_of :: "stream_event \<Rightarrow> notify_record" where
  "record_of (Created sid er ee r) = event_record ''created'' sid (JArr [JStr er, JStr ee, JStr (show_dec r)])"
| "record_of (Withdrawn sid ee a) = event_record ''withdraw'' sid (JArr [JStr ee, JStr (show_dec a)])"
| "record_of (ToppedUp sid er a) = event_record ''topup'' sid (JArr [JStr er, JStr (show_dec a)])"
| "record_of (StatusSet sid x) = event_record ''status'' sid (JStr x)"

primrec event_ok :: "stream_event \<Rightarrow> bool" where
  "event_ok (Created sid er ee r) = (0 \<le> r)"
| "event_ok (Withdrawn sid ee a) = (0 \<le> a)"
| "event_ok (ToppedUp sid er a) = (0 \<le> a)"
| "event_ok (StatusSet sid x) = True"

primrec status_after :: "string \<Rightarrow> stream_event \<Rightarrow> string option \<Rightarrow> string option" where
  "status_after s (Created sid er ee r) st = (if s = sid then Some ''Active'' else st)"
| "status_after s (Withdrawn sid ee a) st = st"
| "status_after s (ToppedUp sid er a) st = st"
| "status_after s (StatusSet sid x) st = (if s = sid \<and> st \<noteq> None then Some x else st)"

definition last_status :: "string \<Rightarrow> stream_event list \<Rightarrow> string option" where
  "last_status s evs = fold (status_after s) evs None"

definition created_count :: "stream_event list \<Rightarrow> nat" where
  "created_count evs = length (filter (\<lambda>e. case e of Created _ _ _ _ \<Rightarrow> True | _ \<Rightarrow> False) evs)"

definition withdrawn_sum :: "stream_event list \<Rightarrow> int" where
  "withdrawn_sum evs = sum_list (map (\<lambda>e. case e of Withdrawn _ _ a \<Rightarrow> a | _ \<Rightarrow> 0) evs)"

lemma record_parts [simp]:
  "nr_topic (event_record ty sid v) = [JStr ty, JStr sid]" "nr_value (event_record ty sid v) = v"
  by (simp_all add: event_record_def)

lemma plain_values [simp]:
  "value_field (JStr s) = JUndef" "value_field (JArr vs) = JUndef"
  "or_else JUndef b = b" "or_else (JStr s) b = JStr s" "or_else (JArr vs) b = JArr vs"
  by (simp_all add: value_field_def or_else_def)

lemma record_fields [simp]:
  "topic_at 0 [JStr a, JStr b] = JStr a" "topic_at (Suc 0) [JStr a, JStr b] = JStr b"
  "0 \<le> n \<Longrightarrow> amount_at (JArr [x, JStr (show_dec n)]) (Suc 0) = Inr n"
  "0 \<le> n \<Longrightarrow> amount_at (JArr [x, y, JStr (show_dec n)]) 2 = Inr n"
  by (simp_all add: topic_at_def amount_at_def js_at_def)

lemma upd_stream_simps [simp]:
  "tt_streams (upd_stream sid f T) = tt_streams T" "tt_withdrawn (upd_stream sid f T) = tt_withdrawn T"
  "jsget (tt_map (upd_stream sid f T)) s = (if s = sid then map_option f (jsget (tt_map T) s) else jsget (tt_map T) s)"
  "distinct (map fst (tt_map T)) \<Longrightarrow> distinct (map fst (tt_map (upd_stream sid f T)))"
  by (auto simp: upd_stream_def distinct_update split: option.split)

text \<open>What the totals say about the events read so far.\<close>

definition totals_ok :: "stream_event list \<Rightarrow> totals \<Rightarrow> bool" where
  "totals_ok evs T \<longleftrightarrow> tt_streams T = int (created_count evs) \<and> tt_withdrawn T = withdrawn_sum evs \<and>
     distinct (map fst (tt_map T)) \<and> (\<forall>s. map_option sm_status (jsget (tt_map T) s) = last_status s evs)"

lemma stats_record_ok:
  assumes "totals_ok evs T" "event_ok e"
  shows "\<exists>T'. stats_record (record_of e) T = Inr T' \<and> totals_ok (evs @ [e]) T'"
proof (cases e)
  case (StatusSet sid x)
  have "map_option sm_status (jsget (tt_map T) sid) = last_status sid evs" using assms(1) by (simp add: totals_ok_def)
  then have "map_option (\<lambda>_. x) (jsget (tt_map T) sid) = (if last_status sid evs \<noteq> None then Some x else last_status sid evs)"
    by (cases "jsget (tt_map T) sid") (auto simp: eq_commute [of "Some _"])
  then show ?thesis using assms StatusSet
    by (auto simp: stats_record_def totals_ok_def created_count_def withdrawn_sum_def last_status_def option.map_comp comp_def)
qed (use assms in \<open>auto simp: stats_record_def totals_ok_def created_count_def withdrawn_sum_def last_status_def distinct_update
      option.map_comp comp_def\<close>)

lemma stats_page_ok:
  assumes "totals_ok evs T" "list_all event_ok es"
  shows "\<exists>T'. stats_page (map record_of es) T = Inr T' \<and> totals_ok (evs @ es) T'"
  using assms
proof (induction es arbitrary: evs T)
  case (Cons e es)
  then obtain T1 where "stats_record (record_of e) T = Inr T1" "totals_ok (evs @ [e]) T1" using stats_record_ok by force
  then show ?case using Cons.IH [of "evs @ [e]" T1] Cons.prems(2) by auto
qed simp

lemma active_count:
  assumes "totals_ok evs T"
  shows "length (active_sums T) = card {s. last_status s evs = Some ''Active''}"
proof -
  let ?A = "filter (\<lambda>p. sm_status (snd p) = ''Active'') (tt_map T)"
  have d: "distinct (map fst (tt_map T))" and m: "\<And>s. map_option sm_status (jsget (tt_map T) s) = last_status s evs"
    using assms by (simp_all add: totals_ok_def)
  have "last_status s evs = Some ''Active'' \<longleftrightarrow> s \<in> fst ` set ?A" for s
  proof
    assume "last_status s evs = Some ''Active''"
    then obtain x where "jsget (tt_map T) s = Some x" "sm_status x = ''Active''" using m [of s] by (cases "jsget (tt_map T) s") auto
    then have "(s, x) \<in> set ?A" using map_of_SomeD by fastforce
    then show "s \<in> fst ` set ?A" by (metis fst_conv image_eqI)
  next
    assume "s \<in> fst ` set ?A"
    then obtain x where "(s, x) \<in> set (tt_map T)" "sm_status x = ''Active''" by auto
    then have "jsget (tt_map T) s = Some x" using d by simp
    then show "last_status s evs = Some ''Active''" using m [of s] \<open>sm_status x = ''Active''\<close> by simp
  qed
  then have "{s. last_status s evs = Some ''Active''} = set (map fst ?A)" by auto
  moreover have "distinct (map fst ?A)" using d by (rule distinct_map_filter)
  ultimately have "card {s. last_status s evs = Some ''Active''} = length ?A" using distinct_card [of "map fst ?A"] by (simp only: length_map)
  then show ?thesis by (simp add: active_sums_def filter_map comp_def)
qed



section \<open>What the statistics get wrong\<close>

text \<open>The value locked in a new stream is counted as its rate per second: the event does not carry the deposit.\<close>

lemma locked_is_rate:
  "0 \<le> r \<Longrightarrow> map_option (map_sum id st_totalValueLocked) (computeStats (pages (map record_of [Created s er ee r]))) = Some (Inr (show_int r))"
  by (simp add: computeStats_def stats_loop_pages stats_record_def no_totals_def stats_of_def active_sums_def)

text \<open>A paused stream is not counted as locked, although the contract still holds its deposit.\<close>

lemma paused_not_locked:
  "0 \<le> r \<Longrightarrow> map_option (map_sum id st_totalValueLocked)
    (computeStats (pages (map record_of [Created s er ee r, StatusSet s ''Paused'']))) = Some (Inr (show_int 0))"
  by (simp add: computeStats_def stats_loop_pages stats_record_def no_totals_def stats_of_def active_sums_def upd_stream_def)

end
