(* ===== verification/Detail_View.thy ===== *)
theory Detail_View
  imports Stream_Card
begin

text \<open>
  The page of a single stream (\<^verbatim>\<open>demo/src/StreamDetailPage.tsx\<close>): its state, handlers and what it renders over the state of
  the history hook (\<open>History\<close>). The browser's date parser and format are parameters; the callbacks of the parent are calls.
\<close>

section \<open>State\<close>

text \<open>Which callbacks the parent has given, and the rest of the properties.\<close>

record detail_props =
  dp_claimable :: int
  dp_publicKey :: "string option"
  dp_onWithdraw :: bool
  dp_onPause :: bool
  dp_onResume :: bool
  dp_onCancel :: bool
  dp_onTopUp :: bool
  dp_loading :: bool
  dp_actionLoading :: "string option"

record detail_state =
  dt_topUpAmount :: string
  dt_topUpError :: string

definition detail_init :: detail_state where
  "detail_init = \<lparr>dt_topUpAmount = '''', dt_topUpError = ''''\<rparr>"

datatype detail_action = DBack | DWithdraw | DPause | DResume | DCancel | DTopUp | DType string | DLoadMore

datatype detail_call =
    ToBack | ToWithdraw int | ToPause int | ToResume int | ToCancel int | ToTopUp int int | ToLoadMore int | Alert string

section \<open>Helpers\<close>

definition detail_formatTs :: "(int option \<Rightarrow> string) \<Rightarrow> int \<Rightarrow> string" where
  "detail_formatTs toLocaleString ts = (if ts = 0 then [CHR 0xE2, CHR 0x80, CHR 0x94] else toLocaleString (date_of_ts ts))"

definition FieldRow :: "string \<Rightarrow> 'a node \<Rightarrow> 'a node" where
  "FieldRow label val = Elem ''div'' [] [Elem ''span'' [] [Text label], Elem ''span'' [] [val]]"

definition account_link :: "jsval \<Rightarrow> string \<Rightarrow> 'a node" where
  "account_link a short = Elem ''a''
     [(''href'', Str (''https://stellar.expert/explorer/testnet/account/'' @ js_string a)), (''target'', Str ''_blank''),
      (''rel'', Str ''noopener noreferrer''), (''title'', Str (js_string a))] [Text short]"

definition detail_busy :: "detail_props \<Rightarrow> bool" where
  "detail_busy p = (dp_loading p \<or> truthy_text (dp_actionLoading p))"

definition no_wallet :: "detail_props \<Rightarrow> bool" where
  "no_wallet p = (\<not> truthy_text (dp_publicKey p))"

definition is_party :: "detail_props \<Rightarrow> jsval \<Rightarrow> bool" where
  "is_party p who = (case dp_publicKey p of Some k \<Rightarrow> who = JStr k | None \<Rightarrow> who = JNull)"

section \<open>Handlers\<close>

definition noWalletMsg :: string where
  "noWalletMsg = ''Connect wallet and use Employer Dashboard''"

definition if_given :: "bool \<Rightarrow> detail_call \<Rightarrow> js_error + detail_call option" where
  "if_given b c = Inr (Some (if b then c else Alert noWalletMsg))"

definition detail_handleTopUp :: "detail_props \<Rightarrow> stream \<Rightarrow> detail_state \<Rightarrow> detail_state \<times> (js_error + detail_call option)" where
  "detail_handleTopUp p s D =
     (let amt = parseFloat (dt_topUpAmount D) in
      if \<not> num_truthy amt \<or> js_le amt (jsint 0) then (D\<lparr>dt_topUpError := ''Enter a positive amount''\<rparr>, Inr None)
      else (D\<lparr>dt_topUpError := ''''\<rparr>,
        if dp_onTopUp p then rbind (bigint_of_num (math_round (js_mul amt (jsint 10000000)))) (\<lambda>n. Inr (Some (ToTopUp (sid s) n)))
        else if_given False ToBack))"

fun detail_do :: "detail_props \<Rightarrow> stream \<Rightarrow> detail_action \<Rightarrow> detail_state \<Rightarrow> detail_state \<times> (js_error + detail_call option)" where
  "detail_do p s DBack D = (D, Inr (Some ToBack))"
| "detail_do p s DWithdraw D = (D, Inr (Some (if dp_onWithdraw p then ToWithdraw (sid s) else Alert ''Connect wallet to withdraw'')))"
| "detail_do p s DPause D = (D, if_given (dp_onPause p) (ToPause (sid s)))"
| "detail_do p s DResume D = (D, if_given (dp_onResume p) (ToResume (sid s)))"
| "detail_do p s DCancel D = (D, if_given (dp_onCancel p) (ToCancel (sid s)))"
| "detail_do p s DTopUp D = detail_handleTopUp p s D"
| "detail_do p s (DType t) D = (D\<lparr>dt_topUpAmount := t, dt_topUpError := ''''\<rparr>, Inr None)"
| "detail_do p s DLoadMore D = (D, Inr (Some (ToLoadMore (sid s))))"

text \<open>When the page opens or shows another stream, the history is fetched anew.\<close>

definition detail_effect :: "'w fetch \<Rightarrow> config \<Rightarrow> stream \<Rightarrow> (history_state \<times> 'w, unit) io" where
  "detail_effect fetch cfg s = bind (set_state history_reset) (\<lambda>_. fetchHistory fetch cfg (sid s) None)"

section \<open>Parts of the page\<close>

definition detail_fields ::
  "(int option \<Rightarrow> string) \<Rightarrow> detail_props \<Rightarrow> stream \<Rightarrow> string \<Rightarrow> string \<Rightarrow> string \<Rightarrow> 'a node" where
  "detail_fields toLocaleString p s er ee tok =
     (let xlm = (\<lambda>l n. FieldRow l (Text (card_formatXlm n @ '' XLM'')));
          ts = (\<lambda>l t. FieldRow l (Text (detail_formatTs toLocaleString t)))
      in Elem ''section'' [(''className'', Str ''card sdp-section''), (''aria-labelledby'', Str ''sdp-fields-heading'')]
        [Elem ''h3'' [(''id'', Str ''sdp-fields-heading''), (''className'', Str ''sdp-section-title'')] [Text ''Stream Details''],
         FieldRow ''Stream ID'' (Text (show_int (sid s))),
         FieldRow ''Employer'' (account_link (employer s) er),
         FieldRow ''Employee'' (account_link (employee s) ee),
         FieldRow ''Token'' (Elem ''span'' [(''title'', Str (js_string (token s)))] [Text tok]),
         xlm ''Deposit'' (deposit s), xlm ''Withdrawn'' (withdrawn s), xlm ''Locked'' (card_locked s), xlm ''Claimable Now'' (dp_claimable p),
         FieldRow ''Rate'' (Text (show_int (ratePerSecond s) @ '' stroops/s'')),
         ts ''Start Time'' (startTime s),
         FieldRow ''Stop Time'' (Text (if stopTime s = 0 then ''Indefinite'' else detail_formatTs toLocaleString (stopTime s))),
         ts ''Last Withdraw'' (lastWithdrawTime s),
         FieldRow ''Cooldown Period'' (Text (show_int (cooldownPeriod s) @ ''s'')),
         ts ''Cliff Time'' (cliffTime s), ts ''Paused At'' (pausedAt s),
         FieldRow ''Locked Flag'' (Text (if truthy (locked s) then ''Yes'' else ''No'')),
         Elem ''div'' []
           [Elem ''div'' [(''role'', Str ''progressbar''), (''aria-valuenow'', Num (math_round (card_progress s))), (''aria-valuemin'', Num (jsint 0)),
              (''aria-valuemax'', Num (jsint 100)), (''aria-label'', Str (toFixed 1 (card_progress s) @ ''% of deposit paid out''))] [Elem ''div'' [] []],
            Elem ''p'' [] [Text (toFixed 1 (card_progress s) @ ''% paid out'')]]])"

definition action_button :: "detail_props \<Rightarrow> string \<Rightarrow> bool \<Rightarrow> string \<Rightarrow> string \<Rightarrow> string \<Rightarrow> detail_action \<Rightarrow> detail_action node" where
  "action_button p cls off mark going idle a =
     Elem ''button'' [(''className'', Str cls), (''onClick'', On (Click a)), (''disabled'', Flag off),
       (''aria-busy'', Flag (dp_actionLoading p = Some mark))]
       [Text (if dp_actionLoading p = Some mark then going else idle)]"

definition topup_row :: "detail_props \<Rightarrow> string \<Rightarrow> detail_state \<Rightarrow> detail_action node" where
  "topup_row p key D =
     Elem ''div'' [(''className'', Str ''sdp-topup-row'')]
       ([Elem ''label'' [(''htmlFor'', Str (''topup-'' @ key)), (''className'', Str ''sr-only'')] [Text ''Top-up amount (XLM)''],
         Elem ''input'' [(''id'', Str (''topup-'' @ key)), (''type'', Str ''number''), (''min'', Str ''0.0000001''), (''step'', Str ''0.1''),
           (''placeholder'', Str ''Amount (XLM)''), (''value'', Str (dt_topUpAmount D)), (''onChange'', On (Input DType)),
           (''className'', Str (''input'' @ (if dt_topUpError D \<noteq> '''' then '' input-error'' else ''''))),
           (''aria-invalid'', Flag (dt_topUpError D \<noteq> ''''))] [],
         action_button p ''btn btn-secondary btn-sm'' (detail_busy p) (''topup-'' @ key) (''Topping up'' @ [CHR 0xE2, CHR 0x80, CHR 0xA6]) ([CHR 0xE2, CHR 0x9E, CHR 0x95] @ '' Top Up'') DTopUp] @
        show_if (dt_topUpError D \<noteq> '''') (Elem ''span'' [(''role'', Str ''alert''), (''className'', Str ''field-error'')] [Text (dt_topUpError D)]))"

definition detail_actions :: "detail_props \<Rightarrow> stream \<Rightarrow> detail_state \<Rightarrow> detail_action node" where
  "detail_actions p s D =
     (let key = show_int (sid s); busy = detail_busy p;
          ee = (is_party p (employee s) \<or> no_wallet p); er = (is_party p (employer s) \<or> no_wallet p);
          active = has_status s ''Active''; paused = has_status s ''Paused''
      in Elem ''section'' [(''className'', Str ''card sdp-section''), (''aria-labelledby'', Str ''sdp-actions-heading'')]
        ([Elem ''h3'' [(''id'', Str ''sdp-actions-heading''), (''className'', Str ''sdp-section-title'')] [Text ''Actions''],
          Elem ''div'' [(''className'', Str ''sdp-actions''), (''role'', Str ''group''), (''aria-label'', Str (''Actions for stream '' @ key))]
            (show_if (ee \<and> active) (action_button p ''btn'' (busy \<or> \<not> dp_onWithdraw p) ''withdraw'' (''Withdrawing'' @ [CHR 0xE2, CHR 0x80, CHR 0xA6]) ([CHR 0xF0, CHR 0x9F, CHR 0x92, CHR 0xB8] @ '' Withdraw'') DWithdraw) @
             show_if (er \<and> active) (action_button p ''btn btn-warning btn-sm'' busy (''pause-'' @ key) (''Pausing'' @ [CHR 0xE2, CHR 0x80, CHR 0xA6]) ([CHR 0xE2, CHR 0x8F, CHR 0xB8] @ '' Pause'') DPause) @
             show_if (er \<and> paused) (action_button p ''btn btn-success btn-sm'' busy (''resume-'' @ key) (''Resuming'' @ [CHR 0xE2, CHR 0x80, CHR 0xA6]) ([CHR 0xE2, CHR 0x96, CHR 0xB6] @ '' Resume'') DResume) @
             show_if (er \<and> (active \<or> paused)) (action_button p ''btn btn-danger btn-sm'' busy (''cancel-'' @ key) (''Cancelling'' @ [CHR 0xE2, CHR 0x80, CHR 0xA6]) ([CHR 0xE2, CHR 0x9C, CHR 0x95] @ '' Cancel'') DCancel) @
             show_if (er \<and> (active \<or> paused)) (topup_row p key D))] @
         show_if (no_wallet p) (Elem ''p'' [] [Text ''Connect your wallet to perform actions.''])))"

text \<open>The table of the history, shared with the employee's page.\<close>

definition history_row :: "(string \<Rightarrow> int option) \<Rightarrow> (int option \<Rightarrow> string) \<Rightarrow> tx_record \<Rightarrow> 'a node" where
  "history_row date_of toLocaleString r =
     Elem ''tr'' []
       [Elem ''td'' [] [Text (if tx_timestamp r \<noteq> '''' then toLocaleString (date_of (tx_timestamp r)) else [CHR 0xE2, CHR 0x80, CHR 0x94])],
        Elem ''td'' [] [Text (tx_type r)],
        Elem ''td'' [] [Text (case tx_amount r of Some a \<Rightarrow> a | None \<Rightarrow> [CHR 0xE2, CHR 0x80, CHR 0x94])]]"

definition history_table :: "(string \<Rightarrow> int option) \<Rightarrow> (int option \<Rightarrow> string) \<Rightarrow> tx_record list \<Rightarrow> 'a node list" where
  "history_table date_of toLocaleString rs = show_if (rs \<noteq> [])
     (Elem ''table'' [(''className'', Str ''history-table''), (''aria-label'', Str ''Transaction history'')]
       [Elem ''thead'' [] [Elem ''tr'' []
          (map (\<lambda>t. Elem ''th'' [(''scope'', Str ''col'')] [Text t]) [''Timestamp'', ''Type'', ''Amount''])],
        Elem ''tbody'' [] (map (history_row date_of toLocaleString) rs)])"

definition history_notes :: "history_state \<Rightarrow> 'a node list" where
  "history_notes h =
     show_if (truthy_text (h_error h)) (Elem ''p'' [(''role'', Str ''alert''), (''className'', Str ''error-banner'')] [Text (or_empty (h_error h))]) @
     show_if (\<not> h_loading h \<and> \<not> truthy_text (h_error h) \<and> h_records h = []) (Elem ''p'' [(''className'', Str ''muted'')] [Text ''No transactions found.''])"

definition history_loading_note :: "history_state \<Rightarrow> 'a node list" where
  "history_loading_note h = show_if (h_loading h) (Elem ''p'' [(''aria-live'', Str ''polite''), (''aria-busy'', Str ''true'')] [Text (''Loading'' @ [CHR 0xE2, CHR 0x80, CHR 0xA6])])"

definition detail_history :: "(string \<Rightarrow> int option) \<Rightarrow> (int option \<Rightarrow> string) \<Rightarrow> history_state \<Rightarrow> detail_action node" where
  "detail_history date_of toLocaleString h =
     Elem ''section'' [(''className'', Str ''card sdp-section''), (''aria-labelledby'', Str ''sdp-history-heading'')]
       (Elem ''h3'' [(''id'', Str ''sdp-history-heading''), (''className'', Str ''sdp-section-title'')] [Text ''Transaction History''] #
        history_notes h @ history_table date_of toLocaleString (h_records h) @ history_loading_note h @
        show_if (h_hasMore h \<and> \<not> h_loading h)
          (Elem ''button'' [(''className'', Str ''btn btn-secondary''), (''onClick'', On (Click DLoadMore))] [Text ''Load more'']))"

section \<open>The page\<close>

definition StreamDetailPage ::
  "(string \<Rightarrow> int option) \<Rightarrow> (int option \<Rightarrow> string) \<Rightarrow> detail_props \<Rightarrow> history_state \<Rightarrow> stream \<Rightarrow> detail_state \<Rightarrow> js_error + detail_action node list" where
  "StreamDetailPage date_of toLocaleString p h s D =
     rbind (js_shorten (employer s)) (\<lambda>er.
     rbind (js_shorten (employee s)) (\<lambda>ee.
     rbind (js_shorten (token s)) (\<lambda>tok.
     rbind (StreamStatusBadge (status s)) (\<lambda>badge. Inr
       [Elem ''main'' [(''className'', Str ''sdp-root''), (''aria-label'', Str (''Stream '' @ show_int (sid s) @ '' detail''))]
         [Elem ''button'' [(''className'', Str ''btn btn-secondary sdp-back''), (''onClick'', On (Click DBack)), (''aria-label'', Str ''Back to streams'')]
            [Text ([CHR 0xE2, CHR 0x86, CHR 0x90] @ '' Back'')],
          Elem ''h2'' [(''className'', Str ''sdp-title'')] (Text (''Stream #'' @ show_int (sid s)) # Text '' '' # badge),
          detail_fields toLocaleString p s er ee tok, detail_actions p s D, detail_history date_of toLocaleString h]]))))"

end
