(* ===== verification/Detail_View_Props.thy ===== *)
theory Detail_View_Props
  imports Detail_View Contract_Runs
begin

text \<open>
  The actions that the page of a stream offers, read off the rendered page, against what the contract accepts from the same
  account at the same state.
\<close>

section \<open>What can be clicked\<close>

lemma button_clicks: "node_clicks (action_button p cls off mark going idle a) = (if off then [] else [a])"
  by (simp add: action_button_def clicking)

lemma quiet_details:
  "node_clicks (FieldRow l v) = node_clicks v" "node_clicks (account_link a t) = []"
  by (simp_all add: FieldRow_def account_link_def clicking)

lemma fields_clicks: "node_clicks (detail_fields f p s er ee tok) = []"
  by (simp add: detail_fields_def Let_def clicking quiet_details)

lemma topup_row_clicks: "node_clicks (topup_row p key D) = (if detail_busy p then [] else [DTopUp])"
  by (simp add: topup_row_def clicking button_clicks)

lemma history_clicks:
  "node_clicks (detail_history date_of f h) = (if h_hasMore h \<and> \<not> h_loading h then [DLoadMore] else [])"
proof -
  have "clicks (history_notes h :: detail_action node list) = []" by (simp add: history_notes_def clicking)
  moreover have "clicks (history_table date_of f rs :: detail_action node list) = []" for rs
    by (simp add: history_table_def history_row_def clicking)
  moreover have "clicks (history_loading_note h :: detail_action node list) = []" by (simp add: history_loading_note_def clicking)
  ultimately show ?thesis by (simp add: detail_history_def clicking)
qed

text \<open>The actions of the middle section.\<close>

definition offered :: "detail_props \<Rightarrow> stream \<Rightarrow> detail_action set" where
  "offered p s =
     (let ee = (is_party p (employee s) \<or> no_wallet p); er = (is_party p (employer s) \<or> no_wallet p);
          active = has_status s ''Active''; paused = has_status s ''Paused'' in
      if detail_busy p then {} else
        (if ee \<and> active \<and> dp_onWithdraw p then {DWithdraw} else {}) \<union> (if er \<and> active then {DPause} else {}) \<union>
        (if er \<and> paused then {DResume} else {}) \<union> (if er \<and> (active \<or> paused) then {DCancel, DTopUp} else {}))"

lemma actions_clicks: "set (node_clicks (detail_actions p s D)) = offered p s"
  by (auto simp: detail_actions_def offered_def Let_def clicking button_clicks topup_row_clicks)

lemma detail_clicks:
  assumes "StreamDetailPage date_of f p h s D = Inr page"
  shows "set (clicks page) = {DBack} \<union> offered p s \<union> (if h_hasMore h \<and> \<not> h_loading h then {DLoadMore} else {})"
  using assms
  by (auto simp: StreamDetailPage_def rbind_Inr_iff clicking badge_clicks fields_clicks actions_clicks history_clicks)

section \<open>Against the contract\<close>

text \<open>The stream as the page is written for it: the status is its name.\<close>

abbreviation typed_view :: "contract_stream \<Rightarrow> stream" where
  "typed_view \<equiv> stream_view (\<lambda>st. JStr (status_name st))"

lemma status_view: "has_status (typed_view s) t = (status_name (cs_status s) = t)"
  by (simp add: has_status_def stream_view_def)

lemma typed_page_renders: "\<exists>page. StreamDetailPage date_of f p h (typed_view s) D = Inr page"
proof -
  have "status_name (cs_status s) \<in> set stream_statuses" by (cases "cs_status s") (simp_all add: stream_statuses_def)
  then obtain b :: "detail_action node list" where "StreamStatusBadge (JStr (status_name (cs_status s))) = Inr b" using badge_renders by blast
  then show ?thesis by (simp add: StreamDetailPage_def stream_view_def js_shorten_def)
qed


lemma pause_accepted:
  assumes "e_auth E (cs_employer s)" "jsget (c_streams k) i = Some s"
  shows "(\<exists>k'. op_pause_stream E (cs_employer s) i k = Inr ((), k')) \<longleftrightarrow> cs_status s = Active"
    and "(\<exists>k'. op_resume_stream E (cs_employer s) i k = Inr ((), k')) \<longleftrightarrow> cs_status s = Paused"
  using assms
  by (auto simp: op_pause_stream_def op_resume_stream_def tx may_manage_def pause_stream_def resume_stream_def
      is_valid_transition_def add_pause_event_def)

lemma closing_accepted:
  assumes "jsget (c_streams k) i = Some s"
  shows "op_cancel_stream E a i k = Inr (u, k') \<Longrightarrow> cs_status s = Active \<or> cs_status s = Paused"
    and "op_top_up E a i n k = Inr (u, k') \<Longrightarrow> cs_status s = Active \<or> cs_status s = Paused"
proof -
  show "op_cancel_stream E a i k = Inr (u, k') \<Longrightarrow> cs_status s = Active \<or> cs_status s = Paused"
    using assms by (auto simp: op_cancel_stream_def tx)
  show "op_top_up E a i n k = Inr (u, k') \<Longrightarrow> cs_status s = Active \<or> cs_status s = Paused"
    using assms by (cases "cs_status s") (auto simp: op_top_up_def tx)
qed

lemma withdrawal_accepted:
  assumes "op_withdraw E a i k = Inr (n, k')" "n \<noteq> 0" "jsget (c_streams k) i = Some s"
  shows "a = cs_employee s \<and> cs_status s = Active"
proof -
  obtain g where g: "claimable_amount s (e_now E) = Some g" "a = cs_employee s" "cs_status s = Active \<or> cs_status s = Exhausted"
    "g = 0 \<Longrightarrow> n = 0"
    using assms(1,3) by (auto simp: op_withdraw_def tx split: if_splits)
  then show ?thesis using assms(2) claimable_terminal [OF g(1)] by (auto simp: is_terminal_def)
qed

lemma offered_to_party:
  assumes "dp_publicKey p = Some pk" "pk \<noteq> ''''" "\<not> detail_busy p"
  shows "DPause \<in> offered p (typed_view s) \<longleftrightarrow> pk = cs_employer s \<and> cs_status s = Active"
    and "DResume \<in> offered p (typed_view s) \<longleftrightarrow> pk = cs_employer s \<and> cs_status s = Paused"
    and "DCancel \<in> offered p (typed_view s) \<longleftrightarrow> pk = cs_employer s \<and> cs_status s \<in> {Active, Paused}"
    and "DTopUp \<in> offered p (typed_view s) \<longleftrightarrow> pk = cs_employer s \<and> cs_status s \<in> {Active, Paused}"
    and "DWithdraw \<in> offered p (typed_view s) \<longleftrightarrow> pk = cs_employee s \<and> cs_status s = Active \<and> dp_onWithdraw p"
    and "pk \<notin> {cs_employer s, cs_employee s} \<Longrightarrow> offered p (typed_view s) = {}"
  using assms
  by (cases "cs_status s"; auto simp: offered_def is_party_def no_wallet_def truthy_text_def status_view Let_def stream_view_def has_status_def)+

section \<open>Delegates\<close>

text \<open>The contract lets the delegate of a stream pause it, but the page offers the delegate nothing.\<close>

lemma delegate_not_offered:
  assumes "StreamDetailPage date_of f p h (typed_view s) D = Inr page" "dp_publicKey p = Some d" "d \<noteq> ''''" "\<not> detail_busy p"
    and "cs_delegate s = Some d" "d \<notin> {cs_employer s, cs_employee s}" "e_auth E d" "jsget (c_streams k) (cs_id s) = Some s" "cs_status s = Active"
  shows "(\<exists>k'. op_pause_stream E d (cs_id s) k = Inr ((), k')) \<and> DPause \<notin> set (clicks page)"
proof
  show "\<exists>k'. op_pause_stream E d (cs_id s) k = Inr ((), k')"
    using assms(5-9) by (auto simp: op_pause_stream_def tx may_manage_def is_delegate_def pause_stream_def is_valid_transition_def add_pause_event_def)
  show "DPause \<notin> set (clicks page)"
    using offered_to_party(6) [OF assms(2-4,6)] by (simp add: detail_clicks [OF assms(1)])
qed

section \<open>Properties\<close>


definition sample_props :: detail_props where
  "sample_props = \<lparr>dp_claimable = 0, dp_publicKey = Some ''A'', dp_onWithdraw = True, dp_onPause = True, dp_onResume = True, dp_onCancel = True,
     dp_onTopUp = True, dp_loading = False, dp_actionLoading = None\<rparr>"

definition idle_history :: history_state where
  "idle_history = \<lparr>h_records = [], h_loading = False, h_error = None, h_cursor = None, h_hasMore = False\<rparr>"


end
