(* ===== verification/Employer_View.thy ===== *)
theory Employer_View
  imports Stream_Card Dialogs
begin

text \<open>
  The page of the employer's dashboard (\<^verbatim>\<open>demo/src/EmployerDashboard.tsx\<close>,
  \<^verbatim>\<open>demo/src/StreamCardSkeleton.tsx\<close>): its state, the page it renders over the state of the hook
  (\<open>Dashboard\<close>) with the cards and the cancellation dialog, and its handlers as calls of the hook. The browser's date
  format and the live amounts of the cards are parameters.
\<close>

section \<open>State and actions\<close>

record employer_page =
  statusFilter :: string
  topUpStreamId :: "int option"
  topUpAmount :: string
  cancelling :: "stream option"
  cancel_typed :: string

definition employer_page_init :: employer_page where
  "employer_page_init = \<lparr>statusFilter = ''all'', topUpStreamId = None, topUpAmount = '''', cancelling = None, cancel_typed = ''''\<rparr>"

datatype employer_action =
    ConnectWallet
  | RefreshPage
  | SetFilter string
  | StartAction action int
  | OpenCancel stream
  | ToggleTopUp int
  | TypeTopUp string
  | SubmitTopUp int
  | InCancel cancel_action

text \<open>What a handler asks of the hook.\<close>

datatype hook_call = CallConnect | CallRefresh | CallAction action int | CallTopUp int int

section \<open>Filtering\<close>

text \<open>\<^verbatim>\<open>filter\<close> with a condition that may throw.\<close>

fun filter_throwing :: "('a \<Rightarrow> js_error + bool) \<Rightarrow> 'a list \<Rightarrow> js_error + 'a list" where
  "filter_throwing p [] = Inr []"
| "filter_throwing p (x # xs) = rbind (p x) (\<lambda>b. rbind (filter_throwing p xs) (\<lambda>ys. Inr (if b then x # ys else ys)))"

definition by_status :: "string \<Rightarrow> stream list \<Rightarrow> js_error + stream list" where
  "by_status st ss = (if st = ''all'' then Inr ss
     else filter_throwing (\<lambda>s. rbind (js_toLowerCase (status s)) (\<lambda>l. Inr (l = st))) ss)"

definition FILTER_OPTIONS :: "(string \<times> string) list" where
  "FILTER_OPTIONS = [(''all'', ''All''), (''active'', ''Active''), (''paused'', ''Paused''), (''cancelled'', ''Cancelled''), (''exhausted'', ''Exhausted'')]"

section \<open>Top-up\<close>

definition topup_stroops :: "string \<Rightarrow> js_error + int" where
  "topup_stroops amount = bigint_of_num (math_floor (js_mul (parseFloat amount) (jsint 10000000)))"

definition big_div :: "int \<Rightarrow> int \<Rightarrow> int" where
  "big_div a b = sgn a * sgn b * (\<bar>a\<bar> div \<bar>b\<bar>)"

definition date_of_ms :: "jsnum \<Rightarrow> int option" where
  "date_of_ms x = (case x of
     Fin q \<Rightarrow> if \<bar>q\<bar> \<le> 8640000000000000 then Some (if 0 \<le> q then \<lfloor>q\<rfloor> else \<lceil>q\<rceil>) else None | _ \<Rightarrow> None)"

text \<open>The estimated end after a top-up; \<open>now\<close> is the time in seconds.\<close>

definition newEndTime :: "(int option \<Rightarrow> string) \<Rightarrow> int \<Rightarrow> bool \<Rightarrow> string \<Rightarrow> stream \<Rightarrow> js_error + string option" where
  "newEndTime toLocaleString now isToppingUp amount s =
     (if isToppingUp \<and> amount \<noteq> '''' \<and> parseFloat amount \<noteq> NaN then
        rbind (topup_stroops amount) (\<lambda>a.
          if 0 < a \<and> 0 < ratePerSecond s \<and> \<not> has_status s ''Cancelled'' then
            (let secondsRemaining = num_of_bigint (big_div (deposit s + a - withdrawn s) (ratePerSecond s));
                 baseTime = (if has_status s ''Active'' then now else startTime s)
             in Inr (Some (toLocaleString (date_of_ms (js_mul (js_add (num_of_bigint baseTime) secondsRemaining) (jsint 1000))))))
          else Inr None)
      else Inr None)"

definition topup_disabled :: "string option \<Rightarrow> string \<Rightarrow> bool" where
  "topup_disabled act amount = (truthy_text act \<or> amount = '''' \<or> js_le (parseFloat amount) (jsint 0))"

definition topup_form :: "string option \<Rightarrow> string option \<Rightarrow> string \<Rightarrow> string option \<Rightarrow> stream \<Rightarrow> employer_action node" where
  "topup_form act busy amount ending s =
     (let k = show_int (sid s); dep = js_div (num_of_bigint (deposit s)) (jsint 10000000); x = parseFloat amount in
      Elem ''form'' [(''className'', Str ''history-panel''), (''onSubmit'', On (Click (SubmitTopUp (sid s)))), (''aria-label'', Str (''Top up stream '' @ k))]
        ([Elem ''h3'' [] [Text (''Top Up Stream #'' @ k)],
          Elem ''dl'' [(''className'', Str ''topup-summary'')]
            (Elem ''div'' [(''className'', Str ''topup-summary-row'')]
               [Elem ''dt'' [] [Text ''Current deposit''], Elem ''dd'' [] [Text (toFixed 4 dep @ '' XLM'')]] #
             show_if (amount \<noteq> '''' \<and> x \<noteq> NaN \<and> js_less (jsint 0) x)
               (Elem ''div'' [(''className'', Str ''topup-summary-row topup-summary-new'')]
                 [Elem ''dt'' [] [Text ''New total''], Elem ''dd'' [] [Text (toFixed 4 (js_add dep x) @ '' XLM'')]])),
          Elem ''div'' [(''className'', Str ''form-group'')]
            [Elem ''input'' [(''type'', Str ''number''), (''step'', Str ''0.0001''), (''min'', Str ''0.0001''), (''placeholder'', Str ''Additional amount (XLM)''),
               (''value'', Str amount), (''onChange'', On (Input TypeTopUp)), (''required'', Flag True), (''disabled'', Flag (truthy_text act)),
               (''aria-label'', Str ''Top-up amount in XLM'')] [],
             Elem ''button'' [(''type'', Str ''submit''), (''className'', Str ''btn btn-success''), (''disabled'', Flag (topup_disabled act amount)),
               (''aria-busy'', Flag (busy = Some ''topup''))]
               [Text (if busy = Some ''topup'' then (''Confirming'' @ [CHR 0xE2, CHR 0x80, CHR 0xA6]) else ''Confirm Top Up'')]]] @
         (case ending of None \<Rightarrow> [] | Some t \<Rightarrow>
           [Elem ''p'' [(''className'', Str ''muted'')] [Text ''Estimated new end time: '', Elem ''strong'' [] [Text t]]])))"

section \<open>Parts of the page\<close>

definition truncateAddr :: "string \<Rightarrow> string" where
  "truncateAddr addr = (if length addr \<le> 12 then addr else shorten 6 4 addr)"

definition StatCard :: "string \<Rightarrow> string \<Rightarrow> string \<Rightarrow> string \<Rightarrow> 'a node" where
  "StatCard i label val icon =
     Elem ''div'' [(''className'', Str ''db-stat-card''), (''role'', Str ''listitem''), (''aria-labelledby'', Str i)]
       [Elem ''span'' [(''className'', Str ''db-stat-icon''), (''aria-hidden'', Str ''true'')] [Text icon],
        Elem ''span'' [(''className'', Str ''db-stat-value''), (''id'', Str i)] [Text val],
        Elem ''span'' [(''className'', Str ''db-stat-label'')] [Text label]]"

definition StreamCardSkeleton :: "'a node" where
  "StreamCardSkeleton =
     (let block = (\<lambda>c. Elem ''div'' [(''className'', Str (''skel-block '' @ c))] []) in
      Elem ''div'' [(''className'', Str ''ssc-card skel-card''), (''aria-hidden'', Str ''true'')]
        [Elem ''div'' [(''className'', Str ''skel-header'')] [block ''skel-title'', block ''skel-badge''],
         Elem ''div'' [(''className'', Str ''skel-metrics'')]
           (replicate 4 (Elem ''div'' [(''className'', Str ''skel-metric'')] [block ''skel-label'', block ''skel-value''])),
         Elem ''div'' [(''className'', Str ''skel-progress-section'')] [block ''skel-bar'']])"

definition error_banner :: "(string \<times> 'a attr) list \<Rightarrow> string option \<Rightarrow> 'a node list" where
  "error_banner ats e = show_if (truthy_text e)
     (Elem ''div'' ((''role'', Str ''alert'') # ats @ [(''className'', Str ''error-banner'')]) [Text (([CHR 0xE2, CHR 0x9A, CHR 0xA0, CHR 0xEF, CHR 0xB8, CHR 0x8F] @ '' '') @ or_empty e)])"

definition connect_screen :: "bool \<Rightarrow> string option \<Rightarrow> employer_action node list" where
  "connect_screen busy e =
     [Elem ''section'' [(''className'', Str ''db-connect-screen card''), (''aria-labelledby'', Str ''db-connect-heading'')]
       [Elem ''div'' [(''className'', Str ''db-connect-inner'')]
         ([Elem ''div'' [(''className'', Str ''db-connect-icon''), (''aria-hidden'', Str ''true'')] [Text [CHR 0xF0, CHR 0x9F, CHR 0x92, CHR 0xBC]],
           Elem ''h2'' [(''id'', Str ''db-connect-heading'')] [Text ''Employer Dashboard''],
           Elem ''p'' [(''className'', Str ''db-connect-desc'')]
             [Text (''Connect your Freighter wallet to view and manage all streams you'' @ [CHR 0x27] @ (''ve created '' @ [CHR 0xE2, CHR 0x80, CHR 0x94] @ '' pause, resume, or cancel in one place.''))],
           Elem ''button'' [(''onClick'', On (Click ConnectWallet)), (''disabled'', Flag busy), (''className'', Str ''btn btn-lg''),
             (''aria-busy'', Flag busy), (''id'', Str ''db-connect-btn'')] [Text (if busy then (''Connecting'' @ [CHR 0xE2, CHR 0x80, CHR 0xA6]) else ''Connect Freighter'')]] @
          error_banner [] e)]]"

definition top_bar :: "string \<Rightarrow> bool \<Rightarrow> nat \<Rightarrow> employer_action node" where
  "top_bar pk busy n =
     Elem ''div'' [(''className'', Str ''db-topbar'')]
       [Elem ''div'' []
          [Elem ''h2'' [(''className'', Str ''db-title'')] [Text ''Employer Dashboard''],
           Elem ''p'' [(''className'', Str ''db-subtitle'')]
             [Elem ''code'' [(''title'', Str pk)] [Text (truncateAddr pk)], Text ('' '' @ [CHR 0xC2, CHR 0xB7] @ '' ''),
              Text (show_int (int n) @ '' stream'' @ (if n \<noteq> 1 then ''s'' else '''') @ '' found'')]],
        Elem ''button'' [(''onClick'', On (Click RefreshPage)), (''disabled'', Flag busy), (''className'', Str ''btn btn-secondary''),
          (''aria-busy'', Flag busy), (''aria-label'', Str ''Refresh dashboard data''), (''id'', Str ''db-refresh-btn'')]
          [Text (if busy then (''Scanning'' @ [CHR 0xE2, CHR 0x80, CHR 0xA6]) else ([CHR 0xE2, CHR 0x86, CHR 0xBB] @ '' Refresh''))]]"

definition scan_progress :: "bool \<Rightarrow> int \<Rightarrow> int \<Rightarrow> 'a node list" where
  "scan_progress busy done tot =
     (let m = show_int (min tot 200) in
      show_if (busy \<and> 0 < tot)
        (Elem ''div'' [(''className'', Str ''db-scan-progress''), (''role'', Str ''status''),
           (''aria-label'', Str (''Scanning streams: '' @ show_int done @ '' of '' @ m)), (''aria-live'', Str ''polite'')]
          [Elem ''div'' [(''className'', Str ''db-scan-track'')] [Elem ''div'' [(''className'', Str ''db-scan-fill'')] []],
           Elem ''span'' [(''className'', Str ''db-scan-label'')] [Text ((''Scanning on-chain streams'' @ [CHR 0xE2, CHR 0x80, CHR 0xA6] @ '' '') @ show_int done @ ''/'' @ m)]]))"

definition stat_grid :: "dashboard_stats \<Rightarrow> 'a node" where
  "stat_grid st =
     Elem ''div'' [(''className'', Str ''db-stat-grid''), (''role'', Str ''list''), (''aria-label'', Str ''Stream statistics'')]
       [StatCard ''stat-total'' ''Total Streams'' (show_int (st_total st)) [CHR 0xF0, CHR 0x9F, CHR 0x93, CHR 0x8A], StatCard ''stat-active'' ''Active'' (show_int (st_active st)) [CHR 0xE2, CHR 0x9C, CHR 0x85],
        StatCard ''stat-paused'' ''Paused'' (show_int (st_paused st)) [CHR 0xE2, CHR 0x8F, CHR 0xB8],
        StatCard ''stat-locked'' ''Total Locked'' (toFixed 2 (totalLockedXlm st) @ '' XLM'') [CHR 0xF0, CHR 0x9F, CHR 0x94, CHR 0x92]]"

definition filter_button :: "string \<Rightarrow> string \<times> string \<Rightarrow> nat \<Rightarrow> employer_action node" where
  "filter_button cur opt n =
     Elem ''button'' [(''className'', Str (''db-filter-btn'' @ (if cur = fst opt then '' db-filter-active'' else ''''))),
         (''onClick'', On (Click (SetFilter (fst opt)))), (''aria-pressed'', Flag (cur = fst opt)), (''id'', Str (''filter-'' @ fst opt))]
       [Text (snd opt), Elem ''span'' [(''className'', Str ''db-filter-count'')] [Text (show_int (int n))]]"

definition filter_bar :: "string \<Rightarrow> stream list \<Rightarrow> js_error + employer_action node list" where
  "filter_bar cur ss =
     (if ss = [] then Inr []
      else rbind (seq_results (map (\<lambda>opt. rbind (by_status (fst opt) ss) (\<lambda>xs. Inr (filter_button cur opt (length xs)))) FILTER_OPTIONS)) (\<lambda>bs. Inr
        [Elem ''div'' [(''className'', Str ''db-filter-bar''), (''role'', Str ''group''), (''aria-label'', Str ''Filter streams by status'')] bs]))"

definition skeletons :: "bool \<Rightarrow> stream list \<Rightarrow> 'a node list" where
  "skeletons busy ss = show_if (busy \<and> ss = [])
     (Elem ''div'' [(''className'', Str ''db-stream-list''), (''aria-busy'', Str ''true''), (''aria-label'', Str ''Loading streams'')]
       [StreamCardSkeleton, StreamCardSkeleton, StreamCardSkeleton])"

definition empty_state :: "bool \<Rightarrow> stream list \<Rightarrow> 'a node list" where
  "empty_state busy ss = show_if (\<not> busy \<and> ss = [])
     (Elem ''div'' [(''className'', Str ''db-empty card''), (''role'', Str ''status'')]
       [Elem ''span'' [(''className'', Str ''db-empty-icon''), (''aria-hidden'', Str ''true'')] [Text [CHR 0xF0, CHR 0x9F, CHR 0x93, CHR 0xAD]],
        Elem ''p'' [] [Text ''No streams found for your address.''],
        Elem ''p'' [(''className'', Str ''muted'')]
          [Text ''Create your first stream using the '', Elem ''strong'' [] [Text ''Stream Demo''], Text '' tab.'']])"

section \<open>Cards and dialog\<close>

definition stream_busy :: "string option \<Rightarrow> int \<Rightarrow> string option" where
  "stream_busy act i =
     (let is = (\<lambda>a. act = Some (a @ ''-'' @ show_int i)) in
      if is ''pause'' then Some ''pause'' else if is ''resume'' then Some ''resume'' else if is ''cancel'' then Some ''cancel''
      else if is ''topup'' then Some ''topup'' else None)"

definition employer_card_props :: "employer_state \<Rightarrow> employer_action node list \<Rightarrow> stream \<Rightarrow> employer_action card_props" where
  "employer_card_props H children s =
     \<lparr>cp_tokenSymbol = None, cp_fiatCurrency = None, cp_tokenPrice = None, cp_onWithdraw = None,
      cp_onPause = Some (StartAction Pause (sid s)), cp_onResume = Some (StartAction Resume (sid s)), cp_onCancel = Some (OpenCancel s),
      cp_onShowHistory = None, cp_onExportCsv = None, cp_onShowTopUp = Some (ToggleTopUp (sid s)),
      cp_lastTxHash = jsget (lastTxHashes H) (show_int (sid s)), cp_loading = False,
      cp_actionLoading = stream_busy (actionLoading H) (sid s), cp_children = children\<rparr>"

definition employer_card ::
  "(int option \<Rightarrow> string) \<Rightarrow> int \<Rightarrow> (stream \<Rightarrow> int) \<Rightarrow> employer_state \<Rightarrow> employer_page \<Rightarrow> stream \<Rightarrow> js_error + employer_action node list" where
  "employer_card toLocaleString now live H P s =
     (let isToppingUp = (topUpStreamId P = Some (sid s)) in
      rbind (newEndTime toLocaleString now isToppingUp (topUpAmount P) s) (\<lambda>ending.
      StreamStatusCard toLocaleString
        (employer_card_props H
          (show_if isToppingUp (topup_form (actionLoading H) (stream_busy (actionLoading H) (sid s)) (topUpAmount P) ending s)) s)
        s (live s)))"

definition cards :: "bool \<Rightarrow> (stream \<Rightarrow> js_error + 'a node list) \<Rightarrow> stream list \<Rightarrow> js_error + 'a node list" where
  "cards busy render ss =
     (if ss = [] then Inr []
      else rbind (seq_results (map render ss)) (\<lambda>cs. Inr
        [Elem ''div'' [(''className'', Str ''db-stream-list''), (''role'', Str ''list''), (''aria-label'', Str ''Your employer streams''),
           (''aria-live'', Str ''polite''), (''aria-busy'', Flag busy)] (concat cs)]))"

text \<open>The amounts that the dialog is given for a stream: for the employee and for the employer.\<close>

definition cancel_amounts :: "stream \<Rightarrow> int \<times> int" where
  "cancel_amounts s = (if deposit s > withdrawn s then deposit s - withdrawn s else 0, withdrawn s)"

definition cancel_dialog :: "string \<Rightarrow> employer_page \<Rightarrow> employer_action node list" where
  "cancel_dialog inputId P =
     (case cancelling P of
        None \<Rightarrow> []
      | Some s \<Rightarrow> map (map_node InCancel)
          (CancelConfirmModal inputId (show_int (sid s)) (fst (cancel_amounts s)) (snd (cancel_amounts s)) (cancel_typed P)))"

section \<open>The page\<close>

definition EmployerDashboard ::
  "(int option \<Rightarrow> string) \<Rightarrow> int \<Rightarrow> (stream \<Rightarrow> int) \<Rightarrow> string \<Rightarrow> employer_state \<Rightarrow> employer_page \<Rightarrow> js_error + employer_action node list" where
  "EmployerDashboard toLocaleString now live inputId H P =
     rbind (by_status (statusFilter P) (streams H)) (\<lambda>filtered.
     case connected_key H of
       None \<Rightarrow> Inr (connect_screen (loading H) (hook_error H))
     | Some pk \<Rightarrow>
         rbind (filter_bar (statusFilter P) (streams H)) (\<lambda>bar.
         rbind (cards (loading H) (employer_card toLocaleString now live H P) filtered) (\<lambda>cs. Inr
           [Elem ''div'' [(''className'', Str ''employer-dashboard''), (''id'', Str ''employer-dashboard'')]
             (top_bar pk (loading H) (length (streams H)) # error_banner [(''aria-live'', Str ''assertive'')] (hook_error H) @
              scan_progress (loading H) (scanned H) (chainTotal H) @ stat_grid (employer_stats (streams H)) # bar @
              skeletons (loading H) (streams H) @ empty_state (loading H) (streams H) @ cs @ cancel_dialog inputId P)])))"

section \<open>Handlers\<close>

text \<open>The state after a handler and its call of the hook, up to that call; \<open>sure\<close> is the answer to
  \<^verbatim>\<open>window.confirm\<close>.\<close>

definition open_topup :: "int \<Rightarrow> employer_page \<Rightarrow> employer_page" where
  "open_topup i P = P\<lparr>topUpStreamId := (if topUpStreamId P = Some i then None else Some i), topUpAmount := ''''\<rparr>"

definition submit_topup :: "bool \<Rightarrow> int \<Rightarrow> employer_page \<Rightarrow> hook_call option" where
  "submit_topup sure i P =
     (case topup_stroops (topUpAmount P) of
        Inl _ \<Rightarrow> None
      | Inr a \<Rightarrow> if a \<le> 0 \<or> \<not> sure then None else Some (CallTopUp i a))"

text \<open>After the call: only a top-up that went through closes the form.\<close>

definition topup_settled :: "js_error + unit \<Rightarrow> employer_page \<Rightarrow> employer_page" where
  "topup_settled r P = (case r of Inr _ \<Rightarrow> P\<lparr>topUpStreamId := None, topUpAmount := ''''\<rparr> | Inl _ \<Rightarrow> P)"

fun employer_do :: "bool \<Rightarrow> employer_action \<Rightarrow> employer_page \<Rightarrow> employer_page \<times> hook_call option" where
  "employer_do sure ConnectWallet P = (P, Some CallConnect)"
| "employer_do sure RefreshPage P = (P, Some CallRefresh)"
| "employer_do sure (SetFilter f) P = (P\<lparr>statusFilter := f\<rparr>, None)"
| "employer_do sure (StartAction a i) P = (P, Some (CallAction a i))"
| "employer_do sure (OpenCancel s) P = (P\<lparr>cancelling := Some s, cancel_typed := ''''\<rparr>, None)"
| "employer_do sure (ToggleTopUp i) P = (open_topup i P, None)"
| "employer_do sure (TypeTopUp t) P = (P\<lparr>topUpAmount := t\<rparr>, None)"
| "employer_do sure (SubmitTopUp i) P = (P, submit_topup sure i P)"
| "employer_do sure (InCancel (TypeText t)) P = (P\<lparr>cancel_typed := t\<rparr>, None)"
| "employer_do sure (InCancel ConfirmCancel) P =
     (P\<lparr>cancelling := None, cancel_typed := ''''\<rparr>, map_option (\<lambda>s. CallAction Cancel (sid s)) (cancelling P))"
| "employer_do sure (InCancel CloseCancel) P = (P\<lparr>cancelling := None, cancel_typed := ''''\<rparr>, None)"

end
