(* ===== verification/Employee_View.thy ===== *)
theory Employee_View
  imports Detail_View Employer_View
begin

text \<open>
  The page of the employee's dashboard (\<^verbatim>\<open>demo/src/EmployeeDashboard.tsx\<close>): its state, the page it renders over the
  states of the dashboard hook (\<open>Dashboard\<close>) and of the history hook (\<open>History\<close>), its handlers as calls of the hooks and
  the export of a stream's history. The browser's date parser and format, the live amounts of the cards and the labels and prices
  of the tokens are parameters.
\<close>

section \<open>State and actions\<close>

record employee_page =
  emp_filter :: string
  historyStreamId :: "int option"

definition employee_page_init :: employee_page where
  "employee_page_init = \<lparr>emp_filter = ''all'', historyStreamId = None\<rparr>"

datatype employee_action =
    EmpConnect | EmpRefresh | EmpFilter string | EmpWithdraw int | EmpHistory int | EmpExport int | EmpMore int

text \<open>What a handler asks of the hooks; \<open>AskHistory\<close> resets the history and fetches its first page.\<close>

datatype employee_call = AskConnect | AskRefresh | AskWithdraw int | AskHistory int | AskMore int | AskExport int

section \<open>Handlers\<close>

definition handleShowHistory :: "int \<Rightarrow> employee_page \<Rightarrow> employee_page \<times> employee_call option" where
  "handleShowHistory i P =
     (if historyStreamId P = Some i then (P\<lparr>historyStreamId := None\<rparr>, None)
      else (P\<lparr>historyStreamId := Some i\<rparr>, Some (AskHistory i)))"

fun employee_do :: "employee_action \<Rightarrow> employee_page \<Rightarrow> employee_page \<times> employee_call option" where
  "employee_do EmpConnect P = (P, Some AskConnect)"
| "employee_do EmpRefresh P = (P, Some AskRefresh)"
| "employee_do (EmpFilter f) P = (P\<lparr>emp_filter := f\<rparr>, None)"
| "employee_do (EmpWithdraw i) P = (P, Some (AskWithdraw i))"
| "employee_do (EmpHistory i) P = handleShowHistory i P"
| "employee_do (EmpExport i) P = (P, Some (AskExport i))"
| "employee_do (EmpMore i) P = (P, Some (AskMore i))"

section \<open>Export\<close>

definition export_PAGE_SIZE :: nat where
  "export_PAGE_SIZE = 200"

definition export_url :: "int \<Rightarrow> string option \<Rightarrow> string" where
  "export_url i cursor =
     HORIZON_BASE @ ''/accounts/'' @ show_int i @ ''/operations?'' @
     search_params ([(''limit'', show_int (int export_PAGE_SIZE)), (''order'', ''desc'')] @
       (if truthy_text cursor then [(''cursor'', or_empty cursor)] else []))"

definition export_op :: "jsval \<Rightarrow> js_error + tx_record" where
  "export_op op =
     rbind (js_field op ''id'') (\<lambda>i.
     rbind (js_field op ''created_at'') (\<lambda>t.
     rbind (js_field op ''type'') (\<lambda>ty.
     rbind (opAmount op) (\<lambda>a.
       Inr \<lparr>tx_id = js_string i, tx_timestamp = string_or_empty t,
         tx_type = map (\<lambda>c. if c = CHR ''_'' then CHR '' '' else c) (string_or_empty ty), tx_amount = a\<rparr>))))"

definition export_page :: "http_response \<Rightarrow> js_error + page" where
  "export_page res =
     (if \<not> resp_ok res then Inl (Error (''Horizon error: '' @ show_int (resp_status res)))
      else rbind (resp_json res) (\<lambda>data.
           rbind (js_field data ''_embedded'') (\<lambda>emb.
           rbind (js_field emb ''records'') (\<lambda>ops.
             case ops of
               JArr os \<Rightarrow>
                 rbind (seq_results (map export_op os)) (\<lambda>rs.
                 rbind (paging_token os) (\<lambda>lastToken. Inr
                   \<lparr>page_records = rs, page_nextCursor = (if length os = export_PAGE_SIZE then lastToken else None)\<rparr>))
             | _ \<Rightarrow> Inl (TypeError ''ops.map is not a function'')))))"

definition export_fetchPage :: "'w fetch \<Rightarrow> int \<Rightarrow> string option \<Rightarrow> ('w, page) io" where
  "export_fetchPage fetch i cursor = bind (fetch (get_request (export_url i cursor))) (\<lambda>res. of_result (export_page res))"

definition handleExportCsv ::
  "(string \<Rightarrow> int option) \<Rightarrow> (string \<Rightarrow> string \<Rightarrow> ('w, unit) io) \<Rightarrow> 'w fetch \<Rightarrow> int \<Rightarrow> 'w \<Rightarrow> ((js_error + unit) \<times> 'w) option" where
  "handleExportCsv date_of download fetch i = exportAllHistory date_of download i (export_fetchPage fetch i) None '''' ''''"

section \<open>Parts of the page\<close>

definition employee_connect_screen :: "bool \<Rightarrow> string option \<Rightarrow> employee_action node list" where
  "employee_connect_screen busy e =
     [Elem ''section'' [(''className'', Str ''db-connect-screen card''), (''aria-labelledby'', Str ''emp-connect-heading'')]
       [Elem ''div'' [(''className'', Str ''db-connect-inner'')]
         ([Elem ''div'' [(''className'', Str ''db-connect-icon''), (''aria-hidden'', Str ''true'')] [Text [CHR 0xF0, CHR 0x9F, CHR 0x92, CHR 0xB3]],
           Elem ''h2'' [(''id'', Str ''emp-connect-heading'')] [Text ''Employee Earnings''],
           Elem ''p'' [(''className'', Str ''db-connect-desc'')]
             [Text ''Connect your Freighter wallet to view streams paying you, and withdraw your real-time earnings with one click.''],
           Elem ''button'' [(''onClick'', On (Click EmpConnect)), (''disabled'', Flag busy), (''className'', Str ''btn btn-lg''),
             (''aria-busy'', Flag busy), (''id'', Str ''emp-connect-btn'')] [Text (if busy then (''Connecting'' @ [CHR 0xE2, CHR 0x80, CHR 0xA6]) else ''Connect Freighter'')]] @
          error_banner [] e)]]"

definition employee_top_bar :: "string \<Rightarrow> bool \<Rightarrow> nat \<Rightarrow> employee_action node" where
  "employee_top_bar pk busy n =
     Elem ''div'' [(''className'', Str ''db-topbar'')]
       [Elem ''div'' []
          [Elem ''h2'' [(''className'', Str ''db-title'')] [Text ''Employee Earnings''],
           Elem ''p'' [(''className'', Str ''db-subtitle'')]
             [Elem ''code'' [(''title'', Str pk)] [Text (truncateAddr pk)], Text ('' '' @ [CHR 0xC2, CHR 0xB7] @ '' ''),
              Text (show_int (int n) @ '' stream'' @ (if n \<noteq> 1 then ''s'' else '''') @ '' found'')]],
        Elem ''button'' [(''onClick'', On (Click EmpRefresh)), (''disabled'', Flag busy), (''className'', Str ''btn btn-secondary''),
          (''aria-busy'', Flag busy), (''aria-label'', Str ''Refresh earnings data''), (''id'', Str ''emp-refresh-btn'')]
          [Text (if busy then (''Scanning'' @ [CHR 0xE2, CHR 0x80, CHR 0xA6]) else ([CHR 0xE2, CHR 0x86, CHR 0xBB] @ '' Refresh''))]]"

definition earnings_grid :: "employee_stats \<Rightarrow> 'a node" where
  "earnings_grid st =
     Elem ''div'' [(''className'', Str ''db-stat-grid''), (''role'', Str ''list''), (''aria-label'', Str ''Earnings statistics'')]
       [StatCard ''emp-stat-total'' ''Total Streams'' (show_int (es_total st)) [CHR 0xF0, CHR 0x9F, CHR 0x93, CHR 0x8A], StatCard ''emp-stat-active'' ''Active'' (show_int (es_active st)) [CHR 0xE2, CHR 0x9C, CHR 0x85],
        StatCard ''emp-stat-withdrawn'' ''Total Withdrawn'' (toFixed 2 (es_totalWithdrawnXlm st) @ '' XLM'') [CHR 0xF0, CHR 0x9F, CHR 0x8F, CHR 0xA6],
        StatCard ''emp-stat-claimable'' ''Ready to Claim'' (toFixed 4 (es_totalClaimableXlm st) @ '' XLM'') [CHR 0xF0, CHR 0x9F, CHR 0x92, CHR 0xB8]]"

definition employee_filter_button :: "string \<Rightarrow> string \<times> string \<Rightarrow> nat \<Rightarrow> employee_action node" where
  "employee_filter_button cur opt n =
     Elem ''button'' [(''className'', Str (''db-filter-btn'' @ (if cur = fst opt then '' db-filter-active'' else ''''))),
         (''onClick'', On (Click (EmpFilter (fst opt)))), (''aria-pressed'', Flag (cur = fst opt)), (''id'', Str (''emp-filter-'' @ fst opt))]
       [Text (snd opt), Elem ''span'' [(''className'', Str ''db-filter-count'')] [Text (show_int (int n))]]"

definition employee_filter_bar :: "string \<Rightarrow> stream list \<Rightarrow> js_error + employee_action node list" where
  "employee_filter_bar cur ss =
     (if ss = [] then Inr []
      else rbind (seq_results (map (\<lambda>opt. rbind (by_status (fst opt) ss) (\<lambda>xs. Inr (employee_filter_button cur opt (length xs)))) FILTER_OPTIONS)) (\<lambda>bs. Inr
        [Elem ''div'' [(''className'', Str ''db-filter-bar''), (''role'', Str ''group''), (''aria-label'', Str ''Filter streams by status'')] bs]))"

definition employee_empty_state :: "bool \<Rightarrow> stream list \<Rightarrow> 'a node list" where
  "employee_empty_state busy ss = show_if (\<not> busy \<and> ss = [])
     (Elem ''div'' [(''className'', Str ''db-empty card''), (''role'', Str ''status'')]
       [Elem ''span'' [(''className'', Str ''db-empty-icon''), (''aria-hidden'', Str ''true'')] [Text [CHR 0xF0, CHR 0x9F, CHR 0x93, CHR 0xAD]],
        Elem ''p'' [] [Text ''No incoming streams found.''],
        Elem ''p'' [(''className'', Str ''muted'')] [Text (''You don'' @ [CHR 0x27] @ ''t have any streams paying to this address.'')]])"

text \<open>The history of a stream inside its card.\<close>

definition history_panel ::
  "(string \<Rightarrow> int option) \<Rightarrow> (int option \<Rightarrow> string) \<Rightarrow> history_state \<Rightarrow> stream \<Rightarrow> employee_action node" where
  "history_panel date_of toLocaleString h s =
     (let k = show_int (sid s) in
      Elem ''div'' [(''id'', Str (''emp-history-'' @ k)), (''className'', Str ''history-panel''), (''role'', Str ''region''),
          (''aria-label'', Str (''Transaction history for stream '' @ k))]
        (Elem ''h3'' [] [Text ''Transaction History''] # history_notes h @ history_table date_of toLocaleString (h_records h) @
         history_loading_note h @
         show_if (h_hasMore h \<and> \<not> h_loading h)
           (Elem ''button'' [(''onClick'', On (Click (EmpMore (sid s)))), (''className'', Str ''btn btn-secondary''),
             (''aria-label'', Str ''Load more transactions'')] [Text ''Load more'']) @
         show_if (h_records h \<noteq> [])
           (Elem ''button'' [(''onClick'', On (Click (EmpExport (sid s)))), (''className'', Str ''btn btn-secondary''),
             (''aria-label'', Str (''Export all history for stream '' @ k @ '' as CSV''))] [Text ''Export all as CSV''])))"

section \<open>Cards\<close>

text \<open>What the parent passes for the fiat values of the cards.\<close>

record fiat_props =
  fp_currency :: "string option"
  fp_price :: "jsval \<Rightarrow> jsnum option"
  fp_label :: "jsval \<Rightarrow> string option"

definition card_claimable :: "employee_state \<Rightarrow> stream \<Rightarrow> int" where
  "card_claimable H s = (case jsget (claimableAmounts H) (show_int (sid s)) of Some n \<Rightarrow> n | None \<Rightarrow> 0)"

definition employee_card_props ::
  "fiat_props \<Rightarrow> employee_state \<Rightarrow> employee_action node list \<Rightarrow> stream \<Rightarrow> employee_action card_props" where
  "employee_card_props fp H children s =
     \<lparr>cp_tokenSymbol = fp_label fp (token s), cp_fiatCurrency = fp_currency fp, cp_tokenPrice = fp_price fp (token s),
      cp_onWithdraw = (if has_status s ''Active'' then Some (EmpWithdraw (sid s)) else None),
      cp_onPause = None, cp_onResume = None, cp_onCancel = None,
      cp_onShowHistory = Some (EmpHistory (sid s)), cp_onExportCsv = Some (EmpExport (sid s)), cp_onShowTopUp = None,
      cp_lastTxHash = None, cp_loading = loading H,
      cp_actionLoading = (if actionLoading H = Some (''withdraw-'' @ show_int (sid s)) then Some ''withdraw'' else None),
      cp_children = children\<rparr>"

definition employee_card ::
  "(string \<Rightarrow> int option) \<Rightarrow> (int option \<Rightarrow> string) \<Rightarrow> (stream \<Rightarrow> int \<Rightarrow> int) \<Rightarrow> fiat_props \<Rightarrow> employee_state \<Rightarrow> history_state \<Rightarrow> employee_page \<Rightarrow>
    stream \<Rightarrow> js_error + employee_action node list" where
  "employee_card date_of toLocaleString live fp H h P s =
     StreamStatusCard toLocaleString
       (employee_card_props fp H (show_if (historyStreamId P = Some (sid s)) (history_panel date_of toLocaleString h s)) s)
       s (live s (card_claimable H s))"

definition employee_cards :: "bool \<Rightarrow> (stream \<Rightarrow> js_error + 'a node list) \<Rightarrow> stream list \<Rightarrow> js_error + 'a node list" where
  "employee_cards busy render ss =
     (if ss = [] then Inr []
      else rbind (seq_results (map render ss)) (\<lambda>cs. Inr
        [Elem ''div'' [(''className'', Str ''db-stream-list''), (''role'', Str ''list''), (''aria-label'', Str ''Your incoming streams''),
           (''aria-live'', Str ''polite''), (''aria-busy'', Flag busy)] (concat cs)]))"

section \<open>The page\<close>

definition EmployeeDashboard ::
  "(string \<Rightarrow> int option) \<Rightarrow> (int option \<Rightarrow> string) \<Rightarrow> (stream \<Rightarrow> int \<Rightarrow> int) \<Rightarrow> fiat_props \<Rightarrow> employee_state \<Rightarrow> history_state \<Rightarrow> employee_page \<Rightarrow>
    js_error + employee_action node list" where
  "EmployeeDashboard date_of toLocaleString live fp H h P =
     rbind (by_status (emp_filter P) (streams H)) (\<lambda>filtered.
     case connected_key H of
       None \<Rightarrow> Inr (employee_connect_screen (loading H) (hook_error H))
     | Some pk \<Rightarrow>
         rbind (employee_filter_bar (emp_filter P) (streams H)) (\<lambda>bar.
         rbind (employee_cards (loading H) (employee_card date_of toLocaleString live fp H h P) filtered) (\<lambda>cs. Inr
           [Elem ''div'' [(''className'', Str ''employer-dashboard''), (''id'', Str ''employee-dashboard'')]
             (employee_top_bar pk (loading H) (length (streams H)) # error_banner [(''aria-live'', Str ''assertive'')] (hook_error H) @
              scan_progress (loading H) (scanned H) (chainTotal H) @ earnings_grid (employee_stats_of (claimableAmounts H) (streams H)) # bar @
              employee_empty_state (loading H) (streams H) @ cs)])))"

end
