(* ===== verification/Overview.thy ===== *)
theory Overview
  imports Employer_View
begin

text \<open>
  The employer's overview (\<^verbatim>\<open>demo/src/StreamDashboard.tsx\<close>): the rendered page over the state of the dashboard hook
  (\<open>Dashboard\<close>), its handlers as calls, and the interval that refreshes it.
\<close>

section \<open>Texts\<close>

definition fmtRate :: "jsval \<Rightarrow> string" where
  "fmtRate stroopsPerSec =
     (let xlmPerSec = js_div (js_number stroopsPerSec) (jsint 10000000) in
      if js_le (num_of_rat (1 / 100)) xlmPerSec then toFixed 4 xlmPerSec @ '' XLM/s''
      else toFixed 4 (js_mul xlmPerSec (jsint 60)) @ '' XLM/min'')"

definition monthlyBurnXlm :: "jsval \<Rightarrow> jsnum" where
  "monthlyBurnXlm stroopsPerSec =
     js_mul (js_mul (js_mul (js_mul (js_div (js_number stroopsPerSec) (jsint 10000000)) (jsint 60)) (jsint 60)) (jsint 24)) (jsint 30)"

text \<open>The stream object of the SDK, and the field \<^verbatim>\<open>rate_per_second\<close> that the page reads from it.\<close>

definition sdk_stream_object :: "stream \<Rightarrow> jsval" where
  "sdk_stream_object s = JObj
     [(''id'', JBig (sid s)), (''employer'', employer s), (''employee'', employee s), (''token'', token s), (''deposit'', JBig (deposit s)),
      (''withdrawn'', JBig (withdrawn s)), (''ratePerSecond'', JBig (ratePerSecond s)), (''startTime'', JBig (startTime s)),
      (''stopTime'', JBig (stopTime s)), (''lastWithdrawTime'', JBig (lastWithdrawTime s)), (''cooldownPeriod'', JBig (cooldownPeriod s)),
      (''status'', status s), (''locked'', locked s), (''cliffTime'', JBig (cliffTime s)), (''pausedAt'', JBig (pausedAt s))]"

definition overview_rate :: "stream \<Rightarrow> js_error + jsval" where
  "overview_rate s = js_field (sdk_stream_object s) ''rate_per_second''"

text \<open>Decoded addresses are strings; on another value the model throws.\<close>

definition truncate_text :: "jsval \<Rightarrow> js_error + string" where
  "truncate_text v = (case v of JStr a \<Rightarrow> Inr (if length a > 12 then shorten 6 4 a else a) | _ \<Rightarrow> Inl (TypeError ''addr.slice is not a function''))"

section \<open>Rows\<close>

datatype overview_action = OvConnect | OvRefresh | OvAction action int | OvWithdraw int

definition overview_stat :: "string \<Rightarrow> string \<Rightarrow> 'a node" where
  "overview_stat label val = Elem ''div'' [(''className'', Str ''db-stat-card'')]
     [Elem ''span'' [(''className'', Str ''db-stat-value'')] [Text val], Elem ''span'' [(''className'', Str ''db-stat-label'')] [Text label]]"

definition row_fact :: "string \<Rightarrow> (string \<times> 'a attr) list \<Rightarrow> string \<Rightarrow> 'a node" where
  "row_fact label ats val = Elem ''div'' [] [Elem ''dt'' [] [Text label], Elem ''dd'' ats [Text val]]"

definition row_button :: "string option \<Rightarrow> string \<Rightarrow> (string \<times> 'a attr) list \<Rightarrow> string \<Rightarrow> 'a \<Rightarrow> 'a node" where
  "row_button act cls ats txt a =
     Elem ''button'' ([(''className'', Str cls), (''onClick'', On (Click a)), (''disabled'', Flag (truthy_text act))] @ ats) [Text txt]"

definition row_actions :: "string option \<Rightarrow> stream \<Rightarrow> overview_action node" where
  "row_actions act s =
     (let i = show_int (sid s); isPauseLoading = (act = Some (''pause-'' @ i)); isResumeLoading = (act = Some (''resume-'' @ i));
          isActive = has_status s ''Active''; isPaused = has_status s ''Paused''
      in Elem ''div'' [(''className'', Str ''stream-dashboard-actions'')]
        (show_if isActive (row_button act ''btn btn-warning btn-sm'' [(''aria-busy'', Flag isPauseLoading)]
           (if isPauseLoading then (''Pausing'' @ [CHR 0xE2, CHR 0x80, CHR 0xA6]) else ''Pause'') (OvAction Pause (sid s))) @
         show_if isPaused (row_button act ''btn btn-success btn-sm'' [(''aria-busy'', Flag isResumeLoading)]
           (if isResumeLoading then (''Resuming'' @ [CHR 0xE2, CHR 0x80, CHR 0xA6]) else ''Resume'') (OvAction Resume (sid s))) @
         show_if (isActive \<or> isPaused) (row_button act ''btn btn-secondary btn-sm'' [] ''Withdraw'' (OvWithdraw (sid s)))))"

definition StreamRow :: "string option \<Rightarrow> stream \<Rightarrow> js_error + overview_action node" where
  "StreamRow act s =
     rbind (truncate_text (employee s)) (\<lambda>ee.
     rbind (overview_rate s) (\<lambda>rate.
     rbind (StreamStatusBadge (status s)) (\<lambda>badge. Inr
       (Elem ''div'' [(''className'', Str ''stream-dashboard-row''), (''role'', Str ''listitem'')]
         [Elem ''div'' [(''className'', Str ''stream-dashboard-row-header'')]
            (Elem ''span'' [(''className'', Str ''stream-dashboard-id'')] [Text (''#'' @ show_int (sid s))] # badge),
          Elem ''dl'' [(''className'', Str ''stream-dashboard-meta'')]
            [row_fact ''Employee'' [(''title'', Str (js_string (employee s)))] ee,
             row_fact ''Locked'' [] (card_formatXlm (deposit s - withdrawn s) @ '' XLM''),
             row_fact ''Rate'' [] (fmtRate rate),
             row_fact ''Withdrawn'' [] (card_formatXlm (withdrawn s) @ '' XLM'')],
          row_actions act s]))))"

section \<open>The page\<close>

text \<open>\<^verbatim>\<open>sort\<close> is stable: streams with the same id keep their order.\<close>

definition sortedStreams :: "stream list \<Rightarrow> stream list" where
  "sortedStreams ss = sort_key (\<lambda>s. - sid s) ss"

definition totalBurnRate :: "stream list \<Rightarrow> js_error + jsnum" where
  "totalBurnRate ss =
     rbind (seq_results (map overview_rate (filter (\<lambda>s. has_status s ''Active'') ss))) (\<lambda>rates.
       Inr (foldl (\<lambda>acc r. js_add acc (monthlyBurnXlm r)) (jsint 0) rates))"

definition overview_connect :: "bool \<Rightarrow> string option \<Rightarrow> overview_action node list" where
  "overview_connect busy e =
     [Elem ''div'' [(''className'', Str ''stream-dashboard-empty'')]
       ([Elem ''p'' [] [Text ''Connect your wallet to view your stream dashboard.''],
         Elem ''button'' [(''className'', Str ''btn btn-primary''), (''onClick'', On (Click OvConnect)), (''disabled'', Flag busy)]
           [Text (if busy then (''Connecting'' @ [CHR 0xE2, CHR 0x80, CHR 0xA6]) else ''Connect Wallet'')]] @
        show_if (truthy_text e) (Elem ''p'' [(''className'', Str ''form-error'')] [Text (or_empty e)]))]"

definition overview_stats :: "stream list \<Rightarrow> jsnum \<Rightarrow> 'a node" where
  "overview_stats ss burn =
     (let st = employer_stats ss in
      Elem ''div'' [(''className'', Str ''db-stat-grid''), (''role'', Str ''list''), (''aria-label'', Str ''Dashboard statistics'')]
        [overview_stat ''Total Locked'' (toFixed 4 (totalLockedXlm st) @ '' XLM''),
         overview_stat ''Monthly Burn Rate'' (toFixed 2 burn @ '' XLM''),
         overview_stat ''Active Streams'' (show_int (st_active st)), overview_stat ''Total Streams'' (show_int (st_total st))])"

definition overview_header :: "bool \<Rightarrow> int \<Rightarrow> int \<Rightarrow> overview_action node" where
  "overview_header busy done tot =
     Elem ''div'' [(''className'', Str ''stream-dashboard-header'')]
       [Elem ''h2'' [(''className'', Str ''stream-dashboard-title'')]
          (Text ''Streams'' # show_if (busy \<and> 0 < done)
            (Elem ''span'' [(''className'', Str ''stream-dashboard-scanning''), (''aria-live'', Str ''polite'')]
              [Text ('' (scanning '' @ show_int done @ ''/'' @ show_int tot @ '')'')])),
        Elem ''button'' [(''className'', Str ''btn btn-secondary btn-sm''), (''onClick'', On (Click OvRefresh)), (''disabled'', Flag busy),
          (''aria-label'', Str ''Refresh streams'')] [Text (if busy then (''Loading'' @ [CHR 0xE2, CHR 0x80, CHR 0xA6]) else ([CHR 0xE2, CHR 0x86, CHR 0xBB] @ '' Refresh''))]]"

definition overview_skeletons :: "bool \<Rightarrow> stream list \<Rightarrow> 'a node list" where
  "overview_skeletons busy ss = show_if (busy \<and> ss = [])
     (Elem ''div'' [(''className'', Str ''stream-dashboard-grid''), (''role'', Str ''list''), (''aria-label'', Str ''Loading streams''),
       (''aria-busy'', Str ''true'')] [StreamCardSkeleton, StreamCardSkeleton, StreamCardSkeleton])"

definition overview_grid :: "string option \<Rightarrow> stream list \<Rightarrow> js_error + overview_action node list" where
  "overview_grid act ss =
     (if ss = [] then Inr []
      else rbind (seq_results (map (StreamRow act) (sortedStreams ss))) (\<lambda>rows. Inr
        [Elem ''div'' [(''className'', Str ''stream-dashboard-grid''), (''role'', Str ''list''), (''aria-label'', Str ''Stream list'')] rows]))"

definition StreamDashboard :: "employer_state \<Rightarrow> js_error + overview_action node list" where
  "StreamDashboard H =
     rbind (totalBurnRate (streams H)) (\<lambda>burn.
      case connected_key H of
        None \<Rightarrow> Inr (overview_connect (loading H) (hook_error H))
      | Some pk \<Rightarrow>
          rbind (overview_grid (actionLoading H) (streams H)) (\<lambda>grid. Inr
            [Elem ''section'' [(''className'', Str ''stream-dashboard''), (''aria-label'', Str ''Stream Dashboard'')]
              ([overview_stats (streams H) burn, overview_header (loading H) (scanned H) (chainTotal H)] @
               show_if (truthy_text (hook_error H))
                 (Elem ''p'' [(''className'', Str ''form-error''), (''role'', Str ''alert'')] [Text (or_empty (hook_error H))]) @
               overview_skeletons (loading H) (streams H) @
               show_if (\<not> loading H \<and> streams H = [])
                 (Elem ''p'' [(''className'', Str ''stream-dashboard-none'')] [Text ''No streams found for your address.'']) @ grid)]))"

section \<open>Handlers\<close>

text \<open>What the page asks for: a call of the hook, or a withdrawal by the parent, if it listens for one.\<close>

datatype overview_call = OfHook hook_call | OfParent int

fun overview_do :: "bool \<Rightarrow> overview_action \<Rightarrow> overview_call option" where
  "overview_do listens OvConnect = Some (OfHook CallConnect)"
| "overview_do listens OvRefresh = Some (OfHook CallRefresh)"
| "overview_do listens (OvAction a i) = Some (OfHook (CallAction a i))"
| "overview_do listens (OvWithdraw i) = (if listens then Some (OfParent i) else None)"

text \<open>The period of the refreshing interval after the effect has run, \<open>None\<close> without one.\<close>

definition overview_interval :: "employer_state \<Rightarrow> int \<Rightarrow> int option" where
  "overview_interval H pollIntervalMs = (if connected_key H = None \<or> pollIntervalMs \<le> 0 then None else Some pollIntervalMs)"

end
