(* ===== verification/Employer_View_Props.thy ===== *)
theory Employer_View_Props
  imports Employer_View
begin

text \<open>
  What the employer can do on the dashboard page, read off the rendered page, and that no stream is cancelled without the
  dialog.
\<close>

section \<open>Pages inside pages\<close>

lemma map_of_attrs: "map_of (map (map_prod id (map_attr f)) ats) k = map_option (map_attr f) (map_of ats k)"
  by (induction ats) auto

lemma click_of_map: "click_of (map (map_prod id (map_attr f)) ats) = map_option f (click_of ats)"
proof -
  have "is_disabled (map (map_prod id (map_attr f)) ats) = is_disabled ats"
    by (auto simp: is_disabled_def map_of_attrs split: option.splits attr.splits)
  then show ?thesis by (auto simp: click_of_def map_of_attrs split: option.splits attr.splits handler.splits)
qed

lemma node_clicks_map: "node_clicks (map_node f n) = map f (node_clicks n)"
proof (induction n)
  case (Elem t ats ns)
  have "clicks (map (map_node f) ns) = map f (clicks ns)" using Elem.IH by (induction ns) (auto simp: clicks_nodes)
  then show ?case by (simp add: node_clicks_simps click_of_map split: option.split)
qed (simp add: node_clicks_simps)

lemma clicks_map_node: "clicks (map (map_node f) ns) = map f (clicks ns)"
  by (induction ns) (simp_all add: clicks_nodes node_clicks_map)

lemma clicks_concat: "clicks (concat css) = concat (map clicks css)"
  by (induction css) (simp_all add: clicks_nodes)

section \<open>Parts without actions\<close>

lemma quiet_parts:
  "node_clicks (StatCard i l v c) = []" "node_clicks StreamCardSkeleton = []" "node_clicks (stat_grid st) = []"
  "clicks (scan_progress b d t) = []" "clicks (skeletons b ss) = []" "clicks (empty_state b ss) = []"
proof -
  show stat: "node_clicks (StatCard i l v c) = []" for i l v c by (simp add: StatCard_def clicking)
  show skel: "node_clicks StreamCardSkeleton = []" by (simp add: StreamCardSkeleton_def Let_def clicking numeral_eq_Suc)
  show "node_clicks (stat_grid st) = []" by (simp add: stat_grid_def clicking stat)
  show "clicks (scan_progress b d t) = []" by (simp add: scan_progress_def Let_def clicking)
  show "clicks (skeletons b ss) = []" by (simp add: skeletons_def clicking skel)
  show "clicks (empty_state b ss) = []" by (simp add: empty_state_def clicking)
qed

lemma banner_clicks: "map_of ats ''onClick'' = None \<Longrightarrow> clicks (error_banner ats e) = []"
  by (simp add: error_banner_def clicking)

lemma topup_clicks: "node_clicks (topup_form act b a e s) = []"
  by (simp add: topup_form_def Let_def clicking split: option.split)

lemma top_bar_clicks: "node_clicks (top_bar pk b n) = (if b then [] else [RefreshPage])"
  by (simp add: top_bar_def clicking)

lemma connect_clicks: "clicks (connect_screen b e) = (if b then [] else [ConnectWallet])"
  by (simp add: connect_screen_def clicking banner_clicks)

lemma dialog_clicks:
  "clicks (cancel_dialog i P) =
    (if cancelling P = None then [] else InCancel CloseCancel # (if cancel_typed P = ''CANCEL'' then [InCancel ConfirmCancel] else []))"
  by (simp add: cancel_dialog_def clicks_map_node cancel_clicks clicks_nodes split: option.split)

lemma filter_button_clicks: "node_clicks (filter_button c opt n) = [SetFilter (fst opt)]"
  by (simp add: filter_button_def clicking)

lemma filter_bar_clicks:
  assumes "filter_bar c ss = Inr bar"
  shows "set (clicks bar) \<subseteq> range SetFilter"
proof (cases "ss = []")
  case False
  then obtain bs where b: "seq_results (map (\<lambda>opt. rbind (by_status (fst opt) ss) (\<lambda>xs. Inr (filter_button c opt (length xs)))) FILTER_OPTIONS) = Inr bs"
    "bar = [Elem ''div'' [(''className'', Str ''db-filter-bar''), (''role'', Str ''group''), (''aria-label'', Str ''Filter streams by status'')] bs]"
    using assms by (auto simp: filter_bar_def rbind_Inr_iff)
  have "\<exists>opt n. x = filter_button c opt n" if "x \<in> set bs" for x
  proof -
    have "Inr x \<in> set (map Inr bs :: (js_error + employer_action node) list)" using that by simp
    then have "Inr x \<in> (\<lambda>opt. rbind (by_status (fst opt) ss) (\<lambda>xs. Inr (filter_button c opt (length xs)))) ` set FILTER_OPTIONS"
      using b(1) unfolding seq_results_Inr_iff by (simp only: set_map [symmetric])
    then obtain opt where "rbind (by_status (fst opt) ss) (\<lambda>xs. Inr (filter_button c opt (length xs))) = Inr x"
      by (elim imageE) (erule that [OF sym])
    then show ?thesis unfolding rbind_Inr_iff sum.inject by blast
  qed
  then have "set (clicks bs) \<subseteq> range SetFilter"
  proof (induction bs)
    case (Cons x bs)
    then obtain opt n where "x = filter_button c opt n" by (metis list.set_intros(1))
    then show ?case using Cons by (auto simp: clicks_nodes filter_button_clicks)
  qed (simp add: clicks_nodes)
  then show ?thesis by (simp add: b(2) clicking)
qed (use assms in \<open>simp add: filter_bar_def clicks_nodes\<close>)

section \<open>The page\<close>

lemma employer_card_clicks:
  assumes "employer_card f now live H P s = Inr ns" "a \<in> set (clicks ns)"
  shows "a \<in> {StartAction Pause (sid s), StartAction Resume (sid s), OpenCancel s, ToggleTopUp (sid s)}"
    and "stream_busy (actionLoading H) (sid s) = None" and "a = OpenCancel s \<Longrightarrow> live_or_paused s"
proof -
  obtain kids where c: "StreamStatusCard f (employer_card_props H kids s) s (live s) = Inr ns" "clicks kids = []"
    using assms(1) by (auto simp: employer_card_def Let_def rbind_Inr_iff topup_clicks clicks_nodes)
  have "clicks ns = own_clicks (employer_card_props H kids s) s" using card_clicks [OF c(1)] c(2) by (simp add: employer_card_props_def)
  then have a: "a \<in> set (own_clicks (employer_card_props H kids s) s)" using assms(2) by simp
  then show "a \<in> {StartAction Pause (sid s), StartAction Resume (sid s), OpenCancel s, ToggleTopUp (sid s)}"
    by (auto simp: own_clicks_def Let_def employer_card_props_def showWithdraw_def showPause_def showResume_def showCancel_def showTopUp_def
        if_shown_def split: if_splits)
  show "stream_busy (actionLoading H) (sid s) = None"
    using a by (auto simp: own_clicks_def Let_def anyBusy_def employer_card_props_def truthy_text_def stream_busy_def split: if_splits)
  show "a = OpenCancel s \<Longrightarrow> live_or_paused s"
    using a by (auto simp: own_clicks_def Let_def employer_card_props_def showWithdraw_def showPause_def showResume_def showCancel_def showTopUp_def
        if_shown_def split: if_splits)
qed

lemma cards_clicks:
  assumes "cards b render ss = Inr cs" "a \<in> set (clicks cs)"
  shows "\<exists>s \<in> set ss. \<exists>ns. render s = Inr ns \<and> a \<in> set (clicks ns)"
proof -
  obtain css where c: "seq_results (map render ss) = Inr css" "set (clicks cs) = set (clicks (concat css))"
    using assms(1) by (cases "ss = []") (auto simp: cards_def rbind_Inr_iff clicking split: if_splits)
  then have r: "map render ss = map Inr css" by (simp add: seq_results_Inr_iff)
  have "a \<in> (\<Union>ns \<in> set css. set (clicks ns))" using assms(2) c(2) by (simp add: clicks_concat)
  then obtain ns where "ns \<in> set css" "a \<in> set (clicks ns)" by auto
  moreover have "Inr ns \<in> set (map render ss)" using r \<open>ns \<in> set css\<close> by simp
  then obtain s where "s \<in> set ss" "render s = Inr ns" by auto
  ultimately show ?thesis by blast
qed

lemma filter_throwing_subset: "filter_throwing p xs = Inr ys \<Longrightarrow> set ys \<subseteq> set xs"
proof (induction xs arbitrary: ys)
  case (Cons x xs)
  then show ?case by (fastforce simp: rbind_Inr_iff split: if_splits)
qed simp

lemma employer_page_parts:
  assumes "connected_key H = Some pk" "by_status (statusFilter P) (streams H) = Inr filtered"
    "filter_bar (statusFilter P) (streams H) = Inr bar" "cards (loading H) (employer_card f now live H P) filtered = Inr cs"
  shows "\<exists>page. EmployerDashboard f now live i H P = Inr page \<and> set (clicks page) =
    set (if loading H then [] else [RefreshPage]) \<union> set (clicks bar) \<union> set (clicks cs) \<union> set (clicks (cancel_dialog i P))"
  using assms by (simp add: EmployerDashboard_def clicking quiet_parts banner_clicks top_bar_clicks Un_assoc)

lemma employer_page_clicks:
  assumes "EmployerDashboard f now live i H P = Inr page" "a \<in> set (clicks page)"
  shows "a \<in> {ConnectWallet, RefreshPage} \<or> a \<in> range SetFilter \<or>
    (\<exists>s \<in> set (streams H). a \<in> {StartAction Pause (sid s), StartAction Resume (sid s), OpenCancel s, ToggleTopUp (sid s)} \<and>
      stream_busy (actionLoading H) (sid s) = None \<and> (a = OpenCancel s \<longrightarrow> live_or_paused s)) \<or>
    (cancelling P \<noteq> None \<and> (a = InCancel CloseCancel \<or> (a = InCancel ConfirmCancel \<and> cancel_typed P = ''CANCEL'')))"
proof (cases "connected_key H")
  case None
  then show ?thesis using assms by (auto simp: EmployerDashboard_def rbind_Inr_iff connect_clicks split: if_splits)
next
  case (Some pk)
  obtain filtered bar cs where p: "by_status (statusFilter P) (streams H) = Inr filtered" "filter_bar (statusFilter P) (streams H) = Inr bar"
    "cards (loading H) (employer_card f now live H P) filtered = Inr cs"
    using assms(1) unfolding EmployerDashboard_def Some option.case rbind_Inr_iff sum.inject by (elim exE conjE) (rule that, assumption+)
  then have "set (clicks page) = set (if loading H then [] else [RefreshPage]) \<union> set (clicks bar) \<union> set (clicks cs) \<union> set (clicks (cancel_dialog i P))"
    using employer_page_parts [OF Some p, of i] unfolding assms(1) sum.inject by blast
  note p = p this
  have sub: "set filtered \<subseteq> set (streams H)"
    using p(1) filter_throwing_subset by (auto simp: by_status_def split: if_splits)
  consider "a = RefreshPage" | "a \<in> set (clicks bar)" | "a \<in> set (clicks cs)" | "a \<in> set (clicks (cancel_dialog i P))"
    using assms(2) p(4) by (auto split: if_splits)
  then show ?thesis
  proof cases
    case 3
    then obtain s ns where "s \<in> set filtered" "employer_card f now live H P s = Inr ns" "a \<in> set (clicks ns)"
      using cards_clicks [OF p(3)] by blast
    then show ?thesis using employer_card_clicks [of f now live H P s ns a] sub by blast
  qed (use filter_bar_clicks [OF p(2)] dialog_clicks [of i P] in \<open>auto split: if_splits\<close>)
qed

section \<open>Runs\<close>

text \<open>What the user can do at a state: click on the page as it is rendered over some state of the hook, type, submit the
  top-up form, or close the dialog with the keyboard.\<close>

definition employer_can :: "employer_page \<Rightarrow> employer_action \<Rightarrow> bool" where
  "employer_can P a \<longleftrightarrow>
     (\<exists>f now live i H page. EmployerDashboard f now live i H P = Inr page \<and> a \<in> set (clicks page)) \<or>
     a \<in> range TypeTopUp \<or> a \<in> range SubmitTopUp \<or> (cancelling P \<noteq> None \<and> (a = InCancel CloseCancel \<or> (\<exists>t. a = InCancel (TypeText t))))"

inductive employer_run :: "employer_action list \<Rightarrow> employer_page \<Rightarrow> bool" where
  run_start: "employer_run [] employer_page_init"
| run_act: "employer_run tr P \<Longrightarrow> employer_can P a \<Longrightarrow> employer_run (tr @ [a]) (fst (employer_do sure a P))"

definition opened_for :: "employer_action list \<Rightarrow> employer_page \<Rightarrow> bool" where
  "opened_for tr P \<longleftrightarrow> (\<forall>s. cancelling P = Some s \<longrightarrow>
     (\<exists>tr1 tr2. tr = tr1 @ OpenCancel s # tr2 \<and> (cancel_typed P \<noteq> '''' \<longrightarrow> InCancel (TypeText (cancel_typed P)) \<in> set tr2)))"

lemma opened_for_more:
  "opened_for tr P \<Longrightarrow> cancelling P' = cancelling P \<Longrightarrow> cancel_typed P' = cancel_typed P \<Longrightarrow> opened_for (tr @ [a]) P'"
  unfolding opened_for_def by (metis Cons_eq_appendI append.assoc Un_iff set_append)

lemma opened_for_typed: "opened_for tr P \<Longrightarrow> opened_for (tr @ [InCancel (TypeText t)]) (P\<lparr>cancel_typed := t\<rparr>)"
proof (unfold opened_for_def, intro allI impI)
  fix s assume o: "\<forall>s. cancelling P = Some s \<longrightarrow>
      (\<exists>tr1 tr2. tr = tr1 @ OpenCancel s # tr2 \<and> (cancel_typed P \<noteq> '''' \<longrightarrow> InCancel (TypeText (cancel_typed P)) \<in> set tr2))"
    and c: "cancelling (P\<lparr>cancel_typed := t\<rparr>) = Some s"
  then obtain tr1 tr2 where "tr = tr1 @ OpenCancel s # tr2" by auto
  then show "\<exists>tr1 tr2. tr @ [InCancel (TypeText t)] = tr1 @ OpenCancel s # tr2 \<and>
      (cancel_typed (P\<lparr>cancel_typed := t\<rparr>) \<noteq> '''' \<longrightarrow> InCancel (TypeText (cancel_typed (P\<lparr>cancel_typed := t\<rparr>))) \<in> set tr2)"
    by (intro exI [of _ tr1] exI [of _ "tr2 @ [InCancel (TypeText t)]"]) simp
qed

lemma run_opened: "employer_run tr P \<Longrightarrow> opened_for tr P"
proof (induction rule: employer_run.induct)
  case (run_act tr P a sure)
  show ?case
  proof (cases a)
    case (OpenCancel s)
    have "tr @ [OpenCancel s] = tr @ OpenCancel s # []" by simp
    then show ?thesis using OpenCancel by (auto simp: opened_for_def)
  next
    case (InCancel c)
    then show ?thesis using run_act.IH opened_for_typed by (cases c) (auto simp: opened_for_def [of _ "_\<lparr>cancelling := None, cancel_typed := _\<rparr>"])
  qed (use run_act.IH in \<open>auto intro: opened_for_more simp: open_topup_def\<close>)
qed (simp add: opened_for_def employer_page_init_def)


definition shown_stream :: stream where
  "shown_stream = \<lparr>sid = 4, employer = JStr ''GE'', employee = JStr ''GB'', token = JStr ''CT'', deposit = 100, withdrawn = 10,
     ratePerSecond = 1, startTime = 0, stopTime = 0, lastWithdrawTime = 0, cooldownPeriod = 0, status = JStr ''Active'',
     locked = JBool False, cliffTime = 0, pausedAt = 0\<rparr>"

definition shown_hook :: employer_state where
  "shown_hook = \<lparr>publicKey = Some ''GE'', streams = [shown_stream], loading = False, hook_error = None, actionLoading = None,
     scanned = 0, chainTotal = 0, lastTxHashes = []\<rparr>"

lemma shown_bar: "\<exists>bar. filter_bar f [shown_stream] = Inr bar"
  by (simp add: filter_bar_def FILTER_OPTIONS_def by_status_def shown_stream_def js_toLowerCase_def)

lemma shown_cards:
  assumes "topUpStreamId P = None"
  shows "\<exists>cs. cards b (employer_card f now live shown_hook P) [shown_stream] = Inr cs \<and> OpenCancel shown_stream \<in> set (clicks cs)"
proof -
  let ?p = "employer_card_props shown_hook [] shown_stream"
  obtain ns where ns: "StreamStatusCard f ?p shown_stream (live shown_stream) = Inr ns"
    using card_renders [of f ?p shown_stream "live shown_stream"] by (auto simp: shown_stream_def well_typed_status_def stream_statuses_def)
  have "employer_card f now live shown_hook P shown_stream = Inr ns"
    using ns assms by (simp add: employer_card_def newEndTime_def show_if_def)
  moreover have "OpenCancel shown_stream \<in> set (clicks ns)"
    using card_clicks [OF ns] by (simp add: own_clicks_def anyBusy_def showCancel_def if_shown_def employer_card_props_def shown_hook_def
        stream_busy_def truthy_text_def Let_def live_or_paused_def has_status_def shown_stream_def)
  ultimately show ?thesis by (simp add: cards_def clicking)
qed

lemma shown_page:
  assumes "topUpStreamId P = None" "statusFilter P = ''all''"
  shows "employer_can P (OpenCancel shown_stream)"
    and "cancelling P \<noteq> None \<Longrightarrow> cancel_typed P = ''CANCEL'' \<Longrightarrow> employer_can P (InCancel ConfirmCancel)"
proof -
  obtain bar where "filter_bar (statusFilter P) (streams shown_hook) = Inr bar" using shown_bar by (auto simp: shown_hook_def)
  moreover obtain cs where cs: "cards (loading shown_hook) (employer_card (\<lambda>_. '''') 0 (\<lambda>_. 0) shown_hook P) [shown_stream] = Inr cs"
    "OpenCancel shown_stream \<in> set (clicks cs)" using shown_cards [OF assms(1)] by blast
  moreover have "by_status (statusFilter P) (streams shown_hook) = Inr [shown_stream]" "connected_key shown_hook = Some ''GE''"
    using assms(2) by (simp_all add: by_status_def shown_hook_def connected_key_def)
  ultimately obtain page where page: "EmployerDashboard (\<lambda>_. '''') 0 (\<lambda>_. 0) ''i'' shown_hook P = Inr page"
    "set (clicks page) = set (if loading shown_hook then [] else [RefreshPage]) \<union> set (clicks bar) \<union> set (clicks cs) \<union> set (clicks (cancel_dialog ''i'' P))"
    using employer_page_parts by blast
  show "employer_can P (OpenCancel shown_stream)" using page cs(2) unfolding employer_can_def by blast
  show "cancelling P \<noteq> None \<Longrightarrow> cancel_typed P = ''CANCEL'' \<Longrightarrow> employer_can P (InCancel ConfirmCancel)"
  proof -
    assume "cancelling P \<noteq> None" "cancel_typed P = ''CANCEL''"
    then have "InCancel ConfirmCancel \<in> set (clicks page)" using page(2) by (auto simp: dialog_clicks)
    then show ?thesis using page(1) unfolding employer_can_def by blast
  qed
qed



section \<open>The amounts of the dialog\<close>

text \<open>The contract pays the claimable amount to the employee and the rest of the deposit to the employer. The dialog announces
  the whole rest of the deposit for the employee and the amount withdrawn so far as the refund: right only for a stream
  whose whole deposit is claimable and from which nothing was withdrawn.\<close>

lemma cancel_amounts_right_iff:
  assumes "claimable_amount s now = Some n" "0 \<le> cs_withdrawn s" "0 \<le> n" "n \<le> cs_deposit s - cs_withdrawn s"
  shows "cancel_amounts (stream_view enc s) = (n, cs_deposit s - cs_withdrawn s - n) \<longleftrightarrow> n = cs_deposit s \<and> cs_withdrawn s = 0"
  using assms by (auto simp: cancel_amounts_def stream_view_def)

text \<open>The page shows one action at a time as running: while one stream's action is sent, the buttons of the others stay
  enabled.\<close>

lemma other_cards_enabled: "stream_busy (Some ''cancel-1'') 2 = None \<and> stream_busy (Some ''cancel-1'') 1 = Some ''cancel''"
  by code_simp

end
