(* ===== verification/Employee_View_Props.thy ===== *)
theory Employee_View_Props
  imports Employee_View Overview Employer_View_Props "HOL-Library.Multiset"
begin

text \<open>
  What the employee can do on the dashboard page, and the order, the rates and the actions of the employer's overview.
\<close>

section \<open>Filtering\<close>

lemma filter_throwing_iff:
  "filter_throwing (\<lambda>x. rbind (g x) (\<lambda>l. Inr (l = st))) xs = Inr ys \<Longrightarrow> x \<in> set ys \<longleftrightarrow> x \<in> set xs \<and> g x = Inr st"
proof (induction xs arbitrary: ys)
  case (Cons y xs)
  then obtain l zs where "g y = Inr l" "filter_throwing (\<lambda>x. rbind (g x) (\<lambda>l. Inr (l = st))) xs = Inr zs" "ys = (if l = st then y # zs else zs)"
    by (auto simp: rbind_Inr_iff)
  then show ?case using Cons.IH [of zs] by auto
qed simp

lemma by_status_iff:
  assumes "by_status st ss = Inr ys"
  shows "s \<in> set ys \<longleftrightarrow> s \<in> set ss \<and> (st = ''all'' \<or> js_toLowerCase (status s) = Inr st)"
  using assms filter_throwing_iff [of "\<lambda>s. js_toLowerCase (status s)" st ss ys s] by (auto simp: by_status_def split: if_splits)

lemma lower_active: "map to_lower ''Active'' = ''active''"
  by code_simp

section \<open>The employee's page\<close>

lemma employee_quiet:
  "node_clicks (earnings_grid st) = []" "clicks (employee_empty_state b ss) = []"
  "node_clicks (employee_filter_button c opt n) = [EmpFilter (fst opt)]"
  "clicks (employee_connect_screen b e) = (if b then [] else [EmpConnect])"
  "node_clicks (employee_top_bar pk b n) = (if b then [] else [EmpRefresh])"
  by (simp_all add: earnings_grid_def employee_empty_state_def employee_filter_button_def employee_connect_screen_def employee_top_bar_def
      clicking quiet_parts banner_clicks)

lemma panel_clicks: "set (node_clicks (history_panel d f h s)) \<subseteq> {EmpMore (sid s), EmpExport (sid s)}"
  by (auto simp: history_panel_def Let_def clicking history_notes_def history_table_def history_row_def history_loading_note_def)

lemma seq_results_set:
  assumes "seq_results (map f xs) = Inr ys"
  shows "y \<in> set ys \<longleftrightarrow> (\<exists>x \<in> set xs. f x = Inr y)"
proof -
  have "map f xs = map Inr ys" using assms by (simp add: seq_results_Inr_iff)
  then have "f ` set xs = Inr ` set ys" by (metis set_map)
  then show ?thesis by (metis (no_types, lifting) imageE imageI sum.inject(2))
qed

lemma employee_bar_clicks:
  assumes "employee_filter_bar c ss = Inr bar"
  shows "set (clicks bar) \<subseteq> range EmpFilter"
proof (cases "ss = []")
  case False
  then obtain bs where b: "seq_results (map (\<lambda>opt. rbind (by_status (fst opt) ss) (\<lambda>xs. Inr (employee_filter_button c opt (length xs)))) FILTER_OPTIONS) = Inr bs"
    "set (clicks bar) = set (clicks bs)"
    using assms by (auto simp: employee_filter_bar_def rbind_Inr_iff clicking)
  have "\<exists>opt n. x = employee_filter_button c opt n" if "x \<in> set bs" for x
    using that unfolding seq_results_set [OF b(1)] rbind_Inr_iff by auto
  then have "set (node_clicks x) \<subseteq> range EmpFilter" if "x \<in> set bs" for x using that employee_quiet(3) by fastforce
  then have "set (clicks bs) \<subseteq> range EmpFilter" by (induction bs) (auto simp: clicks_nodes)
  then show ?thesis by (simp add: b(2))
qed (use assms in \<open>simp add: employee_filter_bar_def clicks_nodes\<close>)

lemma employee_card_clicks:
  assumes "employee_card d f live fp H h P s = Inr ns"
  shows "EmpWithdraw i \<in> set (clicks ns) \<longleftrightarrow> i = sid s \<and> has_status s ''Active'' \<and> \<not> loading H \<and> actionLoading H \<noteq> Some (''withdraw-'' @ show_int i)"
    and "EmpMore i \<in> set (clicks ns) \<Longrightarrow> i = sid s \<and> historyStreamId P = Some i"
proof -
  let ?kids = "show_if (historyStreamId P = Some (sid s)) (history_panel d f h s)"
  let ?p = "employee_card_props fp H ?kids s"
  have c: "clicks ns = own_clicks ?p s @ clicks ?kids"
    using card_clicks [OF assms [unfolded employee_card_def]] by (simp add: employee_card_props_def)
  have kids: "set (clicks ?kids) \<subseteq> (if historyStreamId P = Some (sid s) then {EmpMore (sid s), EmpExport (sid s)} else {})"
    using panel_clicks by auto
  have own: "set (own_clicks ?p s) = {EmpHistory (sid s), EmpExport (sid s)} \<union>
      (if has_status s ''Active'' \<and> \<not> loading H \<and> actionLoading H \<noteq> Some (''withdraw-'' @ show_int (sid s)) then {EmpWithdraw (sid s)} else {})"
    by (auto simp: own_clicks_def Let_def employee_card_props_def anyBusy_def truthy_text_def showWithdraw_def showPause_def showResume_def
        showCancel_def showTopUp_def if_shown_def split: option.splits)
  show "EmpWithdraw i \<in> set (clicks ns) \<longleftrightarrow> i = sid s \<and> has_status s ''Active'' \<and> \<not> loading H \<and> actionLoading H \<noteq> Some (''withdraw-'' @ show_int i)"
    using kids by (auto simp: c own split: if_splits)
  show "EmpMore i \<in> set (clicks ns) \<Longrightarrow> i = sid s \<and> historyStreamId P = Some i"
    using kids by (auto simp: c own split: if_splits)
qed

lemma employee_cards_clicks:
  assumes "employee_cards b render ss = Inr cs"
  shows "a \<in> set (clicks cs) \<longleftrightarrow> (\<exists>s \<in> set ss. \<exists>ns. render s = Inr ns \<and> a \<in> set (clicks ns))"
proof (cases "ss = []")
  case False
  then obtain css where c: "seq_results (map render ss) = Inr css" "set (clicks cs) = set (clicks (concat css))"
    using assms by (auto simp: employee_cards_def rbind_Inr_iff clicking)
  have "set (clicks cs) = (\<Union>ns \<in> set css. set (clicks ns))" by (simp add: c(2) clicks_concat)
  then show ?thesis using seq_results_set [OF c(1)] by blast
qed (use assms in \<open>simp add: employee_cards_def clicks_nodes\<close>)


lemma employee_page_parts:
  assumes "EmployeeDashboard d f live fp H h P = Inr page" "connected_key H = Some pk"
  obtains filtered bar cs where "by_status (emp_filter P) (streams H) = Inr filtered" "employee_filter_bar (emp_filter P) (streams H) = Inr bar"
    "employee_cards (loading H) (employee_card d f live fp H h P) filtered = Inr cs"
    "set (clicks page) = set (if loading H then [] else [EmpRefresh]) \<union> set (clicks bar) \<union> set (clicks cs)"
proof -
  obtain filtered bar cs where p: "by_status (emp_filter P) (streams H) = Inr filtered" "employee_filter_bar (emp_filter P) (streams H) = Inr bar"
    "employee_cards (loading H) (employee_card d f live fp H h P) filtered = Inr cs"
    using assms(1) unfolding EmployeeDashboard_def assms(2) option.case rbind_Inr_iff sum.inject by (elim exE conjE) (rule that, assumption+)
  have "set (clicks page) = set (if loading H then [] else [EmpRefresh]) \<union> set (clicks bar) \<union> set (clicks cs)"
    using assms(1) p by (simp add: EmployeeDashboard_def assms(2)) (auto simp: clicking quiet_parts banner_clicks employee_quiet)
  then show ?thesis using p that by blast
qed

lemma employee_cards_rendered:
  "employee_cards b render ss = Inr cs \<Longrightarrow> s \<in> set ss \<Longrightarrow> \<exists>ns. render s = Inr ns"
  by (auto simp: employee_cards_def rbind_Inr_iff seq_results_Inr_iff split: if_splits) (metis in_set_conv_nth length_map nth_map)

text \<open>Once connected, the page offers a withdrawal exactly for the active streams that the filter shows, unless the page is
  loading or this withdrawal is under way; and more history only for the stream whose history is open.\<close>

theorem employee_page_offers:
  assumes "EmployeeDashboard d f live fp H h P = Inr page" "connected_key H = Some pk"
  shows "EmpWithdraw i \<in> set (clicks page) \<longleftrightarrow>
      \<not> loading H \<and> actionLoading H \<noteq> Some (''withdraw-'' @ show_int i) \<and> emp_filter P \<in> {''all'', ''active''} \<and>
      (\<exists>s \<in> set (streams H). sid s = i \<and> has_status s ''Active'')"
    and "EmpMore i \<in> set (clicks page) \<Longrightarrow> historyStreamId P = Some i"
proof -
  from assms obtain filtered bar cs where p: "by_status (emp_filter P) (streams H) = Inr filtered"
    "employee_filter_bar (emp_filter P) (streams H) = Inr bar" "employee_cards (loading H) (employee_card d f live fp H h P) filtered = Inr cs"
    and page: "set (clicks page) = set (if loading H then [] else [EmpRefresh]) \<union> set (clicks bar) \<union> set (clicks cs)"
    by (rule employee_page_parts)
  have in_cards: "a \<in> set (clicks page) \<longleftrightarrow> (\<exists>s \<in> set filtered. \<exists>ns. employee_card d f live fp H h P s = Inr ns \<and> a \<in> set (clicks ns))"
    if "a \<notin> range EmpFilter" "a \<noteq> EmpRefresh" for a
  proof -
    have "a \<in> set (clicks page) \<longleftrightarrow> a \<in> set (clicks cs)" using that employee_bar_clicks [OF p(2)] by (auto simp: page)
    then show ?thesis by (simp only: employee_cards_clicks [OF p(3)])
  qed
  have active: "s \<in> set filtered \<longleftrightarrow> s \<in> set (streams H) \<and> emp_filter P \<in> {''all'', ''active''}" if "has_status s ''Active''" for s
    using that lower_active by (auto simp: by_status_iff [OF p(1)] has_status_def js_toLowerCase_def)
  have "EmpWithdraw i \<in> set (clicks page) \<longleftrightarrow>
      (\<exists>s \<in> set filtered. i = sid s \<and> has_status s ''Active'' \<and> \<not> loading H \<and> actionLoading H \<noteq> Some (''withdraw-'' @ show_int i))"
    using in_cards [of "EmpWithdraw i"] employee_cards_rendered [OF p(3)] employee_card_clicks(1) by blast
  then show "EmpWithdraw i \<in> set (clicks page) \<longleftrightarrow>
      \<not> loading H \<and> actionLoading H \<noteq> Some (''withdraw-'' @ show_int i) \<and> emp_filter P \<in> {''all'', ''active''} \<and>
      (\<exists>s \<in> set (streams H). sid s = i \<and> has_status s ''Active'')"
    using active by blast
  show "EmpMore i \<in> set (clicks page) \<Longrightarrow> historyStreamId P = Some i"
    using in_cards [of "EmpMore i"] employee_card_clicks(2) by blast
qed

section \<open>The overview\<close>

text \<open>Newest first: the ids never increase, and no stream is lost or shown twice.\<close>

lemma newest_first: "sorted_wrt (\<lambda>a b. sid a \<ge> sid b) (sortedStreams ss) \<and> mset (sortedStreams ss) = mset ss"
  using sorted_sort_key [of "\<lambda>s. - sid s" ss] by (simp add: sortedStreams_def sorted_map)

lemma overview_rate_undefined: "overview_rate s = Inr JUndef"
  by (simp add: overview_rate_def sdk_stream_object_def)

lemma NaN_absorbs: "js_add x NaN = NaN" "js_add NaN x = NaN" "js_mul NaN x = NaN" "js_div NaN x = NaN" "\<not> js_le x NaN"
  by (cases x; simp)+

text \<open>Every rate is shown as not a number, and so is the burn rate as soon as a stream is active.\<close>

lemma rates_not_numbers: "overview_rate s = Inr r \<Longrightarrow> fmtRate r = ''NaN XLM/min''"
  by (simp add: overview_rate_undefined fmtRate_def NaN_absorbs)

lemma burn_rate_not_a_number:
  assumes "s \<in> set ss" "has_status s ''Active''"
  shows "totalBurnRate ss = Inr NaN"
proof -
  have burn: "monthlyBurnXlm JUndef = NaN" by (simp add: monthlyBurnXlm_def NaN_absorbs)
  have rates: "map overview_rate xs = map Inr (replicate (length xs) JUndef)" for xs :: "stream list"
    by (induction xs) (simp_all add: overview_rate_undefined)
  obtain n where n: "length (filter (\<lambda>s. has_status s ''Active'') ss) = Suc n" using assms
    by (metis (no_types, lifting) filter_empty_conv length_0_conv not0_implies_Suc)
  have "foldl (\<lambda>acc r. js_add acc (monthlyBurnXlm r)) a (replicate (Suc m) JUndef) = NaN" for a m
    by (induction m arbitrary: a) (simp_all add: burn NaN_absorbs)
  moreover have "seq_results (map overview_rate (filter (\<lambda>s. has_status s ''Active'') ss)) = Inr (replicate (Suc n) JUndef)"
    by (simp only: rates n seq_results_Inr_iff)
  ultimately show ?thesis by (simp only: totalBurnRate_def rbind_simps)
qed

text \<open>The overview is the employer's, but it offers Withdraw for every stream that runs or is paused, which the contract accepts from
  the employee only.\<close>

lemma overview_offers_withdraw:
  "live_or_paused s \<Longrightarrow> OvWithdraw (sid s) \<in> set (node_clicks (row_actions None s))"
  by (auto simp: live_or_paused_def row_actions_def row_button_def Let_def clicking truthy_text_def)

end
