(* ===== verification/App_Shell.thy ===== *)
theory App_Shell
  imports Employee_View
begin

text \<open>
  The shell of the demo (\<^verbatim>\<open>demo/src/App.tsx\<close>, \<^verbatim>\<open>demo/src/useStreamTemplates.ts\<close>,
  \<^verbatim>\<open>demo/src/OnboardingWizard.tsx\<close>): the theme, the form checks, the routing by hash and by tabs, the saved templates, the
  handlers of the first panel and the onboarding wizard. A stored JSON text is represented by the value it is read back as.
\<close>

section \<open>Theme\<close>

text \<open>The state of the hook, the stored preference and the attribute of the document.\<close>

record theme =
  th_dark :: bool
  th_mounted :: bool
  th_stored :: "string option"
  th_attr :: "string option"

definition theme_init :: "string option \<Rightarrow> theme" where
  "theme_init stored = \<lparr>th_dark = False, th_mounted = False, th_stored = stored, th_attr = None\<rparr>"

text \<open>The effect on mounting; \<open>os\<close> is whether the system prefers dark.\<close>

definition theme_mount :: "bool \<Rightarrow> theme \<Rightarrow> theme" where
  "theme_mount os T = T\<lparr>th_dark := (case th_stored T of Some v \<Rightarrow> v = ''true'' | None \<Rightarrow> os), th_mounted := True\<rparr>"

text \<open>The effect after a change of the theme.\<close>

definition theme_apply :: "theme \<Rightarrow> theme" where
  "theme_apply T =
     (if th_mounted T then T\<lparr>th_attr := Some (if th_dark T then ''dark'' else ''light''), th_stored := Some (if th_dark T then ''true'' else ''false'')\<rparr>
      else T)"

definition theme_os_handler :: "bool \<Rightarrow> theme \<Rightarrow> theme" where
  "theme_os_handler os T = (if th_mounted T \<and> th_stored T = None then T\<lparr>th_dark := os\<rparr> else T)"

datatype theme_event = ThemeToggle | OsChange bool

fun theme_step :: "theme_event \<Rightarrow> theme \<Rightarrow> theme" where
  "theme_step ThemeToggle T = theme_apply (T\<lparr>th_dark := \<not> th_dark T\<rparr>)"
| "theme_step (OsChange os) T = theme_apply (theme_os_handler os T)"

definition theme_start :: "bool \<Rightarrow> string option \<Rightarrow> theme" where
  "theme_start os stored = theme_apply (theme_mount os (theme_init stored))"

section \<open>Form checks\<close>

record form_errors =
  fe_employee :: "string option"
  fe_token :: "string option"
  fe_deposit :: "string option"
  fe_rate :: "string option"
  fe_stopTime :: "string option"

definition no_form_errors :: form_errors where
  "no_form_errors = \<lparr>fe_employee = None, fe_token = None, fe_deposit = None, fe_rate = None, fe_stopTime = None\<rparr>"

definition error_if :: "bool \<Rightarrow> string \<Rightarrow> string option" where
  "error_if b msg = (if b then Some msg else None)"

definition app_validateForm :: "int \<Rightarrow> string \<Rightarrow> string \<Rightarrow> string \<Rightarrow> string \<Rightarrow> string \<Rightarrow> form_errors" where
  "app_validateForm nowSec ee tok dep rate stop =
     (let d = parseFloat dep; r = parseFloat rate; st = parseInt stop in
      \<lparr>fe_employee = error_if (trim ee = '''') ''Employee address is required'',
       fe_token = error_if (trim tok = '''') ''Token contract ID is required'',
       fe_deposit = error_if (d = NaN \<or> js_le d (jsint 0)) ''Deposit must be greater than 0'',
       fe_rate = error_if (r = NaN \<or> js_le r (jsint 0)) ''Rate must be greater than 0'',
       fe_stopTime = error_if (stop \<noteq> ''0'' \<and> stop \<noteq> '''' \<and> (st = NaN \<or> js_le st (jsint nowSec)))
         ''Stop time must be in the future (or 0 for indefinite)''\<rparr>)"

definition estimatedDuration :: "string \<Rightarrow> string \<Rightarrow> string option" where
  "estimatedDuration dep rate =
     (let d = parseFloat dep; r = parseFloat rate in
      if \<not> num_truthy d \<or> \<not> num_truthy r \<or> js_le d (jsint 0) \<or> js_le r (jsint 0) then None
      else let seconds = js_div (js_mul d (jsint 10000000)) r in
        Some (if js_less seconds (jsint 60) then ''~'' @ num_to_string (math_round seconds) @ ''s''
          else if js_less seconds (jsint 3600) then ''~'' @ num_to_string (math_round (js_div seconds (jsint 60))) @ ''m''
          else if js_less seconds (jsint 86400) then ''~'' @ toFixed 1 (js_div seconds (jsint 3600)) @ ''h''
          else ''~'' @ toFixed 1 (js_div seconds (jsint 86400)) @ '' days''))"

section \<open>Routing\<close>

datatype app_view = DemoView | DashboardView | EmployeeView | BatchView | DetailView

record app_route =
  rt_view :: app_view
  rt_detail :: "int option"
  rt_hash :: string

definition route_init :: "string \<Rightarrow> app_route" where
  "route_init hash = \<lparr>rt_view = DemoView, rt_detail = None, rt_hash = hash\<rparr>"

text \<open>The pattern of a hash that names a stream.\<close>

definition hash_stream :: "string \<Rightarrow> int option" where
  "hash_stream h =
     (if take 8 h = ''#stream/'' \<and> all_digits (drop 8 h) then Some (digits_value 0 (drop 8 h)) else None)"

text \<open>The handler, with the stream it loads unless the page has it; \<open>known\<close> are the ids of the streams that the effect captured.\<close>

definition handleHash :: "int list \<Rightarrow> app_route \<Rightarrow> app_route \<times> int option" where
  "handleHash known R =
     (case hash_stream (rt_hash R) of
        None \<Rightarrow> (R, None)
      | Some i \<Rightarrow> (R\<lparr>rt_detail := Some i, rt_view := DetailView\<rparr>, if i \<in> set known then None else Some i))"

definition navigateToDetail :: "int \<Rightarrow> app_route \<Rightarrow> app_route" where
  "navigateToDetail i R = R\<lparr>rt_hash := ''#stream/'' @ show_int i\<rparr>"

definition navigateBack :: "app_route \<Rightarrow> app_route" where
  "navigateBack R = R\<lparr>rt_hash := '''', rt_view := DemoView, rt_detail := None\<rparr>"

definition VIEWS :: "app_view list" where
  "VIEWS = [DemoView, DashboardView, EmployeeView]"

fun indexOf :: "'a \<Rightarrow> 'a list \<Rightarrow> int" where
  "indexOf x [] = - 1"
| "indexOf x (y # ys) = (if x = y then 0 else let i = indexOf x ys in if i = - 1 then - 1 else i + 1)"

text \<open>The keyboard on a tab; \<open>None\<close> is a key that is left alone.\<close>

definition handleTabKeyDown :: "string \<Rightarrow> app_view \<Rightarrow> app_view option" where
  "handleTabKeyDown key current =
     (let idx = indexOf current VIEWS; n = int (length VIEWS) in
      if key = ''ArrowRight'' then Some (VIEWS ! nat ((idx + 1) mod n))
      else if key = ''ArrowLeft'' then Some (VIEWS ! nat ((idx - 1 + n) mod n))
      else if key = ''Home'' then Some (VIEWS ! 0)
      else if key = ''End'' then Some (VIEWS ! (length VIEWS - 1))
      else None)"

section \<open>Saved templates\<close>

record stream_template =
  st_id :: string
  st_name :: string
  st_token :: string
  st_deposit :: string
  st_rate :: string
  st_stopTime :: string
  st_createdAt :: int

text \<open>The list of the hook and what is stored; \<open>None\<close> is nothing or a text that cannot be parsed.\<close>

record template_hook =
  th_templates :: "stream_template list"
  th_saved :: "stream_template list option"

definition templates_load :: "template_hook \<Rightarrow> stream_template list" where
  "templates_load S = (case th_saved S of Some ts \<Rightarrow> ts | None \<Rightarrow> [])"

definition templates_mount :: "template_hook \<Rightarrow> template_hook" where
  "templates_mount S = S\<lparr>th_templates := templates_load S\<rparr>"

definition templates_set :: "(stream_template list \<Rightarrow> stream_template list) \<Rightarrow> template_hook \<Rightarrow> template_hook" where
  "templates_set f S = S\<lparr>th_templates := f (th_templates S), th_saved := Some (f (th_templates S))\<rparr>"

text \<open>\<open>tpl\<close> carries a fresh id and the time.\<close>

definition templates_save :: "stream_template \<Rightarrow> template_hook \<Rightarrow> template_hook" where
  "templates_save tpl = templates_set (\<lambda>prev. prev @ [tpl])"

definition templates_remove :: "string \<Rightarrow> template_hook \<Rightarrow> template_hook" where
  "templates_remove i = templates_set (filter (\<lambda>t. st_id t \<noteq> i))"

definition templates_update :: "string \<Rightarrow> (stream_template \<Rightarrow> stream_template) \<Rightarrow> template_hook \<Rightarrow> template_hook" where
  "templates_update i patch = templates_set (map (\<lambda>t. if st_id t = i then patch t else t))"

section \<open>Handlers of the first panel\<close>

record demo_form =
  df_employee :: string
  df_token :: string
  df_deposit :: string
  df_rate :: string
  df_stopTime :: string
  df_errors :: form_errors
  df_submitted :: bool
  df_templateName :: string
  df_lookupId :: string
  df_csvFrom :: string
  df_csvTo :: string

definition demo_form_init :: "config \<Rightarrow> demo_form" where
  "demo_form_init cfg = \<lparr>df_employee = '''', df_token = cfg_defaultToken cfg, df_deposit = ''10'', df_rate = ''1'', df_stopTime = ''0'',
     df_errors = no_form_errors, df_submitted = False, df_templateName = '''', df_lookupId = '''', df_csvFrom = '''', df_csvTo = ''''\<rparr>"

definition applyTemplate :: "stream_template \<Rightarrow> demo_form \<Rightarrow> demo_form" where
  "applyTemplate t F = F\<lparr>df_employee := '''', df_token := st_token t, df_deposit := st_deposit t, df_rate := st_rate t,
     df_stopTime := st_stopTime t, df_submitted := False, df_errors := no_form_errors\<rparr>"

definition handleSaveTemplate :: "string \<Rightarrow> int \<Rightarrow> demo_form \<times> template_hook \<Rightarrow> demo_form \<times> template_hook" where
  "handleSaveTemplate uuid now FS =
     (let F = fst FS in
      if trim (df_templateName F) = '''' then FS
      else (F\<lparr>df_templateName := ''''\<rparr>, templates_save
        \<lparr>st_id = uuid, st_name = trim (df_templateName F), st_token = df_token F, st_deposit = df_deposit F, st_rate = df_rate F,
         st_stopTime = df_stopTime F, st_createdAt = now\<rparr> (snd FS)))"

definition create_amounts :: "demo_form \<Rightarrow> js_error + int \<times> int \<times> int" where
  "create_amounts F =
     rbind (bigint_of_num (math_round (js_mul (parseFloat (df_deposit F)) (jsint 10000000)))) (\<lambda>d.
     rbind (bigint_of_num (math_round (parseFloat (df_rate F)))) (\<lambda>r.
     rbind (bigint_of_string (if df_stopTime F = '''' then ''0'' else df_stopTime F)) (\<lambda>t. Inr (d, r, t))))"

text \<open>The form after the check, and the amounts that the hook is called with.\<close>

definition app_handleCreate :: "int \<Rightarrow> demo_form \<Rightarrow> demo_form \<times> (js_error + (int \<times> int \<times> int) option)" where
  "app_handleCreate nowSec F =
     (let errors = app_validateForm nowSec (df_employee F) (df_token F) (df_deposit F) (df_rate F) (df_stopTime F);
          F' = F\<lparr>df_submitted := True, df_errors := errors\<rparr>
      in if errors \<noteq> no_form_errors then (F', Inr None) else (F', rbind (create_amounts F) (\<lambda>a. Inr (Some a))))"

definition handleLookup :: "demo_form \<Rightarrow> js_error + int option" where
  "handleLookup F = (if trim (df_lookupId F) = '''' then Inr None else rbind (bigint_of_string (df_lookupId F)) (\<lambda>i. Inr (Some i)))"

text \<open>The range of dates of the export: an invalid date bounds nothing.\<close>

definition csv_range :: "(string \<Rightarrow> int option) \<Rightarrow> demo_form \<Rightarrow> date_range option" where
  "csv_range date_of F =
     (if df_csvFrom F = '''' \<and> df_csvTo F = '''' then None
      else Some \<lparr>range_from = (if df_csvFrom F = '''' then None else date_of (df_csvFrom F)),
                 range_to = (if df_csvTo F = '''' then None else date_of (df_csvTo F))\<rparr>)"

definition app_handleExportCsv ::
  "(string \<Rightarrow> int option) \<Rightarrow> (string \<Rightarrow> string \<Rightarrow> ('w, unit) io) \<Rightarrow> 'w fetch \<Rightarrow> stream list \<Rightarrow> demo_form \<Rightarrow> int \<Rightarrow> 'w \<Rightarrow> ((js_error + unit) \<times> 'w) option" where
  "app_handleExportCsv date_of download fetch ss F i =
     (let field = (\<lambda>g. case find (\<lambda>s. sid s = i) ss of Some s \<Rightarrow> string_or_empty (g s) | None \<Rightarrow> '''') in
      exportAllHistory date_of download i (export_fetchPage fetch i) (csv_range date_of F) (field employee) (field token))"

section \<open>Onboarding\<close>

record wizard =
  wz_step :: nat
  wz_done :: bool
  wz_key :: "string option"

definition wizard_steps :: nat where
  "wizard_steps = 4"

definition shouldShowOnboarding :: "string option \<Rightarrow> bool" where
  "shouldShowOnboarding stored = (\<not> truthy_text stored)"

definition wizard_init :: "string option \<Rightarrow> wizard" where
  "wizard_init stored = \<lparr>wz_step = 0, wz_done = (\<not> shouldShowOnboarding stored), wz_key = stored\<rparr>"

datatype wizard_action = WizardBack | WizardSkip | WizardNext

text \<open>Back is disabled on the first step.\<close>

definition wizard_can :: "wizard_action \<Rightarrow> wizard \<Rightarrow> bool" where
  "wizard_can a W \<longleftrightarrow> \<not> wz_done W \<and> (a = WizardBack \<longrightarrow> wz_step W \<noteq> 0)"

definition wizard_finish :: "wizard \<Rightarrow> wizard" where
  "wizard_finish W = W\<lparr>wz_key := Some ''1'', wz_done := True\<rparr>"

fun wizard_do :: "wizard_action \<Rightarrow> wizard \<Rightarrow> wizard" where
  "wizard_do WizardBack W = W\<lparr>wz_step := wz_step W - 1\<rparr>"
| "wizard_do WizardSkip W = wizard_finish W"
| "wizard_do WizardNext W = (if wz_step W = wizard_steps - 1 then wizard_finish W else W\<lparr>wz_step := wz_step W + 1\<rparr>)"

end
