(* ===== verification/App_Shell_Props.thy ===== *)
theory App_Shell_Props
  imports App_Shell
begin

text \<open>
  What the shell keeps over reloads, where its routes lead, and what its templates hold.
\<close>

section \<open>State that survives a reload\<close>

text \<open>A hook that is mounted from what is stored, in some environment, and stores what it shows.\<close>

locale persisted_hook =
  fixes mount :: "'c \<Rightarrow> 'd \<Rightarrow> 's"
    and step :: "'e \<Rightarrow> 's \<Rightarrow> 's"
    and stored :: "'s \<Rightarrow> 'd"
    and shows_of :: "'s \<Rightarrow> 'v"
    and synced :: "'s \<Rightarrow> bool"
  assumes mount_synced: "synced (mount c d)"
    and step_synced: "synced s \<Longrightarrow> synced (step e s)"
    and remount: "synced s \<Longrightarrow> shows_of (mount c (stored s)) = shows_of s"
begin

lemma run_synced: "synced s \<Longrightarrow> synced (fold step es s)"
  by (induction es arbitrary: s) (simp_all add: step_synced)

lemma reload_shows: "shows_of (mount c' (stored (fold step es (mount c d)))) = shows_of (fold step es (mount c d))"
  by (simp add: remount run_synced mount_synced)

end

definition theme_synced :: "theme \<Rightarrow> bool" where
  "theme_synced T \<longleftrightarrow> th_mounted T \<and> th_stored T = Some (if th_dark T then ''true'' else ''false'') \<and>
     th_attr T = Some (if th_dark T then ''dark'' else ''light'')"

lemma theme_apply_synced: "th_mounted T \<Longrightarrow> theme_synced (theme_apply T)"
  by (simp add: theme_synced_def theme_apply_def)

lemma theme_start_dark: "th_dark (theme_start os d) = (case d of Some v \<Rightarrow> v = ''true'' | None \<Rightarrow> os)"
  by (simp add: theme_start_def theme_apply_def theme_mount_def theme_init_def)

interpretation themes: persisted_hook theme_start theme_step th_stored th_dark theme_synced
proof unfold_locales
  show "theme_synced (theme_start os d)" for os d
    unfolding theme_start_def by (rule theme_apply_synced) (simp add: theme_mount_def)
  show "theme_synced T \<Longrightarrow> theme_synced (theme_step e T)" for T e
    by (cases e) (auto simp: theme_os_handler_def theme_synced_def theme_apply_def)
qed (simp add: theme_start_dark theme_synced_def)

datatype template_event = SaveTpl stream_template | RemoveTpl string | UpdateTpl string "stream_template \<Rightarrow> stream_template"

fun template_step :: "template_event \<Rightarrow> template_hook \<Rightarrow> template_hook" where
  "template_step (SaveTpl t) = templates_save t"
| "template_step (RemoveTpl i) = templates_remove i"
| "template_step (UpdateTpl i f) = templates_update i f"

definition templates_start :: "unit \<Rightarrow> stream_template list option \<Rightarrow> template_hook" where
  "templates_start u d = templates_mount \<lparr>th_templates = [], th_saved = d\<rparr>"

interpretation templates: persisted_hook templates_start template_step th_saved th_templates "\<lambda>S. th_templates S = templates_load S"
proof unfold_locales
  show "th_templates S = templates_load S \<Longrightarrow> th_templates (template_step e S) = templates_load (template_step e S)" for S e
    by (cases e) (simp_all add: templates_save_def templates_remove_def templates_update_def templates_set_def templates_load_def)
qed (simp_all add: templates_start_def templates_mount_def templates_load_def split: option.split)

text \<open>The theme is what the first visit found, changed by every click on the button, and it survives a reload. Changes of the
  system's preference never change it, not even when the button was never used: the hook itself stores the theme when it is mounted, so
  that a stored preference is always found.\<close>

theorem theme_of_run:
  "th_dark (fold theme_step es (theme_start os d)) = (th_dark (theme_start os d) \<noteq> odd (length (filter (\<lambda>e. e = ThemeToggle) es)))"
proof -
  have "theme_synced T \<Longrightarrow> th_dark (fold theme_step es T) = (th_dark T \<noteq> odd (length (filter (\<lambda>e. e = ThemeToggle) es)))" for T
  proof (induction es arbitrary: T)
    case (Cons e es)
    have "th_dark (theme_step e T) = (th_dark T \<noteq> (e = ThemeToggle))"
      using Cons.prems by (cases e) (auto simp: theme_apply_def theme_os_handler_def theme_synced_def)
    then show ?case using Cons.IH [OF themes.step_synced [OF Cons.prems]] by (auto simp del: theme_step.simps)
  qed simp
  then show ?thesis using themes.mount_synced by blast
qed

lemma system_preference_ignored: "theme_synced T \<Longrightarrow> th_dark (theme_step (OsChange os) T) = th_dark T"
  by (simp add: theme_apply_def theme_os_handler_def theme_synced_def)

theorem theme_survives_reload: "th_dark (theme_start os' (th_stored (fold theme_step es (theme_start os d)))) = th_dark (fold theme_step es (theme_start os d))"
  by (rule themes.reload_shows)

theorem templates_survive_reload:
  "th_templates (templates_start u (th_saved (fold template_step es (templates_start v d)))) = th_templates (fold template_step es (templates_start v d))"
  by (rule templates.reload_shows)

section \<open>Routes\<close>

lemma hash_of_detail: "0 \<le> i \<Longrightarrow> hash_stream (rt_hash (navigateToDetail i R)) = Some i"
  by (simp add: hash_stream_def navigateToDetail_def show_int_def all_digits_def show_dec_digits)

theorem detail_link_opens:
  assumes "0 \<le> i" "handleHash known (navigateToDetail i R) = (R', want)"
  shows "rt_view R' = DetailView \<and> rt_detail R' = Some i \<and> (i \<notin> set known \<longrightarrow> want = Some i)"
  using assms hash_of_detail [OF assms(1), of R] by (auto simp: handleHash_def split: if_splits)

lemma back_stays: "handleHash known (navigateBack R) = (navigateBack R, None)"
  by (simp add: handleHash_def navigateBack_def hash_stream_def)

text \<open>The keyboard walks around the three tabs, in both directions; the fourth tab is not among them.\<close>

lemma tab_table:
  "handleTabKeyDown ''ArrowRight'' DemoView = Some DashboardView" "handleTabKeyDown ''ArrowRight'' DashboardView = Some EmployeeView"
  "handleTabKeyDown ''ArrowRight'' EmployeeView = Some DemoView" "handleTabKeyDown ''ArrowLeft'' DashboardView = Some DemoView"
  "handleTabKeyDown ''ArrowLeft'' EmployeeView = Some DashboardView" "handleTabKeyDown ''ArrowLeft'' DemoView = Some EmployeeView"
  by code_simp+

lemma tabs_cycle:
  assumes "v \<in> set VIEWS"
  shows "\<exists>w \<in> set VIEWS. handleTabKeyDown ''ArrowRight'' v = Some w \<and> handleTabKeyDown ''ArrowLeft'' w = Some v"
  using assms by (auto simp: VIEWS_def tab_table)

lemma tab_keys_stay: "handleTabKeyDown key v = Some w \<Longrightarrow> w \<in> set VIEWS"
proof -
  have n: "length VIEWS = 3" by (simp add: VIEWS_def)
  have "VIEWS ! nat (k mod 3) \<in> set VIEWS" "VIEWS ! 0 \<in> set VIEWS" "VIEWS ! 2 \<in> set VIEWS" for k :: int
    by (rule nth_mem, simp add: n nat_less_iff)+
  then show "handleTabKeyDown key v = Some w \<Longrightarrow> w \<in> set VIEWS" by (auto simp: handleTabKeyDown_def Let_def n split: if_splits)
qed

lemma batch_not_reached: "handleTabKeyDown key v = Some w \<Longrightarrow> w \<noteq> BatchView"
  using tab_keys_stay by (fastforce simp: VIEWS_def)

section \<open>Templates of the first panel\<close>

text \<open>What the page can do to the form of the shell: only the buttons of the templates reach it, since the panel shows
  \<open>StreamCreationForm\<close>, which has a state of its own.\<close>

inductive panel_run :: "config \<Rightarrow> stream_template list option \<Rightarrow> demo_form \<times> template_hook \<Rightarrow> bool" for cfg d where
  panel_start: "panel_run cfg d (demo_form_init cfg, templates_start () d)"
| panel_name: "panel_run cfg d (F, S) \<Longrightarrow> panel_run cfg d (F\<lparr>df_templateName := n\<rparr>, S)"
| panel_apply: "panel_run cfg d (F, S) \<Longrightarrow> t \<in> set (th_templates S) \<Longrightarrow> panel_run cfg d (applyTemplate t F, S)"
| panel_remove: "panel_run cfg d (F, S) \<Longrightarrow> panel_run cfg d (F, templates_remove i S)"
| panel_save: "panel_run cfg d FS \<Longrightarrow> panel_run cfg d (handleSaveTemplate uuid now FS)"

definition tpl_values :: "stream_template \<Rightarrow> string \<times> string \<times> string \<times> string" where
  "tpl_values t = (st_token t, st_deposit t, st_rate t, st_stopTime t)"

definition form_values :: "demo_form \<Rightarrow> string \<times> string \<times> string \<times> string" where
  "form_values F = (df_token F, df_deposit F, df_rate F, df_stopTime F)"

lemma panel_values:
  assumes "panel_run cfg d FS" "V = insert (form_values (demo_form_init cfg)) (tpl_values ` set (case d of Some ts \<Rightarrow> ts | None \<Rightarrow> []))"
  shows "form_values (fst FS) \<in> V \<and> tpl_values ` set (th_templates (snd FS)) \<subseteq> V"
  using assms(1)
proof (induction rule: panel_run.induct)
  case panel_start
  then show ?case by (auto simp: assms(2) templates_start_def templates_mount_def templates_load_def split: option.splits)
next
  case (panel_apply F S t)
  then show ?case by (auto simp: applyTemplate_def form_values_def tpl_values_def)
next
  case (panel_remove F S i)
  then show ?case by (auto simp: templates_remove_def templates_set_def)
next
  case (panel_save FS uuid now)
  then show ?case
    by (cases FS) (auto simp: handleSaveTemplate_def Let_def templates_save_def templates_set_def form_values_def tpl_values_def)
qed (simp add: form_values_def)

text \<open>Without stored templates every template that is saved holds the initial values of the shell, whatever the user typed into the
  creation form.\<close>

theorem saved_templates_are_defaults:
  assumes "panel_run cfg None (F, S)" "t \<in> set (th_templates S)"
  shows "st_token t = cfg_defaultToken cfg \<and> st_deposit t = ''10'' \<and> st_rate t = ''1'' \<and> st_stopTime t = ''0''"
  using panel_values [OF assms(1) refl] assms(2) by (auto simp: tpl_values_def form_values_def demo_form_init_def)

section \<open>Onboarding\<close>

inductive wizard_run :: "string option \<Rightarrow> wizard \<Rightarrow> bool" for stored where
  wizard_start: "wizard_run stored (wizard_init stored)"
| wizard_act: "wizard_run stored W \<Longrightarrow> wizard_can a W \<Longrightarrow> wizard_run stored (wizard_do a W)"

text \<open>The wizard stays within its steps, and when it is done it is not shown again.\<close>

theorem wizard_shown_once:
  assumes "wizard_run stored W"
  shows "wz_step W < wizard_steps \<and> (wz_done W \<longleftrightarrow> \<not> shouldShowOnboarding (wz_key W))"
  using assms
proof (induction rule: wizard_run.induct)
  case (wizard_act W a)
  then show ?case
    by (cases a) (auto simp: wizard_finish_def wizard_steps_def wizard_can_def shouldShowOnboarding_def truthy_text_def)
qed (simp add: wizard_init_def wizard_steps_def)

section \<open>The check of the shell's form\<close>

text \<open>A form whose amounts reach the hook has passed the check: its amounts are positive.\<close>

lemma checked_form_positive:
  assumes "app_handleCreate nowSec F = (F', Inr (Some a))"
  shows "\<not> js_le (parseFloat (df_deposit F)) (jsint 0) \<and> \<not> js_le (parseFloat (df_rate F)) (jsint 0) \<and> trim (df_employee F) \<noteq> '''' \<and>
    df_errors F' = no_form_errors"
  using assms by (auto simp: app_handleCreate_def Let_def app_validateForm_def no_form_errors_def error_if_def split: if_splits)

end
