(* ===== verification/Api_Cache.thy ===== *)
theory Api_Cache
  imports Api_Routes
begin

text \<open>
  The cache of streams (\<^verbatim>\<open>api/services/cacheService.js\<close>) and the cached statistics
  (\<^verbatim>\<open>api/services/analyticsService.js\<close>, \<^verbatim>\<open>api/routes/analytics.js\<close>) over a Redis server. The server is a
  parameter; what both rely on is the locale \<open>redis_server\<close>, interpreted on a store of values with expiry times. A
  stored JSON text is represented by the value it is read back as. Times are milliseconds.
\<close>

section \<open>JSON texts\<close>

text \<open>What \<^verbatim>\<open>JSON.parse(JSON.stringify(v))\<close> gives: fields that are \<^verbatim>\<open>undefined\<close> are left out, such
  elements and numbers that are not finite are \<^verbatim>\<open>null\<close>, a bigint throws. \<open>None\<close> is \<^verbatim>\<open>undefined\<close>.\<close>

fun json_view :: "jsval \<Rightarrow> js_error + jsval option"
  and json_elems :: "jsval list \<Rightarrow> js_error + jsval list"
  and json_fields :: "(string \<times> jsval) list \<Rightarrow> js_error + (string \<times> jsval) list" where
  "json_view JUndef = Inr None"
| "json_view JNull = Inr (Some JNull)"
| "json_view (JBool b) = Inr (Some (JBool b))"
| "json_view (JNum x) = Inr (Some (case x of Fin q \<Rightarrow> JNum (Fin q) | _ \<Rightarrow> JNull))"
| "json_view (JBig n) = Inl (TypeError ''Do not know how to serialize a BigInt'')"
| "json_view (JStr s) = Inr (Some (JStr s))"
| "json_view (JArr vs) = rbind (json_elems vs) (\<lambda>ws. Inr (Some (JArr ws)))"
| "json_view (JObj fs) = rbind (json_fields fs) (\<lambda>gs. Inr (Some (JObj gs)))"
| "json_elems [] = Inr []"
| "json_elems (v # vs) = rbind (json_view v) (\<lambda>w. rbind (json_elems vs) (\<lambda>ws. Inr ((case w of None \<Rightarrow> JNull | Some x \<Rightarrow> x) # ws)))"
| "json_fields [] = Inr []"
| "json_fields ((k, v) # fs) =
     rbind (json_view v) (\<lambda>w. rbind (json_fields fs) (\<lambda>gs. Inr (case w of None \<Rightarrow> gs | Some x \<Rightarrow> (k, x) # gs)))"

lemma json_view_idem:
  "json_view v = Inr (Some w) \<Longrightarrow> json_view w = Inr (Some w)"
  "json_elems vs = Inr ws \<Longrightarrow> json_elems ws = Inr ws"
  "json_fields fs = Inr gs \<Longrightarrow> json_fields gs = Inr gs"
  by (induction v and vs and fs arbitrary: w and ws and gs rule: json_view_json_elems_json_fields.induct)
    (auto simp: rbind_Inr_iff split: option.splits jsnum.splits)

section \<open>Redis\<close>

text \<open>The three commands at a time: \<^verbatim>\<open>GET\<close>, \<^verbatim>\<open>SET ... EX seconds\<close> and \<^verbatim>\<open>DEL\<close>. A command may fail, and a failed
  one may still have been carried out. An empty text is \<open>Some None\<close>.\<close>

record 'd redis =
  rd_get :: "int \<Rightarrow> string \<Rightarrow> 'd \<Rightarrow> js_error + jsval option option"
  rd_set :: "int \<Rightarrow> string \<Rightarrow> jsval option \<Rightarrow> int \<Rightarrow> 'd \<Rightarrow> (js_error + unit) \<times> 'd"
  rd_del :: "int \<Rightarrow> string \<Rightarrow> 'd \<Rightarrow> (js_error + unit) \<times> 'd"

section \<open>The stream cache\<close>

definition STREAM_TTL :: int where "STREAM_TTL = 10"

definition streamKey :: "string \<Rightarrow> string" where
  "streamKey i = ''stream:'' @ i"

record 'd cache_state =
  cs_store :: 'd
  cs_hits :: int
  cs_misses :: int

definition cache_getStream :: "'d redis \<Rightarrow> int \<Rightarrow> string \<Rightarrow> 'd cache_state \<Rightarrow> jsval \<times> 'd cache_state" where
  "cache_getStream R now i S =
     (case rd_get R now (streamKey i) (cs_store S) of
        Inr (Some (Some v)) \<Rightarrow> (v, S\<lparr>cs_hits := cs_hits S + 1\<rparr>)
      | _ \<Rightarrow> (JNull, S\<lparr>cs_misses := cs_misses S + 1\<rparr>))"

definition cache_setStream :: "'d redis \<Rightarrow> int \<Rightarrow> string \<Rightarrow> jsval \<Rightarrow> 'd cache_state \<Rightarrow> 'd cache_state" where
  "cache_setStream R now i v S =
     (case json_view v of
        Inl _ \<Rightarrow> S
      | Inr t \<Rightarrow> S\<lparr>cs_store := snd (rd_set R now (streamKey i) t STREAM_TTL (cs_store S))\<rparr>)"

definition cache_invalidateStream :: "'d redis \<Rightarrow> int \<Rightarrow> string \<Rightarrow> 'd cache_state \<Rightarrow> 'd cache_state" where
  "cache_invalidateStream R now i S = S\<lparr>cs_store := snd (rd_del R now (streamKey i) (cs_store S))\<rparr>"

definition cache_getMetrics :: "'d cache_state \<Rightarrow> int \<times> int" where
  "cache_getMetrics S = (cs_hits S, cs_misses S)"

end
