(* ===== verification/Api_Cache_Props.thy ===== *)
theory Api_Cache_Props
  imports Api_Cache Api_Routes_Props
begin

text \<open>
  How old an answer of the API about a stream can be: the routes as they run side by side, over the stream cache and a
  contract whose streams change with time. The laws of the Redis server are the locale \<open>redis_server\<close>.
\<close>

section \<open>What Redis promises\<close>

text \<open>\<open>content now d k\<close> is what \<^verbatim>\<open>GET\<close> can answer. A value is one that was set, until its time is over or the key
  is deleted; it may vanish earlier.\<close>

locale redis_server =
  fixes R :: "'d redis" and content :: "int \<Rightarrow> 'd \<Rightarrow> string \<Rightarrow> jsval option option"
  assumes get_content: "rd_get R now k d = Inr (Some t) \<Longrightarrow> content now d k = Some t"
    and set_content: "content now' (snd (rd_set R now k t ttl d)) k' = Some u \<Longrightarrow>
      (k' = k \<and> u = t \<and> now' < now + 1000 * ttl) \<or>
      content now' d k' = Some u \<and> (k' \<noteq> k \<or> (\<exists>e. fst (rd_set R now k t ttl d) = Inl e))"
    and del_content: "content now' (snd (rd_del R now k d)) k' = Some u \<Longrightarrow>
      content now' d k' = Some u \<and> (k' \<noteq> k \<or> (\<exists>e. fst (rd_del R now k d) = Inl e))"
begin

lemma getStream_content: "cache_getStream R now i S = (v, S') \<Longrightarrow> v \<noteq> JNull \<Longrightarrow> content now (cs_store S) (streamKey i) = Some (Some v)"
  by (auto simp: cache_getStream_def get_content split: sum.splits option.splits)

lemma getStream_store: "cs_store (snd (cache_getStream R now i S)) = cs_store S"
  by (simp add: cache_getStream_def split: sum.split option.split)

lemma setStream_content:
  assumes "content now' (cs_store (cache_setStream R now i v S)) k = Some (Some w)"
  shows "(k = streamKey i \<and> json_view v = Inr (Some w) \<and> now' < now + 10000) \<or> content now' (cs_store S) k = Some (Some w)"
  using assms set_content [of now' now "streamKey i" _ STREAM_TTL "cs_store S" k "Some w"]
  by (auto simp: cache_setStream_def STREAM_TTL_def split: sum.splits)

lemma invalidate_content:
  "content now' (cs_store (cache_invalidateStream R now i S)) k = Some u \<Longrightarrow> content now' (cs_store S) k = Some u"
  using del_content [of now' now "streamKey i" "cs_store S" k u] by (simp add: cache_invalidateStream_def)

text \<open>After an invalidation that was carried out, the stream is not answered from the cache until it is set again.\<close>

lemma invalidated:
  assumes "fst (rd_del R now (streamKey i) (cs_store S)) = Inr ()"
  shows "fst (cache_getStream R now' i (cache_invalidateStream R now i S)) = JNull"
proof (rule ccontr)
  assume "fst (cache_getStream R now' i (cache_invalidateStream R now i S)) \<noteq> JNull"
  then obtain v where "content now' (cs_store (cache_invalidateStream R now i S)) (streamKey i) = Some (Some v)"
    using getStream_content by (metis prod.collapse)
  then show False using assms del_content [of now' now "streamKey i" "cs_store S" "streamKey i" "Some v"]
    by (simp add: cache_invalidateStream_def)
qed

end

section \<open>A store with expiry times\<close>

type_synonym timed_store = "(string, jsval option \<times> int) jsmap"

definition timed_value :: "int \<Rightarrow> timed_store \<Rightarrow> string \<Rightarrow> jsval option option" where
  "timed_value now d k = (case jsget d k of Some (t, until) \<Rightarrow> if now < until then Some t else None | None \<Rightarrow> None)"

definition timed_redis :: "timed_store redis" where
  "timed_redis = \<lparr>rd_get = (\<lambda>now k d. Inr (timed_value now d k)),
     rd_set = (\<lambda>now k t ttl d. (Inr (), jsset k (t, now + 1000 * ttl) d)), rd_del = (\<lambda>now k d. (Inr (), jsdel k d))\<rparr>"

lemma timed_redis_simps [simp]:
  "rd_get timed_redis now k d = Inr (timed_value now d k)"
  "rd_set timed_redis now k t ttl d = (Inr (), jsset k (t, now + 1000 * ttl) d)"
  "rd_del timed_redis now k d = (Inr (), jsdel k d)"
  by (simp_all add: timed_redis_def)

interpretation timed: redis_server timed_redis timed_value
  by unfold_locales (auto simp: timed_value_def split: option.splits if_splits)

section \<open>Routes that do not fill the cache\<close>

definition is_fill :: "api_effect \<Rightarrow> bool" where
  "is_fill x = (case x of CacheSet _ _ \<Rightarrow> True | _ \<Rightarrow> False)"

primrec fills_nothing :: "'r prog \<Rightarrow> bool" where
  "fills_nothing (Done a) = True"
| "fills_nothing (Raise e) = True"
| "fills_nothing (Perform x k) = (\<not> is_fill x \<and> (\<forall>v. fills_nothing (k v)))"

lemma fills_nothing_runs: "runs p tr out \<Longrightarrow> fills_nothing p \<Longrightarrow> list_all (\<lambda>e. \<not> is_fill (fst e)) tr"
  by (induction rule: runs.induct) auto

lemma fills_pbind: "fills_nothing p \<Longrightarrow> (\<And>a. fills_nothing (f a)) \<Longrightarrow> fills_nothing (pbind p f)"
  by (induction p) auto

lemma fills_pcatch: "fills_nothing p \<Longrightarrow> (\<And>e. fills_nothing (h e)) \<Longrightarrow> fills_nothing (pcatch p h)"
  by (induction p) auto

lemma fills_perform: "\<not> is_fill x \<Longrightarrow> fills_nothing (perform x)"
  by (simp add: perform_def split: sum.split)

lemma fills_validated: "fills_nothing p \<Longrightarrow> fills_nothing (validated V cs rq p)"
  by (simp add: validated_def reply_def)

lemma fills_answers: "fills_nothing (reply st fs)" "fills_nothing (success gs)" "fills_nothing (refuse st m)" "fills_nothing (to_text v)"
  by (simp_all add: reply_def success_def refuse_def to_text_def)

lemma fills_audited: "fills_nothing p \<Longrightarrow> fills_nothing (audited H act rq p)"
  unfolding audited_def by (intro fills_pbind fills_pcatch) (simp_all add: is_fill_def)

lemmas fills_rules = fills_pbind fills_pcatch fills_perform fills_validated fills_answers fills_audited

lemma only_get_fills: "r \<noteq> RGetStream \<Longrightarrow> fills_nothing (route V H r rq)"
  by (cases r)
    (auto simp: create_stream_route_def stream_count_route_def claimable_route_def withdraw_route_def top_up_route_def
      initialize_route_def pause_contract_route_def set_min_deposit_route_def admin_call_route_def force_cancel_route_def
      total_supply_route_def token_balance_route_def token_transfer_route_def token_mint_route_def token_move_route_def
      token_metadata_route_def propose_route_def vote_route_def proposal_route_def Let_def is_fill_def submit_stream_def submit_token_def
      intro!: fills_rules)


section \<open>Requests side by side\<close>

text \<open>The log of a server: at which time a request performed which effect and what came back. The cache answers as its
  service does over the state it is in; a stream read from the contract is the one it has at that time.\<close>

type_synonym log_entry = "int \<times> nat \<times> api_effect \<times> (js_error + jsval)"

abbreviation entry_time :: "log_entry \<Rightarrow> int" where "entry_time \<equiv> fst"

abbreviation entry_request :: "log_entry \<Rightarrow> nat" where "entry_request e \<equiv> fst (snd e)"

fun cache_effect :: "'d redis \<Rightarrow> int \<Rightarrow> api_effect \<Rightarrow> 'd cache_state \<Rightarrow> jsval option \<times> 'd cache_state" where
  "cache_effect R now (CacheGet i) S = (case cache_getStream R now i S of (v, S') \<Rightarrow> (Some v, S'))"
| "cache_effect R now (CacheSet i v) S = (Some JUndef, cache_setStream R now i v S)"
| "cache_effect R now (CacheDrop i) S = (Some JUndef, cache_invalidateStream R now i S)"
| "cache_effect R now x S = (None, S)"

definition read_stream :: "string \<Rightarrow> api_effect" where
  "read_stream i = ReadContract StreamContract ''get_stream'' [AsBigInt (JStr i)]"

inductive served :: "'d redis \<Rightarrow> (int \<Rightarrow> string \<Rightarrow> jsval) \<Rightarrow> 'd cache_state \<Rightarrow> log_entry list \<Rightarrow> 'd cache_state \<Rightarrow> bool"
  for R chain S0 where
  served_start: "served R chain S0 [] S0"
| served_step: "\<lbrakk>served R chain S0 L S; list_all (\<lambda>e. entry_time e \<le> now) L;
    case fst (cache_effect R now x S) of Some v \<Rightarrow> a = Inr v | None \<Rightarrow> True;
    \<forall>i r. x = read_stream i \<and> a = Inr r \<longrightarrow> r = chain now i\<rbrakk> \<Longrightarrow>
    served R chain S0 (L @ [(now, q, x, a)]) (snd (cache_effect R now x S))"

definition entries_of :: "nat \<Rightarrow> log_entry list \<Rightarrow> log_entry list" where
  "entries_of q L = filter (\<lambda>e. entry_request e = q) L"

definition trace_of :: "nat \<Rightarrow> log_entry list \<Rightarrow> (api_effect \<times> (js_error + jsval)) list" where
  "trace_of q L = map (\<lambda>e. snd (snd e)) (entries_of q L)"

lemma served_sorted: "served R chain S0 L S \<Longrightarrow> sorted (map entry_time L)"
  by (induction rule: served.induct) (auto simp: sorted_append list_all_iff)

lemma served_reads:
  "served R chain S0 L S \<Longrightarrow> (t, q, read_stream i, Inr r) \<in> set L \<Longrightarrow> r = chain t i"
  by (induction rule: served.induct) auto

lemma served_hit:
  assumes "served R chain S0 L S" "(t, q, CacheGet i, Inr v) \<in> set L"
  shows "\<exists>L1 L2 S1 S1'. L = L1 @ (t, q, CacheGet i, Inr v) # L2 \<and> served R chain S0 L1 S1 \<and> cache_getStream R t i S1 = (v, S1')"
  using assms
proof (induction rule: served.induct)
  case (served_step L S now x a q')
  show ?case
  proof (cases "(t, q, CacheGet i, Inr v) \<in> set L")
    case True
    then obtain L1 L2 S1 S1' where "L = L1 @ (t, q, CacheGet i, Inr v) # L2" "served R chain S0 L1 S1" "cache_getStream R t i S1 = (v, S1')"
      using served_step.IH by blast
    then show ?thesis by (intro exI [of _ L1] exI [of _ "L2 @ [(now, q', x, a)]"] exI [of _ S1] exI [of _ S1']) simp
  next
    case False
    then have e: "t = now" "q = q'" "x = CacheGet i" "a = Inr v" using served_step.prems by auto
    then have "fst (cache_getStream R t i S) = v" using served_step.hyps(3) by (auto split: prod.splits)
    then show ?thesis using e served_step.hyps(1)
      by (intro exI [of _ L] exI [of _ "[]"] exI [of _ S] exI [of _ "snd (cache_getStream R t i S)"]) (auto simp: prod_eq_iff)
  qed
qed simp

text \<open>What the cache can answer was set by a request, less than ten seconds ago.\<close>

context redis_server
begin

lemma content_was_set:
  assumes "served R chain S0 L S" "\<forall>now k. content now (cs_store S0) k = None" "content now (cs_store S) k = Some (Some w)"
  shows "\<exists>t q i r a. (t, q, CacheSet i r, a) \<in> set L \<and> k = streamKey i \<and> json_view r = Inr (Some w) \<and> now < t + 10000"
  using assms
proof (induction arbitrary: now k w rule: served.induct)
  case (served_step L S t x a q)
  have "content now (cs_store S) k = Some (Some w) \<or>
      (\<exists>i r. x = CacheSet i r \<and> k = streamKey i \<and> json_view r = Inr (Some w) \<and> now < t + 10000)"
  proof (cases x)
    case (CacheGet i)
    then show ?thesis using served_step.prems(2) getStream_store [of t i S] by (simp add: case_prod_beta)
  next
    case (CacheSet i r)
    then show ?thesis using served_step.prems(2) setStream_content [of now t i r S k w] by auto
  next
    case (CacheDrop i)
    then show ?thesis using served_step.prems(2) invalidate_content [of now t i S k] by simp
  qed (use served_step.prems(2) in simp_all)
  then show ?case using served_step.IH [OF served_step.prems(1), of now k w] by (metis UnCI list.set_intros(1) set_append)
qed simp

end


section \<open>How old an answer is\<close>

lemma get_run_fill:
  assumes "runs (get_stream_route V rq) tr out" "(CacheSet i r, a) \<in> set tr" "param_of rq ''stream_id'' = JStr j"
  shows "i = j \<and> (\<exists>a0. tr = [(CacheGet i, a0), (read_stream i, Inr r), (CacheSet i r, a)])"
  using assms by (auto simp: get_stream_route_def run_rules runs_if read_stream_def id_text_def split: if_splits)

lemma get_run_answer:
  assumes "runs (get_stream_route V rq) tr (Inr (200, JObj [(''success'', JBool True), (''stream'', v)]))" "param_of rq ''stream_id'' = JStr j"
  shows "(tr = [(CacheGet j, Inr v)] \<and> truthy v) \<or> (\<exists>a0 a. tr = [(CacheGet j, a0), (read_stream j, Inr v), (CacheSet j v, a)])"
  using assms by (auto simp: get_stream_route_def run_rules runs_if read_stream_def id_text_def split: if_splits)

text \<open>A running request has performed the first effects of one of its runs.\<close>

definition in_progress :: "'r prog \<Rightarrow> (api_effect \<times> (js_error + jsval)) list \<Rightarrow> bool" where
  "in_progress p tr \<longleftrightarrow> (\<exists>tr' out. runs p (tr @ tr') out)"

lemma in_progress_full: "runs p tr out \<Longrightarrow> in_progress p tr"
  unfolding in_progress_def by (intro exI [of _ "[]"] exI [of _ out]) simp

lemma entries_subset: "set (entries_of q L) \<subseteq> set L"
  by (auto simp: entries_of_def)

lemma entries_sorted: "sorted (map entry_time L) \<Longrightarrow> sorted (map entry_time (entries_of q L))"
  unfolding entries_of_def by (induction L) (auto)

lemma trace_three:
  assumes "trace_of q L = [(x1, a1), (x2, a2), (x3, a3)]"
  obtains t1 t2 t3 where "entries_of q L = [(t1, q, x1, a1), (t2, q, x2, a2), (t3, q, x3, a3)]"
proof -
  have "length (entries_of q L) = 3" using assms by (metis length_Cons length_map list.size(3) numeral_3_eq_3 trace_of_def)
  then obtain e1 e2 e3 where e: "entries_of q L = [e1, e2, e3]" by (auto simp: numeral_eq_Suc length_Suc_conv)
  moreover have "list_all (\<lambda>e. entry_request e = q) (entries_of q L)" by (simp add: entries_of_def list_all_iff)
  ultimately show thesis using assms by (intro that [of "fst e1" "fst e2" "fst e3"]) (auto simp: trace_of_def prod_eq_iff)
qed

lemma trace_one:
  assumes "trace_of q L = [(x, a)]"
  obtains t where "entries_of q L = [(t, q, x, a)]"
proof -
  obtain e where e: "entries_of q L = [e]" "snd (snd e) = (x, a)" using assms by (auto simp: trace_of_def)
  moreover have "list_all (\<lambda>e. entry_request e = q) (entries_of q L)" by (simp add: entries_of_def list_all_iff)
  ultimately show thesis by (intro that [of "fst e"]) (auto simp: prod_eq_iff)
qed

lemma fill_was_read:
  assumes "served R chain S0 L S" "in_progress (route V H (fst rq) (snd rq)) (trace_of q L)"
    and "fst rq = RGetStream \<Longrightarrow> \<exists>j. param_of (snd rq) ''stream_id'' = JStr j" "(ts, q, CacheSet i r, a) \<in> set L"
  shows "\<exists>tr. tr \<le> ts \<and> r = chain tr i \<and> (tr, q, read_stream i, Inr r) \<in> set L"
proof -
  obtain tr' out where run: "runs (route V H (fst rq) (snd rq)) (trace_of q L @ tr') out" using assms(2) by (auto simp: in_progress_def)
  have e: "(ts, q, CacheSet i r, a) \<in> set (entries_of q L)" using assms(4) by (simp add: entries_of_def)
  then have m: "(CacheSet i r, a) \<in> set (trace_of q L)" by (force simp: trace_of_def)
  then have g: "fst rq = RGetStream"
    using fills_nothing_runs [OF run] only_get_fills [of "fst rq" V H "snd rq"] by (force simp: list_all_iff is_fill_def)
  then obtain j where "param_of (snd rq) ''stream_id'' = JStr j" using assms(3) by blast
  then obtain a0 where full: "trace_of q L @ tr' = [(CacheGet i, a0), (read_stream i, Inr r), (CacheSet i r, a)]"
    using get_run_fill [of V "snd rq" "trace_of q L @ tr'" out i r a j] run g m by auto
  have "tr' = []"
  proof (rule ccontr)
    assume "tr' \<noteq> []"
    then have "trace_of q L \<in> {[], [(CacheGet i, a0)], [(CacheGet i, a0), (read_stream i, Inr r)]}"
      using full by (auto simp: append_eq_Cons_conv)
    then show False using m by (auto simp: read_stream_def)
  qed
  then obtain t1 t2 t3 where es: "entries_of q L = [(t1, q, CacheGet i, a0), (t2, q, read_stream i, Inr r), (t3, q, CacheSet i r, a)]"
    using full trace_three by (metis append_Nil2)
  then have "ts = t3" using e by (auto simp: read_stream_def)
  moreover have "t2 \<le> t3" using entries_sorted [OF served_sorted [OF assms(1)], of q] es by simp
  moreover have "(t2, q, read_stream i, Inr r) \<in> set L" using es entries_subset [of q L] by auto
  ultimately show ?thesis using served_reads [OF assms(1)] by blast
qed


text \<open>C25: An answer about a stream is at most ten seconds and the running time of a request old. However requests to the
  routes of the contracts run side by side, and whatever commands of the Redis server fail, the stream that a finished
  \<^verbatim>\<open>GET /:stream_id\<close> sends is the JSON of the one that the contract had at a time before the answer, less than
  ten seconds and the longest running time before it.\<close>

theorem cached_answer_fresh:
  assumes "redis_server R content" "\<forall>now k. content now (cs_store S0) k = None" "served R chain S0 L S"
    and "\<forall>q. in_progress (route V H (fst (req q)) (snd (req q))) (trace_of q L)"
    and "\<forall>q. fst (req q) = RGetStream \<longrightarrow> (\<exists>j. param_of (snd (req q)) ''stream_id'' = JStr j)"
    and "\<forall>e \<in> set L. \<forall>e' \<in> set L. entry_request e = entry_request e' \<longrightarrow> entry_time e' - entry_time e \<le> d"
    and "req q = (RGetStream, rq)" "param_of rq ''stream_id'' = JStr i"
    and "runs (get_stream_route V rq) (trace_of q L) (Inr (200, JObj [(''success'', JBool True), (''stream'', v)]))"
  shows "\<exists>tr. tr \<le> entry_time (last (entries_of q L)) \<and> entry_time (last (entries_of q L)) < tr + 10000 + d \<and>
    json_view v = json_view (chain tr i)"
proof -
  consider (hit) "trace_of q L = [(CacheGet i, Inr v)]" "truthy v"
    | (miss) a0 a where "trace_of q L = [(CacheGet i, a0), (read_stream i, Inr v), (CacheSet i v, a)]"
    using get_run_answer [OF assms(9,8)] by blast
  then show ?thesis
  proof cases
    case hit
    then obtain t where es: "entries_of q L = [(t, q, CacheGet i, Inr v)]" by (auto intro: trace_one)
    then have "(t, q, CacheGet i, Inr v) \<in> set L" using entries_subset [of q L] by simp
    then obtain L1 L2 S1 S1' where h: "L = L1 @ (t, q, CacheGet i, Inr v) # L2" "served R chain S0 L1 S1" "cache_getStream R t i S1 = (v, S1')"
      using served_hit [OF assms(3)] by blast
    have "v \<noteq> JNull" using hit(2) by auto
    note c = redis_server.getStream_content [OF assms(1) h(3) this]
    obtain ts q' i' w a where s: "(ts, q', CacheSet i' w, a) \<in> set L1" "streamKey i = streamKey i'" "json_view w = Inr (Some v)" "t < ts + 10000"
      using redis_server.content_was_set [OF assms(1) h(2) assms(2) c] by blast
    then have sL: "(ts, q', CacheSet i w, a) \<in> set L" using h(1) by (simp add: streamKey_def)
    obtain tr where r: "tr \<le> ts" "w = chain tr i" "(tr, q', read_stream i, Inr w) \<in> set L"
      using fill_was_read [OF assms(3) _ _ sL] assms(4,5) by blast
    have "ts \<le> t" using served_sorted [OF assms(3)] h(1) s(1) by (fastforce simp: sorted_append)
    moreover have "ts - tr \<le> d" using assms(6) sL r(3) by fastforce
    ultimately show ?thesis using es s(3,4) r(1,2) json_view_idem(1) [OF s(3)] by (intro exI [of _ tr]) simp
  next
    case miss
    then obtain t1 t2 t3 where es: "entries_of q L = [(t1, q, CacheGet i, a0), (t2, q, read_stream i, Inr v), (t3, q, CacheSet i v, a)]"
      by (rule trace_three)
    then have m: "(t2, q, read_stream i, Inr v) \<in> set L" "(t3, q, CacheSet i v, a) \<in> set L" using entries_subset [of q L] by auto
    then have "t3 - t2 \<le> d" using assms(6) by fastforce
    then show ?thesis using es served_reads [OF assms(3) m(1)] entries_sorted [OF served_sorted [OF assms(3)], of q]
      by (intro exI [of _ t2]) auto
  qed
qed

definition get_seven :: api_request where
  "get_seven = \<lparr>ar_params = [(''stream_id'', ''7'')], ar_query = [], ar_body = [], ar_stellarAddress = None, ar_apiKey = None\<rparr>"

definition lenient :: validator where
  "lenient = \<lparr>v_passes = (\<lambda>_ _. True), v_details = (\<lambda>_ _. JNull)\<rparr>"

definition two_reads :: "log_entry list" where
  "two_reads = [(0, 0, CacheGet ''7'', Inr JNull), (5, 0, read_stream ''7'', Inr (JStr ''old'')), (9, 0, CacheSet ''7'' (JStr ''old''), Inr JUndef),
     (50, 1, CacheGet ''7'', Inr (JStr ''old''))]"

definition changing :: "int \<Rightarrow> string \<Rightarrow> jsval" where
  "changing t i = JStr (if t < 20 then ''old'' else ''new'')"

definition empty_cache :: "timed_store cache_state" where
  "empty_cache = \<lparr>cs_store = [], cs_hits = 0, cs_misses = 0\<rparr>"

lemma runs_total: "\<exists>tr out. runs p tr out"
proof (induction p)
  case (Perform x k)
  then obtain tr out where "runs (k (Inr JNull)) tr out" by blast
  then have "runs (Perform x k) ((x, Inr JNull) # tr) out" by auto
  then show ?case by blast
qed auto

lemma two_reads_served: "\<exists>S. served timed_redis changing empty_cache two_reads S"
proof -
  let ?S1 = "snd (cache_getStream timed_redis 0 ''7'' empty_cache)"
  have S1: "served timed_redis changing empty_cache (take 1 two_reads) ?S1" "cs_store ?S1 = []"
    using served_step [OF served_start [of timed_redis changing empty_cache], where now = 0 and x = "CacheGet ''7''" and a = "Inr JNull" and q = 0]
    by (simp_all add: two_reads_def read_stream_def cache_getStream_def empty_cache_def timed_value_def)
  have S2: "served timed_redis changing empty_cache (take 2 two_reads) ?S1"
    using served_step [OF S1(1), where now = 5 and x = "read_stream ''7''" and a = "Inr (JStr ''old'')" and q = 0]
    by (simp add: two_reads_def read_stream_def changing_def)
  let ?S3 = "cache_setStream timed_redis 9 ''7'' (JStr ''old'') ?S1"
  have S3: "served timed_redis changing empty_cache (take 3 two_reads) ?S3"
    using served_step [OF S2, where now = 9 and x = "CacheSet ''7'' (JStr ''old'')" and a = "Inr JUndef" and q = 0] by (simp add: two_reads_def read_stream_def)
  have "fst (cache_getStream timed_redis 50 ''7'' ?S3) = JStr ''old''"
    by (simp add: cache_getStream_def cache_setStream_def S1(2) timed_value_def STREAM_TTL_def)
  then show ?thesis
    using served_step [OF S3, where now = 50 and x = "CacheGet ''7''" and a = "Inr (JStr ''old'')" and q = 1]
    by (auto simp: two_reads_def read_stream_def case_prod_beta)
qed

theorem cached_answer_fresh_witness:
  "\<exists>tr. tr \<le> 50 \<and> 50 < tr + 10000 + 9 \<and> json_view (JStr ''old'') = json_view (changing tr ''7'')"
proof -
  obtain S where s: "served timed_redis changing empty_cache two_reads S" using two_reads_served by blast
  have r1: "runs (get_stream_route lenient get_seven) (trace_of 1 two_reads) (Inr (200, JObj [(''success'', JBool True), (''stream'', JStr ''old'')]))"
    by (simp add: two_reads_def trace_of_def entries_of_def get_stream_route_def run_rules lenient_def get_seven_def id_text_def param_of_def
        chain_ok_def stream_id_check_def param_check_def)
  have r0: "runs (get_stream_route lenient get_seven) (trace_of 0 two_reads) (Inr (200, JObj [(''success'', JBool True), (''stream'', JStr ''old'')]))"
    by (simp add: two_reads_def trace_of_def entries_of_def get_stream_route_def run_rules lenient_def get_seven_def id_text_def param_of_def
        chain_ok_def stream_id_check_def param_check_def read_stream_def)
  have "in_progress (route lenient H RGetStream get_seven) (trace_of q two_reads)" for q H
  proof -
    consider "q = 0" | "q = 1" | "trace_of q two_reads = []" by (cases q; cases "q - 1") (auto simp: two_reads_def trace_of_def entries_of_def)
    then show ?thesis using in_progress_full [OF r0] in_progress_full [OF r1] runs_total [of "get_stream_route lenient get_seven"]
      by cases (auto simp: in_progress_def)
  qed
  then have "\<exists>tr. tr \<le> entry_time (last (entries_of 1 two_reads)) \<and> entry_time (last (entries_of 1 two_reads)) < tr + 10000 + 9 \<and>
      json_view (JStr ''old'') = json_view (changing tr ''7'')"
    by (intro cached_answer_fresh [OF timed.redis_server_axioms _ s, where V = lenient and req = "\<lambda>_. (RGetStream, get_seven)" and rq = get_seven])
      (use r1 in \<open>auto simp: empty_cache_def timed_value_def get_seven_def param_of_def two_reads_def\<close>)
  then show ?thesis by (simp add: entries_of_def two_reads_def)
qed

text \<open>A request that read the stream before a withdrawal and fills the cache after its invalidation puts the old stream
  back: requests after the withdrawal are answered with the stream before it.\<close>

lemma late_fill_undoes_invalidation:
  "fst (cache_getStream timed_redis 5 i (cache_setStream timed_redis 4 i (JStr ''before'') (cache_invalidateStream timed_redis 3 i S))) = JStr ''before''"
  by (simp add: cache_getStream_def cache_setStream_def timed_value_def STREAM_TTL_def)

end
