(* ===== verification/Api_Server.thy ===== *)
theory Api_Server
  imports Api_Access Api_Cache
begin

text \<open>
  The API server (\<^verbatim>\<open>api/server.js\<close>, \<^verbatim>\<open>api/middleware/rateLimiter.js\<close>, \<^verbatim>\<open>correlationId.js\<close> and the paths of
  \<^verbatim>\<open>api/routes\<close>): which handler a request reaches, through which middleware. A path is the list of its segments, without a
  trailing slash. How Express matches a path with a mount point and with the routes of a router is a parameter, as are the rate
  limiter of the package, the pages of Swagger and of the queue dashboard. A handler that matches ends a request; a router
  without one passes it on to the next mount.
\<close>

section \<open>Routers\<close>

datatype router =
    RtQueues | RtDocs | RtApp | RtAuth | RtAuthAdmin | RtTemplates | RtStreams | RtTokens | RtAdmin | RtGovernance | RtUsers
  | RtWebhooks | RtApiKeys | RtAnalytics

type_synonym endpoint = "string \<times> string list"

text \<open>The routes of each router, in the order of registration.\<close>

fun router_routes :: "router \<Rightarrow> endpoint list" where
  "router_routes RtApp =
     [(''GET'', [''docs'', ''openapi.json'']), (''GET'', [''docs'', ''openapi.yaml'']), (''GET'', [''metrics'']), (''GET'', [''health'']),
      (''GET'', [''ready'']), (''POST'', [''streams'']), (''GET'', [''streams'', '':id'']), (''POST'', [''streams'', '':id'', ''withdraw''])]"
| "router_routes RtAuth = [(''POST'', [''challenge'']), (''POST'', [''verify''])]"
| "router_routes RtAuthAdmin = [(''POST'', [''unlock''])]"
| "router_routes RtTemplates =
     [(''POST'', []), (''POST'', [''from-stream'']), (''GET'', []), (''GET'', ['':id'']), (''PATCH'', ['':id'']), (''DELETE'', ['':id'']),
      (''POST'', ['':id'', ''share'']), (''POST'', ['':id'', ''create-stream''])]"
| "router_routes RtStreams =
     [(''POST'', [''wizard'', ''preview'']), (''POST'', [''approvals'']), (''POST'', [''approvals'', '':id'', ''approve'']),
      (''POST'', [''approvals'', '':id'', ''reject'']), (''POST'', [''approvals'', '':id'', ''override'']), (''POST'', [''create'']),
      (''GET'', ['':stream_id'']), (''GET'', [''count'']), (''GET'', ['':stream_id'', ''claimable'']), (''POST'', ['':stream_id'', ''withdraw'']),
      (''GET'', [''cache-metrics'']), (''POST'', ['':stream_id'', ''top-up''])]"
| "router_routes RtTokens =
     [(''GET'', [''total-supply'']), (''GET'', [''balance'', '':address'']), (''POST'', [''transfer'']), (''POST'', [''mint'']), (''GET'', ['':address''])]"
| "router_routes RtAdmin =
     [(''POST'', [''initialize'']), (''POST'', [''pause-contract'']), (''POST'', [''set-min-deposit'']), (''GET'', [''audit-logs'']),
      (''GET'', [''audit-logs'', ''export'']), (''GET'', [''users'']), (''GET'', [''users'', '':address'']),
      (''PUT'', [''users'', '':address'', ''status'']), (''GET'', [''stats'']), (''GET'', [''webhooks'']), (''DELETE'', [''webhooks'', '':id'']),
      (''POST'', [''rate-limits'', ''reset'']), (''POST'', [''streams'', '':id'', ''cancel''])]"
| "router_routes RtGovernance = [(''POST'', [''propose'']), (''POST'', [''vote'']), (''GET'', [''proposal'', '':proposal_id''])]"
| "router_routes RtUsers = [(''DELETE'', ['':address''])]"
| "router_routes RtWebhooks = [(''POST'', [])]"
| "router_routes RtApiKeys = [(''POST'', []), (''GET'', []), (''POST'', ['':id'', ''rotate'']), (''DELETE'', ['':id'']), (''GET'', ['':id'', ''usage''])]"
| "router_routes RtAnalytics = [(''GET'', [''summary'']), (''GET'', [''employer'', '':address''])]"
| "router_routes _ = []"

section \<open>Middleware\<close>

record server_request =
  sv_method :: string
  sv_path :: "string list"
  sv_access :: access_request
  sv_ip :: string
  sv_origin :: "string option"
  sv_correlation :: "string option"

datatype limiter = GlobalLimiter | PerUserLimiter

record 'l server_env =
  se_verify :: "string \<Rightarrow> js_error + string option"
  se_hash :: "string \<Rightarrow> string"
  se_iso :: "int \<Rightarrow> string"
  se_limit :: "limiter \<Rightarrow> string \<Rightarrow> int \<Rightarrow> 'l \<Rightarrow> bool \<times> 'l"
  se_strip :: "string list \<Rightarrow> string list \<Rightarrow> string list option"
  se_route :: "endpoint list \<Rightarrow> string \<Rightarrow> string list \<Rightarrow> (endpoint \<times> (string \<times> string) list) option"
  se_docs :: "string list \<Rightarrow> bool"
  se_queues :: "string list \<Rightarrow> bool"
  se_origins :: "string option"
  se_uuid :: string

definition split_commas :: "string \<Rightarrow> string list" where
  "split_commas s = map trim (split_on CHR '','' s)"

definition allowedOrigins :: "string option \<Rightarrow> string list" where
  "allowedOrigins v = (case v of
     Some s \<Rightarrow> if s = '''' then [''http://localhost:3000'', ''http://localhost:5173''] else split_commas s
   | None \<Rightarrow> [''http://localhost:3000'', ''http://localhost:5173''])"

definition cors_origin :: "string list \<Rightarrow> string option \<Rightarrow> bool" where
  "cors_origin allowed origin = (case origin of
     None \<Rightarrow> True | Some o' \<Rightarrow> o' = '''' \<or> o' \<in> set allowed \<or> ''*'' \<in> set allowed)"

definition correlation_id :: "string \<Rightarrow> string option \<Rightarrow> string" where
  "correlation_id uuid incoming = (case incoming of Some i \<Rightarrow> if trim i = '''' then uuid else trim i | None \<Rightarrow> uuid)"

text \<open>The key of a caller for the second limiter: the address of the login, or where the request comes from.\<close>

definition limit_key :: "string option \<Rightarrow> string \<Rightarrow> string" where
  "limit_key addr ip = (case addr of Some a \<Rightarrow> if a = '''' then ip else a | None \<Rightarrow> ip)"

section \<open>Mounts\<close>

record mount =
  mt_prefix :: "string list"
  mt_deprecated :: bool
  mt_auth :: bool
  mt_limited :: bool
  mt_router :: router

definition open_mount :: "string list \<Rightarrow> router \<Rightarrow> mount" where
  "open_mount p r = \<lparr>mt_prefix = p, mt_deprecated = False, mt_auth = False, mt_limited = False, mt_router = r\<rparr>"

definition guarded_mount :: "string list \<Rightarrow> router \<Rightarrow> mount" where
  "guarded_mount p r = \<lparr>mt_prefix = p, mt_deprecated = False, mt_auth = True, mt_limited = True, mt_router = r\<rparr>"

definition MOUNTS :: "mount list" where
  "MOUNTS =
     [open_mount [''docs''] RtDocs, open_mount [] RtApp, open_mount [''auth''] RtAuth, open_mount [''auth'', ''admin''] RtAuthAdmin,
      (guarded_mount [''v1'', ''api'', ''stream-templates''] RtTemplates)\<lparr>mt_limited := False\<rparr>,
      guarded_mount [''v1'', ''api'', ''streams''] RtStreams, guarded_mount [''v1'', ''api'', ''tokens''] RtTokens,
      guarded_mount [''v1'', ''api'', ''admin''] RtAdmin, guarded_mount [''v1'', ''api'', ''governance''] RtGovernance,
      guarded_mount [''v1'', ''users''] RtUsers,
      (guarded_mount [''api'', ''streams''] RtStreams)\<lparr>mt_deprecated := True\<rparr>, (guarded_mount [''api'', ''tokens''] RtTokens)\<lparr>mt_deprecated := True\<rparr>,
      (guarded_mount [''api'', ''admin''] RtAdmin)\<lparr>mt_deprecated := True\<rparr>, (guarded_mount [''api'', ''governance''] RtGovernance)\<lparr>mt_deprecated := True\<rparr>,
      (guarded_mount [''users''] RtUsers)\<lparr>mt_deprecated := True\<rparr>]"

datatype outcome =
    Handled router endpoint "(string \<times> string) list" bool
  | Refused access
  | TooMany
  | NoOrigin
  | Preflight
  | NotFound "string list"

definition router_handles :: "'l server_env \<Rightarrow> router \<Rightarrow> string \<Rightarrow> string list \<Rightarrow> (endpoint \<times> (string \<times> string) list) option" where
  "router_handles E r m rest =
     (if r = RtDocs then (if se_docs E rest then Some ((m, []), []) else None)
      else se_route E (router_routes r) m rest)"

fun run_mounts :: "'l server_env \<Rightarrow> int \<Rightarrow> server_request \<Rightarrow> bool \<Rightarrow> mount list \<Rightarrow> key_store \<times> 'l \<Rightarrow> outcome \<times> key_store \<times> 'l" where
  "run_mounts E now rq dep [] S = (NotFound (sv_path rq), S)"
| "run_mounts E now rq dep (m # ms) (K, l) =
     (case se_strip E (mt_prefix m) (sv_path rq) of
        None \<Rightarrow> run_mounts E now rq dep ms (K, l)
      | Some rest \<Rightarrow>
          (let d = (dep \<or> mt_deprecated m);
               go = (\<lambda>S. case router_handles E (mt_router m) (sv_method rq) rest of
                  Some (e, ps) \<Rightarrow> (Handled (mt_router m) e ps d, S)
                | None \<Rightarrow> run_mounts E now rq d ms S)
           in if \<not> mt_auth m then go (K, l)
              else case authMiddleware (se_verify E) (se_hash E) (se_iso E now) now (sv_access rq) K of
                (Denied c e x, K1) \<Rightarrow> (Refused (Denied c e x), K1, l)
              | (Admitted addr key, K1) \<Rightarrow>
                  if \<not> mt_limited m then go (K1, l)
                  else case se_limit E PerUserLimiter (limit_key addr (sv_ip rq)) now l of
                    (True, l1) \<Rightarrow> go (K1, l1)
                  | (False, l1) \<Rightarrow> (TooMany, K1, l1)))"

definition serve :: "'l server_env \<Rightarrow> int \<Rightarrow> server_request \<Rightarrow> key_store \<times> 'l \<Rightarrow> outcome \<times> key_store \<times> 'l" where
  "serve E now rq S =
     (if \<not> cors_origin (allowedOrigins (se_origins E)) (sv_origin rq) then (NoOrigin, S)
      else if sv_method rq = ''OPTIONS'' then (Preflight, S)
      else case se_strip E [''admin'', ''queues''] (sv_path rq) of
        Some rest \<Rightarrow>
          (if se_queues E rest then (Handled RtQueues (sv_method rq, []) [] False, S)
           else case S of (K, l) \<Rightarrow> (case se_limit E GlobalLimiter (sv_ip rq) now l of
             (True, l1) \<Rightarrow> run_mounts E now rq False MOUNTS (K, l1) | (False, l1) \<Rightarrow> (TooMany, K, l1)))
      | None \<Rightarrow> (case S of (K, l) \<Rightarrow> (case se_limit E GlobalLimiter (sv_ip rq) now l of
             (True, l1) \<Rightarrow> run_mounts E now rq False MOUNTS (K, l1) | (False, l1) \<Rightarrow> (TooMany, K, l1))))"

section \<open>Stubs\<close>

text \<open>Routes that answer with an invented transaction.\<close>

definition sorobanStub :: "string \<Rightarrow> string \<Rightarrow> jsval \<Rightarrow> (string \<times> jsval) list" where
  "sorobanStub rnd16 m params =
     [(''method'', JStr m), (''params'', params), (''txHash'', JStr (''0x'' @ rnd16)), (''network'', JStr ''testnet'')]"

definition stub_answer :: "(string \<times> jsval) list \<Rightarrow> jsval" where
  "stub_answer d = JObj [(''success'', JBool True), (''data'', JObj d), (''error'', JNull)]"

definition stub_create_route :: "string \<Rightarrow> jsval \<Rightarrow> api_reply" where
  "stub_create_route h body = (201, stub_answer (sorobanStub h ''create_stream'' body))"

definition stub_get_route :: "string \<Rightarrow> string \<Rightarrow> api_reply" where
  "stub_get_route h i = (200, stub_answer (sorobanStub h ''get_stream'' (JObj [(''id'', JStr i)]) @
     [(''state'', JObj [(''id'', JStr i), (''status'', JStr ''active''), (''streamed'', JStr ''0''), (''remaining'', JStr ''1000'')])]))"

definition stub_withdraw_route :: "string \<Rightarrow> string \<Rightarrow> (string \<times> jsval) list \<Rightarrow> api_reply" where
  "stub_withdraw_route h i body = (200, stub_answer (sorobanStub h ''withdraw'' (JObj (fold (\<lambda>(k, v). jsset k v) body [(''id'', JStr i)]))))"

end
