(* ===== verification/Api_Server_Props.thy ===== *)
theory Api_Server_Props
  imports Api_Server
begin

text \<open>
  What guards the handlers of the API: which of them are reached without a login, and what the old paths lead to.
\<close>

section \<open>Paths\<close>

text \<open>Segments are compared without case. A mount point matches the paths that begin with its segments, a pattern the
  paths of its length, where a segment with a colon takes any text.\<close>

definition same_segment :: "string \<Rightarrow> string \<Rightarrow> bool" where
  "same_segment a b = (map to_lower a = map to_lower b)"

fun strip_path :: "string list \<Rightarrow> string list \<Rightarrow> string list option" where
  "strip_path [] path = Some path"
| "strip_path (p # ps) [] = None"
| "strip_path (p # ps) (s # ss) = (if same_segment p s then strip_path ps ss else None)"

fun match_path :: "string list \<Rightarrow> string list \<Rightarrow> (string \<times> string) list option" where
  "match_path [] [] = Some []"
| "match_path (p # ps) (s # ss) =
     (if starts_with '':'' p then (if s = '''' then None else map_option (Cons (tl p, s)) (match_path ps ss))
      else if same_segment p s then match_path ps ss else None)"
| "match_path _ _ = None"

text \<open>\<^verbatim>\<open>HEAD\<close> is answered by the routes of \<^verbatim>\<open>GET\<close>.\<close>

definition same_method :: "string \<Rightarrow> string \<Rightarrow> bool" where
  "same_method m rm = (m = rm \<or> (m = ''GET'' \<and> rm = ''HEAD''))"

fun first_route :: "endpoint list \<Rightarrow> string \<Rightarrow> string list \<Rightarrow> (endpoint \<times> (string \<times> string) list) option" where
  "first_route [] m path = None"
| "first_route (e # es) m path =
     (case (if same_method (fst e) m then match_path (snd e) path else None) of
        Some ps \<Rightarrow> Some (e, ps)
      | None \<Rightarrow> first_route es m path)"

text \<open>What the guards rely on: two mount points that match the same path are the same up to the length of the shorter one.\<close>

definition express_ok :: "'l server_env \<Rightarrow> bool" where
  "express_ok E \<longleftrightarrow> (\<forall>p p' path. se_strip E p path \<noteq> None \<and> se_strip E p' path \<noteq> None \<longrightarrow>
     strip_path p p' \<noteq> None \<or> strip_path p' p \<noteq> None)"

section \<open>Guarded mounts\<close>

definition public_routers :: "router list" where
  "public_routers = [RtQueues, RtDocs, RtApp, RtAuth, RtAuthAdmin]"

definition apart :: "mount \<Rightarrow> mount \<Rightarrow> bool" where
  "apart m m' \<longleftrightarrow> mt_auth m \<longrightarrow> mt_auth m' \<longrightarrow>
     strip_path (mt_prefix m) (mt_prefix m') = None \<and> strip_path (mt_prefix m') (mt_prefix m) = None"

lemma strip_path_trans:
  "strip_path p path = Some r \<Longrightarrow> strip_path p' path = Some r' \<Longrightarrow> strip_path p p' \<noteq> None \<or> strip_path p' p \<noteq> None"
proof (induction p path arbitrary: p' rule: strip_path.induct)
  case (3 a p b path)
  show ?case
  proof (cases p')
    case (Cons c q)
    then have "same_segment a b" "same_segment c b" "strip_path p path = Some r" "strip_path q path = Some r'"
      using "3.prems" by (auto split: if_splits)
    then show ?thesis using "3.IH" [of q] Cons by (auto simp: same_segment_def)
  qed simp
qed auto

text \<open>Mounts without a guard lead to public routers.\<close>

definition mounts_ok :: "mount list \<Rightarrow> bool" where
  "mounts_ok ms = (sorted_wrt apart ms \<and> list_all (\<lambda>m. mt_auth m \<or> mt_router m \<in> set public_routers) ms)"

lemma MOUNTS_ok: "mounts_ok MOUNTS"
  by code_simp

lemma unguarded_public:
  assumes "run_mounts E now rq dep ms S = (Handled r e ps d, S')" "list_all (\<lambda>m. mt_auth m \<or> mt_router m \<in> set public_routers) ms"
    and "list_all (\<lambda>m. mt_auth m \<longrightarrow> se_strip E (mt_prefix m) (sv_path rq) = None) ms"
  shows "r \<in> set public_routers"
  using assms
proof (induction E now rq dep ms S rule: run_mounts.induct)
  case (2 E now rq dep m ms K l)
  then show ?case by (auto simp: Let_def split: option.splits prod.splits)
qed simp

definition admitted_by :: "'l server_env \<Rightarrow> int \<Rightarrow> server_request \<Rightarrow> bool \<Rightarrow> key_store \<times> 'l \<Rightarrow> bool" where
  "admitted_by E now rq limited S \<longleftrightarrow>
     (\<exists>addr key K1. authMiddleware (se_verify E) (se_hash E) (se_iso E now) now (sv_access rq) (fst S) = (Admitted addr key, K1) \<and>
        (limited \<longrightarrow> fst (se_limit E PerUserLimiter (limit_key addr (sv_ip rq)) now (snd S))))"

lemma run_mounts_guarded:
  assumes "run_mounts E now rq dep ms S = (Handled r e ps d, S')" "mounts_ok ms" "r \<notin> set public_routers" "express_ok E"
  shows "\<exists>m \<in> set ms. mt_router m = r \<and> mt_auth m \<and> admitted_by E now rq (mt_limited m) S"
  using assms
proof (induction E now rq dep ms S rule: run_mounts.induct)
  case (2 E now rq dep m ms K l)
  have ok: "mounts_ok ms" "list_all (apart m) ms" "mt_auth m \<or> mt_router m \<in> set public_routers"
    using "2.prems"(2) by (auto simp: mounts_ok_def list_all_iff)
  show ?case
  proof (cases "se_strip E (mt_prefix m) (sv_path rq)")
    case None
    then show ?thesis using "2.prems" "2.IH"(1) [OF None] ok(1) by auto
  next
    case (Some rest)
    show ?thesis
    proof (cases "mt_auth m")
      case False
      then show ?thesis using "2.prems" "2.IH" Some ok by (auto simp: Let_def split: option.splits)
    next
      case True
      have rest: "list_all (\<lambda>m. mt_auth m \<longrightarrow> se_strip E (mt_prefix m) (sv_path rq) = None) ms"
        using ok(2) True Some "2.prems"(4) unfolding list_all_iff apart_def express_ok_def by (metis option.distinct(1))
      have no: "run_mounts E now rq d1 ms S1 = (Handled r e ps d2, S2) \<Longrightarrow> False" for d1 S1 d2 S2
        using unguarded_public [OF _ _ rest, where r = r] ok(1) "2.prems"(3) unfolding mounts_ok_def by blast
      show ?thesis using "2.prems"(1) True Some
        by (auto simp: Let_def admitted_by_def dest: no split: option.splits prod.splits access.splits if_splits bool.splits)
    qed
  qed
qed simp

section \<open>Who reaches a handler\<close>

lemma MOUNTS_limited: "list_all (\<lambda>m. mt_auth m \<longrightarrow> (mt_limited m \<longleftrightarrow> mt_router m \<noteq> RtTemplates)) MOUNTS"
  by code_simp

text \<open>C26: Every handler of the API that is not public is guarded: when a request reaches a handler of the stream, token,
  admin, governance, user or template routes, under the current or an old path, its origin is allowed, the server's limit
  lets it pass, the authentication of its headers has admitted it and, except for templates, so has the limit of the
  caller.\<close>

theorem handlers_guarded:
  assumes "serve E now rq (K, l) = (Handled r e ps d, S')" "r \<notin> {RtQueues, RtDocs, RtApp, RtAuth, RtAuthAdmin}" "express_ok E"
  shows "cors_origin (allowedOrigins (se_origins E)) (sv_origin rq) \<and>
    (\<exists>l1 addr key K1. se_limit E GlobalLimiter (sv_ip rq) now l = (True, l1) \<and>
      authMiddleware (se_verify E) (se_hash E) (se_iso E now) now (sv_access rq) K = (Admitted addr key, K1) \<and>
      (r \<noteq> RtTemplates \<longrightarrow> fst (se_limit E PerUserLimiter (limit_key addr (sv_ip rq)) now l1)))"
proof -
  have r: "r \<notin> set public_routers" using assms(2) by (simp add: public_routers_def)
  obtain l1 where l1: "se_limit E GlobalLimiter (sv_ip rq) now l = (True, l1)" "run_mounts E now rq False MOUNTS (K, l1) = (Handled r e ps d, S')"
    and c: "cors_origin (allowedOrigins (se_origins E)) (sv_origin rq)"
    using assms(1,2) by (auto simp: serve_def split: if_splits option.splits prod.splits bool.splits)
  then obtain m where "m \<in> set MOUNTS" "mt_router m = r" "mt_auth m" "admitted_by E now rq (mt_limited m) (K, l1)"
    using run_mounts_guarded [OF l1(2) MOUNTS_ok r assms(3)] by blast
  moreover from this have "mt_limited m \<longleftrightarrow> r \<noteq> RtTemplates" using MOUNTS_limited by (auto simp: list_all_iff)
  ultimately show ?thesis using c l1(1) by (auto simp: admitted_by_def)
qed

definition test_server :: "unit server_env" where
  "test_server = \<lparr>se_verify = (\<lambda>_. Inr (Some ''GA'')), se_hash = (\<lambda>s. s), se_iso = (\<lambda>_. ''''), se_limit = (\<lambda>_ _ _ l. (True, l)),
     se_strip = strip_path, se_route = first_route, se_docs = (\<lambda>_. True), se_queues = (\<lambda>_. True), se_origins = None, se_uuid = ''u''\<rparr>"

definition request_to :: "string \<Rightarrow> string list \<Rightarrow> string option \<Rightarrow> server_request" where
  "request_to m path auth = \<lparr>sv_method = m, sv_path = path, sv_access = \<lparr>ac_authorization = auth, ac_apiKey = None\<rparr>, sv_ip = ''::1'',
     sv_origin = None, sv_correlation = None\<rparr>"

definition no_keys :: key_store where
  "no_keys = \<lparr>keys = [], usage = []\<rparr>"

lemma supply_served:
  "fst (serve test_server 0 (request_to ''GET'' [''v1'', ''api'', ''tokens'', ''total-supply''] (Some ''Bearer t'')) (no_keys, ())) =
    Handled RtTokens (''GET'', [''total-supply'']) [] False"
  by code_simp

theorem handlers_guarded_witness:
  "\<exists>addr key K1. authMiddleware (\<lambda>_. Inr (Some ''GA'')) (\<lambda>s. s) '''' 0 \<lparr>ac_authorization = Some ''Bearer t'', ac_apiKey = None\<rparr> no_keys
     = (Admitted addr key, K1)"
proof -
  let ?rq = "request_to ''GET'' [''v1'', ''api'', ''tokens'', ''total-supply''] (Some ''Bearer t'')"
  obtain S' where h: "serve test_server 0 ?rq (no_keys, ()) = (Handled RtTokens (''GET'', [''total-supply'']) [] False, S')"
    using supply_served by (metis prod.collapse)
  have ex: "express_ok test_server" unfolding express_ok_def test_server_def using strip_path_trans by (simp, blast)
  show ?thesis using handlers_guarded [OF h _ ex] by (auto simp: test_server_def request_to_def)
qed

section \<open>What is open\<close>

text \<open>The queue dashboard, the made-up withdrawal and the removal of login locks are reached without a login.\<close>

lemma open_handlers:
  "fst (serve test_server 0 (request_to ''GET'' [''admin'', ''queues''] None) (no_keys, ())) = Handled RtQueues (''GET'', []) [] False"
  "fst (serve test_server 0 (request_to ''POST'' [''streams'', ''7'', ''withdraw''] None) (no_keys, ())) =
    Handled RtApp (''POST'', [''streams'', '':id'', ''withdraw'']) [(''id'', ''7'')] False"
  "fst (serve test_server 0 (request_to ''POST'' [''auth'', ''admin'', ''unlock''] None) (no_keys, ())) = Handled RtAuthAdmin (''POST'', [''unlock'']) [] False"
  by code_simp+

text \<open>The routers for webhooks, API keys and statistics are not mounted: no request reaches them.\<close>

lemma run_mounts_router: "run_mounts E now rq dep ms S = (Handled r e ps d, S') \<Longrightarrow> r \<in> mt_router ` set ms"
proof (induction E now rq dep ms S rule: run_mounts.induct)
  case (2 E now rq dep m ms K l)
  then show ?case by (auto simp: Let_def split: option.splits prod.splits access.splits if_splits bool.splits)
qed simp

lemma never_mounted:
  assumes "serve E now rq S = (Handled r e ps d, S')"
  shows "r \<notin> {RtWebhooks, RtApiKeys, RtAnalytics}"
proof -
  have "r = RtQueues \<or> r \<in> mt_router ` set MOUNTS"
    using assms by (auto simp: serve_def dest!: run_mounts_router split: if_splits option.splits prod.splits bool.splits)
  then show ?thesis by (auto simp: MOUNTS_def open_mount_def guarded_mount_def)
qed

text \<open>The count of streams and the metrics of the cache are taken by the route of a single stream.\<close>

lemma count_is_a_stream_id:
  "first_route (router_routes RtStreams) ''GET'' [''count''] = Some ((''GET'', ['':stream_id'']), [(''stream_id'', ''count'')])"
  "first_route (router_routes RtStreams) ''GET'' [''cache-metrics''] = Some ((''GET'', ['':stream_id'']), [(''stream_id'', ''cache-metrics'')])"
  by code_simp+

end
