(* ===== verification/Api_Config.thy ===== *)
theory Api_Config
  imports Js_Value
begin

text \<open>
  The configuration of the API server (\<^verbatim>\<open>api/config/environment.js\<close>, \<^verbatim>\<open>api/services/secretsService.js\<close>,
  \<^verbatim>\<open>api/services/vaultService.js\<close>): the environment variables after the files, the AWS secrets and Vault. The file system, the
  package dotenv and the AWS client are parameters.
\<close>

section \<open>Variables\<close>

type_synonym vars = "(string, string) jsmap"

text \<open>Only texts are assigned, and only to variables that are not set.\<close>

definition apply_unset :: "(string \<times> jsval) list \<Rightarrow> vars \<Rightarrow> vars" where
  "apply_unset es E = fold (\<lambda>(k, v) E. case v of JStr s \<Rightarrow> (if jsget E k = None then jsset k s E else E) | _ \<Rightarrow> E) es E"

definition applyParsedEnv :: "(string \<times> jsval) list \<Rightarrow> 'a \<Rightarrow> vars \<Rightarrow> 'a \<times> vars" where
  "applyParsedEnv es source E = (source, apply_unset es E)"

definition is_on :: "vars \<Rightarrow> string \<Rightarrow> bool" where
  "is_on E k = (jsget E k = Some ''true'')"

definition var_or :: "vars \<Rightarrow> string \<Rightarrow> string option" where
  "var_or E k = (case jsget E k of Some s \<Rightarrow> if s = '''' then None else Some s | None \<Rightarrow> None)"

section \<open>Files\<close>

definition resolveCandidateFiles :: "string \<Rightarrow> string \<Rightarrow> string list" where
  "resolveCandidateFiles cwd name =
     (let names = [''.env.'' @ name @ ''.local'', ''.env.'' @ name, ''.env.local'', ''.env'']
      in rev (remdups (rev (concat (map (\<lambda>n. [cwd @ ''/'' @ n, cwd @ ''/api/'' @ n]) names)))))"

text \<open>\<open>exists\<close> is the file system; \<open>dotenv\<close> gives whether a file could be read, and the variables after it.\<close>

record config_env =
  ce_cwd :: string
  ce_exists :: "string \<Rightarrow> bool"
  ce_dotenv :: "string \<Rightarrow> vars \<Rightarrow> bool \<times> vars"
  ce_relative :: "string \<Rightarrow> string"
  ce_secret :: "string \<Rightarrow> js_error + string option"
  ce_parse :: "string \<Rightarrow> js_error + jsval"

fun load_files :: "config_env \<Rightarrow> string list \<Rightarrow> vars \<Rightarrow> string list \<times> vars" where
  "load_files C [] E = ([], E)"
| "load_files C (f # fs) E =
     (if ce_exists C f then
        (case ce_dotenv C f E of (ok, E1) \<Rightarrow>
         (case load_files C fs E1 of (done, E2) \<Rightarrow> (if ok then ce_relative C f # done else done, E2)))
      else load_files C fs E)"

definition loadEnvironmentFiles :: "config_env \<Rightarrow> string \<Rightarrow> vars \<Rightarrow> string list \<times> vars" where
  "loadEnvironmentFiles C name E = load_files C (resolveCandidateFiles (ce_cwd C) name) E"

section \<open>Secrets\<close>

definition fetchSecret :: "config_env \<Rightarrow> string \<Rightarrow> js_error + string" where
  "fetchSecret C name = rbind (ce_secret C name) (\<lambda>r.
     case r of Some s \<Rightarrow> (if s = '''' then Inl (Error (''AWS Secrets Manager returned no secret for '' @ name)) else Inr s)
     | None \<Rightarrow> Inl (Error (''AWS Secrets Manager returned no secret for '' @ name)))"

text \<open>An array counts as an object; its entries are numbered.\<close>

definition object_entries :: "jsval \<Rightarrow> (string \<times> jsval) list option" where
  "object_entries v = (case v of JObj fs \<Rightarrow> Some fs | JArr vs \<Rightarrow> Some (zip (map (\<lambda>n. show_int (int n)) [0..<length vs]) vs) | _ \<Rightarrow> None)"

definition assignSecrets :: "config_env \<Rightarrow> string \<Rightarrow> vars \<Rightarrow> js_error + vars" where
  "assignSecrets C secretString E =
     (case ce_parse C secretString of
        Inl _ \<Rightarrow> Inl (Error ''AWS Secrets Manager secret must be valid JSON'')
      | Inr v \<Rightarrow>
          (case object_entries v of
             None \<Rightarrow> Inl (Error ''AWS Secrets Manager secret must contain a JSON object'')
           | Some es \<Rightarrow> Inr (fold (\<lambda>(k, x) E. case x of JStr s \<Rightarrow> jsset k s E | _ \<Rightarrow> E) es E)))"

definition loadSecrets :: "config_env \<Rightarrow> vars \<Rightarrow> js_error + vars" where
  "loadSecrets C E =
     (if \<not> is_on E ''USE_AWS_SECRETS_MANAGER'' then Inr E
      else case var_or E ''AWS_SECRETS_MANAGER_SECRET_NAME'' of
        None \<Rightarrow> Inl (Error ''AWS_SECRETS_MANAGER_SECRET_NAME is required when secrets manager is enabled'')
      | Some name \<Rightarrow> rbind (fetchSecret C name) (\<lambda>s. assignSecrets C s E))"

definition readVaultSecret :: "vars \<Rightarrow> string \<Rightarrow> (string \<times> jsval) list" where
  "readVaultSecret E path =
     (if var_or E ''VAULT_ADDR'' \<noteq> None \<and> var_or E ''VAULT_TOKEN'' \<noteq> None then
        [(''VAULT_SECRET_PATH'', JStr path),
         (''JWT_SECRET'', JStr (case var_or E ''JWT_SECRET'' of Some s \<Rightarrow> s | None \<Rightarrow> ''vault-placeholder-secret''))]
      else [])"

section \<open>Loading\<close>

record configuration =
  cf_environmentName :: string
  cf_loadedFiles :: "string list"
  cf_hasAwsSecrets :: bool
  cf_hasVault :: bool

definition environment_name :: "vars \<Rightarrow> string" where
  "environment_name E =
     (case var_or E ''APP_ENV'' of Some s \<Rightarrow> s
      | None \<Rightarrow> (case var_or E ''NODE_ENV'' of Some s \<Rightarrow> s | None \<Rightarrow> ''development''))"

definition loadConfiguration :: "config_env \<Rightarrow> vars \<Rightarrow> js_error + configuration \<times> vars" where
  "loadConfiguration C E0 =
     (let name = environment_name E0 in
      case loadEnvironmentFiles C name E0 of (loaded, E1) \<Rightarrow>
      rbind (if is_on E1 ''USE_AWS_SECRETS_MANAGER'' then loadSecrets C E1 else Inr E1) (\<lambda>E2.
      rbind (if is_on E2 ''USE_VAULT'' then
               (case var_or E2 ''VAULT_SECRET_PATH'' of
                  None \<Rightarrow> Inl (Error ''VAULT_SECRET_PATH is required when Vault integration is enabled'')
                | Some p \<Rightarrow> Inr (apply_unset (readVaultSecret E2 p) E2))
             else Inr E2) (\<lambda>E3. Inr
        (\<lparr>cf_environmentName = name, cf_loadedFiles = loaded, cf_hasAwsSecrets = is_on E3 ''USE_AWS_SECRETS_MANAGER'',
          cf_hasVault = is_on E3 ''USE_VAULT''\<rparr>, E3))))"

section \<open>Precedence\<close>

lemma apply_unset_keeps: "jsget E k = Some v \<Longrightarrow> jsget (apply_unset es E) k = Some v"
proof (unfold apply_unset_def, induction es arbitrary: E)
  case (Cons e es)
  obtain a x where e: "e = (a, x)" by (cases e)
  let ?E = "case x of JStr s \<Rightarrow> (if jsget E a = None then jsset a s E else E) | _ \<Rightarrow> E"
  have "jsget ?E k = Some v" using Cons.prems by (auto split: jsval.split)
  from Cons.IH [OF this] show ?case by (simp add: e)
qed simp

lemma load_files_keeps:
  assumes "\<And>f E. jsget E k = Some v \<Longrightarrow> jsget (snd (ce_dotenv C f E)) k = Some v" "jsget E k = Some v"
  shows "jsget (snd (load_files C fs E)) k = Some v"
  using assms(2)
proof (induction fs arbitrary: E)
  case (Cons f fs)
  then have "jsget (snd (load_files C fs (snd (ce_dotenv C f E)))) k = Some v" "jsget (snd (load_files C fs E)) k = Some v"
    using assms(1) by blast+
  then show ?case by (simp add: case_prod_beta)
qed simp

text \<open>What the process was started with wins over files and Vault, when dotenv does not override; the AWS secrets replace
  it.\<close>

lemma started_with_wins:
  assumes "\<And>f E. jsget E k = Some v \<Longrightarrow> jsget (snd (ce_dotenv C f E)) k = Some v" "jsget E k = Some v"
    and "loadConfiguration C E = Inr (cf, E')" "\<not> is_on (snd (loadEnvironmentFiles C (environment_name E) E)) ''USE_AWS_SECRETS_MANAGER''"
  shows "jsget E' k = Some v"
proof -
  have "jsget (snd (loadEnvironmentFiles C (environment_name E) E)) k = Some v"
    using load_files_keeps [OF assms(1,2)] by (simp add: loadEnvironmentFiles_def)
  then show ?thesis using assms(3,4) apply_unset_keeps
    by (auto simp: loadConfiguration_def Let_def rbind_Inr_iff split: prod.splits if_splits option.splits)
qed

text \<open>With Vault enabled and no \<^verbatim>\<open>JWT_SECRET\<close> the server signs logins with a fixed text of the source.\<close>

lemma vault_placeholder_signs:
  assumes "loadConfiguration C E = Inr (cf, E')" "snd (loadEnvironmentFiles C (environment_name E) E) = E1"
    and "\<not> is_on E1 ''USE_AWS_SECRETS_MANAGER''" "is_on E1 ''USE_VAULT''" "jsget E1 ''JWT_SECRET'' = None"
    and "var_or E1 ''VAULT_ADDR'' \<noteq> None" "var_or E1 ''VAULT_TOKEN'' \<noteq> None"
  shows "jsget E' ''JWT_SECRET'' = Some ''vault-placeholder-secret''"
  using assms
  by (auto simp: loadConfiguration_def Let_def rbind_Inr_iff readVaultSecret_def apply_unset_def var_or_def split: prod.splits option.splits if_splits)

end
