(* ===== verification/Api_Health.thy ===== *)
theory Api_Health
  imports Api_Config Http
begin

text \<open>
  The readiness probe of the API server (\<^verbatim>\<open>api/services/readinessService.js\<close>, \<^verbatim>\<open>GET /ready\<close> of \<^verbatim>\<open>api/server.js\<close>). The parser
  of URLs, the network and sockets are parameters; a socket that neither connects nor fails within the time limit is \<open>None\<close>.
\<close>

record 'u health_env =
  he_parse :: "string \<Rightarrow> js_error + 'u"
  he_redacted :: "'u \<Rightarrow> string"
  he_protocol :: "'u \<Rightarrow> string"
  he_hostname :: "'u \<Rightarrow> string"
  he_port :: "'u \<Rightarrow> string"
  he_fetch :: "string \<Rightarrow> js_error + http_response"
  he_connect :: "bool \<Rightarrow> string \<Rightarrow> jsnum \<Rightarrow> (js_error + unit) option"

definition HEALTHY_RPC_STATUSES :: "string list" where
  "HEALTHY_RPC_STATUSES = [''healthy'', ''ok'', ''pass'', ''up'']"

definition defaultSorobanRpcUrl :: "vars \<Rightarrow> string" where
  "defaultSorobanRpcUrl E =
     (case var_or E ''SOROBAN_RPC_URL'' of
        Some u \<Rightarrow> u
      | None \<Rightarrow> if jsget E ''STELLAR_NETWORK'' = Some ''mainnet'' then ''https://rpc.mainnet.stellar.org'' else ''https://soroban-testnet.stellar.org'')"

definition redactUrl :: "'u health_env \<Rightarrow> string \<Rightarrow> string" where
  "redactUrl H raw = (case he_parse H raw of Inr u \<Rightarrow> he_redacted H u | Inl _ \<Rightarrow> raw)"

definition formatError :: "js_error \<Rightarrow> jsval" where
  "formatError e = JObj [(''message'', JStr (errMsg e))]"

text \<open>\<^verbatim>\<open>payload.result?.status || payload.result || ''\<close> as a text in lower case.\<close>

definition rpc_status :: "jsval \<Rightarrow> string" where
  "rpc_status payload =
     (let r = (case js_field payload ''result'' of Inr v \<Rightarrow> v | Inl _ \<Rightarrow> JUndef);
          st = (case js_field r ''status'' of Inr v \<Rightarrow> v | Inl _ \<Rightarrow> JUndef)
      in map to_lower (js_string (if truthy st then st else if truthy r then r else JStr '''')))"

definition rpc_health :: "'u health_env \<Rightarrow> string \<Rightarrow> js_error + string" where
  "rpc_health H url =
     rbind (he_fetch H url) (\<lambda>resp.
     if \<not> resp_ok resp then Inl (Error (''RPC health check returned HTTP '' @ show_int (resp_status resp)))
     else rbind (resp_json resp) (\<lambda>payload.
     rbind (js_field payload ''error'') (\<lambda>er.
     if truthy er then
       rbind (js_field er ''message'') (\<lambda>m. Inl (Error (if truthy m then js_string m else ''RPC health check failed'')))
     else
       let st = rpc_status payload in
       if st \<noteq> '''' \<and> st \<notin> set HEALTHY_RPC_STATUSES then Inl (Error (''RPC reported '' @ st)) else Inr st)))"

text \<open>A check: its name, its status and what goes with it.\<close>

definition check_of :: "string \<Rightarrow> string \<Rightarrow> (string \<times> jsval) list \<Rightarrow> (string \<times> jsval) list" where
  "check_of name st fs = (''name'', JStr name) # (''status'', JStr st) # fs"

definition checkSorobanRpc :: "'u health_env \<Rightarrow> vars \<Rightarrow> (string \<times> jsval) list" where
  "checkSorobanRpc H E =
     (let url = defaultSorobanRpcUrl E in
      case rpc_health H url of
        Inr st \<Rightarrow> check_of ''sorobanRpc'' ''ok'' [(''url'', JStr (redactUrl H url)), (''rpcStatus'', JStr (if st = '''' then ''ok'' else st))]
      | Inl e \<Rightarrow> check_of ''sorobanRpc'' ''error'' [(''url'', JStr (redactUrl H url)), (''error'', formatError e)])"

definition defaultPortForProtocol :: "string \<Rightarrow> int option" where
  "defaultPortForProtocol p = map_of
     [(''postgres:'', 5432), (''postgresql:'', 5432), (''mysql:'', 3306), (''mariadb:'', 3306), (''mongodb:'', 27017),
      (''redis:'', 6379), (''rediss:'', 6379)] p"

definition connectToDatabaseEndpoint :: "'u health_env \<Rightarrow> string \<Rightarrow> js_error + unit" where
  "connectToDatabaseEndpoint H databaseUrl =
     rbind (he_parse H databaseUrl) (\<lambda>u.
     let port = (if he_port H u \<noteq> '''' then number_of_string (he_port H u)
                 else case defaultPortForProtocol (he_protocol H u) of Some n \<Rightarrow> jsint n | None \<Rightarrow> NaN)
     in if he_hostname H u = '''' \<or> \<not> num_truthy port then Inl (Error ''DATABASE_URL must include a host and a supported port'')
        else case he_connect H (he_protocol H u = ''rediss:'') (he_hostname H u) port of
          Some r \<Rightarrow> r
        | None \<Rightarrow> Inl (Error ''Database connection timed out''))"

definition checkDatabase :: "'u health_env \<Rightarrow> vars \<Rightarrow> (string \<times> jsval) list" where
  "checkDatabase H E =
     (case var_or E ''DATABASE_URL'' of
        None \<Rightarrow> check_of ''database'' ''skipped'' [(''reason'', JStr ''DATABASE_URL is not configured'')]
      | Some url \<Rightarrow>
          (case connectToDatabaseEndpoint H url of
             Inr _ \<Rightarrow> check_of ''database'' ''ok'' [(''url'', JStr (redactUrl H url))]
           | Inl e \<Rightarrow> check_of ''database'' ''error'' [(''url'', JStr (redactUrl H url)), (''error'', formatError e)]))"

definition checkReadiness :: "'u health_env \<Rightarrow> vars \<Rightarrow> string \<Rightarrow> jsnum \<Rightarrow> bool \<times> jsval" where
  "checkReadiness H E stamp uptime =
     (let checks = [checkSorobanRpc H E, checkDatabase H E];
          ready = list_all (\<lambda>c. map_of c ''status'' \<noteq> Some (JStr ''error'')) checks
      in (ready, JObj [(''ready'', JBool ready), (''status'', JStr (if ready then ''ready'' else ''not_ready'')), (''timestamp'', JStr stamp),
           (''uptime'', JNum uptime), (''checks'', JArr (map JObj checks))]))"

definition ready_route :: "'u health_env \<Rightarrow> vars \<Rightarrow> string \<Rightarrow> jsnum \<Rightarrow> int \<times> jsval" where
  "ready_route H E stamp uptime =
     (case checkReadiness H E stamp uptime of (ready, body) \<Rightarrow> (if ready then 200 else 503, body))"

section \<open>What the probe says\<close>

text \<open>The server is reported ready exactly when the network is healthy and the database, if there is one, accepts
  connections.\<close>

lemma ready_iff:
  "fst (ready_route H E stamp uptime) = 200 \<longleftrightarrow>
    (\<exists>st. rpc_health H (defaultSorobanRpcUrl E) = Inr st) \<and>
    (\<forall>url. var_or E ''DATABASE_URL'' = Some url \<longrightarrow> connectToDatabaseEndpoint H url = Inr ())"
  by (auto simp: ready_route_def checkReadiness_def checkSorobanRpc_def checkDatabase_def check_of_def Let_def split: sum.splits option.splits)

text \<open>A database URL that cannot be parsed is shown to every caller of the probe as it is, with its password.\<close>

lemma unparsed_url_shown:
  assumes "var_or E ''DATABASE_URL'' = Some url" "he_parse H url = Inl e"
  shows "map_of (checkDatabase H E) ''url'' = Some (JStr url)"
  using assms by (simp add: checkDatabase_def connectToDatabaseEndpoint_def redactUrl_def check_of_def)

end
