(* ===== verification/Spec2Isabelle.thy ===== *)
theory Spec2Isabelle
  imports Sdk_Contract Sdk_Wallet Sdk_Poll Balance_Periods Live_Counter Dashboard_Props Form_Props History_Props Session_Props
    Frontend Frontend_Forms Api_Auth Api_Services_Props Dialogs Stream_Card Contract_Findings
    Migration Snapshots Api_Templates_Props Api_Access Api_Data_Props Indexer_Props Notify_Props Analytics Detail_View_Props Employee_View_Props App_Shell_Props
    Api_Cache_Props Api_Server_Props Api_Health
begin

text \<open>
  PayStream streams salaries: an employer deposits tokens in a contract, an employee's share grows by the
  second and can be withdrawn at any time.

  \<^bold>\<open>Parts of the program.\<close> The stream contract (\<^verbatim>\<open>contracts/stream\<close>) keeps the streams and pays through a
  token contract (\<^verbatim>\<open>contracts/token\<close>). The TypeScript SDK (\<^verbatim>\<open>sdk/src\<close>) builds, simulates and submits the
  contract calls and polls balances. The demo application (\<^verbatim>\<open>demo/src\<close>) has the dashboards, forms and dialogs over
  the SDK. The balance service (\<^verbatim>\<open>services/balance\<close>) computes off the chain what the contract would pay. The API
  (\<^verbatim>\<open>api\<close>) has logins, keys, idempotent writes, approvals, templates and routes that call the contracts;
  \<^verbatim>\<open>services\<close> has the indexer of contract events, notifications, statistics, data migrations and snapshots. The web client (\<^verbatim>\<open>frontend/src\<close>) has the
  HTTP client, the store and the form fields.

  \<^bold>\<open>Shared theories.\<close> \<open>Prelude\<close> holds the error monad, JavaScript maps as association lists and the
  lemmas shared by all; \<open>Js_Number\<close> the numbers of JavaScript with rounding, \<open>Js_Text\<close> their text,
  \<open>Js_Value\<close> dynamic values, \<open>Http\<close> requests and answers, \<open>Jsx\<close> rendered pages as trees with what can
  be clicked. \<open>Soroban\<close> holds the transactions of a contract (a panic undoes everything) and the locale
  \<open>token_contract\<close>.

  \<^bold>\<open>Contracts.\<close> \<open>Token\<close> has the entry points of the token contract, that its supply is the sum of the
  balances, and the interpretation of \<open>token_contract\<close>. \<open>Contract\<close> has every entry point of the stream contract
  that changes state (\<open>op_create_stream\<close> for \<^verbatim>\<open>create_stream\<close> and so on) over one record of the stored
  entries. \<open>Contract_Props\<close> shows for each call that the books stay in order and that no call takes more from the
  contract than it stops owing; \<open>Contract_Runs\<close> lifts this to all histories: solvency, payment of due
  withdrawals, exact settlement, finality. \<open>Contract_Findings\<close> shows what goes wrong: fees paid twice,
  earnings lost by a rate change or by reading, open initialization. \<open>Accrual\<close> relates the contract's
  \<^verbatim>\<open>claimable_amount\<close> to the balance service through the locale \<open>accrual\<close>.

  \<^bold>\<open>SDK.\<close> \<open>Sdk_Types\<close> has the data and the decoder, \<open>Sdk_Client\<close> the client with the Stellar libraries as
  parameters, \<open>Sdk_Contract\<close> its agreement with the contract's entry points, \<open>Sdk_Wallet\<close> the wallet,
  \<open>Sdk_Poll\<close> the poller as an event system (silence after unsubscribing, one activity at a time, liveness).

  \<^bold>\<open>Balances.\<close> \<open>Balance\<close> has \<^verbatim>\<open>calculateBalance\<close> over JavaScript numbers and over the integers,
  \<open>Accrual\<close> that both agree and what they promise, \<open>Balance_Periods\<close> the period report, \<open>Live_Counter\<close> the
  displays that extrapolate between polls.

  \<^bold>\<open>Demo application.\<close> \<open>Dashboard\<close> and \<open>Dashboard_Props\<close> have the employer and employee hooks; \<open>Amounts\<close>,
  \<open>Stream_Form\<close> and \<open>Form_Props\<close> conversions, validation and submission; \<open>History\<close> and \<open>History_Props\<close> the
  transaction history and its CSV; \<open>Session\<close> and \<open>Session_Props\<close> the login; \<open>Dialogs\<close> and \<open>Stream_Card\<close>
  rendered components with their handlers; \<open>Employer_View\<close> and \<open>Employer_View_Props\<close> the employer's page over them,
  with everything that can be clicked, and that a stream is cancelled only deliberately. \<open>Detail_View\<close> and \<open>Detail_View_Props\<close>
  have the page of one stream, whose buttons are compared with what the contract accepts from the same account;
  \<open>Employee_View\<close>, \<open>Overview\<close> and \<open>Employee_View_Props\<close> the employee's page and the employer's overview, with what they offer,
  the order of the streams and the rates that are not numbers; \<open>App_Shell\<close> and \<open>App_Shell_Props\<close> the theme, routes, templates and
  handlers of the shell, with the locale \<open>persisted_hook\<close> for state that survives a reload, interpreted on the theme and on the
  saved templates.

  \<^bold>\<open>API and web client.\<close> \<open>Api_Auth\<close> has the login limiter and routes, \<open>Api_Services\<close> and
  \<open>Api_Services_Props\<close> keys, idempotent writes and approvals, \<open>Api_Access\<close> the authentication of requests and the routes over
  keys. \<open>Api_Stellar\<close> has the service that sends contract calls, and the error handler. \<open>Api_Program\<close> has route
  handlers as programs over the effects of the services, with any answer of network, cache and database, and the
  checks of express-validator as a parameter; \<open>Api_Routes\<close> has the routes that reach a contract,
  \<open>Api_Routes_Props\<close> that every transaction they send is the checked request, and what they get wrong.
  \<open>Api_Templates\<close> and \<open>Api_Templates_Props\<close> have stream templates and who may see and change them;
  \<open>Api_Data\<close> and \<open>Api_Data_Props\<close> the stores of the database service with the audit log, the deletion of a user, webhooks and the
  admin routes over them. \<open>Api_Cache\<close> has the stream cache over a Redis server, whose contract is the locale \<open>redis_server\<close>,
  interpreted on a store with expiry times; \<open>Api_Cache_Props\<close> bounds the age of an answer when requests run side by side.
  \<open>Api_Server\<close> and \<open>Api_Server_Props\<close> have the mounts, middleware and routes of the server and what guards each handler;
  \<open>Api_Config\<close> its environment variables and secrets, \<open>Api_Health\<close> the readiness probe. \<open>Frontend\<close> and \<open>Frontend_Forms\<close> client, store and
  fields.

  \<^bold>\<open>Services.\<close> \<open>Indexer\<close> and \<open>Indexer_Props\<close> have the poll of contract events, its queue and cursor, the worker with the
  table and its key, and the query server: nothing is lost over a node that answers completely, and what is lost
  otherwise. \<open>Notify\<close> and \<open>Notify_Props\<close> have the messages, webhooks with back-off and mails of the notification service and
  the order in which events are handled; \<open>Analytics\<close> the totals over all pages of events. \<open>Migration\<close> has the migration runner (each pending migration once, in order) and its
  defects in rolling back; \<open>Snapshots\<close> the snapshot store over a storage backend, whose contract is the locale
  \<open>snapshot_storage\<close>, interpreted on the in-memory backend.

  \<^bold>\<open>Bounds.\<close> JavaScript numbers are exact below \<open>2 ^ 53\<close>; theorems that equate them with integers state such a
  bound. Contract amounts are integers with the checks of \<^verbatim>\<open>i128\<close> and \<^verbatim>\<open>u64\<close> where the code has them. Loops
  are structural or have a measure; the walk over the pages of events is a partial function, shown to return over
  every finite list of events. The confirmation loop of the SDK has the twenty polls of the source, the
  HTTP client its retries.

  \<^bold>\<open>Not modelled.\<close> Code that only moves data between libraries (logging, metrics, e-mail,
  database pools, queues, shutdown); the statistics routes of the API, whose router is never mounted; the
  layout of the shell's panels, the login dialog, the settings page and the loading skeletons of the demo; published contract events and time-to-live extensions, which nothing reads back; the Rust and Python services beside the contracts,
  deployment scripts and infrastructure.
\<close>

end
